(* ===== verification/Js_Prelude.thy ===== *)
theory Js_Prelude
  imports Main
begin

text \<open>
  Shared ground of the development: JavaScript strings as lists of UTF-16 code units, the
  result type of code that may throw, the development's fact collections, and the generic
  lemmas on lists that several components use.

  A code unit is a natural number. Every string the program can hold has units below
  65536; nothing below depends on that bound, so what is proved for all lists of naturals
  holds in particular for all JavaScript strings. A literal of the source is written
  \<open>js ''...''\<close>.
\<close>

named_theorems js_eval \<open>equations that evaluate closed JavaScript terms\<close>
named_theorems js_defs \<open>definitions unfolded when a handler is followed through\<close>

type_synonym jstr = "nat list"

definition js :: "string \<Rightarrow> jstr" where
  "js s = map of_char s"

lemma js_inj [simp]: "js a = js b \<longleftrightarrow> a = b"
  unfolding js_def by (simp add: inj_map_eq_map inj_of_char)

lemma js_Nil [simp]: "js [] = []"
  by (simp add: js_def)

lemma js_eq_Nil [simp]: "js s = [] \<longleftrightarrow> s = []" "[] = js s \<longleftrightarrow> s = []"
  by (auto simp: js_def)

declare js_def [js_eval]

lemma js_Cons: "js (c # cs) = of_char c # js cs"
  by (simp add: js_def)

text \<open>
  What JavaScript code may throw. \<open>TypeErr\<close> is a property read on \<open>null\<close> or
  \<open>undefined\<close> or a call of something that is no function; \<open>SyntaxErr\<close> is what
  \<open>JSON.parse\<close> throws; \<open>ChildErr\<close> is React's refusal to render an object as a child.
\<close>

datatype js_error = TypeErr | SyntaxErr | ChildErr

type_synonym 'a res = "js_error + 'a"

definition ebind :: "'a res \<Rightarrow> ('a \<Rightarrow> 'b res) \<Rightarrow> 'b res" where
  "ebind m f = (case m of Inl e \<Rightarrow> Inl e | Inr x \<Rightarrow> f x)"

lemma ebind_simps [simp]: "ebind (Inl e) f = Inl e" "ebind (Inr x) f = f x"
  by (simp_all add: ebind_def)

lemma ebind_Inr_iff: "ebind m f = Inr y \<longleftrightarrow> (\<exists>x. m = Inr x \<and> f x = Inr y)"
  by (cases m) auto

lemma ebind_InrE [elim]:
  assumes "ebind m f = Inr y"
  obtains x where "m = Inr x" "f x = Inr y"
  using assms by (auto simp: ebind_Inr_iff)

lemma ebind_total:
  "\<exists>x. m = Inr x \<Longrightarrow> (\<And>x. m = Inr x \<Longrightarrow> \<exists>y. f x = Inr y) \<Longrightarrow> \<exists>y. ebind m f = Inr y"
  by auto

text \<open>Running a function that may throw over a list, in order (the callback of \<open>map\<close>).\<close>

fun emap :: "('a \<Rightarrow> 'b res) \<Rightarrow> 'a list \<Rightarrow> 'b list res" where
  "emap f [] = Inr []"
| "emap f (x # xs) = ebind (f x) (\<lambda>y. ebind (emap f xs) (\<lambda>ys. Inr (y # ys)))"

lemma emap_total: "(\<And>x. x \<in> set xs \<Longrightarrow> \<exists>y. f x = Inr y) \<Longrightarrow> \<exists>ys. emap f xs = Inr ys"
  by (induction xs) (fastforce simp: ebind_def split: sum.splits)+

lemma emap_Inr_set: "emap f xs = Inr ys \<Longrightarrow> y \<in> set ys \<Longrightarrow> \<exists>x \<in> set xs. f x = Inr y"
  by (induction xs arbitrary: ys) (auto simp: ebind_Inr_iff)

lemma emap_length: "emap f xs = Inr ys \<Longrightarrow> length ys = length xs"
  by (induction xs arbitrary: ys) (auto simp: ebind_Inr_iff)

text \<open>Keeping the newest \<open>n\<close> entries of a growing log commutes with prepending.\<close>

lemma take_Cons_take: "take n (x # take n xs) = take n (x # xs)"
  by (cases n) (simp_all add: min_def)

lemma takeWhile_length_drop: "drop (length (takeWhile P xs)) xs = dropWhile P xs"
  by (simp add: dropWhile_eq_drop)

lemma length_dropWhile_Suc [termination_simp]: "length (dropWhile P xs) < Suc (length xs)"
  by (simp add: length_dropWhile_le less_Suc_eq_le)

lemma dropWhile_hd: "dropWhile P xs = y # ys \<Longrightarrow> \<not> P y"
  by (metis hd_dropWhile list.distinct(1) list.sel(1))

end
