(* ===== verification/Js_Strings.thy ===== *)
theory Js_Strings
  imports Js_Prelude
begin

text \<open>
  The string methods of the standard library that the viewer calls: \<open>trim\<close>,
  \<open>startsWith\<close>, \<open>js_includes\<close>, \<open>slice(0, n)\<close>, \<open>split\<close> at a character and at runs
  of white space, \<open>join\<close>, and decimal numerals.
\<close>

section \<open>Character classes\<close>

text \<open>WhiteSpace and LineTerminator of ECMAScript: what \<open>trim\<close> strips and \<open>\\s\<close> matches.\<close>

definition is_space :: "nat \<Rightarrow> bool" where
  "is_space c \<longleftrightarrow> c \<in> {9, 10, 11, 12, 13, 32, 160, 5760, 8232, 8233, 8239, 8287, 12288, 65279}
     \<or> (8192 \<le> c \<and> c \<le> 8202)"

definition is_digit :: "nat \<Rightarrow> bool" where
  "is_digit c \<longleftrightarrow> 48 \<le> c \<and> c \<le> 57"

text \<open>The word characters of \<open>\\b\<close>.\<close>

definition is_word :: "nat \<Rightarrow> bool" where
  "is_word c \<longleftrightarrow> (97 \<le> c \<and> c \<le> 122) \<or> (65 \<le> c \<and> c \<le> 90) \<or> is_digit c \<or> c = 95"

declare is_space_def [js_eval] is_digit_def [js_eval] is_word_def [js_eval]

section \<open>Trimming\<close>

definition trim_left :: "jstr \<Rightarrow> jstr" where
  "trim_left s = dropWhile is_space s"

definition js_trim :: "jstr \<Rightarrow> jstr" where
  "js_trim s = rev (trim_left (rev (trim_left s)))"

declare trim_left_def [js_eval] js_trim_def [js_eval]

text \<open>A string is blank when it holds no character that \<open>trim\<close> keeps.\<close>

definition blank :: "jstr \<Rightarrow> bool" where
  "blank s \<longleftrightarrow> list_all is_space s"

lemma trim_left_Nil: "trim_left s = [] \<longleftrightarrow> blank s"
  by (simp add: trim_left_def blank_def dropWhile_eq_Nil_conv list_all_iff)

lemma blank_rev [simp]: "blank (rev s) = blank s"
  by (simp add: blank_def)

lemma blank_trim_left: "blank (trim_left s) = blank s"
  by (induction s) (auto simp: trim_left_def blank_def)

lemma js_trim_Nil: "js_trim s = [] \<longleftrightarrow> blank s"
  by (simp add: js_trim_def trim_left_Nil blank_trim_left)

lemma trim_left_idem: "trim_left (trim_left s) = trim_left s"
  by (simp add: trim_left_def dropWhile_idem)

lemma trim_left_hd: "trim_left s = c # cs \<Longrightarrow> \<not> is_space c"
  unfolding trim_left_def by (rule dropWhile_hd)

lemma trim_left_fixed: "s = [] \<or> \<not> is_space (hd s) \<Longrightarrow> trim_left s = s"
  by (cases s) (auto simp: trim_left_def)

lemma trim_left_suffix: "\<exists>w. s = w @ trim_left s \<and> blank w"
  by (rule exI [of _ "takeWhile is_space s"])
    (auto simp: trim_left_def blank_def list_all_iff dest: set_takeWhileD)

lemma js_trim_split: "\<exists>a b. s = a @ js_trim s @ b \<and> blank a \<and> blank b"
proof -
  obtain a where a: "s = a @ trim_left s" "blank a" using trim_left_suffix by blast
  obtain b where b: "rev (trim_left s) = b @ trim_left (rev (trim_left s))" "blank b"
    using trim_left_suffix by blast
  from b(1) have "trim_left s = js_trim s @ rev b"
    unfolding js_trim_def by (metis rev_append rev_rev_ident)
  with a b(2) show ?thesis by (metis blank_rev)
qed

section \<open>Prefixes, occurrences, slices\<close>

fun starts_with :: "jstr \<Rightarrow> jstr \<Rightarrow> bool" where
  "starts_with s [] = True"
| "starts_with [] (p # ps) = False"
| "starts_with (c # cs) (p # ps) = (c = p \<and> starts_with cs ps)"

fun js_includes :: "jstr \<Rightarrow> jstr \<Rightarrow> bool" where
  "js_includes [] p = (p = [])"
| "js_includes (c # cs) p = (starts_with (c # cs) p \<or> js_includes cs p)"

definition slice0 :: "nat \<Rightarrow> jstr \<Rightarrow> jstr" where
  "slice0 n s = take n s"

lemma starts_with_iff: "starts_with s p \<longleftrightarrow> (\<exists>r. s = p @ r)"
  by (induction s p rule: starts_with.induct) auto

lemma includes_iff: "js_includes s p \<longleftrightarrow> (\<exists>a b. s = a @ p @ b)"
proof (induction s)
  case Nil
  then show ?case by auto
next
  case (Cons c cs)
  show ?case
  proof
    assume "js_includes (c # cs) p"
    then consider "starts_with (c # cs) p" | "js_includes cs p" by auto
    then show "\<exists>a b. c # cs = a @ p @ b"
    proof cases
      case 1
      then show ?thesis by (metis append_Nil starts_with_iff)
    next
      case 2
      then show ?thesis using Cons.IH by (metis append_Cons)
    qed
  next
    assume "\<exists>a b. c # cs = a @ p @ b"
    then obtain a b where ab: "c # cs = a @ p @ b" by blast
    show "js_includes (c # cs) p"
    proof (cases a)
      case Nil
      with ab show ?thesis by (metis append_Nil js_includes.simps(2) starts_with_iff)
    next
      case (Cons a' as)
      with ab have "cs = as @ p @ b" by simp
      with Cons.IH show ?thesis by auto
    qed
  qed
qed

lemma includes_single: "js_includes s [c] \<longleftrightarrow> c \<in> set s"
  by (auto simp: includes_iff in_set_conv_decomp)

section \<open>Splitting and joining\<close>

text \<open>\<open>s.split(sep)\<close> for a one-character separator.\<close>

fun split_char :: "nat \<Rightarrow> jstr \<Rightarrow> jstr list" where
  "split_char d [] = [[]]"
| "split_char d (c # cs) =
     (if c = d then [] # split_char d cs
      else (case split_char d cs of [] \<Rightarrow> [[c]] | w # ws \<Rightarrow> (c # w) # ws))"

lemma split_char_nonempty: "split_char d s \<noteq> []"
  by (cases s) (auto split: list.splits)

lemma length_split_char: "length (split_char d s) = Suc (count_list s d)"
proof (induction s)
  case (Cons c cs)
  then show ?case using split_char_nonempty [of d cs] by (auto split: list.splits)
qed simp

text \<open>Splitting at the pattern of one or more white space characters: split at each maximal run of white space.\<close>

fun split_spaces :: "jstr \<Rightarrow> jstr list" where
  "split_spaces [] = [[]]"
| "split_spaces (c # cs) =
     (if is_space c then [] # split_spaces (dropWhile is_space cs)
      else (case split_spaces cs of [] \<Rightarrow> [[c]] | w # ws \<Rightarrow> (c # w) # ws))"

lemma split_spaces_nonempty: "split_spaces s \<noteq> []"
  by (cases s) (auto split: list.splits)

fun join :: "'a list \<Rightarrow> 'a list list \<Rightarrow> 'a list" where
  "join sep [] = []"
| "join sep [w] = w"
| "join sep (w # v # ws) = w @ sep @ join sep (v # ws)"

lemma join_split_char: "join [d] (split_char d s) = s"
proof (induction s)
  case (Cons c cs)
  then show ?case
  proof (cases "split_char d cs")
    case Nil
    then show ?thesis using split_char_nonempty by blast
  next
    case (Cons w ws)
    with Cons.IH show ?thesis by (cases ws) auto
  qed
qed simp

text \<open>The words of a string, said directly: a word starts at each non-space after a space.\<close>

fun count_words :: "bool \<Rightarrow> jstr \<Rightarrow> nat" where
  "count_words inw [] = 0"
| "count_words inw (c # cs) =
     (if is_space c then count_words False cs
      else (if inw then 0 else 1) + count_words True cs)"

lemma count_words_dropWhile: "count_words False (dropWhile is_space s) = count_words False s"
  by (induction s) auto

lemma split_spaces_words:
  "length (filter (\<lambda>w. w \<noteq> []) (split_spaces s)) = count_words False s
   \<and> length (filter (\<lambda>w. w \<noteq> []) (tl (split_spaces s))) = count_words True s"
proof (induction s rule: split_spaces.induct)
  case 1
  then show ?case by simp
next
  case (2 c cs)
  show ?case
  proof (cases "is_space c")
    case True
    with "2.IH"(1) show ?thesis by (simp add: count_words_dropWhile)
  next
    case False
    obtain w ws where w: "split_spaces cs = w # ws"
      using split_spaces_nonempty by (metis neq_Nil_conv)
    with False "2.IH"(2) show ?thesis by simp
  qed
qed

lemma count_words_append_blank: "blank b \<Longrightarrow> count_words w (s @ b) = count_words w s"
proof (induction s arbitrary: w)
  case Nil
  then show ?case by (induction b arbitrary: w) (auto simp: blank_def)
qed auto

lemma count_words_blank_append: "blank a \<Longrightarrow> count_words False (a @ s) = count_words False s"
  by (induction a) (auto simp: blank_def)

lemma count_words_trim: "count_words False (js_trim s) = count_words False s"
proof -
  obtain a b where "s = a @ js_trim s @ b" "blank a" "blank b" using js_trim_split by blast
  then show ?thesis
    by (metis append.assoc count_words_append_blank count_words_blank_append)
qed

text \<open>A literal of several lines.\<close>

definition js_lines :: "string list \<Rightarrow> jstr" where
  "js_lines ls = join [10] (map js ls)"

declare js_lines_def [js_eval]

section \<open>Decimal numerals\<close>

fun dec :: "nat \<Rightarrow> jstr" where
  "dec n = (if n < 10 then [48 + n] else dec (n div 10) @ [48 + n mod 10])"

declare dec.simps [simp del]
declare dec.simps [js_eval]

definition undec :: "jstr \<Rightarrow> nat" where
  "undec s = foldl (\<lambda>a c. 10 * a + (c - 48)) 0 s"

lemma undec_snoc: "undec (s @ [c]) = 10 * undec s + (c - 48)"
  by (simp add: undec_def)

lemma undec_dec: "undec (dec n) = n"
proof (induction n rule: dec.induct)
  case (1 n)
  then show ?case
    by (subst dec.simps) (auto simp: undec_snoc undec_def)
qed

lemma dec_digits: "list_all is_digit (dec n)"
proof (induction n rule: dec.induct)
  case (1 n)
  then show ?case
    by (subst dec.simps) (auto simp: is_digit_def list_all_iff)
qed

lemma dec_nonempty: "dec n \<noteq> []"
  by (subst dec.simps) simp

end
