(* ===== verification/Js_Number.thy ===== *)
theory Js_Number
  imports Js_Strings
begin

text \<open>
  JavaScript numbers as IEEE 754 doubles. \<open>Dbl neg m e\<close> is \<open>m * 2 ^ e\<close> with sign; the
  canonical ones have \<open>2 ^ 52 \<le> m < 2 ^ 53\<close> and \<open>- 1074 \<le> e \<le> 971\<close>, or
  \<open>m < 2 ^ 52\<close> and \<open>e = - 1074\<close>. NaN never arises from \<open>JSON.parse\<close>; where a
  conversion can give it the result is \<open>None\<close>. A decimal literal is rounded to nearest,
  ties to even, from its exact rational value; \<open>num_str\<close> is \<open>Number::toString\<close>.
\<close>

datatype jnum = Dbl bool nat int | Inf bool

fun nlog2 :: "nat \<Rightarrow> nat" where
  "nlog2 n = (if n < 2 then 0 else Suc (nlog2 (n div 2)))"

declare nlog2.simps [simp del]
declare nlog2.simps [js_eval]

section \<open>Rounding a ratio\<close>

text \<open>Numerator and denominator of \<open>(a / b) / 2 ^ e\<close>.\<close>

definition scale2 :: "int \<Rightarrow> nat \<Rightarrow> nat \<Rightarrow> nat \<times> nat" where
  "scale2 e a b = (if 0 \<le> e then (a, b * 2 ^ nat e) else (a * 2 ^ nat (- e), b))"

definition round_even :: "nat \<times> nat \<Rightarrow> nat" where
  "round_even nd = (case nd of (n, d) \<Rightarrow>
     (let q = n div d; r = n mod d
      in if 2 * r < d \<or> (2 * r = d \<and> even q) then q else Suc q))"

definition exp2_of :: "nat \<Rightarrow> nat \<Rightarrow> int" where
  "exp2_of a b =
     (let e0 = int (nlog2 a) - int (nlog2 b) - 53;
          q = (case scale2 e0 a b of (n, d) \<Rightarrow> n div d)
      in max (- 1074) (if 2 ^ 53 \<le> q then e0 + 1 else e0))"

definition ratio_num :: "bool \<Rightarrow> nat \<Rightarrow> nat \<Rightarrow> jnum" where
  "ratio_num neg a b =
     (if a = 0 then Dbl neg 0 (- 1074)
      else let e = exp2_of a b;
               m = round_even (scale2 e a b);
               (m', e') = (if m = 2 ^ 53 then (2 ^ 52, e + 1) else (m, e))
           in if 971 < e' then Inf neg else Dbl neg m' e')"

text \<open>The double nearest to \<open>d * 10 ^ x\<close>.\<close>

definition dec_num :: "bool \<Rightarrow> nat \<Rightarrow> int \<Rightarrow> jnum" where
  "dec_num neg d x = (if 0 \<le> x then ratio_num neg (d * 10 ^ nat x) 1
                      else ratio_num neg d (10 ^ nat (- x)))"

definition nat_num :: "nat \<Rightarrow> jnum" where
  "nat_num n = dec_num False n 0"

declare scale2_def [js_eval] round_even_def [js_eval] exp2_of_def [js_eval]
  ratio_num_def [js_eval] dec_num_def [js_eval] nat_num_def [js_eval]

fun num_pos :: "jnum \<Rightarrow> bool" where
  "num_pos (Dbl neg m e) = (\<not> neg \<and> 0 < m)"
| "num_pos (Inf neg) = (\<not> neg)"

fun num_zero :: "jnum \<Rightarrow> bool" where
  "num_zero (Dbl neg m e) = (m = 0)"
| "num_zero (Inf neg) = False"

section \<open>Numeric literals\<close>

text \<open>An optional exponent part: its value and the rest; \<open>None\<close> when it is malformed.\<close>

definition scan_exp :: "jstr \<Rightarrow> (int \<times> jstr) option" where
  "scan_exp s =
     (case s of
        c # cs \<Rightarrow>
          if c = 101 \<or> c = 69
          then let (sg, t) = (case cs of
                     d # ds \<Rightarrow> if d = 45 then (- 1, ds) else if d = 43 then (1, ds) else (1, cs)
                   | [] \<Rightarrow> (1, []));
                   ds = takeWhile is_digit t
               in if ds = [] then None
                  else Some (sg * int (undec ds), dropWhile is_digit t)
          else Some (0, s)
      | [] \<Rightarrow> Some (0, []))"

text \<open>The JSON grammar of numbers: sign, integer part without leading zeros, fraction, exponent.\<close>

definition scan_json_num :: "jstr \<Rightarrow> (jnum \<times> jstr) option" where
  "scan_json_num s =
     (let (neg, t) = (case s of c # cs \<Rightarrow> if c = 45 then (True, cs) else (False, s) | [] \<Rightarrow> (False, []));
          ip = takeWhile is_digit t;
          r1 = dropWhile is_digit t
      in if ip = [] \<or> (hd ip = 48 \<and> tl ip \<noteq> []) then None
         else case (case r1 of
                      c # cs \<Rightarrow> if c = 46
                        then if takeWhile is_digit cs = [] then None
                             else Some (takeWhile is_digit cs, dropWhile is_digit cs)
                        else Some ([], r1)
                    | [] \<Rightarrow> Some ([], [])) of
                None \<Rightarrow> None
              | Some (fp, r2) \<Rightarrow>
                  (case scan_exp r2 of
                     None \<Rightarrow> None
                   | Some (x, r3) \<Rightarrow>
                       Some (dec_num neg (undec (ip @ fp)) (x - int (length fp)), r3)))"

declare undec_def [js_eval] scan_exp_def [js_eval] scan_json_num_def [js_eval]

section \<open>Number to string\<close>

text \<open>How many zeros follow the point before the first digit of \<open>a / b < 1\<close>.\<close>

function lead_zeros :: "nat \<Rightarrow> nat \<Rightarrow> nat" where
  "lead_zeros a b = (if a = 0 \<or> b \<le> 10 * a then 0 else Suc (lead_zeros (10 * a) b))"
  by pat_completeness auto
termination
  by (relation "measure (\<lambda>(a, b). b - a)") auto

declare lead_zeros.simps [simp del]
declare lead_zeros.simps [js_eval]

text \<open>The decimal exponent \<open>n\<close> with \<open>10 ^ (n - 1) \<le> a / b < 10 ^ n\<close>.\<close>

definition dec_exp :: "nat \<Rightarrow> nat \<Rightarrow> int" where
  "dec_exp a b = (if b \<le> a then int (length (dec (a div b))) else - int (lead_zeros a b))"

definition scale10 :: "int \<Rightarrow> nat \<Rightarrow> nat \<Rightarrow> nat \<times> nat" where
  "scale10 x a b = (if 0 \<le> x then (a * 10 ^ nat x, b) else (a, b * 10 ^ nat (- x)))"

text \<open>
  The \<open>k\<close>-digit decimals next to the value that read back as it, the nearest first.
\<close>

definition digit_candidate :: "jnum \<Rightarrow> nat \<Rightarrow> nat \<Rightarrow> int \<Rightarrow> nat \<Rightarrow> nat option" where
  "digit_candidate x a b n k =
     (let nd = scale10 (int k - n) a b;
          near = round_even nd;
          q = (case nd of (u, v) \<Rightarrow> u div v);
          other = (if near = q then Suc q else q)
      in if dec_num False near (n - int k) = x then Some near
         else if dec_num False other (n - int k) = x then Some other
         else None)"

text \<open>
  The least number of digits that reads back, from \<open>k\<close> up; 17 always suffice, and past
  them the exact expansion is used, so that the search is total by its shape.
\<close>

fun shortest :: "nat \<Rightarrow> jnum \<Rightarrow> nat \<Rightarrow> nat \<Rightarrow> int \<Rightarrow> nat \<Rightarrow> nat \<times> int" where
  "shortest 0 x a b n k = (a * 5 ^ nlog2 b, - int (nlog2 b))"
| "shortest (Suc fuel) x a b n k =
     (case digit_candidate x a b n k of
        Some c \<Rightarrow> (c, n - int k)
      | None \<Rightarrow> shortest fuel x a b n (Suc k))"

definition strip_zeros :: "jstr \<Rightarrow> jstr" where
  "strip_zeros s = rev (dropWhile (\<lambda>c. c = 48) (rev s))"

text \<open>The layout of digits \<open>ds\<close> whose value is \<open>0.ds * 10 ^ n\<close>.\<close>

definition layout :: "jstr \<Rightarrow> int \<Rightarrow> jstr" where
  "layout ds n =
     (let k = int (length ds);
          ex = (if 0 \<le> n - 1 then 43 # dec (nat (n - 1)) else 45 # dec (nat (1 - n)))
      in if k \<le> n \<and> n \<le> 21 then ds @ replicate (nat (n - k)) 48
         else if 0 < n \<and> n \<le> 21 then take (nat n) ds @ [46] @ drop (nat n) ds
         else if - 6 < n \<and> n \<le> 0 then [48, 46] @ replicate (nat (- n)) 48 @ ds
         else if k = 1 then ds @ [101] @ ex
         else take 1 ds @ [46] @ drop 1 ds @ [101] @ ex)"

fun num_str :: "jnum \<Rightarrow> jstr" where
  "num_str (Inf neg) = (if neg then [45] else []) @ js ''Infinity''"
| "num_str (Dbl neg m e) =
     (if m = 0 then [48]
      else let (a, b) = (if 0 \<le> e then (m * 2 ^ nat e, 1) else (m, 2 ^ nat (- e)));
               (c, x) = shortest 17 (Dbl False m e) a b (dec_exp a b) 1;
               ds = dec c
           in (if neg then [45] else []) @ layout (strip_zeros ds) (int (length ds) + x))"

declare dec_exp_def [js_eval] scale10_def [js_eval] digit_candidate_def [js_eval]
  strip_zeros_def [js_eval] layout_def [js_eval]

section \<open>String to number\<close>

definition radix_digit :: "nat \<Rightarrow> nat option" where
  "radix_digit c = (if is_digit c then Some (c - 48)
     else if 97 \<le> c \<and> c \<le> 102 then Some (c - 87)
     else if 65 \<le> c \<and> c \<le> 70 then Some (c - 55) else None)"

fun radix_value :: "nat \<Rightarrow> nat \<Rightarrow> jstr \<Rightarrow> nat option" where
  "radix_value b acc [] = Some acc"
| "radix_value b acc (c # cs) =
     (case radix_digit c of
        Some d \<Rightarrow> if d < b then radix_value b (b * acc + d) cs else None
      | None \<Rightarrow> None)"

definition str_decimal :: "jstr \<Rightarrow> jnum option" where
  "str_decimal s =
     (let (neg, t) = (case s of
            c # cs \<Rightarrow> if c = 45 then (True, cs) else if c = 43 then (False, cs) else (False, s)
          | [] \<Rightarrow> (False, []));
          ip = takeWhile is_digit t;
          r1 = dropWhile is_digit t;
          (fp, r2) = (case r1 of
            c # cs \<Rightarrow> if c = 46 then (takeWhile is_digit cs, dropWhile is_digit cs) else ([], r1)
          | [] \<Rightarrow> ([], []))
      in if t = js ''Infinity'' then Some (Inf neg)
         else if ip = [] \<and> fp = [] then None
         else case scan_exp r2 of
                Some (x, []) \<Rightarrow> Some (dec_num neg (undec (ip @ fp)) (x - int (length fp)))
              | _ \<Rightarrow> None)"

text \<open>\<open>ToNumber\<close> of a string; \<open>None\<close> is NaN.\<close>

definition str_to_num :: "jstr \<Rightarrow> jnum option" where
  "str_to_num s =
     (let t = js_trim s
      in case t of
           [] \<Rightarrow> Some (Dbl False 0 (- 1074))
         | c # d # e # r \<Rightarrow>
             if c = 48 \<and> (d = 120 \<or> d = 88) then map_option nat_num (radix_value 16 0 (e # r))
             else if c = 48 \<and> (d = 111 \<or> d = 79) then map_option nat_num (radix_value 8 0 (e # r))
             else if c = 48 \<and> (d = 98 \<or> d = 66) then map_option nat_num (radix_value 2 0 (e # r))
             else str_decimal t
         | _ \<Rightarrow> str_decimal t)"

declare radix_digit_def [js_eval] str_decimal_def [js_eval] str_to_num_def [js_eval]

end
