(* ===== verification/Js_Value.thy ===== *)
theory Js_Value
  imports Js_Number
begin

text \<open>
  The dynamic values that reach the viewer's state from \<open>JSON.parse\<close>, with the operations
  the source applies to them: property reads, optional chaining, \<open>||\<close>, truthiness,
  conversion to string and the comparison \<open>> 0\<close>. Types of TypeScript are erased at run
  time, so a value that came from the network may have any shape; code that assumes more
  throws here as it does in the browser.

  Objects list their properties in the order \<open>Object.keys\<close> gives them.
\<close>

datatype jsval =
    JUndef
  | JNull
  | JBool bool
  | JNum jnum
  | JStr jstr
  | JArr "jsval list"
  | JObj "(jstr \<times> jsval) list"

section \<open>Truthiness and defaults\<close>

fun truthy :: "jsval \<Rightarrow> bool" where
  "truthy JUndef = False"
| "truthy JNull = False"
| "truthy (JBool b) = b"
| "truthy (JNum n) = (\<not> num_zero n)"
| "truthy (JStr s) = (s \<noteq> [])"
| "truthy (JArr vs) = True"
| "truthy (JObj ms) = True"

definition js_or :: "jsval \<Rightarrow> jsval \<Rightarrow> jsval" where
  "js_or a b = (if truthy a then a else b)"

definition nullish :: "jsval \<Rightarrow> bool" where
  "nullish v \<longleftrightarrow> v = JUndef \<or> v = JNull"

declare js_or_def [js_eval] nullish_def [js_eval]

lemma nullish_simps [simp]:
  "nullish JUndef" "nullish JNull" "\<not> nullish (JBool b)" "\<not> nullish (JNum n)"
  "\<not> nullish (JStr s)" "\<not> nullish (JArr vs)" "\<not> nullish (JObj ms)"
  by (simp_all add: nullish_def)

lemma truthy_not_nullish: "truthy v \<Longrightarrow> \<not> nullish v"
  by (cases v) auto

section \<open>Array indices and property order\<close>

text \<open>A property key that is an array index: a canonical numeral below \<open>2 ^ 32 - 1\<close>.\<close>

definition index_of :: "jstr \<Rightarrow> nat option" where
  "index_of k =
     (if k \<noteq> [] \<and> list_all is_digit k \<and> (hd k \<noteq> 48 \<or> tl k = []) \<and> undec k < 2 ^ 32 - 1
      then Some (undec k) else None)"

declare index_of_def [js_eval]

text \<open>Integer keys come first, ascending; the other keys keep the order of creation.\<close>

definition own_order :: "(jstr \<times> 'a) list \<Rightarrow> (jstr \<times> 'a) list" where
  "own_order ms =
     sort_key (\<lambda>m. the (index_of (fst m))) (filter (\<lambda>m. index_of (fst m) \<noteq> None) ms)
     @ filter (\<lambda>m. index_of (fst m) = None) ms"

text \<open>Assigning a property: in place when it exists, else at the end.\<close>

fun put :: "jstr \<Rightarrow> 'a \<Rightarrow> (jstr \<times> 'a) list \<Rightarrow> (jstr \<times> 'a) list" where
  "put k v [] = [(k, v)]"
| "put k v ((l, w) # ms) = (if k = l then (k, v) # ms else (l, w) # put k v ms)"

definition mk_obj :: "(jstr \<times> jsval) list \<Rightarrow> jsval" where
  "mk_obj ms = JObj (own_order (fold (\<lambda>(k, v). put k v) ms []))"

declare own_order_def [js_eval] mk_obj_def [js_eval]

section \<open>Property reads\<close>

definition field :: "(jstr \<times> jsval) list \<Rightarrow> jstr \<Rightarrow> jsval" where
  "field ms k = (case map_of ms k of Some v \<Rightarrow> v | None \<Rightarrow> JUndef)"

text \<open>
  \<open>v.k\<close>. None of the names the viewer reads is inherited from a prototype, but for the
  \<open>length\<close> of arrays and strings.
\<close>

fun get :: "jsval \<Rightarrow> jstr \<Rightarrow> jsval res" where
  "get JUndef k = Inl TypeErr"
| "get JNull k = Inl TypeErr"
| "get (JObj ms) k = Inr (field ms k)"
| "get (JArr vs) k =
     Inr (if k = js ''length'' then JNum (nat_num (length vs))
          else case index_of k of
                 Some i \<Rightarrow> if i < length vs then vs ! i else JUndef
               | None \<Rightarrow> JUndef)"
| "get (JStr s) k =
     Inr (if k = js ''length'' then JNum (nat_num (length s))
          else case index_of k of
                 Some i \<Rightarrow> if i < length s then JStr [s ! i] else JUndef
               | None \<Rightarrow> JUndef)"
| "get (JBool b) k = Inr JUndef"
| "get (JNum n) k = Inr JUndef"

text \<open>\<open>v?.k\<close>\<close>

definition opt_get :: "jsval \<Rightarrow> jstr \<Rightarrow> jsval" where
  "opt_get v k = (case get v k of Inl _ \<Rightarrow> JUndef | Inr w \<Rightarrow> w)"

declare field_def [js_eval] opt_get_def [js_eval]

lemma get_Inl_iff: "get v k = Inl e \<longleftrightarrow> nullish v \<and> e = TypeErr"
  by (cases v) auto

lemma get_total: "\<not> nullish v \<Longrightarrow> \<exists>w. get v k = Inr w"
  by (cases v) auto

lemma opt_get_get: "\<not> nullish v \<Longrightarrow> get v k = Inr (opt_get v k)"
  by (cases v) (auto simp: opt_get_def)

section \<open>Conversion to string\<close>

text \<open>
  \<open>ToString\<close>. A parsed object inherits \<open>toString\<close> unless it has a property of that name;
  then the conversion finds no primitive and throws. In an array, \<open>null\<close> and
  \<open>undefined\<close> give the empty string.
\<close>

fun to_str :: "jsval \<Rightarrow> jstr res"
  and elems_str :: "jsval list \<Rightarrow> jstr list res" where
  "to_str JUndef = Inr (js ''undefined'')"
| "to_str JNull = Inr (js ''null'')"
| "to_str (JBool b) = Inr (if b then js ''true'' else js ''false'')"
| "to_str (JNum n) = Inr (num_str n)"
| "to_str (JStr s) = Inr s"
| "to_str (JArr vs) = ebind (elems_str vs) (\<lambda>ws. Inr (join (js '','') ws))"
| "to_str (JObj ms) =
     (if map_of ms (js ''toString'') = None then Inr (js ''[object Object]'') else Inl TypeErr)"
| "elems_str [] = Inr []"
| "elems_str (v # vs) =
     ebind (if nullish v then Inr [] else to_str v) (\<lambda>w.
     ebind (elems_str vs) (\<lambda>ws. Inr (w # ws)))"

text \<open>\<open>v > 0\<close>\<close>

definition opt_num_pos :: "jnum option \<Rightarrow> bool" where
  "opt_num_pos n = (case n of None \<Rightarrow> False | Some x \<Rightarrow> num_pos x)"

fun gt0 :: "jsval \<Rightarrow> bool res" where
  "gt0 JUndef = Inr False"
| "gt0 JNull = Inr False"
| "gt0 (JBool b) = Inr b"
| "gt0 (JNum n) = Inr (num_pos n)"
| "gt0 (JStr s) = Inr (opt_num_pos (str_to_num s))"
| "gt0 (JArr vs) = ebind (to_str (JArr vs)) (\<lambda>s. Inr (opt_num_pos (str_to_num s)))"
| "gt0 (JObj ms) = ebind (to_str (JObj ms)) (\<lambda>s. Inr (opt_num_pos (str_to_num s)))"

declare opt_num_pos_def [js_eval]

text \<open>The callbacks of \<open>map\<close> and \<open>find\<close> run over arrays; nothing else has these methods.\<close>

fun elements :: "jsval \<Rightarrow> jsval list res" where
  "elements (JArr vs) = Inr vs"
| "elements _ = Inl TypeErr"

lemma elements_Inr: "elements v = Inr vs \<longleftrightarrow> v = JArr vs"
  by (cases v) auto

end
