(* ===== verification/React_Dom.thy ===== *)
theory React_Dom
  imports Js_Value
begin

text \<open>
  What a component renders: a tree of elements whose attributes carry, instead of a
  closure, the action the closure performs. \<open>fires\<close> is the set of actions a user can
  trigger on the tree: a disabled control triggers nothing, a text control can report any
  text, a \<open>select\<close> only the values of its enabled options. So the guards of user
  actions are not written down a second time: they are what the rendered tree allows.

  Static class names and layout-only attributes are left out; a class that depends on the
  state is kept (\<open>Cls\<close>). Icons are elements named as in the source.
\<close>

datatype 'e attr =
    OnClick 'e
  | OnSubmit 'e
  | OnText "jstr \<Rightarrow> 'e"
  | OnCheck "bool \<Rightarrow> 'e"
  | OnSelect "jstr \<Rightarrow> 'e"
  | OnFile "jstr list \<Rightarrow> 'e"
  | Disabled bool
  | Value jstr
  | Checked bool
  | Cls string
  | Prop string jstr
  | Data string jsval

datatype 'e node = Text jstr | Elem string "'e attr list" "'e node list"

abbreviation label :: "string \<Rightarrow> 'e node" where
  "label s \<equiv> Text (js s)"

abbreviation icon :: "string \<Rightarrow> 'e node" where
  "icon s \<equiv> Elem s [] []"

text \<open>\<open>{cond && <X/>}\<close> for a Boolean condition.\<close>

definition shown :: "bool \<Rightarrow> 'e node list \<Rightarrow> 'e node list" where
  "shown b ns = (if b then ns else [])"

lemma shown_simps [simp, js_eval]: "shown True ns = ns" "shown False ns = []"
  by (simp_all add: shown_def)

section \<open>Values as children\<close>

text \<open>
  \<open>{v}\<close>: strings and numbers become text, Booleans, \<open>null\<close> and \<open>undefined\<close> nothing,
  an array its elements; an object makes React throw.
\<close>

fun child :: "jsval \<Rightarrow> 'e node list res"
  and children :: "jsval list \<Rightarrow> 'e node list res" where
  "child (JStr s) = Inr (if s = [] then [] else [Text s])"
| "child (JNum n) = Inr [Text (num_str n)]"
| "child (JArr vs) = children vs"
| "child (JObj ms) = Inl ChildErr"
| "child _ = Inr []"
| "children [] = Inr []"
| "children (v # vs) = ebind (child v) (\<lambda>ns. ebind (children vs) (\<lambda>ms. Inr (ns @ ms)))"

text \<open>\<open>{v && <X/>}\<close> for a dynamic \<open>v\<close>: a falsy value is itself the child.\<close>

definition and_child :: "jsval \<Rightarrow> 'e node list res \<Rightarrow> 'e node list res" where
  "and_child v ns = (if truthy v then ns else child v)"

declare and_child_def [js_eval]

lemma child_falsy: "\<not> truthy v \<Longrightarrow> \<exists>ns. child v = Inr ns"
  by (cases v) auto

lemma and_child_total: "(truthy v \<Longrightarrow> \<exists>ns. m = Inr ns) \<Longrightarrow> \<exists>ns. and_child v m = Inr ns"
  by (simp add: and_child_def child_falsy)

section \<open>What a user can do\<close>

fun is_disabled :: "'e attr list \<Rightarrow> bool" where
  "is_disabled [] = False"
| "is_disabled (Disabled b # as) = (b \<or> is_disabled as)"
| "is_disabled (_ # as) = is_disabled as"

fun attr_values :: "'e attr list \<Rightarrow> jstr set" where
  "attr_values [] = {}"
| "attr_values (Value v # as) = insert v (attr_values as)"
| "attr_values (_ # as) = attr_values as"

fun option_values :: "'e node list \<Rightarrow> jstr set" where
  "option_values [] = {}"
| "option_values (Elem tag as ns # ms) =
     (if tag = ''option'' \<and> \<not> is_disabled as then attr_values as else {}) \<union> option_values ms"
| "option_values (Text s # ms) = option_values ms"

fun attr_fires :: "jstr set \<Rightarrow> 'e attr \<Rightarrow> 'e set" where
  "attr_fires vs (OnClick e) = {e}"
| "attr_fires vs (OnSubmit e) = {e}"
| "attr_fires vs (OnText f) = range f"
| "attr_fires vs (OnCheck f) = range f"
| "attr_fires vs (OnSelect f) = f ` vs"
| "attr_fires vs (OnFile f) = range f"
| "attr_fires vs _ = {}"

fun attrs_fire :: "jstr set \<Rightarrow> 'e attr list \<Rightarrow> 'e set" where
  "attrs_fire vs [] = {}"
| "attrs_fire vs (a # as) = attr_fires vs a \<union> attrs_fire vs as"

fun fires :: "'e node \<Rightarrow> 'e set"
  and fires_all :: "'e node list \<Rightarrow> 'e set" where
  "fires (Text s) = {}"
| "fires (Elem tag as ns) =
     (if is_disabled as then {} else attrs_fire (option_values ns) as) \<union> fires_all ns"
| "fires_all [] = {}"
| "fires_all (n # ns) = fires n \<union> fires_all ns"

lemma fires_all_append [simp]: "fires_all (ns @ ms) = fires_all ns \<union> fires_all ms"
  by (induction ns) auto

lemma fires_all_shown [simp]: "fires_all (shown b ns) = (if b then fires_all ns else {})"
  by (simp add: shown_def)

lemma fires_shown_empty: "fires_all ns = {} \<Longrightarrow> fires_all (shown b ns) = {}"
  by simp

lemma fires_all_concat: "fires_all (concat nss) = (\<Union>ns \<in> set nss. fires_all ns)"
  by (induction nss) auto

lemma fires_all_UN: "fires_all ns = (\<Union>n \<in> set ns. fires n)"
  by (induction ns) auto

lemma child_fires [simp]: "child v = Inr ns \<Longrightarrow> fires_all ns = {}"
  and children_fires: "children vs = Inr ns \<Longrightarrow> fires_all ns = {}"
  by (induction v and vs arbitrary: ns and ns rule: child_children.induct)
    (fastforce simp: ebind_Inr_iff split: if_splits)+

section \<open>Text on the screen\<close>

fun texts :: "'e node \<Rightarrow> jstr list"
  and texts_all :: "'e node list \<Rightarrow> jstr list" where
  "texts (Text s) = [s]"
| "texts (Elem tag as ns) = texts_all ns"
| "texts_all [] = []"
| "texts_all (n # ns) = texts n @ texts_all ns"

lemma texts_all_append [simp]: "texts_all (ns @ ms) = texts_all ns @ texts_all ms"
  by (induction ns) auto

section \<open>A component inside another\<close>

text \<open>
  Rendering a component with its callbacks renames the actions of its tree.
\<close>

lemma is_disabled_map [simp]: "is_disabled (map (map_attr f) as) = is_disabled as"
  by (induction as rule: is_disabled.induct) auto

lemma attr_values_map [simp]: "attr_values (map (map_attr f) as) = attr_values as"
  by (induction as rule: attr_values.induct) auto

lemma option_values_map [simp]: "option_values (map (map_node f) ns) = option_values ns"
  by (induction ns rule: option_values.induct) auto

lemma attr_fires_map [simp]: "attr_fires vs (map_attr f a) = f ` attr_fires vs a"
  by (cases a) auto

lemma attrs_fire_map [simp]: "attrs_fire vs (map (map_attr f) as) = f ` attrs_fire vs as"
  by (induction as) auto

lemma fires_map [simp]: "fires (map_node f n) = f ` fires n"
  and fires_all_map [simp]: "fires_all (map (map_node f) ns) = f ` fires_all ns"
  by (induction n and ns rule: fires_fires_all.induct) auto

section \<open>The contract of a panel\<close>

text \<open>
  What the application relies on when it renders a component: on properties of the
  declared types it does not throw, and its tree triggers only the actions it offers.
\<close>

locale panel =
  fixes render :: "'p \<Rightarrow> 'e node res" and ok :: "'p \<Rightarrow> bool" and offers :: "'p \<Rightarrow> 'e set"
  assumes renders: "ok p \<Longrightarrow> \<exists>n. render p = Inr n"
    and offered: "render p = Inr n \<Longrightarrow> fires n \<subseteq> offers p"
begin

lemma mounts: "ok p \<Longrightarrow> \<exists>n. ebind (render p) (\<lambda>n. Inr (map_node f n)) = Inr n"
  using renders by force

lemma action:
  "ebind (render p) (\<lambda>n. Inr (map_node f n)) = Inr m \<Longrightarrow> e \<in> fires m \<Longrightarrow> \<exists>a \<in> offers p. e = f a"
  using offered by fastforce

end

end
