(* ===== verification/Types_Model.thy ===== *)
theory Types_Model
  imports Js_Value
begin

text \<open>
  \<open>viewer/src/types.ts\<close>: the interfaces, as the predicates that say which run-time values
  have the shape the type promises. An optional property may be absent.
\<close>

definition is_str :: "jsval \<Rightarrow> bool" where
  "is_str v = (case v of JStr _ \<Rightarrow> True | _ \<Rightarrow> False)"

definition is_bool :: "jsval \<Rightarrow> bool" where
  "is_bool v = (case v of JBool _ \<Rightarrow> True | _ \<Rightarrow> False)"

definition is_num :: "jsval \<Rightarrow> bool" where
  "is_num v = (case v of JNum _ \<Rightarrow> True | _ \<Rightarrow> False)"

definition is_obj :: "jsval \<Rightarrow> bool" where
  "is_obj v = (case v of JObj _ \<Rightarrow> True | _ \<Rightarrow> False)"

definition is_array_of :: "(jsval \<Rightarrow> bool) \<Rightarrow> jsval \<Rightarrow> bool" where
  "is_array_of P v = (case v of JArr vs \<Rightarrow> list_all P vs | _ \<Rightarrow> False)"

definition optional :: "(jsval \<Rightarrow> bool) \<Rightarrow> jsval \<Rightarrow> bool" where
  "optional P v \<longleftrightarrow> v = JUndef \<or> P v"

definition one_of :: "string list \<Rightarrow> jsval \<Rightarrow> bool" where
  "one_of ss v \<longleftrightarrow> v \<in> JStr ` js ` set ss"

definition BreakingChange :: "jsval \<Rightarrow> bool" where
  "BreakingChange v \<longleftrightarrow>
     is_obj v
     \<and> optional (one_of [''BREAKING'', ''DANGEROUS'', ''ADDITIVE'']) (opt_get v (js ''severity''))
     \<and> optional is_str (opt_get v (js ''path''))
     \<and> optional is_str (opt_get v (js ''description''))
     \<and> optional is_str (opt_get v (js ''citation''))
     \<and> optional is_str (opt_get v (js ''proposed_fix''))
     \<and> optional is_str (opt_get v (js ''line''))
     \<and> optional is_str (opt_get v (js ''oldCode''))
     \<and> optional is_str (opt_get v (js ''newCode''))"

definition DetectedLanguage :: "jsval \<Rightarrow> bool" where
  "DetectedLanguage v \<longleftrightarrow>
     is_obj v
     \<and> is_str (opt_get v (js ''name''))
     \<and> optional is_str (opt_get v (js ''version''))
     \<and> optional is_str (opt_get v (js ''runtime''))"

definition Dependency :: "jsval \<Rightarrow> bool" where
  "Dependency v \<longleftrightarrow>
     is_obj v
     \<and> is_str (opt_get v (js ''name''))
     \<and> optional is_bool (opt_get v (js ''is_c_extension''))
     \<and> optional is_bool (opt_get v (js ''is_native''))
     \<and> optional is_str (opt_get v (js ''package_hint''))"

definition Entrypoint :: "jsval \<Rightarrow> bool" where
  "Entrypoint v \<longleftrightarrow>
     is_obj v
     \<and> is_str (opt_get v (js ''kind''))
     \<and> optional is_str (opt_get v (js ''line''))"

definition PackagingCaveat :: "jsval \<Rightarrow> bool" where
  "PackagingCaveat v \<longleftrightarrow>
     is_obj v
     \<and> one_of [''WARNING'', ''INFO''] (opt_get v (js ''severity''))
     \<and> is_str (opt_get v (js ''message''))"

definition CodeAnalysis :: "jsval \<Rightarrow> bool" where
  "CodeAnalysis v \<longleftrightarrow>
     is_obj v
     \<and> DetectedLanguage (opt_get v (js ''language''))
     \<and> is_array_of Dependency (opt_get v (js ''dependencies''))
     \<and> is_array_of Entrypoint (opt_get v (js ''entrypoints''))
     \<and> is_array_of PackagingCaveat (opt_get v (js ''caveats''))
     \<and> is_num (opt_get v (js ''function_count''))
     \<and> is_num (opt_get v (js ''class_count''))
     \<and> is_num (opt_get v (js ''line_count''))"

lemmas type_defs = is_str_def is_bool_def is_num_def is_obj_def is_array_of_def optional_def
  one_of_def

lemma is_str_iff: "is_str v \<longleftrightarrow> (\<exists>s. v = JStr s)"
  by (cases v) (auto simp: is_str_def)

lemma is_obj_not_nullish: "is_obj v \<Longrightarrow> \<not> nullish v"
  by (cases v) (auto simp: is_obj_def)

lemma one_of_is_str: "one_of ss v \<Longrightarrow> is_str v"
  by (auto simp: one_of_def is_str_def)

lemma optional_mono: "optional P v \<Longrightarrow> (\<And>w. P w \<Longrightarrow> Q w) \<Longrightarrow> optional Q v"
  by (auto simp: optional_def)

lemma is_array_of_iff: "is_array_of P v \<longleftrightarrow> (\<exists>vs. v = JArr vs \<and> list_all P vs)"
  by (cases v) (auto simp: is_array_of_def)

end
