(* ===== verification/Js_Json.thy ===== *)
theory Js_Json
  imports Js_Value
begin

text \<open>
  \<open>JSON.parse\<close>: a lexer over the text and a pushdown machine over the tokens. The machine
  recurses on the token list, so it always stops; every grammar error is \<open>None\<close>, which is
  the \<open>SyntaxError\<close> the source catches.
\<close>

section \<open>Lexer\<close>

datatype token = TOpenA | TCloseA | TOpenO | TCloseO | TColon | TComma | TString jstr | TLit jsval

definition json_space :: "nat \<Rightarrow> bool" where
  "json_space c \<longleftrightarrow> c = 32 \<or> c = 9 \<or> c = 10 \<or> c = 13"

definition hex4 :: "nat \<Rightarrow> nat \<Rightarrow> nat \<Rightarrow> nat \<Rightarrow> nat option" where
  "hex4 a b c d = radix_value 16 0 [a, b, c, d]"

definition escape_of :: "nat \<Rightarrow> nat option" where
  "escape_of c =
     (if c = 34 then Some 34 else if c = 92 then Some 92 else if c = 47 then Some 47
      else if c = 98 then Some 8 else if c = 102 then Some 12 else if c = 110 then Some 10
      else if c = 114 then Some 13 else if c = 116 then Some 9 else None)"

text \<open>The body of a string literal, after the opening quote; \<open>acc\<close> is reversed.\<close>

fun lex_string :: "jstr \<Rightarrow> jstr \<Rightarrow> (jstr \<times> jstr) option" where
  "lex_string acc [] = None"
| "lex_string acc (c # cs) =
     (if c = 34 then Some (rev acc, cs)
      else if c = 92 then
        (case cs of
           [] \<Rightarrow> None
         | e # r \<Rightarrow>
             if e = 117 then
               (case r of
                  h1 # h2 # h3 # h4 # r' \<Rightarrow>
                    (case hex4 h1 h2 h3 h4 of
                       Some u \<Rightarrow> lex_string (u # acc) r'
                     | None \<Rightarrow> None)
                | _ \<Rightarrow> None)
             else (case escape_of e of
                     Some x \<Rightarrow> lex_string (x # acc) r
                   | None \<Rightarrow> None))
      else if c < 32 then None
      else lex_string (c # acc) cs)"

lemma lex_string_shorter: "lex_string acc s = Some (t, r) \<Longrightarrow> length r < length s"
proof (induction acc s arbitrary: t r rule: lex_string.induct)
  case (2 acc c cs)
  then show ?case
    by (fastforce split: if_splits list.splits option.splits)
qed simp

lemma scan_exp_shorter: "scan_exp s = Some (x, r) \<Longrightarrow> length r \<le> length s"
  by (auto simp: scan_exp_def Let_def length_dropWhile_le le_SucI
      split: list.splits if_splits prod.splits)

lemma scan_json_num_shorter:
  assumes "scan_json_num s = Some (n, r)" shows "length r < length s"
proof -
  obtain neg t where t: "(case s of c # cs \<Rightarrow> if c = 45 then (True, cs) else (False, s)
      | [] \<Rightarrow> (False, [])) = (neg, t)" by fastforce
  have ls: "length t \<le> length s" using t by (auto split: list.splits if_splits)
  have ip: "takeWhile is_digit t \<noteq> []"
    using assms t by (auto simp: scan_json_num_def Let_def split: if_splits)
  have "length (takeWhile is_digit t) + length (dropWhile is_digit t) = length t"
    by (metis length_append takeWhile_dropWhile_id)
  with ip have l1: "length (dropWhile is_digit t) < length t"
    by (cases "takeWhile is_digit t") auto
  have "length r \<le> length (dropWhile is_digit t)"
    using assms t
    by (auto simp: scan_json_num_def Let_def split: if_splits list.splits option.splits
        dest!: scan_exp_shorter) (meson le_SucI le_trans length_dropWhile_le)+
  with l1 ls show ?thesis by simp
qed

text \<open>One token at the head of a text that starts with no space.\<close>

definition lex1 :: "jstr \<Rightarrow> (token \<times> jstr) option" where
  "lex1 s = (case s of
     [] \<Rightarrow> None
   | c # cs \<Rightarrow>
       if c = 91 then Some (TOpenA, cs) else if c = 93 then Some (TCloseA, cs)
       else if c = 123 then Some (TOpenO, cs) else if c = 125 then Some (TCloseO, cs)
       else if c = 58 then Some (TColon, cs) else if c = 44 then Some (TComma, cs)
       else if c = 34 then map_option (\<lambda>(t, r). (TString t, r)) (lex_string [] cs)
       else if starts_with s (js ''true'') then Some (TLit (JBool True), drop 4 s)
       else if starts_with s (js ''false'') then Some (TLit (JBool False), drop 5 s)
       else if starts_with s (js ''null'') then Some (TLit JNull, drop 4 s)
       else map_option (\<lambda>(n, r). (TLit (JNum n), r)) (scan_json_num s))"

lemma lex1_shorter: "lex1 s = Some (t, r) \<Longrightarrow> length r < length s"
  by (auto simp: lex1_def split: list.splits if_splits
      dest: lex_string_shorter scan_json_num_shorter)

function lex :: "jstr \<Rightarrow> token list option" where
  "lex s = (case s of
     [] \<Rightarrow> Some []
   | c # cs \<Rightarrow>
       if json_space c then lex cs
       else (case lex1 s of
               None \<Rightarrow> None
             | Some (t, r) \<Rightarrow> map_option ((#) t) (lex r)))"
  by pat_completeness auto
termination
  by (relation "measure length") (auto dest: lex1_shorter)

declare lex.simps [simp del]
declare lex.simps [js_eval] json_space_def [js_eval] hex4_def [js_eval] escape_of_def [js_eval]
  lex1_def [js_eval]

section \<open>Parser\<close>

text \<open>
  A frame is a container under construction, its finished members reversed; an object frame
  also holds the key whose value is being read. The mode says what may come next.
\<close>

datatype frame = FArr "jsval list" | FObj "(jstr \<times> jsval) list" jstr

datatype mode =
    MValue
  | MValueOrEnd
  | MKeyOrEnd
  | MKey "(jstr \<times> jsval) list"
  | MColon "(jstr \<times> jsval) list" jstr
  | MDone jsval

fun start_value :: "token \<Rightarrow> frame list \<Rightarrow> (mode \<times> frame list) option" where
  "start_value TOpenA st = Some (MValueOrEnd, FArr [] # st)"
| "start_value TOpenO st = Some (MKeyOrEnd, st)"
| "start_value (TString s) st = Some (MDone (JStr s), st)"
| "start_value (TLit v) st = Some (MDone v, st)"
| "start_value _ st = None"

fun parse_step :: "mode \<Rightarrow> frame list \<Rightarrow> token \<Rightarrow> (mode \<times> frame list) option" where
  "parse_step MValue st t = start_value t st"
| "parse_step MValueOrEnd st t =
     (if t = TCloseA then (case st of FArr vs # st' \<Rightarrow> Some (MDone (JArr (rev vs)), st') | _ \<Rightarrow> None)
      else start_value t st)"
| "parse_step MKeyOrEnd st t =
     (case t of TString k \<Rightarrow> Some (MColon [] k, st) | TCloseO \<Rightarrow> Some (MDone (mk_obj []), st)
      | _ \<Rightarrow> None)"
| "parse_step (MKey ms) st t = (case t of TString k \<Rightarrow> Some (MColon ms k, st) | _ \<Rightarrow> None)"
| "parse_step (MColon ms k) st t = (if t = TColon then Some (MValue, FObj ms k # st) else None)"
| "parse_step (MDone v) st t =
     (case st of
        FArr vs # st' \<Rightarrow>
          if t = TComma then Some (MValue, FArr (v # vs) # st')
          else if t = TCloseA then Some (MDone (JArr (rev (v # vs))), st')
          else None
      | FObj ms k # st' \<Rightarrow>
          if t = TComma then Some (MKey ((k, v) # ms), st')
          else if t = TCloseO then Some (MDone (mk_obj (rev ((k, v) # ms))), st')
          else None
      | [] \<Rightarrow> None)"

fun parse_tokens :: "mode \<Rightarrow> frame list \<Rightarrow> token list \<Rightarrow> jsval option" where
  "parse_tokens m st [] = (case (m, st) of (MDone v, []) \<Rightarrow> Some v | _ \<Rightarrow> None)"
| "parse_tokens m st (t # ts) =
     (case parse_step m st t of
        Some (m', st') \<Rightarrow> parse_tokens m' st' ts
      | None \<Rightarrow> None)"

definition json_parse :: "jstr \<Rightarrow> jsval option" where
  "json_parse s = Option.bind (lex s) (parse_tokens MValue [])"

declare json_parse_def [js_eval]

text \<open>The same with the exception as a value.\<close>

definition json_parse_res :: "jstr \<Rightarrow> jsval res" where
  "json_parse_res s = (case json_parse s of None \<Rightarrow> Inl SyntaxErr | Some v \<Rightarrow> Inr v)"

declare json_parse_res_def [js_eval]

text \<open>Integers as they are written and read in documents.\<close>

definition int_json :: "int \<Rightarrow> jsval" where
  "int_json i = JNum (dec_num (i < 0) (nat \<bar>i\<bar>) 0)"

end
