(* ===== verification/Js_Stringify.thy ===== *)
theory Js_Stringify
  imports Js_Json
begin

text \<open>
  \<open>JSON.stringify(v, null, 2)\<close> and \<open>JSON.stringify(v)\<close>. The result is \<open>None\<close> where
  JavaScript gives \<open>undefined\<close>. A lone surrogate is written as an escape.
\<close>

definition hex_digit :: "nat \<Rightarrow> nat" where
  "hex_digit n = (if n < 10 then 48 + n else 87 + n)"

definition unicode_escape :: "nat \<Rightarrow> jstr" where
  "unicode_escape c =
     [92, 117, hex_digit (c div 4096 mod 16), hex_digit (c div 256 mod 16),
      hex_digit (c div 16 mod 16), hex_digit (c mod 16)]"

definition lead_surrogate :: "nat \<Rightarrow> bool" where
  "lead_surrogate c \<longleftrightarrow> 55296 \<le> c \<and> c \<le> 56319"

definition trail_surrogate :: "nat \<Rightarrow> bool" where
  "trail_surrogate c \<longleftrightarrow> 56320 \<le> c \<and> c \<le> 57343"

definition quote_char :: "nat \<Rightarrow> jstr" where
  "quote_char c =
     (if c = 8 then [92, 98] else if c = 9 then [92, 116] else if c = 10 then [92, 110]
      else if c = 12 then [92, 102] else if c = 13 then [92, 114]
      else if c = 34 then [92, 34] else if c = 92 then [92, 92]
      else if c < 32 \<or> lead_surrogate c \<or> trail_surrogate c then unicode_escape c
      else [c])"

fun quote_body :: "jstr \<Rightarrow> jstr" where
  "quote_body [] = []"
| "quote_body [c] = quote_char c"
| "quote_body (c # d # cs) =
     (if lead_surrogate c \<and> trail_surrogate d then [c, d] @ quote_body cs
      else quote_char c @ quote_body (d # cs))"

definition quote :: "jstr \<Rightarrow> jstr" where
  "quote s = [34] @ quote_body s @ [34]"

text \<open>
  The gap is the indentation per level, empty for the compact form; \<open>ind\<close> is the
  indentation of the current level.
\<close>

definition wrap :: "jstr \<Rightarrow> jstr \<Rightarrow> nat \<Rightarrow> nat \<Rightarrow> jstr list \<Rightarrow> jstr" where
  "wrap gap ind opn cls parts =
     (if parts = [] then [opn, cls]
      else if gap = [] then [opn] @ join [44] parts @ [cls]
      else let step = ind @ gap
           in [opn, 10] @ step @ join ([44, 10] @ step) parts @ [10] @ ind @ [cls])"

fun stringify :: "jstr \<Rightarrow> jstr \<Rightarrow> jsval \<Rightarrow> jstr option"
  and stringify_elems :: "jstr \<Rightarrow> jstr \<Rightarrow> jsval list \<Rightarrow> jstr list"
  and stringify_members :: "jstr \<Rightarrow> jstr \<Rightarrow> (jstr \<times> jsval) list \<Rightarrow> jstr list" where
  "stringify gap ind JUndef = None"
| "stringify gap ind JNull = Some (js ''null'')"
| "stringify gap ind (JBool b) = Some (if b then js ''true'' else js ''false'')"
| "stringify gap ind (JNum n) =
     Some (case n of Inf _ \<Rightarrow> js ''null'' | Dbl _ _ _ \<Rightarrow> num_str n)"
| "stringify gap ind (JStr s) = Some (quote s)"
| "stringify gap ind (JArr vs) = Some (wrap gap ind 91 93 (stringify_elems gap (ind @ gap) vs))"
| "stringify gap ind (JObj ms) = Some (wrap gap ind 123 125 (stringify_members gap (ind @ gap) ms))"
| "stringify_elems gap ind [] = []"
| "stringify_elems gap ind (v # vs) =
     (case stringify gap ind v of None \<Rightarrow> js ''null'' | Some s \<Rightarrow> s) # stringify_elems gap ind vs"
| "stringify_members gap ind [] = []"
| "stringify_members gap ind ((k, v) # ms) =
     (case stringify gap ind v of
        None \<Rightarrow> stringify_members gap ind ms
      | Some s \<Rightarrow> (quote k @ [58] @ (if gap = [] then [] else [32]) @ s) # stringify_members gap ind ms)"

definition json_stringify2 :: "jsval \<Rightarrow> jstr option" where
  "json_stringify2 v = stringify [32, 32] [] v"

definition json_stringify :: "jsval \<Rightarrow> jstr option" where
  "json_stringify v = stringify [] [] v"

declare hex_digit_def [js_eval] unicode_escape_def [js_eval] lead_surrogate_def [js_eval]
  trail_surrogate_def [js_eval] quote_char_def [js_eval] quote_def [js_eval] wrap_def [js_eval]
  json_stringify2_def [js_eval] json_stringify_def [js_eval]

end
