(* ===== verification/Sandbox.thy ===== *)
theory Sandbox
  imports React_Dom Types_Model Js_Stringify
begin

text \<open>
  \<open>viewer/src/components/InteractiveSandbox.tsx\<close>: the two-pane contract editor and the
  single-pane code auditor. The component has no state of its own; the fields it edits are
  the record \<open>sandbox\<close>, which the application's state extends.
\<close>

datatype SandboxMode = OPENAPI | PYTHON | GO | TYPESCRIPT

fun mode_str :: "SandboxMode \<Rightarrow> string" where
  "mode_str OPENAPI = ''OPENAPI''"
| "mode_str PYTHON = ''PYTHON''"
| "mode_str GO = ''GO''"
| "mode_str TYPESCRIPT = ''TYPESCRIPT''"

text \<open>The cast \<open>e.target.value as SandboxMode\<close>; \<open>None\<close> for a text that is no mode.\<close>

definition mode_of :: "jstr \<Rightarrow> SandboxMode option" where
  "mode_of s = List.find (\<lambda>m. js (mode_str m) = s) [OPENAPI, PYTHON, GO, TYPESCRIPT]"

record sandbox =
  sandboxMode :: SandboxMode
  sandboxBase :: jstr
  sandboxTarget :: jstr
  sourceCode :: jstr

section \<open>Format detection\<close>

record stats =
  format :: string
  valid :: bool
  word_count :: nat
  line_count :: nat

definition getFormatAndValidation :: "SandboxMode \<Rightarrow> jstr \<Rightarrow> stats" where
  "getFormatAndValidation mode code =
     (let words = length (filter (\<lambda>w. w \<noteq> []) (split_spaces (js_trim code)));
          lines = length (split_char 10 code);
          (fmt, ok) =
            (if starts_with (js_trim code) (js ''{'') \<or> starts_with (js_trim code) (js ''['')
             then (''JSON'', json_parse code \<noteq> None)
             else if js_trim code \<noteq> [] \<and> \<not> js_includes code (js ''{'') \<and> js_includes code (js '':'')
             then (''YAML'', \<not> js_includes code [9])
             else if mode = PYTHON then (''Python'', True)
             else if mode = GO then (''Go'', True)
             else if mode = TYPESCRIPT then (''TypeScript'', True)
             else (''Unknown'', True))
      in \<lparr>format = fmt, valid = ok, word_count = words, line_count = lines\<rparr>)"

section \<open>Editing actions\<close>

datatype pane = Base | Target | Source

fun pane_text :: "pane \<Rightarrow> 'a sandbox_scheme \<Rightarrow> jstr" where
  "pane_text Base s = sandboxBase s"
| "pane_text Target s = sandboxTarget s"
| "pane_text Source s = sourceCode s"

fun set_pane :: "pane \<Rightarrow> jstr \<Rightarrow> 'a sandbox_scheme \<Rightarrow> 'a sandbox_scheme" where
  "set_pane Base t s = s\<lparr>sandboxBase := t\<rparr>"
| "set_pane Target t s = s\<lparr>sandboxTarget := t\<rparr>"
| "set_pane Source t s = s\<lparr>sourceCode := t\<rparr>"

text \<open>\<open>formatJSON\<close>: the new text, or the exception that leads to the alert.\<close>

definition formatJSON :: "jstr \<Rightarrow> jstr res" where
  "formatJSON code =
     ebind (json_parse_res code) (\<lambda>obj.
       case json_stringify2 obj of Some t \<Rightarrow> Inr t | None \<Rightarrow> Inl TypeErr)"

definition clear_all :: "'a sandbox_scheme \<Rightarrow> 'a sandbox_scheme" where
  "clear_all s = s\<lparr>sandboxBase := [], sandboxTarget := [], sourceCode := []\<rparr>"

text \<open>
  The actions of the panel. Upload and drop give the contents of the selected files, of which
  there may be none.
\<close>

datatype sandbox_act =
    SetSandboxMode jstr
  | SetPane pane jstr
  | ClearAll
  | ExecuteSandboxDiff
  | LoadSample jstr
  | FormatJson pane
  | FileUpload pane "jstr list"
  | FileDrop pane "jstr list"

text \<open>The file the handlers start reading: the first of the selection, if there is one.\<close>

definition handleFileUpload :: "jstr list \<Rightarrow> jstr option" where
  "handleFileUpload files = (case files of [] \<Rightarrow> None | file # _ \<Rightarrow> Some file)"

definition handleDrop :: "jstr list \<Rightarrow> jstr option" where
  "handleDrop files = (case files of [] \<Rightarrow> None | file # _ \<Rightarrow> Some file)"

section \<open>Derived display values\<close>

fun monacoLanguage :: "SandboxMode \<Rightarrow> string" where
  "monacoLanguage PYTHON = ''python''"
| "monacoLanguage GO = ''go''"
| "monacoLanguage TYPESCRIPT = ''typescript''"
| "monacoLanguage OPENAPI = ''json''"

definition has_changes :: "jsval \<Rightarrow> bool res" where
  "has_changes changes = ebind (get changes (js ''length'')) gt0"

fun find_code_pair :: "jsval list \<Rightarrow> jsval res" where
  "find_code_pair [] = Inr JUndef"
| "find_code_pair (c # cs) =
     ebind (get c (js ''oldCode'')) (\<lambda>old.
     ebind (if truthy old then get c (js ''newCode'') else Inr old) (\<lambda>both.
       if truthy both then Inr c else find_code_pair cs))"

definition activeDiff :: "SandboxMode \<Rightarrow> jsval \<Rightarrow> jsval res" where
  "activeDiff mode changes =
     (if mode = OPENAPI then Inr JNull
      else ebind (has_changes changes) (\<lambda>some.
        if some then ebind (elements changes) find_code_pair else Inr JNull))"

definition actionButtonText :: "bool \<Rightarrow> SandboxMode \<Rightarrow> string" where
  "actionButtonText isSubmitting mode =
     (if isSubmitting then ''Running AST Inspection...''
      else case mode of
             OPENAPI \<Rightarrow> ''Run Semantic Diff''
           | PYTHON \<Rightarrow> ''Audit Python Deprecations''
           | GO \<Rightarrow> ''Audit Go Deprecations''
           | TYPESCRIPT \<Rightarrow> ''Audit TypeScript Code'')"

end
