(* ===== verification/Sandbox_View.thy ===== *)
theory Sandbox_View
  imports Sandbox
begin

text \<open>
  What \<open>InteractiveSandbox\<close> renders. The rows of findings read properties of values that
  came from the network, so rendering may throw.
\<close>

definition mode_option :: "SandboxMode \<Rightarrow> string \<Rightarrow> sandbox_act node" where
  "mode_option m caption = Elem ''option'' [Value (js (mode_str m))] [label caption]"

definition mode_select :: "SandboxMode \<Rightarrow> sandbox_act node" where
  "mode_select mode =
     Elem ''select'' [Value (js (mode_str mode)), OnSelect SetSandboxMode]
      [mode_option OPENAPI ''OpenAPI Contract Diff'',
       mode_option PYTHON ''Python 2 -> 3 Migration'',
       mode_option GO ''Go Deprecation Audit'',
       mode_option TYPESCRIPT ''TypeScript Modernization'']"

text \<open>The values of the sample menu, in its order.\<close>

definition sample_names :: "string list" where
  "sample_names =
     [''OpenAPI: Breaking Required Field'',
      ''OpenAPI: Breaking Enum Removal'',
      ''OpenAPI: Removed Endpoint'',
      ''Python 2 -> Python 3: Legacy EVE-style Code Migration'',
      ''Go: Migrate deprecated io/ioutil package'',
      ''TypeScript: Migrate legacy var keyword'']"

definition sample_captions :: "string list" where
  "sample_captions =
     [''OpenAPI: Breaking Required Field'',
      ''OpenAPI: Breaking Enum Removal'',
      ''OpenAPI: Removed Endpoint'',
      ''Python 2 -> 3: Legacy urllib2 & print'',
      ''Go: Migrate deprecated io/ioutil'',
      ''TypeScript: Modernize var to const/let'']"

definition sample_select :: "sandbox_act node" where
  "sample_select =
     Elem ''select'' [OnSelect LoadSample, Prop ''defaultValue'' []]
      (Elem ''option'' [Value [], Disabled True] [label ''Load Sample...'']
       # map (\<lambda>(n, c). Elem ''option'' [Value (js n)] [label c]) (zip sample_names sample_captions))"

definition toolbar :: "bool \<Rightarrow> SandboxMode \<Rightarrow> sandbox_act node" where
  "toolbar isSubmitting mode =
     Elem ''div'' []
      [Elem ''div'' []
        [Elem ''h2'' [] [icon ''SplitSquareHorizontal'', label '' Sandbox''],
         mode_select mode],
       Elem ''div'' []
        [sample_select,
         Elem ''button'' [OnClick ClearAll] [icon ''Trash2'', label '' Clear''],
         Elem ''button'' [OnClick ExecuteSandboxDiff, Disabled isSubmitting]
          [icon ''Play'', label '' '', label (actionButtonText isSubmitting mode)]]]"

definition upload :: "pane \<Rightarrow> sandbox_act node" where
  "upload p = Elem ''label'' [] [icon ''Upload'',
     Elem ''input'' [Prop ''type'' (js ''file''), OnFile (FileUpload p)] []]"

definition counts :: "stats \<Rightarrow> sandbox_act node" where
  "counts st = Elem ''div'' []
     [Elem ''span'' [] [Text (dec (line_count st)), label '' Lines''],
      Elem ''span'' [] [Text (dec (word_count st)), label '' Words'']]"

text \<open>One of the two contract panes.\<close>

definition spec_pane :: "pane \<Rightarrow> string \<Rightarrow> stats \<Rightarrow> jstr \<Rightarrow> sandbox_act node" where
  "spec_pane p title st code =
     Elem ''div'' [OnFile (FileDrop p)]
      [Elem ''div'' []
        [Elem ''h3'' [] [icon ''FileJson'', label title],
         Elem ''div'' []
          [Elem ''span''
            [Cls (if valid st then ''bg-emerald-500/20 text-emerald-400'' else ''bg-rose-500/20 text-rose-400'')]
            [label (if valid st then ''VALID'' else ''INVALID''), label '' '', label (format st)],
           Elem ''button'' [OnClick (FormatJson p)] [icon ''AlignLeft''],
           upload p]],
       Elem ''textarea''
        [Value code, OnText (SetPane p),
         Cls (if valid st then ''border-slate-700'' else ''border-rose-500/50'')] [],
       counts st]"

definition openapi_panes :: "'a sandbox_scheme \<Rightarrow> sandbox_act node" where
  "openapi_panes s =
     Elem ''div'' []
      [spec_pane Base '' Base Spec (v1)'' (getFormatAndValidation (sandboxMode s) (sandboxBase s)) (sandboxBase s),
       spec_pane Target '' Target Spec (v2)'' (getFormatAndValidation (sandboxMode s) (sandboxTarget s)) (sandboxTarget s)]"

text \<open>A finding of the list below the code.\<close>

definition finding_row :: "jsval \<Rightarrow> sandbox_act node res" where
  "finding_row change =
     ebind (get change (js ''severity'')) (\<lambda>severity.
     ebind (child (js_or severity (JStr (js ''BREAKING'')))) (\<lambda>sev.
     ebind (child (js_or (opt_get change (js ''line'')) (opt_get change (js ''path'')))) (\<lambda>place.
     ebind (child (opt_get change (js ''description''))) (\<lambda>descr.
     ebind (and_child (opt_get change (js ''citation''))
              (ebind (child (opt_get change (js ''citation''))) (\<lambda>c. Inr [Elem ''p'' [] c]))) (\<lambda>cite.
     ebind (and_child (opt_get change (js ''proposed_fix''))
              (ebind (child (opt_get change (js ''proposed_fix''))) (\<lambda>c.
                 Inr [Elem ''div'' [] [icon ''CheckCircle2'', Elem ''span'' [] (label ''Fix: '' # c)]]))) (\<lambda>fix.
       Inr (Elem ''div'' []
             ([Elem ''div'' []
                [Elem ''span''
                  [Cls (if severity = JStr (js ''BREAKING'')
                        then ''bg-rose-500/20 text-rose-400 border border-rose-500/40''
                        else ''bg-amber-500/20 text-amber-400 border border-amber-500/40'')] sev,
                 Elem ''span'' [] place],
               Elem ''p'' [] descr] @ cite @ fix))))))))"

definition findings_list :: "jsval \<Rightarrow> sandbox_act node list res" where
  "findings_list changes =
     ebind (has_changes changes) (\<lambda>some.
       if some then
         ebind (elements changes) (\<lambda>cs.
         ebind (emap finding_row cs) (\<lambda>rows.
           Inr [Elem ''div'' []
                 [Elem ''h4'' []
                   [icon ''AlertTriangle'', label ''AST Migration Findings ('',
                    Text (dec (length cs)), label '')''],
                  Elem ''div'' [] rows]]))
       else Inr [])"

definition code_editor :: "'a sandbox_scheme \<Rightarrow> jsval \<Rightarrow> sandbox_act node res" where
  "code_editor s active =
     (if truthy active then
        ebind (get active (js ''oldCode'')) (\<lambda>old.
        ebind (get active (js ''newCode'')) (\<lambda>new.
          Inr (Elem ''div'' []
            [Elem ''DiffEditor''
              [Prop ''language'' (js (monacoLanguage (sandboxMode s))),
               Data ''original'' old, Data ''modified'' new, Prop ''readOnly'' (js ''true'')] []])))
      else Inr (Elem ''textarea'' [Value (sourceCode s), OnText (SetPane Source)] []))"

definition code_pane :: "'a sandbox_scheme \<Rightarrow> jsval \<Rightarrow> jsval \<Rightarrow> sandbox_act node res" where
  "code_pane s active changes =
     (let st = getFormatAndValidation (sandboxMode s) (sourceCode s)
      in ebind (code_editor s active) (\<lambda>editor.
         ebind (findings_list changes) (\<lambda>found.
           Inr (Elem ''div'' []
            ([Elem ''div'' [OnFile (FileDrop Source)]
               [Elem ''div'' []
                 [Elem ''h3'' []
                   [icon ''Terminal'', label '' Source Code ('', label (mode_str (sandboxMode s)), label '')''],
                  Elem ''div'' [] [Elem ''span'' [] [label (format st)], upload Source]],
                editor,
                counts st]] @ found)))))"

definition render_sandbox :: "'a sandbox_scheme \<Rightarrow> bool \<Rightarrow> jsval \<Rightarrow> sandbox_act node res" where
  "render_sandbox s isSubmitting changes =
     ebind (activeDiff (sandboxMode s) changes) (\<lambda>active.
     ebind (if sandboxMode s = OPENAPI then Inr (openapi_panes s) else code_pane s active changes) (\<lambda>body.
       Inr (Elem ''div'' [] [Elem ''div'' [] [toolbar isSubmitting (sandboxMode s), body]])))"

end
