(* ===== verification/Override_Modal.thy ===== *)
theory Override_Modal
  imports React_Dom
begin

text \<open>
  \<open>viewer/src/components/OverrideModal.tsx\<close>: the governance form. Its own state is the
  two acknowledgements; the note and the submission flag belong to the application.
\<close>

datatype modal_act =
    SetShowModal bool
  | SetOverrideNote jstr
  | SetAckRisk bool
  | SetAckPolicy bool
  | HandleOverride

record modal =
  ackRisk :: bool
  ackPolicy :: bool

definition modal_init :: modal where
  "modal_init = \<lparr>ackRisk = False, ackPolicy = False\<rparr>"

text \<open>The actions on the component's own state; the others are callbacks of the parent.\<close>

fun modal_local :: "modal_act \<Rightarrow> modal \<Rightarrow> modal" where
  "modal_local (SetAckRisk b) m = m\<lparr>ackRisk := b\<rparr>"
| "modal_local (SetAckPolicy b) m = m\<lparr>ackPolicy := b\<rparr>"
| "modal_local _ m = m"

definition canSubmit :: "jstr \<Rightarrow> bool \<Rightarrow> modal \<Rightarrow> bool" where
  "canSubmit overrideNote isSubmitting m \<longleftrightarrow>
     0 < length (js_trim overrideNote) \<and> ackRisk m \<and> ackPolicy m \<and> \<not> isSubmitting"

definition render_modal :: "jstr \<Rightarrow> bool \<Rightarrow> modal \<Rightarrow> modal_act node" where
  "render_modal overrideNote isSubmitting m =
     Elem ''div'' []
      [Elem ''div'' []
        [Elem ''div'' [] [],
         Elem ''div'' []
          [Elem ''h3'' [] [icon ''ShieldAlert'', label '' SYSTEM.OVERRIDE_GOVERNANCE''],
           Elem ''button'' [OnClick (SetShowModal False)] [Text [10005]]],
         Elem ''div'' []
          [Elem ''label'' [] [label ''Enter Justification Log:''],
           Elem ''textarea'' [Value overrideNote, OnText SetOverrideNote] []],
         Elem ''div'' []
          [Elem ''label'' []
            [Elem ''input'' [Prop ''type'' (js ''checkbox''), Checked (ackRisk m), OnCheck SetAckRisk] [],
             label ''I acknowledge the security and stability risks of this override.''],
           Elem ''label'' []
            [Elem ''input'' [Prop ''type'' (js ''checkbox''), Checked (ackPolicy m), OnCheck SetAckPolicy] [],
             label ''I have verified this bypass complies with TM3L security policies.'']],
         Elem ''div'' []
          [Elem ''button'' [OnClick (SetShowModal False)] [label ''Abort''],
           Elem ''button''
            [OnClick HandleOverride,
             Disabled (\<not> canSubmit overrideNote isSubmitting m),
             Cls (if canSubmit overrideNote isSubmitting m
                  then ''bg-rose-500/20 text-rose-400 border-rose-500 hover:bg-rose-500/30''
                  else ''bg-slate-800/50 text-slate-500 border-slate-700 cursor-not-allowed'')]
            [label (if isSubmitting then ''Signing...'' else ''Acknowledge & Override'')]]]]"

lemma render_modal_fires:
  "fires (render_modal note busy m) =
     {SetShowModal False} \<union> range SetOverrideNote \<union> range SetAckRisk \<union> range SetAckPolicy
     \<union> (if canSubmit note busy m then {HandleOverride} else {})"
  by (auto simp: render_modal_def)

lemma canSubmit_blank: "canSubmit note busy m \<Longrightarrow> \<not> blank note"
  by (simp add: canSubmit_def js_trim_Nil)

section \<open>The gate\<close>

text \<open>
  The form's submit button works exactly when the note holds a character that is not
  white space, both acknowledgements are ticked and nothing is being submitted.
\<close>

theorem form_submits_iff:
  "HandleOverride \<in> fires (render_modal overrideNote isSubmitting m) \<longleftrightarrow>
     \<not> blank overrideNote \<and> ackRisk m \<and> ackPolicy m \<and> \<not> isSubmitting"
  by (auto simp: render_modal_fires canSubmit_def js_trim_Nil)

end
