(* ===== verification/Js_Regex.thy ===== *)
theory Js_Regex
  imports Js_Strings
begin

text \<open>
  The regular expressions the viewer uses, with the matching of the standard library: a
  pattern is a sequence of items, matched left to right with backtracking; a greedy item
  tries the longest run first. \<open>replace_all\<close> is \<open>String.prototype.replace\<close> with the
  flag \<open>g\<close>: it scans for the leftmost match, writes the replacement, and goes on after the
  match.
\<close>

section \<open>Patterns\<close>

text \<open>
  \<open>Chr c\<close> is a literal character; \<open>Some1 P\<close> is a greedy run of at least one
  character of a class, \<open>[..]+\<close>; \<open>Cap1 P\<close> is the same inside a capturing group;
  \<open>Bound\<close> is \<open>\\b\<close>.
\<close>

datatype ritem = Chr nat | Some1 "nat \<Rightarrow> bool" | Cap1 "nat \<Rightarrow> bool" | Bound

type_synonym regex = "ritem list"

definition lit :: "jstr \<Rightarrow> regex" where
  "lit s = map Chr s"

definition word_at :: "nat option \<Rightarrow> bool" where
  "word_at c = (case c of None \<Rightarrow> False | Some d \<Rightarrow> is_word d)"

definition hd_opt :: "'a list \<Rightarrow> 'a option" where
  "hd_opt xs = (case xs of [] \<Rightarrow> None | x # _ \<Rightarrow> Some x)"

definition last_opt :: "'a option \<Rightarrow> 'a list \<Rightarrow> 'a option" where
  "last_opt d xs = (if xs = [] then d else Some (last xs))"

lemma hd_opt_simps [simp, js_eval]: "hd_opt [] = None" "hd_opt (x # xs) = Some x"
  by (simp_all add: hd_opt_def)

lemma last_opt_simps [simp, js_eval]:
  "last_opt d [] = d" "last_opt d (x # xs) = last_opt (Some x) xs"
  by (simp_all add: last_opt_def)

text \<open>Trying \<open>n, n - 1, ..., 1\<close> until one succeeds: the backtracking of a greedy run.\<close>

fun try_down :: "(nat \<Rightarrow> 'a option) \<Rightarrow> nat \<Rightarrow> 'a option" where
  "try_down f 0 = None"
| "try_down f (Suc n) = (case f (Suc n) of Some r \<Rightarrow> Some r | None \<Rightarrow> try_down f n)"

text \<open>
  \<open>rmatch re prev s\<close> matches \<open>re\<close> at the start of \<open>s\<close>, where \<open>prev\<close> is the
  character before; the result is the matched text, the captures in order, and the rest.
\<close>

fun rmatch :: "regex \<Rightarrow> nat option \<Rightarrow> jstr \<Rightarrow> (jstr \<times> jstr list \<times> jstr) option" where
  "rmatch [] prev s = Some ([], [], s)"
| "rmatch (Chr c # re) prev s =
     (case s of [] \<Rightarrow> None
      | d # ds \<Rightarrow> if c = d
          then map_option (\<lambda>(m, caps, r). (d # m, caps, r)) (rmatch re (Some d) ds) else None)"
| "rmatch (Some1 P # re) prev s =
     try_down (\<lambda>n. map_option (\<lambda>(m, caps, r). (take n s @ m, caps, r))
                     (rmatch re (last_opt prev (take n s)) (drop n s)))
       (length (takeWhile P s))"
| "rmatch (Cap1 P # re) prev s =
     try_down (\<lambda>n. map_option (\<lambda>(m, caps, r). (take n s @ m, take n s # caps, r))
                     (rmatch re (last_opt prev (take n s)) (drop n s)))
       (length (takeWhile P s))"
| "rmatch (Bound # re) prev s =
     (if word_at prev \<noteq> word_at (hd_opt s) then rmatch re prev s else None)"

declare lit_def [js_eval] word_at_def [js_eval]

lemma try_down_Some: "try_down f n = Some r \<Longrightarrow> \<exists>k. 0 < k \<and> k \<le> n \<and> f k = Some r"
  by (induction n) (auto split: option.splits simp: le_Suc_eq)

lemma try_down_prefix:
  assumes "try_down (\<lambda>n. map_option (\<lambda>(m, caps, r). (take n s @ m, g n caps, r)) (h n)) k
    = Some (m, caps, r)"
  obtains n m' caps' where "h n = Some (m', caps', r)" "m = take n s @ m'"
  using try_down_Some [OF assms] by auto

lemma rmatch_append: "rmatch re prev s = Some (m, caps, r) \<Longrightarrow> s = m @ r"
proof (induction re prev s arbitrary: m caps r rule: rmatch.induct)
  case (2 c re prev s)
  then show ?case by (auto split: list.splits if_splits)
next
  case (3 P re prev s)
  from "3.prems" obtain k m' caps' where
    "rmatch re (last_opt prev (take k s)) (drop k s) = Some (m', caps', r)" "m = take k s @ m'"
    unfolding rmatch.simps by (rule try_down_prefix)
  with "3.IH" show ?case by (metis append.assoc append_take_drop_id)
next
  case (4 P re prev s)
  from "4.prems" obtain k m' caps' where
    "rmatch re (last_opt prev (take k s)) (drop k s) = Some (m', caps', r)" "m = take k s @ m'"
    unfolding rmatch.simps by (rule try_down_prefix)
  with "4.IH" show ?case by (metis append.assoc append_take_drop_id)
qed (auto split: if_splits)

section \<open>Replacing every match\<close>

text \<open>
  After an empty match the scan moves on by one character, as \<open>lastIndex\<close> does; the
  patterns of the viewer never match the empty string.
\<close>

function replace_all :: "regex \<Rightarrow> (jstr list \<Rightarrow> jstr) \<Rightarrow> nat option \<Rightarrow> jstr \<Rightarrow> jstr" where
  "replace_all re rep prev s =
     (case rmatch re prev s of
        Some (m, caps, r) \<Rightarrow>
          if m = []
          then rep caps @ (case s of [] \<Rightarrow> [] | c # cs \<Rightarrow> c # replace_all re rep (Some c) cs)
          else rep caps @ replace_all re rep (Some (last m)) r
      | None \<Rightarrow> (case s of [] \<Rightarrow> [] | c # cs \<Rightarrow> c # replace_all re rep (Some c) cs))"
  by pat_completeness auto
termination
  by (relation "measure (\<lambda>(re, rep, prev, s). length s)") (auto dest: rmatch_append)

declare replace_all.simps [simp del]

definition js_replace :: "regex \<Rightarrow> (jstr list \<Rightarrow> jstr) \<Rightarrow> jstr \<Rightarrow> jstr" where
  "js_replace re rep s = replace_all re rep None s"

text \<open>A pattern occurs in a string when it matches at some position of it.\<close>

fun occurs :: "regex \<Rightarrow> nat option \<Rightarrow> jstr \<Rightarrow> bool" where
  "occurs re prev [] = (rmatch re prev [] \<noteq> None)"
| "occurs re prev (c # cs) = (rmatch re prev (c # cs) \<noteq> None \<or> occurs re (Some c) cs)"

text \<open>Text in which the pattern does not occur is left as it is.\<close>

lemma replace_all_no_match: "\<not> occurs re prev s \<Longrightarrow> replace_all re rep prev s = s"
proof (induction s arbitrary: prev)
  case Nil
  then have "rmatch re prev [] = None" by (cases "rmatch re prev []") auto
  then show ?case by (simp add: replace_all.simps [of re rep prev "[]"])
next
  case (Cons c cs)
  then have "rmatch re prev (c # cs) = None" "\<not> occurs re (Some c) cs"
    by (cases "rmatch re prev (c # cs)"; auto)+
  with Cons.IH show ?case by (simp add: replace_all.simps [of re rep prev "c # cs"])
qed

lemma replace_all_miss:
  "rmatch re prev (c # cs) = None \<Longrightarrow>
   replace_all re rep prev (c # cs) = c # replace_all re rep (Some c) cs"
  by (simp add: replace_all.simps [of re rep prev "c # cs"])

lemma replace_all_hit:
  "rmatch re prev s = Some (m, caps, r) \<Longrightarrow> m \<noteq> [] \<Longrightarrow>
   replace_all re rep prev s = rep caps @ replace_all re rep (Some (last m)) r"
  by (simp add: replace_all.simps [of re rep prev s])

lemma replace_all_Nil: "rmatch re prev [] = None \<Longrightarrow> replace_all re rep prev [] = []"
  by (simp add: replace_all.simps [of re rep prev "[]"])

section \<open>Literal patterns\<close>

lemma rmatch_lit:
  "rmatch (lit p) prev s = (if starts_with s p then Some (p, [], drop (length p) s) else None)"
proof (induction p arbitrary: prev s)
  case (Cons x p)
  then show ?case by (cases s) (auto simp: lit_def)
qed (simp add: lit_def)

text \<open>
  The reference for a literal pattern: replace the leftmost occurrence and go on behind it.
  The general engine agrees with it.
\<close>

function replace_lit :: "jstr \<Rightarrow> jstr \<Rightarrow> jstr \<Rightarrow> jstr" where
  "replace_lit p new s =
     (if p = [] then s
      else if starts_with s p then new @ replace_lit p new (drop (length p) s)
      else (case s of [] \<Rightarrow> [] | c # cs \<Rightarrow> c # replace_lit p new cs))"
  by pat_completeness auto
termination
proof (relation "measure (\<lambda>(p, new, s). length s)", goal_cases)
  case (2 p new s)
  then show ?case by (cases p; cases s) auto
qed auto

declare replace_lit.simps [simp del]

lemma replace_all_lit:
  "p \<noteq> [] \<Longrightarrow> replace_all (lit p) (\<lambda>_. new) prev s = replace_lit p new s"
proof (induction p new s arbitrary: prev rule: replace_lit.induct)
  case (1 p new s)
  show ?case
  proof (cases "starts_with s p")
    case True
    with 1 show ?thesis
      by (subst replace_lit.simps)
        (simp add: replace_all_hit [OF _ "1.prems"] rmatch_lit)
  next
    case False
    with 1 show ?thesis
      by (subst replace_lit.simps)
        (auto simp: rmatch_lit replace_all_miss replace_all_Nil split: list.splits)
  qed
qed

lemma occurs_lit: "occurs (lit p) prev s \<longleftrightarrow> js_includes s p"
  by (induction s arbitrary: prev) (auto simp: rmatch_lit elim: starts_with.elims)

section \<open>Whole words\<close>

definition whole_word :: "jstr \<Rightarrow> regex" where
  "whole_word w = Bound # lit w @ [Bound]"

lemma rmatch_lit_append:
  "rmatch (lit p @ re) prev s =
     (if starts_with s p
      then map_option (\<lambda>(m, caps, r). (p @ m, caps, r))
             (rmatch re (last_opt prev p) (drop (length p) s))
      else None)"
proof (induction p arbitrary: prev s)
  case Nil
  then show ?case by (simp add: lit_def option.map_ident case_prod_unfold)
next
  case (Cons x p)
  then show ?case
    by (cases s) (auto simp: lit_def option.map_comp comp_def case_prod_unfold)
qed

lemma rmatch_whole_word:
  assumes "w \<noteq> []" "list_all is_word w"
  shows "rmatch (whole_word w) prev s =
    (if \<not> word_at prev \<and> starts_with s w \<and> \<not> word_at (hd_opt (drop (length w) s))
     then Some (w, [], drop (length w) s) else None)"
proof (cases "starts_with s w")
  case True
  then obtain r where s: "s = w @ r" by (auto simp: starts_with_iff)
  have "word_at (hd_opt s)" "word_at (last_opt prev w)"
    using assms s by (cases w; auto simp: word_at_def last_opt_def list_all_iff)+
  with True show ?thesis
    by (simp add: whole_word_def rmatch_lit_append)
next
  case False
  then show ?thesis by (simp add: whole_word_def rmatch_lit_append)
qed

end
