(* ===== verification/Migration.thy ===== *)
theory Migration
  imports Js_Regex Js_Value Sandbox
begin

text \<open>
  The local code audits of \<open>App.tsx\<close> (\<open>executeSandboxDiff\<close>): the rewritten source of each
  language, and the one finding the viewer shows for it.
\<close>

section \<open>Rewrites\<close>

text \<open>\<open>print\<close>, white space, a quoted run: one pattern per kind of quote.\<close>

definition print_quoted :: "nat \<Rightarrow> regex" where
  "print_quoted q = lit (js ''print'') @ [Some1 is_space, Chr q, Cap1 (\<lambda>c. c \<noteq> q), Chr q]"

definition print_call :: "nat \<Rightarrow> jstr list \<Rightarrow> jstr" where
  "print_call q caps = js ''print('' @ [q] @ concat (take 1 caps) @ [q] @ js '')''"

definition rewrite_python :: "jstr \<Rightarrow> jstr" where
  "rewrite_python src =
     (let s1 = js_replace (lit (js ''import urllib2'')) (\<lambda>_. js ''import urllib.request'') src;
          s2 = js_replace (print_quoted 34) (print_call 34) s1;
          s3 = js_replace (print_quoted 39) (print_call 39) s2;
          s4 = js_replace (lit (js ''xrange('')) (\<lambda>_. js ''range('') s3
      in js_replace (lit (js ''unicode('')) (\<lambda>_. js ''str('') s4)"

definition rewrite_go :: "jstr \<Rightarrow> jstr" where
  "rewrite_go src =
     (let s1 = js_replace (lit (js ''\"io/ioutil\"'')) (\<lambda>_. js ''\"io\"'' @ [10, 9] @ js ''\"os\"'') src
      in js_replace (lit (js ''ioutil.ReadFile'')) (\<lambda>_. js ''os.ReadFile'') s1)"

definition rewrite_typescript :: "jstr \<Rightarrow> jstr" where
  "rewrite_typescript src = js_replace (whole_word (js ''var'')) (\<lambda>_. js ''const'') src"

section \<open>Findings\<close>

definition finding ::
  "string \<Rightarrow> string \<Rightarrow> string \<Rightarrow> string \<Rightarrow> string \<Rightarrow> string \<Rightarrow> jstr \<Rightarrow> jstr \<Rightarrow> jsval" where
  "finding severity path citation description proposed_fix line old new =
     JObj [(js ''severity'', JStr (js severity)), (js ''path'', JStr (js path)),
           (js ''citation'', JStr (js citation)), (js ''description'', JStr (js description)),
           (js ''proposed_fix'', JStr (js proposed_fix)), (js ''line'', JStr (js line)),
           (js ''oldCode'', JStr old), (js ''newCode'', JStr new)]"

definition python_finding :: "jstr \<Rightarrow> jsval" where
  "python_finding src = finding ''BREAKING'' ''main.py'' ''PEP 3105 / PEP 3108''
     ''Legacy urllib2 module and unparenthesized print statement detected.''
     ''Use print() function and urllib.request'' ''line:L1-L2'' src (rewrite_python src)"

definition go_finding :: "jstr \<Rightarrow> jsval" where
  "go_finding src = finding ''DANGEROUS'' ''main.go'' ''Go 1.16 Release Notes''
     ''Package 'io/ioutil' was deprecated in Go 1.16.''
     ''Use package 'io' or 'os' equivalents instead.'' ''line:L4'' src (rewrite_go src)"

definition typescript_finding :: "jstr \<Rightarrow> jsval" where
  "typescript_finding src = finding ''DANGEROUS'' ''app.ts'' ''TypeScript ESLint: no-var''
     ''Usage of 'var' keyword. Prefer 'const' or 'let' for block-scoped semantics.''
     ''Replace 'var' with 'const' or 'let'.'' ''line:L2'' src (rewrite_typescript src)"

text \<open>The findings of an audit; the contract mode has none of its own.\<close>

fun audit_changes :: "SandboxMode \<Rightarrow> jstr \<Rightarrow> jsval" where
  "audit_changes PYTHON src = JArr [python_finding src]"
| "audit_changes GO src = JArr [go_finding src]"
| "audit_changes TYPESCRIPT src = JArr [typescript_finding src]"
| "audit_changes OPENAPI src = JArr []"

end
