(* ===== verification/Prompt.thy ===== *)
theory Prompt
  imports React_Dom Types_Model Js_Json
begin

text \<open>
  The prompt compiler: its part of the state and its handlers of \<open>App.tsx\<close>
  (\<open>executePrompt\<close>, \<open>copyToClipboard\<close>, \<open>downloadMarkdown\<close>), and the panel of
  \<open>viewer/src/components/PromptCompiler.tsx\<close>.
\<close>

text \<open>What a \<open>fetch\<close> can come to: a rejected promise, or a response with \<open>ok\<close> and body.\<close>

datatype response = NetError | Resp bool jstr

record prompt =
  promptCode :: jstr
  promptLang :: jstr
  targetDockerfile :: bool
  targetCLI :: bool
  targetK8s :: bool
  targetCI :: bool
  promptResult :: jsval
  astAnalysis :: jsval
  isPrompting :: bool
  copySuccess :: bool

definition prompt_init :: prompt where
  "prompt_init =
     \<lparr>promptCode = js_lines [''import urllib2'', ''import numpy as np'', '''', ''def fetch():'',
        ''    raw = raw_input(\"Enter URL: \")'', ''    for i in xrange(10):'',
        ''        print \"Fetching\", i'', '''', ''if __name__ == \"__main__\":'',
        ''    fetch()'', ''''],
      promptLang = js ''Python'', targetDockerfile = True, targetCLI = True, targetK8s = False,
      targetCI = True, promptResult = JStr [], astAnalysis = JNull, isPrompting = False,
      copySuccess = False\<rparr>"

section \<open>Handlers\<close>

text \<open>The body of the request.\<close>

definition prompt_request :: "prompt \<Rightarrow> jsval" where
  "prompt_request p =
     JObj [(js ''source_code'', JStr (promptCode p)),
           (js ''targets'',
             JObj [(js ''docker'', JBool (targetDockerfile p)), (js ''cli'', JBool (targetCLI p)),
                   (js ''github_actions'', JBool (targetCI p)),
                   (js ''kubernetes'', JBool (targetK8s p))])]"

definition targets :: "prompt \<Rightarrow> jstr list" where
  "targets p =
     (if targetDockerfile p then [js ''Generate Multi-stage Dockerfile''] else [])
     @ (if targetCLI p then [js ''Generate Local Standalone Binary''] else [])
     @ (if targetCI p then [js ''Generate GitHub Actions CI Workflow''] else [])
     @ (if targetK8s p then [js ''Generate Kubernetes Deployment Spec''] else [])"

definition fence :: jstr where
  "fence = js ''```''"

definition code_section :: "prompt \<Rightarrow> jstr" where
  "code_section p = js_lines ['''', ''## Source Code'', ''''] @ fence @ [10] @ promptCode p
     @ [10] @ fence @ [10]"

text \<open>The text when the server answers with an error, and the one when it does not answer.\<close>

definition fallback_markdown :: "prompt \<Rightarrow> jstr" where
  "fallback_markdown p =
     js_lines [''# TM3L Deterministic Build System Prompt'', '''',
               ''> **Derived from AST Static Analyzer**'', '''', ''- **Language:** '']
     @ promptLang p @ [10] @ js ''- **Directives:** '' @ join (js '', '') (targets p) @ [10]
     @ code_section p"

definition offline_markdown :: "prompt \<Rightarrow> jstr" where
  "offline_markdown p =
     js_lines [''# TM3L Deterministic Build System Prompt'', '''', ''- **Language:** '']
     @ promptLang p @ [10] @ code_section p"

text \<open>
  The continuation of \<open>executePrompt\<close> after its awaits. \<open>p0\<close> is the state the closure
  was rendered with, \<open>p\<close> the state at the time of the response.
\<close>

definition prompt_done :: "prompt \<Rightarrow> response \<Rightarrow> prompt \<Rightarrow> prompt" where
  "prompt_done p0 r p =
     (let failed = p\<lparr>promptResult := JStr (offline_markdown p0)\<rparr>
      in (case r of
            NetError \<Rightarrow> failed
          | Resp ok body \<Rightarrow>
              if ok then
                (case json_parse_res body of
                   Inl _ \<Rightarrow> failed
                 | Inr data \<Rightarrow>
                     (case get data (js ''markdown'') of
                        Inl _ \<Rightarrow> failed
                      | Inr md \<Rightarrow> p\<lparr>promptResult := md,
                                    astAnalysis := opt_get data (js ''analysis''),
                                    copySuccess := False\<rparr>))
              else p\<lparr>promptResult := JStr (fallback_markdown p0), copySuccess := False\<rparr>)
         \<lparr>isPrompting := False\<rparr>)"

section \<open>The panel\<close>

datatype prompt_act =
    SetPromptLang jstr
  | SetPromptCode jstr
  | SetTargetDockerfile bool
  | SetTargetCLI bool
  | SetTargetCI bool
  | SetTargetK8s bool
  | ExecutePrompt
  | CopyToClipboard
  | DownloadMarkdown

text \<open>The setters; the three handlers are steps of the application.\<close>

fun prompt_set :: "prompt_act \<Rightarrow> prompt \<Rightarrow> prompt" where
  "prompt_set (SetPromptLang l) p = p\<lparr>promptLang := l\<rparr>"
| "prompt_set (SetPromptCode c) p = p\<lparr>promptCode := c\<rparr>"
| "prompt_set (SetTargetDockerfile b) p = p\<lparr>targetDockerfile := b\<rparr>"
| "prompt_set (SetTargetCLI b) p = p\<lparr>targetCLI := b\<rparr>"
| "prompt_set (SetTargetCI b) p = p\<lparr>targetCI := b\<rparr>"
| "prompt_set (SetTargetK8s b) p = p\<lparr>targetK8s := b\<rparr>"
| "prompt_set _ p = p"

definition lang_names :: "string list" where
  "lang_names = [''Python'', ''Go'', ''TypeScript'', ''JavaScript'', ''Shell'']"

definition prompt_toolbar :: "prompt \<Rightarrow> prompt_act node" where
  "prompt_toolbar p =
     Elem ''div'' []
      [Elem ''h2'' [] [icon ''Cpu'', label '' Deterministic Prompt Compiler''],
       Elem ''div'' []
        [Elem ''select'' [Value (promptLang p), OnSelect SetPromptLang]
          (map (\<lambda>l. Elem ''option'' [Value (js l)] [label l]) lang_names),
         Elem ''button'' [OnClick ExecutePrompt, Disabled (isPrompting p \<or> js_trim (promptCode p) = [])]
          [icon ''Play'', label '' '',
           label (if isPrompting p then ''Synthesizing...'' else ''Synthesize Prompt'')]]]"

definition target_boxes :: "prompt \<Rightarrow> prompt_act node" where
  "target_boxes p =
     Elem ''div'' []
      (map (\<lambda>(caption, state, set).
          Elem ''label'' []
           [Elem ''input'' [Prop ''type'' (js ''checkbox''), Checked state, OnCheck set] [],
            Elem ''span'' [] [label caption]])
        [(''Multi-stage Dockerfile'', targetDockerfile p, SetTargetDockerfile),
         (''Local Standalone Binary (PyInstaller/Go)'', targetCLI p, SetTargetCLI),
         (''GitHub Actions CI Workflow'', targetCI p, SetTargetCI),
         (''Kubernetes Deployment Spec'', targetK8s p, SetTargetK8s)])"

text \<open>A template literal converts its parts to strings.\<close>

definition language_line :: "prompt \<Rightarrow> jstr res" where
  "language_line p =
     (if truthy (astAnalysis p) then
        ebind (get (astAnalysis p) (js ''language'')) (\<lambda>lang.
        ebind (get lang (js ''name'')) (\<lambda>name.
        ebind (to_str name) (\<lambda>n.
        ebind (to_str (js_or (opt_get lang (js ''version'')) (JStr []))) (\<lambda>v.
        ebind (to_str (js_or (opt_get lang (js ''runtime'')) (JStr (js ''Standard'')))) (\<lambda>r.
          Inr (n @ js '' '' @ v @ js '' ('' @ r @ js '')''))))))
      else Inr (promptLang p))"

definition count_boxes :: "jsval \<Rightarrow> prompt_act node list res" where
  "count_boxes a =
     and_child a
      (ebind (child (opt_get a (js ''function_count''))) (\<lambda>f.
       ebind (child (opt_get a (js ''class_count''))) (\<lambda>c.
         Inr [Elem ''div'' []
               [Elem ''div'' [] [Elem ''span'' [] [label ''Functions''], Elem ''span'' [] f],
                Elem ''div'' [] [Elem ''span'' [] [label ''Classes/Structs''], Elem ''span'' [] c]]])))"

definition dep_badge :: "jsval \<Rightarrow> prompt_act node res" where
  "dep_badge dep =
     ebind (get dep (js ''is_c_extension'')) (\<lambda>cext.
     ebind (child (opt_get dep (js ''name''))) (\<lambda>name.
     ebind (and_child cext (Inr [Elem ''span'' [] [label ''C-Ext'']])) (\<lambda>tag.
       Inr (Elem ''span''
             [Cls (if truthy cext then ''bg-amber-500/20 text-amber-300 border-amber-500/40''
                   else ''bg-slate-800 text-slate-300 border-slate-700'')]
             (icon ''Box'' # name @ tag)))))"

definition dep_list :: "jsval \<Rightarrow> prompt_act node list res" where
  "dep_list a =
     ebind (if truthy a
            then ebind (get (opt_get a (js ''dependencies'')) (js ''length'')) gt0
            else Inr False) (\<lambda>some.
       if some then ebind (elements (opt_get a (js ''dependencies''))) (emap dep_badge)
       else Inr [Elem ''span'' [] [label ''No external dependencies'']])"

definition caveat_box :: "jsval \<Rightarrow> prompt_act node res" where
  "caveat_box c =
     ebind (get c (js ''severity'')) (\<lambda>sev.
     ebind (child sev) (\<lambda>s.
     ebind (child (opt_get c (js ''message''))) (\<lambda>m.
       let warn = (sev = JStr (js ''WARNING''))
       in Inr (Elem ''div''
             [Cls (if warn then ''bg-amber-500/10 border-amber-500/30 text-amber-300''
                   else ''bg-blue-500/10 border-blue-500/30 text-blue-300'')]
             (Elem ''div'' [] [icon (if warn then ''AlertTriangle'' else ''Info''), Elem ''span'' [] s] # m)))))"

definition caveat_list :: "jsval \<Rightarrow> prompt_act node list res" where
  "caveat_list a =
     (if truthy a then
        ebind (get (opt_get a (js ''caveats'')) (js ''length'')) (\<lambda>n.
        ebind (gt0 n) (\<lambda>some.
          if some then
            ebind (elements (opt_get a (js ''caveats''))) (\<lambda>cs.
            ebind (emap caveat_box cs) (\<lambda>boxes.
              Inr [Elem ''div'' [] (Elem ''span'' [] [label ''Packaging Caveats''] # boxes)]))
          else Inr []))
      else child a)"

definition facts_panel :: "prompt \<Rightarrow> prompt_act node res" where
  "facts_panel p =
     ebind (language_line p) (\<lambda>lang.
     ebind (count_boxes (astAnalysis p)) (\<lambda>boxes.
     ebind (dep_list (astAnalysis p)) (\<lambda>deps.
     ebind (caveat_list (astAnalysis p)) (\<lambda>caveats.
       Inr (Elem ''div'' []
            ([Elem ''h3'' [] [Elem ''span'' [] [label ''AST Facts''], Elem ''span'' [] [label ''Deterministic'']],
              Elem ''div'' [] [Elem ''span'' [] [label ''Language & Runtime''], Elem ''span'' [] [Text lang]]]
             @ boxes
             @ [Elem ''div'' [] [Elem ''span'' [] [label ''Detected Dependencies''], Elem ''div'' [] deps]]
             @ caveats))))))"

definition result_panel :: "prompt \<Rightarrow> prompt_act node list res" where
  "result_panel p =
     and_child (promptResult p)
      (ebind (child (promptResult p)) (\<lambda>code.
         Inr [Elem ''div'' []
               [Elem ''div'' []
                 [Elem ''h3'' [] [label ''Synthesized Output''],
                  Elem ''div'' []
                   [Elem ''button'' [OnClick CopyToClipboard]
                     [icon (if copySuccess p then ''Check'' else ''Copy''), label '' Copy''],
                    Elem ''button'' [OnClick DownloadMarkdown] [icon ''Download'', label '' Download .md'']]],
                Elem ''pre'' [] [Elem ''code'' [] code]]]))"

definition render_prompt :: "prompt \<Rightarrow> prompt_act node res" where
  "render_prompt p =
     ebind (facts_panel p) (\<lambda>facts.
     ebind (result_panel p) (\<lambda>result.
       Inr (Elem ''div'' []
        [Elem ''div'' []
          ([prompt_toolbar p,
            Elem ''div'' []
             [Elem ''div'' []
               [Elem ''div'' []
                 [Elem ''h3'' [] [label ''Source Code'', Elem ''span'' [] [label ''Tree-sitter AST Active'']],
                  Elem ''textarea''
                   [Value (promptCode p), OnText SetPromptCode,
                    Prop ''placeholder'' (js ''Paste arbitrary Source Code...'')] []],
                target_boxes p],
              facts]] @ result)])))"

end
