(* ===== verification/Monitor.thy ===== *)
theory Monitor
  imports React_Dom Types_Model Js_Stringify
begin

text \<open>
  \<open>viewer/src/components/CIMonitor.tsx\<close>: the live monitor and the collapsible tree of a
  change. The monitor's own state is which changes are expanded; each node of a mounted tree
  has a flag of its own, kept here under the change's index and the path of keys to the node.
\<close>

datatype Status = SAFE | WARNING | BREAKING
text \<open>The three states are ordered by how bad they are.\<close>

fun severity :: "Status \<Rightarrow> nat" where
  "severity SAFE = 0"
| "severity WARNING = 1"
| "severity BREAKING = 2"

lemma severity_inj: "severity a = severity b \<longleftrightarrow> a = b"
  by (cases a; cases b) simp_all

instantiation Status :: linorder
begin

definition less_eq_Status :: "Status \<Rightarrow> Status \<Rightarrow> bool" where
  "less_eq_Status a b \<longleftrightarrow> severity a \<le> severity b"

definition less_Status :: "Status \<Rightarrow> Status \<Rightarrow> bool" where
  "less_Status a b \<longleftrightarrow> severity a < severity b"

instance
  by standard (auto simp: less_eq_Status_def less_Status_def severity_inj [symmetric])

end

lemma breaking_greatest [simp]: "s \<le> BREAKING" "BREAKING \<le> s \<longleftrightarrow> s = BREAKING"
  by (cases s; simp add: less_eq_Status_def)+

datatype Connection = CONNECTING | CONNECTED | DISCONNECTED

fun status_str :: "Status \<Rightarrow> string" where
  "status_str SAFE = ''SAFE''"
| "status_str WARNING = ''WARNING''"
| "status_str BREAKING = ''BREAKING''"

fun connection_str :: "Connection \<Rightarrow> string" where
  "connection_str CONNECTING = ''CONNECTING''"
| "connection_str CONNECTED = ''CONNECTED''"
| "connection_str DISCONNECTED = ''DISCONNECTED''"

type_synonym tree_state = "jstr list \<Rightarrow> bool"

record monitor =
  expandedJson :: "nat \<Rightarrow> bool"
  treeOpen :: "nat \<Rightarrow> tree_state"

datatype monitor_act =
    OpenModal
  | ToggleJson nat
  | ToggleNode nat "jstr list"

text \<open>\<open>useState(isRoot)\<close>: the root starts expanded, every other node collapsed.\<close>

definition tree_init :: tree_state where
  "tree_init path \<longleftrightarrow> path = []"

definition monitor_init :: monitor where
  "monitor_init = \<lparr>expandedJson = (\<lambda>_. False), treeOpen = (\<lambda>_. tree_init)\<rparr>"

definition toggleJson :: "nat \<Rightarrow> monitor \<Rightarrow> monitor" where
  "toggleJson i m = m\<lparr>expandedJson := (expandedJson m)(i := \<not> expandedJson m i)\<rparr>"

definition toggleNode :: "nat \<Rightarrow> jstr list \<Rightarrow> monitor \<Rightarrow> monitor" where
  "toggleNode i path m =
     m\<lparr>treeOpen := (treeOpen m)(i := (treeOpen m i)(path := \<not> treeOpen m i path))\<rparr>"

fun monitor_local :: "monitor_act \<Rightarrow> monitor \<Rightarrow> monitor" where
  "monitor_local (ToggleJson i) m = toggleJson i m"
| "monitor_local (ToggleNode i path) m = toggleNode i path m"
| "monitor_local OpenModal m = m"

section \<open>The tree of a value\<close>

definition value_class :: "jsval \<Rightarrow> string" where
  "value_class v = (case v of JNum _ \<Rightarrow> ''text-cyan-400'' | JBool _ \<Rightarrow> ''text-rose-400''
     | JNull \<Rightarrow> ''text-slate-500'' | _ \<Rightarrow> ''text-emerald-400'')"

definition leaf_text :: "jsval \<Rightarrow> 'e node list" where
  "leaf_text v = (case json_stringify v of Some s \<Rightarrow> [Text s] | None \<Rightarrow> [])"

definition leaf_row :: "jstr \<Rightarrow> jsval \<Rightarrow> 'e node" where
  "leaf_row name v =
     Elem ''div'' [] [Elem ''span'' [] [Text name, label '':''], label '' '',
       Elem ''span'' [Cls (value_class v)] (leaf_text v)]"

text \<open>
  A container, given its rendered children: \<open>ex\<close> says which paths are expanded, the path
  is reversed (innermost key first).
\<close>

definition branch_row ::
  "tree_state \<Rightarrow> jstr list \<Rightarrow> jstr \<Rightarrow> string \<Rightarrow> string \<Rightarrow> jstr list node list \<Rightarrow> jstr list node" where
  "branch_row ex path name opn cls kids =
     (if kids = [] then
        Elem ''div'' [] [Elem ''span'' [] [Text name, label '':''], label '' '',
          Elem ''span'' [] [label (opn @ cls)]]
      else
        Elem ''div'' []
         ([Elem ''div'' [OnClick path]
            ([icon (if ex path then ''ChevronDown'' else ''ChevronRight''),
              Elem ''span'' [] [Text name], Elem ''span'' [] [label opn]]
             @ shown (\<not> ex path) [Elem ''span'' [] [label ''... '', label cls]])]
          @ shown (ex path) [Elem ''div'' [] kids]
          @ shown (ex path) [Elem ''div'' [] [label cls]]))"

fun json_tree :: "tree_state \<Rightarrow> jstr list \<Rightarrow> jstr \<Rightarrow> jsval \<Rightarrow> jstr list node"
  and json_elems :: "tree_state \<Rightarrow> jstr list \<Rightarrow> nat \<Rightarrow> jsval list \<Rightarrow> jstr list node list"
  and json_members :: "tree_state \<Rightarrow> jstr list \<Rightarrow> (jstr \<times> jsval) list \<Rightarrow> jstr list node list" where
  "json_tree ex path name (JArr vs) =
     branch_row ex path name ''['' '']'' (json_elems ex path 0 vs)"
| "json_tree ex path name (JObj ms) =
     branch_row ex path name ''{'' ''}'' (json_members ex path ms)"
| "json_tree ex path name v = leaf_row name v"
| "json_elems ex path i [] = []"
| "json_elems ex path i (v # vs) =
     json_tree ex (dec i # path) (dec i) v # json_elems ex path (Suc i) vs"
| "json_members ex path [] = []"
| "json_members ex path ((k, v) # ms) =
     json_tree ex (k # path) k v # json_members ex path ms"

section \<open>The monitor\<close>

definition status_icon :: "Status \<Rightarrow> 'e node list" where
  "status_icon st =
     shown (st = SAFE) [icon ''ShieldCheck''] @ shown (st = WARNING) [icon ''Shield'']
     @ shown (st = BREAKING) [icon ''ShieldAlert'']"

definition event_feed :: "jstr list \<Rightarrow> 'e node list" where
  "event_feed events =
     (if events = []
      then [Elem ''p'' [] [label ''Listening on port 8080... Waiting for CI dispatch.'']]
      else map (\<lambda>e. Elem ''div'' [] [Elem ''span'' [] [Elem ''LocalTime'' [] []], label '' '', Text e]) events)"

definition change_card :: "monitor \<Rightarrow> nat \<Rightarrow> jsval \<Rightarrow> monitor_act node res" where
  "change_card m i change =
     ebind (get change (js ''line'')) (\<lambda>line.
     ebind (child (if truthy line then line else JStr (js ''TARGET_PATH''))) (\<lambda>place.
     ebind (child (js_or (opt_get change (js ''path'')) (JStr (js ''N/A'')))) (\<lambda>path.
     ebind (child (js_or (opt_get change (js ''citation'')) (JStr (js ''N/A'')))) (\<lambda>cite.
     ebind (child (js_or (opt_get change (js ''proposed_fix'')) (JStr (js ''N/A'')))) (\<lambda>fixed.
       Inr (Elem ''div'' []
        ([Elem ''div'' []
           [Elem ''div'' []
             [Elem ''span'' [] ([icon ''FileJson'', label '' ''] @ place), Elem ''span'' [] path],
            Elem ''button'' [OnClick (ToggleJson i)]
             [label (if expandedJson m i then ''Collapse JSON'' else ''Expand JSON'')]],
          Elem ''div'' [] ([Elem ''span'' [] [label ''Citation:''], label '' ''] @ cite),
          Elem ''div'' []
           [icon ''CheckSquare'',
            Elem ''div'' [] [Elem ''span'' [] [label ''Proposed Fix:''], label '' '', Elem ''span'' [] fixed]]]
         @ shown (expandedJson m i)
            [Elem ''div'' []
              [Elem ''div'' [] [label ''AST_PAYLOAD.JSON''],
               Elem ''div'' []
                [map_node (ToggleNode i) (json_tree (treeOpen m i) [] (js ''change_payload'') change)]]])))))))"

fun change_cards :: "monitor \<Rightarrow> nat \<Rightarrow> jsval list \<Rightarrow> monitor_act node list res" where
  "change_cards m i [] = Inr []"
| "change_cards m i (c # cs) =
     ebind (change_card m i c) (\<lambda>n. ebind (change_cards m (Suc i) cs) (\<lambda>ns. Inr (n # ns)))"

definition blocked_panel :: "monitor \<Rightarrow> jsval \<Rightarrow> monitor_act node res" where
  "blocked_panel m changes =
     ebind (ebind (get changes (js ''length'')) gt0) (\<lambda>some.
     ebind (if some
            then ebind (elements changes) (\<lambda>cs. ebind (change_cards m 0 cs) (\<lambda>cards. Inr (Elem ''div'' [] cards)))
            else Inr (Elem ''div'' [] [icon ''Spinner'', Elem ''p'' [] [label ''Decrypting AST payload...'']])) (\<lambda>body.
       Inr (Elem ''div'' []
        [Elem ''div'' []
          [Elem ''div'' []
            [Elem ''h2'' [] [icon ''ShieldAlert'', label '' Pipeline Blocked''],
             Elem ''p'' [] [icon ''GitCommit'', label '' Diff Engine detected violations'']],
           Elem ''button'' [OnClick OpenModal] [label ''Init Override Protocol'']],
         body])))"

definition connection_dot :: "Connection \<Rightarrow> string" where
  "connection_dot c = (if c = CONNECTED then ''bg-emerald-400''
     else if c = CONNECTING then ''bg-amber-400'' else ''bg-rose-400'')"

definition connection_badge :: "Connection \<Rightarrow> string" where
  "connection_badge c =
     (if c = CONNECTED then ''border-emerald-500/30 text-emerald-400 bg-emerald-500/10''
      else if c = CONNECTING then ''border-amber-500/30 text-amber-400 bg-amber-500/10''
      else ''border-rose-500/30 text-rose-400 bg-rose-500/10'')"

definition render_monitor ::
  "Status \<Rightarrow> Connection \<Rightarrow> jsval \<Rightarrow> jstr list \<Rightarrow> jsval \<Rightarrow> jsval \<Rightarrow> monitor \<Rightarrow> monitor_act node res" where
  "render_monitor status conn project events diffStatus changes m =
     ebind (child project) (\<lambda>proj.
     ebind (if diffStatus = JStr (js ''FAILED'')
            then ebind (blocked_panel m changes) (\<lambda>p. Inr [p]) else Inr []) (\<lambda>blocked.
       Inr (Elem ''div'' []
        [Elem ''div'' []
          [icon ''AlertOctagon'',
           label ''NOTICE: All CI/CD manual overrides are permanently recorded to the immutable Postgres audit ledger. Maintain protocol at all times.''],
         Elem ''main'' []
          ([Elem ''div'' []
             ([Elem ''h2'' [] [label ''System Status'']] @ status_icon status
              @ [Elem ''span'' [] [label (status_str status)]]),
            Elem ''div'' []
             [Elem ''h2'' []
               [Elem ''div'' []
                 ([Elem ''span'' [Cls (connection_dot conn)] [], label ''Live Event Socket (''] @ proj @ [label '')'']),
                Elem ''span'' [Cls (connection_badge conn)] [label (connection_str conn)]],
              Elem ''div'' [] (event_feed events)]]
           @ blocked)])))"

end
