(* ===== verification/Ledger.thy ===== *)
theory Ledger
  imports React_Dom Types_Model Js_Stringify Prompt
begin

text \<open>
  \<open>viewer/src/components/AuditLedger.tsx\<close>: the list of recorded runs. What the server
  returns is stored as it is; the interface of a record is the predicate \<open>DiffRunRecord\<close>.
\<close>

definition DiffRunRecord :: "jsval \<Rightarrow> bool" where
  "DiffRunRecord v \<longleftrightarrow>
     is_obj v
     \<and> is_str (opt_get v (js ''id''))
     \<and> is_str (opt_get v (js ''project_id''))
     \<and> optional is_str (opt_get v (js ''commit_sha''))
     \<and> one_of [''PASSED'', ''FAILED'', ''OVERRIDDEN''] (opt_get v (js ''status''))
     \<and> is_num (opt_get v (js ''breaking_count''))
     \<and> is_num (opt_get v (js ''dangerous_count''))
     \<and> is_str (opt_get v (js ''created_at''))"

datatype StatusFilter = AllRuns | PASSED | FAILED | OVERRIDDEN

fun filter_str :: "StatusFilter \<Rightarrow> string" where
  "filter_str AllRuns = ''ALL''"
| "filter_str PASSED = ''PASSED''"
| "filter_str FAILED = ''FAILED''"
| "filter_str OVERRIDDEN = ''OVERRIDDEN''"

record ledger =
  runs :: jsval
  loading :: bool
  statusFilter :: StatusFilter
  selectedRun :: jsval

definition ledger_init :: ledger where
  "ledger_init = \<lparr>runs = JArr [], loading = False, statusFilter = AllRuns, selectedRun = JNull\<rparr>"

datatype ledger_act =
    SetStatusFilter StatusFilter
  | FetchRuns
  | SelectRun jsval
  | CloseRun

text \<open>\<open>fetchRuns\<close>: the part before the await, and the continuation.\<close>

definition fetch_start :: "ledger \<Rightarrow> ledger" where
  "fetch_start l = l\<lparr>loading := True\<rparr>"

definition fetch_done :: "response \<Rightarrow> ledger \<Rightarrow> ledger" where
  "fetch_done r l =
     (case r of
        Resp True body \<Rightarrow> (case json_parse body of Some data \<Rightarrow> l\<lparr>runs := data\<rparr> | None \<Rightarrow> l)
      | _ \<Rightarrow> l)\<lparr>loading := False\<rparr>"

fun ledger_local :: "ledger_act \<Rightarrow> ledger \<Rightarrow> ledger" where
  "ledger_local (SetStatusFilter f) l = l\<lparr>statusFilter := f\<rparr>"
| "ledger_local FetchRuns l = fetch_start l"
| "ledger_local (SelectRun r) l = l\<lparr>selectedRun := r\<rparr>"
| "ledger_local CloseRun l = l\<lparr>selectedRun := JNull\<rparr>"

section \<open>The table\<close>

text \<open>The filter callback; the status of a run is read only when a filter is set.\<close>

definition run_matches :: "StatusFilter \<Rightarrow> jsval \<Rightarrow> bool res" where
  "run_matches f r =
     (if f = AllRuns then Inr True
      else ebind (get r (js ''status'')) (\<lambda>s. Inr (s = JStr (js (filter_str f)))))"

fun filter_runs :: "StatusFilter \<Rightarrow> jsval list \<Rightarrow> jsval list res" where
  "filter_runs f [] = Inr []"
| "filter_runs f (r # rs) =
     ebind (run_matches f r) (\<lambda>keep.
     ebind (filter_runs f rs) (\<lambda>rest. Inr (if keep then r # rest else rest)))"

definition filteredRuns :: "ledger \<Rightarrow> jsval list res" where
  "filteredRuns l = ebind (elements (runs l)) (filter_runs (statusFilter l))"

text \<open>\<open>v.slice(0, n)\<close>: strings and arrays have it.\<close>

fun slice_val :: "nat \<Rightarrow> jsval \<Rightarrow> jsval res" where
  "slice_val n (JStr s) = Inr (JStr (slice0 n s))"
| "slice_val n (JArr vs) = Inr (JArr (take n vs))"
| "slice_val n _ = Inl TypeErr"

definition status_badge :: "jsval \<Rightarrow> ledger_act node list \<Rightarrow> ledger_act node" where
  "status_badge st caption =
     (let passed = (st = JStr (js ''PASSED'')); failed = (st = JStr (js ''FAILED''));
          overridden = (st = JStr (js ''OVERRIDDEN''))
      in Elem ''span''
          [Cls (if passed then ''bg-emerald-500/10 text-emerald-400 border-emerald-500/30''
                else if failed then ''bg-rose-500/10 text-rose-400 border-rose-500/30''
                else ''bg-amber-500/10 text-amber-400 border-amber-500/30'')]
          (shown passed [icon ''ShieldCheck''] @ shown failed [icon ''ShieldAlert'']
           @ shown overridden [icon ''Shield''] @ caption))"

definition run_row :: "jsval \<Rightarrow> ledger_act node res" where
  "run_row run =
     ebind (get run (js ''id'')) (\<lambda>rid.
     ebind (slice_val 8 rid) (\<lambda>short.
     ebind (child short) (\<lambda>idc.
     ebind (if truthy (opt_get run (js ''commit_sha''))
            then ebind (slice_val 10 (opt_get run (js ''commit_sha''))) child
            else Inr [label ''n/a'']) (\<lambda>sha.
     ebind (child (opt_get run (js ''status''))) (\<lambda>st.
     ebind (child (opt_get run (js ''breaking_count''))) (\<lambda>brk.
     ebind (gt0 (opt_get run (js ''dangerous_count''))) (\<lambda>risky.
     ebind (child (opt_get run (js ''dangerous_count''))) (\<lambda>dng.
       Inr (Elem ''tr'' []
        [Elem ''td'' [] (idc @ [label ''...'']),
         Elem ''td'' [] [Elem ''span'' [] sha],
         Elem ''td'' [] [status_badge (opt_get run (js ''status'')) st],
         Elem ''td'' []
          (Elem ''span'' [] (brk @ [label '' breaking''])
           # shown risky [Elem ''span'' [] (label ''('' # dng @ [label '' risky)''])]),
         Elem ''td'' [] [icon ''Calendar'', Elem ''LocalDate'' [Data ''value'' (opt_get run (js ''created_at''))] []],
         Elem ''td'' [] [Elem ''button'' [OnClick (SelectRun run)] [icon ''Eye'', label '' Inspect'']]])))))))))"

definition runs_body :: "ledger \<Rightarrow> ledger_act node list res" where
  "runs_body l =
     ebind (filteredRuns l) (\<lambda>rs.
       if rs = [] then
         Inr [Elem ''tr'' [] [Elem ''td'' []
               [label (if loading l then ''Querying audit ledger...''
                       else ''No historical diff records found.'')]]]
       else emap run_row rs)"

definition filter_buttons :: "ledger \<Rightarrow> ledger_act node list" where
  "filter_buttons l =
     map (\<lambda>f. Elem ''button''
        [OnClick (SetStatusFilter f),
         Cls (if statusFilter l = f
              then ''bg-emerald-500/20 text-emerald-300 border border-emerald-500/40''
              else ''text-slate-400 hover:text-slate-200'')]
        [label (filter_str f)]) [AllRuns, PASSED, FAILED, OVERRIDDEN]"

definition inspect_modal :: "jsval \<Rightarrow> ledger_act node list res" where
  "inspect_modal run =
     and_child run
      (ebind (child (opt_get run (js ''id''))) (\<lambda>rid.
       ebind (child (js_or (opt_get run (js ''commit_sha'')) (JStr (js ''N/A'')))) (\<lambda>sha.
         Inr [Elem ''div'' []
          [Elem ''div'' []
            ([Elem ''div'' []
               [Elem ''h3'' [] [icon ''Eye'', label '' AST Diff Run Details''],
                Elem ''button'' [OnClick CloseRun] [icon ''X'']],
              Elem ''div'' []
               [Elem ''div'' [] [Elem ''span'' [] [label ''Diff ID''], Elem ''span'' [] rid],
                Elem ''div'' [] [Elem ''span'' [] [label ''Commit SHA''], Elem ''span'' [] sha]]]
             @ shown (opt_get run (js ''status'') = JStr (js ''OVERRIDDEN''))
                [Elem ''div'' [] [icon ''UserCheck'',
                  Elem ''span'' [] [label ''Override Protocol successfully verified and logged to audit table.'']]]
             @ [Elem ''div'' []
                 [Elem ''span'' [] [label ''Raw Diff Payload (JSON)''],
                  Elem ''pre'' [] [Elem ''code'' []
                    (case json_stringify2 (js_or (opt_get run (js ''raw_diff_payload'')) run) of
                       Some t \<Rightarrow> [Text t] | None \<Rightarrow> [])]],
                Elem ''div'' [] [Elem ''button'' [OnClick CloseRun] [label ''Close'']]])]])))"

definition ledger_head :: "ledger \<Rightarrow> ledger_act node" where
  "ledger_head l =
     Elem ''div'' []
      [Elem ''div'' []
        [Elem ''h2'' [] [icon ''ShieldCheck'', label '' Immutable Audit Ledger''],
         Elem ''span'' [] [label ''PostgreSQL GIN Indexed'']],
       Elem ''div'' []
        [Elem ''div'' [] (filter_buttons l),
         Elem ''button'' [OnClick FetchRuns, Disabled (loading l)]
          [Elem ''RefreshCw'' [Cls (if loading l then ''animate-spin text-emerald-400'' else '''')] [],
           label ''Refresh'']]]"

definition render_ledger :: "ledger \<Rightarrow> ledger_act node res" where
  "render_ledger l =
     ebind (runs_body l) (\<lambda>rows.
     ebind (inspect_modal (selectedRun l)) (\<lambda>modal.
       Inr (Elem ''div'' []
        ([Elem ''div'' []
           [ledger_head l,
            Elem ''div'' []
             [Elem ''table'' []
               [Elem ''thead'' [] [Elem ''tr'' []
                 (map (\<lambda>h. Elem ''th'' [] [label h])
                   [''Run ID'', ''Commit SHA'', ''Status'', ''Violations'', ''Timestamp (UTC)'', ''Actions''])],
                Elem ''tbody'' [] rows]]]] @ modal))))"

end
