(* ===== verification/Webhook.thy ===== *)
theory Webhook
  imports React_Dom
begin

text \<open>
  \<open>viewer/src/components/WebhookAnalytics.tsx\<close>: the configuration form. Saving shows a
  confirmation for two seconds; the timer is a task of the application's step relation. The
  secret is kept in the component and sent nowhere.
\<close>

record webhook =
  secret :: jstr
  saved :: bool

definition webhook_init :: webhook where
  "webhook_init = \<lparr>secret = [], saved = False\<rparr>"

datatype webhook_act = SetSecret jstr | SaveWebhook

fun webhook_local :: "webhook_act \<Rightarrow> webhook \<Rightarrow> webhook" where
  "webhook_local (SetSecret s) w = w\<lparr>secret := s\<rparr>"
| "webhook_local SaveWebhook w = w\<lparr>saved := True\<rparr>"

definition saved_timeout :: "webhook \<Rightarrow> webhook" where
  "saved_timeout w = w\<lparr>saved := False\<rparr>"

definition stat_card :: "string \<Rightarrow> string \<Rightarrow> string \<Rightarrow> 'e node" where
  "stat_card ic n caption =
     Elem ''div'' [] [icon ic, Elem ''div'' [] [label n], Elem ''div'' [] [label caption]]"

definition render_webhook :: "webhook \<Rightarrow> webhook_act node" where
  "render_webhook w =
     Elem ''div'' []
      [Elem ''div'' []
        [stat_card ''GitPullRequest'' ''142'' ''Pull Requests Scanned'',
         stat_card ''ShieldAlert'' ''24'' ''Breaking Changes Blocked'',
         stat_card ''MessageSquare'' ''18'' ''Autonomously Commented''],
       Elem ''div'' []
        [Elem ''h2'' [] [icon ''Webhook'', label ''Git Provider Webhook Configuration''],
         Elem ''form'' [OnSubmit SaveWebhook]
          [Elem ''div'' []
            [Elem ''label'' [] [label ''Forgejo / GitHub Webhook Secret''],
             Elem ''input''
              [Prop ''type'' (js ''password''), Value (secret w), OnText SetSecret,
               Prop ''placeholder'' (js ''Enter webhook secret...'')] []],
           Elem ''button'' [Prop ''type'' (js ''submit'')]
            [icon ''Save'', label (if saved w then ''Saved!'' else ''Save Configuration'')]]]]"

end
