(* ===== verification/App_State.thy ===== *)
theory App_State
  imports Sandbox_View Override_Modal Migration Prompt Monitor Ledger Webhook
begin

text \<open>
  The state of \<open>App\<close> (\<open>viewer/src/App.tsx\<close>): one field per \<open>useState\<close>, with the
  initial values of the source, and the sample loader. The fields of the sandbox and of the
  prompt compiler are the records of their components. A field the code fills from the
  network holds a dynamic value.
\<close>

datatype ViewMode = MONITOR | SANDBOX | PROMPT | AUDIT | WEBHOOK

record app = sandbox +
  events :: "jstr list"
  status :: Status
  diffId :: jsval
  diffStatus :: jsval
  breakingChanges :: jsval
  showModal :: bool
  overrideNote :: jstr
  isSubmitting :: bool
  viewMode :: ViewMode
  currentProjectId :: jsval
  connectionState :: Connection
  prompt :: prompt

definition init_base :: jstr where
  "init_base = js_lines
     [''{'',
      ''  \"openapi\": \"3.0.0\",'',
      ''  \"paths\": {'',
      ''    \"/users\": {'',
      ''      \"post\": {'',
      ''        \"requestBody\": {'',
      ''          \"content\": {'',
      ''            \"application/json\": {'',
      ''              \"schema\": {'',
      ''                \"type\": \"object\",'',
      ''                \"properties\": { \"email\": { \"type\": \"string\" } }'',
      ''              }'',
      ''            }'',
      ''          }'',
      ''        }'',
      ''      }'',
      ''    }'',
      ''  }'',
      ''}'']"

definition init_target :: jstr where
  "init_target = js_lines
     [''{'',
      ''  \"openapi\": \"3.0.0\",'',
      ''  \"paths\": {'',
      ''    \"/users\": {'',
      ''      \"post\": {'',
      ''        \"requestBody\": {'',
      ''          \"content\": {'',
      ''            \"application/json\": {'',
      ''              \"schema\": {'',
      ''                \"type\": \"object\",'',
      ''                \"properties\": { \"email\": { \"type\": \"string\" } },'',
      ''                \"required\": [\"email\"]'',
      ''              }'',
      ''            }'',
      ''          }'',
      ''        }'',
      ''      }'',
      ''    }'',
      ''  }'',
      ''}'']"

definition init_source :: jstr where
  "init_source = js_lines [''import urllib2'', ''print \"Hello World\"'', '''']"

definition app_init :: app where
  "app_init =
     \<lparr>sandboxMode = OPENAPI, sandboxBase = init_base, sandboxTarget = init_target,
      sourceCode = init_source,
      events = [], status = SAFE, diffId = JNull, diffStatus = JNull,
      breakingChanges = JArr [], showModal = False, overrideNote = [], isSubmitting = False,
      viewMode = MONITOR, currentProjectId = JStr (js ''default''),
      connectionState = CONNECTING, prompt = prompt_init\<rparr>"

section \<open>Samples\<close>

definition load_openapi :: "jstr \<Rightarrow> jstr \<Rightarrow> 'a sandbox_scheme \<Rightarrow> 'a sandbox_scheme" where
  "load_openapi base target s = s\<lparr>sandboxMode := OPENAPI, sandboxBase := base, sandboxTarget := target\<rparr>"

definition load_source :: "SandboxMode \<Rightarrow> jstr \<Rightarrow> 'a sandbox_scheme \<Rightarrow> 'a sandbox_scheme" where
  "load_source mode src s = s\<lparr>sandboxMode := mode, sourceCode := src\<rparr>"

definition loadSample :: "jstr \<Rightarrow> 'a sandbox_scheme \<Rightarrow> 'a sandbox_scheme" where
  "loadSample sample s =
     (if sample = js ''OpenAPI: Breaking Required Field'' then
        load_openapi
          (js ''{\"openapi\":\"3.0.0\",\"paths\":{\"/users\":{\"post\":{\"requestBody\":{\"content\":{\"application/json\":{\"schema\":{\"type\":\"object\",\"properties\":{\"email\":{\"type\":\"string\"}}}}}}}}}}}'')
          (js ''{\"openapi\":\"3.0.0\",\"paths\":{\"/users\":{\"post\":{\"requestBody\":{\"content\":{\"application/json\":{\"schema\":{\"type\":\"object\",\"properties\":{\"email\":{\"type\":\"string\"}},\"required\":[\"email\"]}}}}}}}}}'') s
      else if sample = js ''OpenAPI: Breaking Enum Removal'' then
        load_openapi
          (js ''{\"openapi\":\"3.0.0\",\"paths\":{\"/users\":{\"get\":{\"parameters\":[{\"name\":\"role\",\"in\":\"query\",\"schema\":{\"type\":\"string\",\"enum\":[\"admin\",\"user\",\"guest\"]}}]}}}}'')
          (js ''{\"openapi\":\"3.0.0\",\"paths\":{\"/users\":{\"get\":{\"parameters\":[{\"name\":\"role\",\"in\":\"query\",\"schema\":{\"type\":\"string\",\"enum\":[\"admin\",\"user\"]}}]}}}}'') s
      else if sample = js ''OpenAPI: Removed Endpoint'' then
        load_openapi
          (js ''{\"openapi\":\"3.0.0\",\"paths\":{\"/users\":{},\"/admin\":{}}}'')
          (js ''{\"openapi\":\"3.0.0\",\"paths\":{\"/users\":{}}}'') s
      else if sample = js ''Python 2 -> Python 3: Legacy EVE-style Code Migration'' then
        load_source PYTHON
          (js_lines [''import urllib2'', '''', ''def fetch():'', ''    print \"Fetching...\"'',
             ''    for i in xrange(10):'', ''        print \"Index\", i'',
             ''    return urllib2.urlopen(\"http://example.com\")'']) s
      else if sample = js ''Go: Migrate deprecated io/ioutil package'' then
        load_source GO
          (js_lines [''package main'', '''', ''import (''] @ [10, 9] @ js ''\"fmt\"'' @ [10, 9]
             @ js ''\"io/ioutil\"'' @ [10] @ js_lines ['')'', '''', ''func main() {''] @ [10, 9]
             @ js ''data, _ := ioutil.ReadFile(\"config.json\")'' @ [10, 9]
             @ js ''fmt.Println(string(data))'' @ [10] @ js ''}'') s
      else if sample = js ''TypeScript: Migrate legacy var keyword'' then
        load_source TYPESCRIPT
          (js_lines [''export function calculateTotal(items: number[]): number {'',
             ''  var total = 0;'', ''  for (var i = 0; i < items.length; i++) {'',
             ''    total += items[i];'', ''  }'', ''  return total;'', ''}'']) s
      else s)"

end
