(* ===== verification/App_Handlers.thy ===== *)
theory App_Handlers
  imports App_State
begin

text \<open>
  The handlers of \<open>App.tsx\<close> as functions on its state. An asynchronous handler is cut at
  its awaits: the part before the first, and a continuation per await, which gets what its
  closure captured and runs on the state of its own moment.
\<close>

section \<open>Requests\<close>

datatype request =
    PostOverride jstr jstr          \<comment> \<open>URL, note\<close>
  | PostCodeDiff string jstr        \<comment> \<open>language, source\<close>
  | PostProject string              \<comment> \<open>name\<close>
  | PostDiff jstr jstr jstr         \<comment> \<open>\<open>project_id\<close>, base document, target document\<close>
  | PostPrompt jsval                \<comment> \<open>body\<close>
  | GetDiffs

section \<open>Server-sent events\<close>

definition received :: "jstr \<Rightarrow> jstr" where
  "received data = js ''> Received: '' @ data"

definition push_event :: "jstr \<Rightarrow> app \<Rightarrow> app" where
  "push_event data s = s\<lparr>events := take 50 (received data # events s)\<rparr>"

text \<open>The branch for a finished run.\<close>

definition on_diff_completed :: "jsval \<Rightarrow> app \<Rightarrow> app" where
  "on_diff_completed payload s =
     (let dat = opt_get payload (js ''data'');
          i = js_or (js_or (opt_get dat (js ''id'')) (opt_get payload (js ''diff_id'')))
                (opt_get payload (js ''id''));
          st = js_or (opt_get dat (js ''status'')) (opt_get payload (js ''status''));
          changes = js_or (opt_get (opt_get dat (js ''raw_diff_payload'')) (js ''changes'')) (JArr [])
      in s\<lparr>diffId := i, diffStatus := st,
           status := (if st = JStr (js ''FAILED'') then BREAKING else SAFE),
           breakingChanges := changes,
           viewMode := (if viewMode s = SANDBOX then MONITOR else viewMode s)\<rparr>)"

definition on_payload :: "jsval \<Rightarrow> app \<Rightarrow> app" where
  "on_payload payload s =
     (case get payload (js ''type'') of
        Inl _ \<Rightarrow> s
      | Inr ty \<Rightarrow>
          if ty = JStr (js ''diff_overridden'')
          then s\<lparr>status := WARNING, diffStatus := JStr (js ''OVERRIDDEN'')\<rparr>
          else if ty = JStr (js ''project_created'') then s\<lparr>status := SAFE\<rparr>
          else if ty = JStr (js ''diff_completed'') then on_diff_completed payload s
          else s)"

definition on_message :: "jstr \<Rightarrow> app \<Rightarrow> app" where
  "on_message data s =
     (let s1 = push_event data s
      in case json_parse data of None \<Rightarrow> s1 | Some payload \<Rightarrow> on_payload payload s1)"

text \<open>
  The effect on \<open>[viewMode, currentProjectId]\<close>: the old source is closed and a new one
  opened, unless there is no project. The result is the URL subscribed to; a project value
  that has no string form makes the effect throw.
\<close>

definition events_url :: "jsval \<Rightarrow> jstr res" where
  "events_url project = ebind (to_str project) (\<lambda>p. Inr (js ''/api/events?project_id='' @ p))"

definition events_effect :: "app \<Rightarrow> (app \<times> jstr option) res" where
  "events_effect s =
     (if \<not> truthy (currentProjectId s) then Inr (s, None)
      else ebind (events_url (currentProjectId s)) (\<lambda>url.
        Inr (s\<lparr>connectionState := CONNECTING\<rparr>, Some url)))"

section \<open>Override\<close>

definition override_url :: "jstr \<Rightarrow> jstr" where
  "override_url i = js ''/api/diffs/'' @ i @ js ''/override''"

text \<open>Before the await: the request, or none when there is no diff or it has no string form.\<close>

definition override_start :: "app \<Rightarrow> app \<times> request option" where
  "override_start s =
     (if \<not> truthy (diffId s) then (s, None)
      else (case to_str (diffId s) of
              Inl _ \<Rightarrow> (s\<lparr>isSubmitting := False\<rparr>, None)
            | Inr i \<Rightarrow> (s\<lparr>isSubmitting := True\<rparr>,
                        Some (PostOverride (override_url i) (overrideNote s)))))"

definition override_done :: "response \<Rightarrow> app \<Rightarrow> app" where
  "override_done r s =
     (case r of
        Resp True body \<Rightarrow> s\<lparr>showModal := False, overrideNote := [], status := WARNING,
                            diffStatus := JStr (js ''OVERRIDDEN'')\<rparr>
      | _ \<Rightarrow> s)\<lparr>isSubmitting := False\<rparr>"

section \<open>Sandbox runs\<close>

fun audit_language :: "SandboxMode \<Rightarrow> string" where
  "audit_language PYTHON = ''python''"
| "audit_language GO = ''go''"
| "audit_language TYPESCRIPT = ''typescript''"
| "audit_language OPENAPI = ''''"

definition sandbox_start :: "app \<Rightarrow> app \<times> request" where
  "sandbox_start s =
     (s\<lparr>isSubmitting := True\<rparr>,
      if sandboxMode s = OPENAPI then PostProject ''Interactive Sandbox Session''
      else PostCodeDiff (audit_language (sandboxMode s)) (sourceCode s))"

text \<open>The timer of an audit, with the mode and source its closure captured.\<close>

definition audit_timeout :: "SandboxMode \<Rightarrow> jstr \<Rightarrow> app \<Rightarrow> app" where
  "audit_timeout mode src s =
     s\<lparr>diffStatus := JStr (js ''FAILED''), status := BREAKING,
       breakingChanges := audit_changes mode src, isSubmitting := False\<rparr>"

text \<open>
  The continuation after the project response (its JSON included): the state, whether
  \<open>setCurrentProjectId\<close> was reached, and the second request if it comes to that.
\<close>

definition project_done ::
  "jstr \<Rightarrow> jstr \<Rightarrow> response \<Rightarrow> app \<Rightarrow> app \<times> bool \<times> request option" where
  "project_done base target r s =
     (case r of
        NetError \<Rightarrow> (s\<lparr>isSubmitting := False\<rparr>, False, None)
      | Resp ok body \<Rightarrow>
          (case ebind (json_parse_res body) (\<lambda>pData. get pData (js ''id'')) of
             Inl _ \<Rightarrow> (s\<lparr>isSubmitting := False\<rparr>, False, None)
           | Inr i \<Rightarrow>
               (case to_str i of
                  Inl _ \<Rightarrow> (s\<lparr>currentProjectId := i, isSubmitting := False\<rparr>, True, None)
                | Inr pid \<Rightarrow> (s\<lparr>currentProjectId := i\<rparr>, True, Some (PostDiff pid base target)))))"

definition diff_sent :: "response \<Rightarrow> app \<Rightarrow> app" where
  "diff_sent r s = s\<lparr>isSubmitting := False\<rparr>"

section \<open>Prompt compiler\<close>

definition on_prompt :: "(prompt \<Rightarrow> prompt) \<Rightarrow> app \<Rightarrow> app" where
  "on_prompt f s = s\<lparr>prompt := f (prompt s)\<rparr>"

definition prompt_start :: "app \<Rightarrow> app \<times> request" where
  "prompt_start s =
     (on_prompt (\<lambda>p. p\<lparr>isPrompting := True\<rparr>) s, PostPrompt (prompt_request (prompt s)))"

declare received_def [js_defs] push_event_def [js_defs] on_diff_completed_def [js_defs]
  on_payload_def [js_defs] on_message_def [js_defs] events_url_def [js_defs]
  events_effect_def [js_defs] override_start_def [js_defs] override_done_def [js_defs]
  sandbox_start_def [js_defs] audit_timeout_def [js_defs] project_done_def [js_defs]
  diff_sent_def [js_defs] on_prompt_def [js_defs] prompt_start_def [js_defs]

end
