(* ===== verification/App_System.thy ===== *)
theory App_System
  imports App_Handlers
begin

text \<open>
  The running dashboard: the application's state with the local state of the mounted
  components, the event source it subscribes to, the continuations that wait for a response
  or a timer, and the requests sent so far. A step is one turn of the event loop: a user
  action on the rendered tree, an event of the source, or the completion of a waiting task.
  After a turn React commits: it renders, mounts and unmounts components, and runs effects.
\<close>

section \<open>State\<close>

datatype task =
    OverrideTask
  | AuditFetch SandboxMode jstr
  | AuditTimer SandboxMode jstr
  | ProjectFetch jstr jstr
  | DiffFetch
  | PromptFetch prompt
  | CopyTimer
  | FileRead pane jstr
  | LedgerFetch nat
  | SavedTimer nat

datatype browser_out = Alert string | Clipboard jstr | Download string jstr

record sys =
  app :: app
  modal :: modal
  monitor :: monitor
  ledger :: ledger
  webhook :: webhook
  instance_no :: nat
  source :: "jstr option"
  tasks :: "task list"
  sent :: "request list"
  outputs :: "browser_out list"
  alive :: bool

datatype action =
    GoTo ViewMode
  | InModal modal_act
  | InMonitor monitor_act
  | InSandbox sandbox_act
  | InPrompt prompt_act
  | InLedger ledger_act
  | InWebhook webhook_act

section \<open>Rendering\<close>

definition nav_button :: "ViewMode \<Rightarrow> ViewMode \<Rightarrow> string \<Rightarrow> string \<Rightarrow> string \<Rightarrow> action node" where
  "nav_button current v colour ic caption =
     Elem ''button''
      [OnClick (GoTo v), Cls (if current = v then colour else ''text-slate-500 hover:text-slate-300'')]
      [icon ic, label caption]"

definition nav_bar :: "ViewMode \<Rightarrow> action node" where
  "nav_bar v =
     Elem ''header'' []
      [Elem ''div'' []
        [Elem ''h1'' [] [icon ''Terminal'', label ''TM3L_BREAK_DETECTOR.exe''],
         Elem ''p'' [] [label ''Semantic Governance Engine'']],
       Elem ''div'' []
        [nav_button v MONITOR ''bg-cyan-900/40 text-cyan-400'' ''Activity'' '' CI/CD Monitor'',
         nav_button v SANDBOX ''bg-cyan-900/40 text-cyan-400'' ''SplitSquareHorizontal'' '' Sandbox'',
         nav_button v PROMPT ''bg-indigo-900/40 text-indigo-400'' ''Cpu'' '' [ LLM Prompt Compiler ]'',
         nav_button v AUDIT ''bg-emerald-900/40 text-emerald-400'' ''ShieldCheck'' '' Audit Ledger'',
         nav_button v WEBHOOK ''bg-pink-900/40 text-pink-400'' ''Webhook'' '' [ Webhook Analytics ]'']]"

definition view_panel :: "sys \<Rightarrow> action node res" where
  "view_panel s =
     (let a = app s in
      case viewMode a of
        PROMPT \<Rightarrow> ebind (render_prompt (prompt a)) (\<lambda>n. Inr (map_node InPrompt n))
      | SANDBOX \<Rightarrow> ebind (render_sandbox a (isSubmitting a) (breakingChanges a)) (\<lambda>n. Inr (map_node InSandbox n))
      | AUDIT \<Rightarrow> ebind (render_ledger (ledger s)) (\<lambda>n. Inr (map_node InLedger n))
      | WEBHOOK \<Rightarrow> Inr (map_node InWebhook (render_webhook (webhook s)))
      | MONITOR \<Rightarrow>
          ebind (render_monitor (status a) (connectionState a) (currentProjectId a) (events a)
                   (diffStatus a) (breakingChanges a) (monitor s)) (\<lambda>n. Inr (map_node InMonitor n)))"

definition modal_panel :: "sys \<Rightarrow> action node list" where
  "modal_panel s =
     shown (showModal (app s))
      [map_node InModal (render_modal (overrideNote (app s)) (isSubmitting (app s)) (modal s))]"

definition render_app :: "sys \<Rightarrow> action node res" where
  "render_app s =
     ebind (view_panel s) (\<lambda>panel.
       Inr (Elem ''div'' [] ([Elem ''div'' [] [nav_bar (viewMode (app s)), panel]] @ modal_panel s)))"

section \<open>Mounting\<close>

text \<open>A node of a change's tree is mounted when every node above it is expanded.\<close>

fun child_at :: "jsval \<Rightarrow> jstr \<Rightarrow> jsval option" where
  "child_at (JArr vs) k =
     (case index_of k of Some i \<Rightarrow> if i < length vs then Some (vs ! i) else None | None \<Rightarrow> None)"
| "child_at (JObj ms) k = map_of ms k"
| "child_at _ k = None"

fun mounted_at :: "tree_state \<Rightarrow> jsval \<Rightarrow> jstr list \<Rightarrow> jsval option" where
  "mounted_at ex v [] = Some v"
| "mounted_at ex v (k # path) =
     (if ex path then Option.bind (mounted_at ex v path) (\<lambda>w. child_at w k) else None)"

definition tree_mounted :: "app \<Rightarrow> monitor \<Rightarrow> nat \<Rightarrow> jstr list \<Rightarrow> bool" where
  "tree_mounted a m i path \<longleftrightarrow>
     viewMode a = MONITOR \<and> diffStatus a = JStr (js ''FAILED'') \<and> expandedJson m i
     \<and> (case breakingChanges a of
          JArr cs \<Rightarrow> i < length cs \<and> mounted_at (treeOpen m i) (cs ! i) path \<noteq> None
        | _ \<Rightarrow> False)"

definition prune_trees :: "sys \<Rightarrow> sys" where
  "prune_trees s =
     s\<lparr>monitor := (monitor s)\<lparr>treeOpen :=
         (\<lambda>i path. if tree_mounted (app s) (monitor s) i path
                   then treeOpen (monitor s) i path else tree_init path)\<rparr>\<rparr>"

definition send :: "request \<Rightarrow> sys \<Rightarrow> sys" where
  "send r s = s\<lparr>sent := sent s @ [r]\<rparr>"

definition add_task :: "task \<Rightarrow> sys \<Rightarrow> sys" where
  "add_task t s = s\<lparr>tasks := tasks s @ [t]\<rparr>"

text \<open>The modal mounts afresh each time it is shown.\<close>

definition mount_modal :: "sys \<Rightarrow> sys \<Rightarrow> sys" where
  "mount_modal old s =
     (if showModal (app s) \<and> \<not> showModal (app old) then s\<lparr>modal := modal_init\<rparr> else s)"

text \<open>A change of view mounts the panel of the new one.\<close>

definition mount_view :: "sys \<Rightarrow> sys \<Rightarrow> sys" where
  "mount_view old s =
     (if viewMode (app s) = viewMode (app old) then s
      else s\<lparr>instance_no := Suc (instance_no s), monitor := monitor_init,
             ledger := ledger_init, webhook := webhook_init\<rparr>)"

text \<open>The effect of the ledger on mounting: it fetches the runs.\<close>

definition ledger_fetch :: "sys \<Rightarrow> sys" where
  "ledger_fetch s =
     add_task (LedgerFetch (instance_no s))
       (send GetDiffs (s\<lparr>ledger := ledger_local FetchRuns (ledger s)\<rparr>))"

definition ledger_effect :: "sys \<Rightarrow> sys \<Rightarrow> sys" where
  "ledger_effect old s =
     (if viewMode (app s) = AUDIT \<and> viewMode (app old) \<noteq> AUDIT then ledger_fetch s else s)"

text \<open>An error in rendering or in an effect unmounts the whole application.\<close>

definition crash :: "sys \<Rightarrow> sys" where
  "crash s = s\<lparr>alive := False, source := None\<rparr>"

definition source_effect :: "bool \<Rightarrow> sys \<Rightarrow> sys \<Rightarrow> sys" where
  "source_effect new_project old s =
     (if viewMode (app s) = viewMode (app old) \<and> \<not> new_project then s
      else case events_effect (app s) of
             Inl _ \<Rightarrow> crash s
           | Inr (a, url) \<Rightarrow> s\<lparr>app := a, source := url\<rparr>)"

definition commit :: "bool \<Rightarrow> sys \<Rightarrow> sys \<Rightarrow> sys" where
  "commit new_project old s =
     (if \<not> alive s then s
      else let m = mount_view old (mount_modal old s)
           in case render_app m of
                Inl _ \<Rightarrow> crash m
              | Inr _ \<Rightarrow> prune_trees (source_effect new_project old (ledger_effect old m)))"

section \<open>Steps\<close>

definition upd :: "(app \<Rightarrow> app) \<Rightarrow> sys \<Rightarrow> sys" where
  "upd f s = s\<lparr>app := f (app s)\<rparr>"

definition start_override :: "sys \<Rightarrow> sys" where
  "start_override s =
     (case override_start (app s) of
        (a, None) \<Rightarrow> s\<lparr>app := a\<rparr>
      | (a, Some r) \<Rightarrow> add_task OverrideTask (send r (s\<lparr>app := a\<rparr>)))"

definition start_sandbox :: "sys \<Rightarrow> sys" where
  "start_sandbox s =
     (case sandbox_start (app s) of (a, r) \<Rightarrow>
        add_task (if sandboxMode (app s) = OPENAPI
                  then ProjectFetch (sandboxBase (app s)) (sandboxTarget (app s))
                  else AuditFetch (sandboxMode (app s)) (sourceCode (app s)))
          (send r (s\<lparr>app := a\<rparr>)))"

definition start_prompt :: "sys \<Rightarrow> sys" where
  "start_prompt s =
     (case prompt_start (app s) of (a, r) \<Rightarrow>
        add_task (PromptFetch (prompt (app s))) (send r (s\<lparr>app := a\<rparr>)))"

definition put_out :: "browser_out \<Rightarrow> sys \<Rightarrow> sys" where
  "put_out out s = s\<lparr>outputs := outputs s @ [out]\<rparr>"

fun modal_step :: "modal_act \<Rightarrow> sys \<Rightarrow> sys" where
  "modal_step (SetShowModal b) s = upd (\<lambda>a. a\<lparr>showModal := b\<rparr>) s"
| "modal_step (SetOverrideNote t) s = upd (\<lambda>a. a\<lparr>overrideNote := t\<rparr>) s"
| "modal_step HandleOverride s = start_override s"
| "modal_step act s = s\<lparr>modal := modal_local act (modal s)\<rparr>"

fun monitor_step :: "monitor_act \<Rightarrow> sys \<Rightarrow> sys" where
  "monitor_step OpenModal s = upd (\<lambda>a. a\<lparr>showModal := True\<rparr>) s"
| "monitor_step act s = s\<lparr>monitor := monitor_local act (monitor s)\<rparr>"

fun sandbox_step :: "sandbox_act \<Rightarrow> sys \<Rightarrow> sys" where
  "sandbox_step (SetSandboxMode v) s =
     (case mode_of v of Some m \<Rightarrow> upd (\<lambda>a. a\<lparr>sandboxMode := m\<rparr>) s | None \<Rightarrow> s)"
| "sandbox_step (SetPane p t) s = upd (set_pane p t) s"
| "sandbox_step ClearAll s = upd clear_all s"
| "sandbox_step ExecuteSandboxDiff s = start_sandbox s"
| "sandbox_step (LoadSample n) s = upd (loadSample n) s"
| "sandbox_step (FormatJson p) s =
     (case formatJSON (pane_text p (app s)) of
        Inr t \<Rightarrow> upd (set_pane p t) s
      | Inl _ \<Rightarrow> put_out (Alert ''Invalid JSON'') s)"
| "sandbox_step (FileUpload p files) s =
     (case handleFileUpload files of None \<Rightarrow> s | Some content \<Rightarrow> add_task (FileRead p content) s)"
| "sandbox_step (FileDrop p files) s =
     (case handleDrop files of None \<Rightarrow> s | Some content \<Rightarrow> add_task (FileRead p content) s)"

fun prompt_step :: "prompt_act \<Rightarrow> sys \<Rightarrow> sys" where
  "prompt_step ExecutePrompt s = start_prompt s"
| "prompt_step CopyToClipboard s =
     add_task CopyTimer (upd (on_prompt (\<lambda>p. p\<lparr>copySuccess := True\<rparr>))
       (case to_str (promptResult (prompt (app s))) of
          Inr t \<Rightarrow> put_out (Clipboard t) s | Inl _ \<Rightarrow> s))"
| "prompt_step DownloadMarkdown s =
     (case to_str (promptResult (prompt (app s))) of
        Inr t \<Rightarrow> put_out (Download ''prompt.md'' t) s | Inl _ \<Rightarrow> s)"
| "prompt_step act s = upd (on_prompt (prompt_set act)) s"

fun ledger_step :: "ledger_act \<Rightarrow> sys \<Rightarrow> sys" where
  "ledger_step FetchRuns s = ledger_fetch s"
| "ledger_step act s = s\<lparr>ledger := ledger_local act (ledger s)\<rparr>"

fun webhook_step :: "webhook_act \<Rightarrow> sys \<Rightarrow> sys" where
  "webhook_step SaveWebhook s =
     add_task (SavedTimer (instance_no s)) (s\<lparr>webhook := webhook_local SaveWebhook (webhook s)\<rparr>)"
| "webhook_step act s = s\<lparr>webhook := webhook_local act (webhook s)\<rparr>"

fun user_step :: "action \<Rightarrow> sys \<Rightarrow> sys" where
  "user_step (GoTo v) s = upd (\<lambda>a. a\<lparr>viewMode := v\<rparr>) s"
| "user_step (InModal act) s = modal_step act s"
| "user_step (InMonitor act) s = monitor_step act s"
| "user_step (InSandbox act) s = sandbox_step act s"
| "user_step (InPrompt act) s = prompt_step act s"
| "user_step (InLedger act) s = ledger_step act s"
| "user_step (InWebhook act) s = webhook_step act s"

text \<open>Setting a project to a parsed object or array is always a new value for an effect.\<close>

definition same_value :: "jsval \<Rightarrow> jsval \<Rightarrow> bool" where
  "same_value a b \<longleftrightarrow> a = b \<and> (case a of JArr _ \<Rightarrow> False | JObj _ \<Rightarrow> False | _ \<Rightarrow> True)"

text \<open>The completion of a task that is no longer in the list; timers ignore \<open>r\<close>,
  and a file that cannot be read (\<open>NetError\<close>) has no effect.\<close>

fun task_step :: "task \<Rightarrow> response \<Rightarrow> sys \<Rightarrow> sys \<times> bool" where
  "task_step OverrideTask r s = (upd (override_done r) s, False)"
| "task_step (AuditFetch m src) r s = (add_task (AuditTimer m src) s, False)"
| "task_step (AuditTimer m src) r s = (upd (audit_timeout m src) s, False)"
| "task_step (ProjectFetch b t) r s =
     (case project_done b t r (app s) of
        (a, chg, q) \<Rightarrow>
          ((case q of None \<Rightarrow> s\<lparr>app := a\<rparr>
            | Some req \<Rightarrow> add_task DiffFetch (send req (s\<lparr>app := a\<rparr>))),
           chg \<and> \<not> same_value (currentProjectId (app s)) (currentProjectId a)))"
| "task_step DiffFetch r s = (upd (diff_sent r) s, False)"
| "task_step (PromptFetch p0) r s = (upd (on_prompt (prompt_done p0 r)) s, False)"
| "task_step CopyTimer r s = (upd (on_prompt (\<lambda>p. p\<lparr>copySuccess := False\<rparr>)) s, False)"
| "task_step (FileRead p content) r s = 
     (case r of NetError \<Rightarrow> s | Resp ok body \<Rightarrow> upd (set_pane p content) s, False)"
| "task_step (LedgerFetch n) r s =
     (if n = instance_no s then s\<lparr>ledger := fetch_done r (ledger s)\<rparr> else s, False)"
| "task_step (SavedTimer n) r s =
     (if n = instance_no s then s\<lparr>webhook := saved_timeout (webhook s)\<rparr> else s, False)"

datatype event =
    User action
  | SourceOpen
  | SourceError
  | SourceMessage jstr
  | Complete nat response

definition remove_nth :: "nat \<Rightarrow> 'a list \<Rightarrow> 'a list" where
  "remove_nth i xs = take i xs @ drop (Suc i) xs"

definition complete :: "nat \<Rightarrow> response \<Rightarrow> sys \<Rightarrow> sys" where
  "complete i r s =
     (case task_step (tasks s ! i) r (s\<lparr>tasks := remove_nth i (tasks s)\<rparr>) of
        (s', new_project) \<Rightarrow> commit new_project s s')"

fun step :: "sys \<Rightarrow> event \<Rightarrow> sys" where
  "step s (User act) = commit False s (user_step act s)"
| "step s SourceOpen = commit False s (upd (\<lambda>a. a\<lparr>connectionState := CONNECTED\<rparr>) s)"
| "step s SourceError = commit False s (upd (\<lambda>a. a\<lparr>connectionState := DISCONNECTED\<rparr>) s)"
| "step s (SourceMessage data) = commit False s (upd (on_message data) s)"
| "step s (Complete i r) = complete i r s"

text \<open>What can happen: an action the rendered tree offers, an event of an open source, the
  completion of a waiting task.\<close>

fun enabled :: "sys \<Rightarrow> event \<Rightarrow> bool" where
  "enabled s (User act) =
     (alive s \<and> (case render_app s of Inr t \<Rightarrow> act \<in> fires t | Inl _ \<Rightarrow> False))"
| "enabled s (Complete i r) = (i < length (tasks s))"
| "enabled s _ = (alive s \<and> source s \<noteq> None)"

declare enabled.simps(1) [simp del]

text \<open>The page after its first commit: the source of the default project is open.\<close>

definition sys_init :: sys where
  "sys_init =
     \<lparr>app = app_init, modal = modal_init, monitor = monitor_init, ledger = ledger_init,
      webhook = webhook_init, instance_no = 0,
      source = Some (js ''/api/events?project_id=default''), tasks = [], sent = [],
      outputs = [], alive = True\<rparr>"

inductive sys_step :: "sys \<Rightarrow> event \<Rightarrow> sys \<Rightarrow> bool" where
  turn: "enabled s ev \<Longrightarrow> sys_step s ev (step s ev)"

inductive_cases sys_stepE: "sys_step s ev t"

inductive_simps sys_step_simps: "sys_step s ev t"

text \<open>
  The states a session reaches in which every turn also meets a condition \<open>ok\<close> on the
  environment; without one, all reachable states.
\<close>

inductive reach_with :: "(sys \<Rightarrow> event \<Rightarrow> bool) \<Rightarrow> sys \<Rightarrow> bool" for ok where
  start: "reach_with ok sys_init"
| turned: "reach_with ok s \<Longrightarrow> ok s ev \<Longrightarrow> sys_step s ev t \<Longrightarrow> reach_with ok t"

abbreviation reachable :: "sys \<Rightarrow> bool" where
  "reachable \<equiv> reach_with (\<lambda>_ _. True)"

text \<open>A given sequence of turns.\<close>

fun run :: "sys \<Rightarrow> event list \<Rightarrow> sys" where
  "run s [] = s"
| "run s (ev # evs) = run (step s ev) evs"

fun enabled_run :: "sys \<Rightarrow> event list \<Rightarrow> bool" where
  "enabled_run s [] = True"
| "enabled_run s (ev # evs) \<longleftrightarrow> enabled s ev \<and> enabled_run (step s ev) evs"

end
