(* ===== verification/Panel_Facts.thy ===== *)
theory Panel_Facts
  imports React_Dom Types_Model
begin

text \<open>
  Rendering values of the declared types: strings, numbers and optional properties are valid
  children, and an array of well-typed elements renders row by row.
\<close>

lemma is_str_to_str: "is_str v \<Longrightarrow> \<exists>t. to_str v = Inr t"
  by (auto simp: is_str_iff)

lemma is_str_child: "is_str v \<Longrightarrow> \<exists>ns. child v = Inr ns"
  by (auto simp: is_str_iff)

lemma is_num_child: "is_num v \<Longrightarrow> \<exists>ns. child v = Inr ns"
  by (cases v) (auto simp: is_num_def)

lemma is_num_gt0: "is_num v \<Longrightarrow> \<exists>b. gt0 v = Inr b"
  by (cases v) (auto simp: is_num_def)

lemma optional_str_or: "optional is_str v \<Longrightarrow> is_str (js_or v (JStr s))"
  by (cases v) (auto simp: optional_def is_str_def js_or_def)

lemma child_optional: "optional is_str v \<Longrightarrow> \<exists>ns. child v = Inr ns"
  by (cases v) (auto simp: optional_def is_str_def)

lemma js_or_optional: "optional is_str a \<Longrightarrow> optional is_str b \<Longrightarrow> optional is_str (js_or a b)"
  by (simp add: js_or_def)

lemma optional_JStr [simp]: "optional is_str (JStr s)"
  by (simp add: optional_def is_str_def)

lemma truthy_optional: "optional is_str v \<Longrightarrow> truthy v \<Longrightarrow> is_str v"
  by (auto simp: optional_def)

lemma get_opt_get: "\<not> nullish v \<Longrightarrow> \<exists>x. get v k = Inr x"
  by (simp add: opt_get_get)

lemma nullish_not_truthy: "nullish v \<Longrightarrow> \<not> truthy v"
  by (auto simp: nullish_def)

lemma array_length_gt0: "is_array_of P v \<Longrightarrow> \<exists>b. ebind (get v (js ''length'')) gt0 = Inr b"
  by (auto simp: is_array_of_iff)

lemma rows_total:
  assumes "is_array_of P v" "\<And>x. P x \<Longrightarrow> \<exists>n. f x = Inr n"
  shows "\<exists>ns. ebind (elements v) (emap f) = Inr ns"
proof -
  obtain vs where v: "v = JArr vs" "\<forall>x \<in> set vs. P x"
    using assms(1) by (auto simp: is_array_of_iff list_all_iff)
  with assms(2) show ?thesis by (auto intro!: emap_total)
qed

lemma is_obj_truthy: "is_obj v \<Longrightarrow> truthy v"
  by (cases v) (auto simp: is_obj_def)

end
