(* ===== verification/Sandbox_Facts.thy ===== *)
theory Sandbox_Facts
  imports Sandbox_View Panel_Facts
begin

text \<open>
  What the sandbox panel offers, when it renders, and what its statistics mean.
\<close>

section \<open>Actions on offer\<close>

lemma finding_row_fires: "finding_row c = Inr n \<Longrightarrow> fires n = {}"
  by (fastforce simp: finding_row_def ebind_Inr_iff and_child_def split: if_splits)

lemma findings_list_fires: "findings_list changes = Inr ns \<Longrightarrow> fires_all ns = {}"
  by (fastforce simp: findings_list_def ebind_Inr_iff fires_all_UN
      dest: emap_Inr_set finding_row_fires split: if_splits)

lemma code_editor_fires: "code_editor s active = Inr n \<Longrightarrow> fires n \<subseteq> range (SetPane Source)"
  by (auto simp: code_editor_def ebind_Inr_iff split: if_splits)

lemma upload_fires [simp]: "fires (upload p) = range (FileUpload p)"
  by (simp add: upload_def)

lemma counts_fires [simp]: "fires (counts st) = {}"
  by (simp add: counts_def)

lemma spec_pane_fires:
  "fires (spec_pane p title st code) = {FormatJson p} \<union> range (SetPane p) \<union> range (FileUpload p) \<union> range (FileDrop p)"
  by (auto simp: spec_pane_def)

definition body_actions :: "sandbox_act set" where
  "body_actions = (\<Union>p. {FormatJson p} \<union> range (SetPane p) \<union> range (FileUpload p) \<union> range (FileDrop p))"

lemma openapi_panes_fires: "fires (openapi_panes s) \<subseteq> body_actions"
  by (auto simp: openapi_panes_def spec_pane_fires body_actions_def)

lemma code_pane_fires:
  assumes "code_pane s active changes = Inr n" shows "fires n \<subseteq> body_actions"
proof -
  obtain ed fl where ed: "code_editor s active = Inr ed" and fl: "findings_list changes = Inr fl"
    and n: "fires n = range (FileDrop Source) \<union> (range (FileUpload Source) \<union> fires ed) \<union> fires_all fl"
    using assms by (auto simp: code_pane_def Let_def ebind_Inr_iff)
  show ?thesis
    using code_editor_fires [OF ed] unfolding n findings_list_fires [OF fl] body_actions_def by blast
qed

lemma mode_option_values: "option_values [mode_option a x, mode_option b y, mode_option c z, mode_option d w]
   = js ` mode_str ` {a, b, c, d}"
  by (auto simp: mode_option_def)

lemma option_values_menu:
  "option_values (map (\<lambda>(n, c). Elem ''option'' [Value (js n)] [label c]) ncs) = js ` set (map fst ncs)"
  by (induction ncs) (simp_all add: split_beta)

lemma fires_menu: "fires_all (map (\<lambda>(n, c). Elem ''option'' [Value (js n)] [label c]) ncs) = {}"
  by (induction ncs) auto

lemma sample_select_fires: "fires sample_select = LoadSample ` js ` set sample_names"
  by (simp add: sample_select_def option_values_menu fires_menu)
    (simp add: sample_names_def sample_captions_def)

lemma mode_select_fires:
  "fires (mode_select m) = SetSandboxMode ` js ` mode_str ` {OPENAPI, PYTHON, GO, TYPESCRIPT}"
  by (auto simp: mode_select_def mode_option_values) (auto simp: mode_option_def)

lemma toolbar_fires:
  "fires (toolbar busy m) =
     SetSandboxMode ` js ` mode_str ` {OPENAPI, PYTHON, GO, TYPESCRIPT}
     \<union> LoadSample ` js ` set sample_names \<union> {ClearAll}
     \<union> (if busy then {} else {ExecuteSandboxDiff})"
  by (auto simp: toolbar_def mode_select_fires sample_select_fires)

lemma render_sandbox_fires:
  assumes "render_sandbox s busy changes = Inr n"
  shows "fires n \<subseteq> fires (toolbar busy (sandboxMode s)) \<union> body_actions"
    and "fires (toolbar busy (sandboxMode s)) \<subseteq> fires n"
proof -
  obtain active body where n: "n = Elem ''div'' [] [Elem ''div'' [] [toolbar busy (sandboxMode s), body]]"
    and "(if sandboxMode s = OPENAPI then Inr (openapi_panes s) else code_pane s active changes) = Inr body"
    using assms unfolding render_sandbox_def by (auto simp only: ebind_Inr_iff sum.inject)
  then have "body = openapi_panes s \<or> code_pane s active changes = Inr body"
    by (auto split: if_splits)
  then have "fires body \<subseteq> body_actions" using openapi_panes_fires code_pane_fires by blast
  then show "fires n \<subseteq> fires (toolbar busy (sandboxMode s)) \<union> body_actions"
    and "fires (toolbar busy (sandboxMode s)) \<subseteq> fires n"
    unfolding n by auto
qed

lemma execute_iff:
  assumes "render_sandbox s busy changes = Inr n"
  shows "ExecuteSandboxDiff \<in> fires n \<longleftrightarrow> \<not> busy"
  using render_sandbox_fires [OF assms]
  by (auto simp: toolbar_fires body_actions_def)

lemma mode_of_str: "mode_of (js (mode_str m)) = Some m"
  by (cases m) (simp_all add: mode_of_def)

section \<open>Rendering does not throw on well-typed findings\<close>

lemma BreakingChange_fields:
  assumes "BreakingChange c"
  shows "\<not> nullish c"
    "optional is_str (opt_get c (js ''severity''))" "optional is_str (opt_get c (js ''path''))"
    "optional is_str (opt_get c (js ''description''))" "optional is_str (opt_get c (js ''citation''))"
    "optional is_str (opt_get c (js ''proposed_fix''))" "optional is_str (opt_get c (js ''line''))"
    "optional is_str (opt_get c (js ''oldCode''))" "optional is_str (opt_get c (js ''newCode''))"
  using assms optional_mono [OF _ one_of_is_str]
  by (auto simp: BreakingChange_def is_obj_not_nullish)

lemma finding_row_total:
  assumes "BreakingChange c" shows "\<exists>n. finding_row c = Inr n"
proof -
  note f = BreakingChange_fields [OF assms]
  show ?thesis
    unfolding finding_row_def opt_get_get [OF f(1)] ebind_simps
    by (intro ebind_total and_child_total child_optional js_or_optional f optional_JStr) simp_all
qed

lemma has_changes_arr: "\<exists>b. has_changes (JArr cs) = Inr b"
  by (simp add: has_changes_def)

lemma findings_list_total:
  assumes "list_all BreakingChange cs" shows "\<exists>ns. findings_list (JArr cs) = Inr ns"
proof -
  obtain b where "has_changes (JArr cs) = Inr b" using has_changes_arr by blast
  moreover obtain rows where "emap finding_row cs = Inr rows"
    using assms emap_total finding_row_total by (metis list_all_iff)
  ultimately show ?thesis by (cases b) (auto simp: findings_list_def)
qed

lemma find_code_pair_total:
  assumes "list_all BreakingChange cs"
  shows "\<exists>v. find_code_pair cs = Inr v \<and> (v = JUndef \<or> v \<in> set cs)"
  using assms
proof (induction cs)
  case (Cons c cs)
  then have "\<not> nullish c" by (simp add: BreakingChange_fields)
  with Cons show ?case by (auto simp: opt_get_get)
qed simp

lemma activeDiff_total:
  assumes "list_all BreakingChange cs"
  shows "\<exists>v. activeDiff m (JArr cs) = Inr v \<and> (v = JNull \<or> v = JUndef \<or> v \<in> set cs)"
proof -
  obtain b where "has_changes (JArr cs) = Inr b" using has_changes_arr by blast
  with find_code_pair_total [OF assms] show ?thesis by (cases b) (auto simp: activeDiff_def)
qed

lemma code_editor_total: "\<exists>n. code_editor s v = Inr n"
  by (cases "truthy v") (auto simp: code_editor_def truthy_not_nullish opt_get_get)

lemma render_sandbox_total:
  assumes "is_array_of BreakingChange changes"
  shows "\<exists>n. render_sandbox s busy changes = Inr n"
proof -
  obtain cs where cs: "changes = JArr cs" "list_all BreakingChange cs"
    using assms by (auto simp: is_array_of_iff)
  obtain v where "activeDiff (sandboxMode s) changes = Inr v"
    using activeDiff_total cs by blast
  moreover obtain ed where "code_editor s v = Inr ed" using code_editor_total by blast
  moreover obtain fl where "findings_list changes = Inr fl" using findings_list_total cs by blast
  ultimately show ?thesis by (auto simp: render_sandbox_def code_pane_def Let_def)
qed

section \<open>Statistics\<close>

lemma stats_lines: "line_count (getFormatAndValidation m code) = Suc (count_list code 10)"
  by (simp add: getFormatAndValidation_def Let_def length_split_char split: prod.splits)

lemma stats_words: "word_count (getFormatAndValidation m code) = count_words False code"
  using split_spaces_words [of "js_trim code"]
  by (simp add: getFormatAndValidation_def Let_def count_words_trim split: prod.splits)

section \<open>Properties\<close>

text \<open>
  On findings of the declared type the sandbox renders, in every mode, and its run
  button works exactly when no run is under way.
\<close>

theorem sandbox_runs_iff_idle:
  assumes "is_array_of BreakingChange changes"
  shows "\<exists>n. render_sandbox s isSubmitting changes = Inr n
    \<and> (ExecuteSandboxDiff \<in> fires n \<longleftrightarrow> \<not> isSubmitting)"
  using render_sandbox_total [OF assms] execute_iff by blast

lemma sandbox_runs_iff_idle_witness:
  "\<exists>n. render_sandbox \<lparr>sandboxMode = GO, sandboxBase = [], sandboxTarget = [], sourceCode = []\<rparr> False
     (JArr [JObj [(js ''severity'', JStr (js ''BREAKING'')), (js ''line'', JStr (js ''L4''))]]) = Inr n
   \<and> ExecuteSandboxDiff \<in> fires n"
  using sandbox_runs_iff_idle [of "JArr [JObj [(js ''severity'', JStr (js ''BREAKING'')), (js ''line'', JStr (js ''L4''))]]"
      "\<lparr>sandboxMode = GO, sandboxBase = [], sandboxTarget = [], sourceCode = []\<rparr>" False]
  by (simp add: is_array_of_def BreakingChange_def is_obj_def opt_get_def field_def optional_def
      one_of_def is_str_def)

text \<open>
  The statistics of a pane mean what they are called: the lines are one more than the
  line feeds, the words are the runs of characters other than the blanks the code splits at,
  and a text that starts like a document is marked invalid exactly when it does not parse.
\<close>

theorem statistics_are_right:
  "line_count (getFormatAndValidation m code) = Suc (count_list code 10)
   \<and> word_count (getFormatAndValidation m code) = count_words False code
   \<and> (format (getFormatAndValidation m code) = ''JSON'' \<and> \<not> valid (getFormatAndValidation m code)
        \<longleftrightarrow> (starts_with (js_trim code) (js ''{'') \<or> starts_with (js_trim code) (js ''[''))
             \<and> json_parse code = None)"
  by (simp add: stats_lines stats_words) (auto simp: getFormatAndValidation_def Let_def)

end
