(* ===== verification/App_Facts.thy ===== *)
theory App_Facts
  imports App_System Sandbox_Facts
begin

text \<open>
  How the steps of the application change its state, in the form the invariants use: a
  commit touches the connection state, the mounting state and the tasks and requests of a
  freshly mounted ledger, and nothing else; and what an enabled action says of the state it
  is enabled in. Then the interface of an invariant.
\<close>

section \<open>Frame of a commit\<close>

text \<open>The fields of the application a commit leaves alone are all but \<open>connectionState\<close>.\<close>

definition same_app :: "app \<Rightarrow> app \<Rightarrow> bool" where
  "same_app a b \<longleftrightarrow> (\<exists>c. b = a\<lparr>connectionState := c\<rparr>)"

lemma same_app_refl [simp]: "same_app a a"
  by (cases a) (auto simp: same_app_def)

lemma same_app_fields:
  assumes "same_app a b"
  shows "sandboxMode b = sandboxMode a" "sandboxBase b = sandboxBase a"
    "sandboxTarget b = sandboxTarget a" "sourceCode b = sourceCode a"
    "events b = events a" "status b = status a" "diffId b = diffId a"
    "diffStatus b = diffStatus a" "breakingChanges b = breakingChanges a"
    "showModal b = showModal a" "overrideNote b = overrideNote a"
    "isSubmitting b = isSubmitting a" "viewMode b = viewMode a"
    "currentProjectId b = currentProjectId a" "prompt b = prompt a"
  using assms by (auto simp: same_app_def)

lemma events_effect_same:
  assumes "events_effect a = Inr (b, url)" shows "same_app a b"
proof (cases "truthy (currentProjectId a)")
  case True
  with assms show ?thesis by (auto simp: events_effect_def ebind_Inr_iff same_app_def)
qed (use assms in \<open>simp add: events_effect_def\<close>)

text \<open>The stages of a commit, one line per field.\<close>

lemma mount_modal_frame [simp]:
  "app (mount_modal old s) = app s" "monitor (mount_modal old s) = monitor s"
  "ledger (mount_modal old s) = ledger s" "webhook (mount_modal old s) = webhook s"
  "instance_no (mount_modal old s) = instance_no s" "source (mount_modal old s) = source s"
  "tasks (mount_modal old s) = tasks s" "sent (mount_modal old s) = sent s"
  "outputs (mount_modal old s) = outputs s" "alive (mount_modal old s) = alive s"
  by (simp_all add: mount_modal_def)

lemma mount_view_frame [simp]:
  "app (mount_view old s) = app s" "modal (mount_view old s) = modal s"
  "source (mount_view old s) = source s"
  "tasks (mount_view old s) = tasks s" "sent (mount_view old s) = sent s"
  "outputs (mount_view old s) = outputs s" "alive (mount_view old s) = alive s"
  by (simp_all add: mount_view_def)

lemma crash_frame [simp]:
  "app (crash s) = app s" "modal (crash s) = modal s" "monitor (crash s) = monitor s"
  "ledger (crash s) = ledger s" "webhook (crash s) = webhook s"
  "instance_no (crash s) = instance_no s" "tasks (crash s) = tasks s" "sent (crash s) = sent s"
  "outputs (crash s) = outputs s" "\<not> alive (crash s)" "source (crash s) = None"
  by (simp_all add: crash_def)

lemma prune_trees_frame [simp]:
  "app (prune_trees s) = app s" "modal (prune_trees s) = modal s"
  "ledger (prune_trees s) = ledger s" "webhook (prune_trees s) = webhook s"
  "instance_no (prune_trees s) = instance_no s" "source (prune_trees s) = source s"
  "tasks (prune_trees s) = tasks s" "sent (prune_trees s) = sent s"
  "outputs (prune_trees s) = outputs s" "alive (prune_trees s) = alive s"
  by (simp_all add: prune_trees_def)

lemma send_frame [simp]:
  "app (send r s) = app s" "modal (send r s) = modal s" "monitor (send r s) = monitor s"
  "ledger (send r s) = ledger s" "webhook (send r s) = webhook s"
  "instance_no (send r s) = instance_no s" "source (send r s) = source s"
  "tasks (send r s) = tasks s" "sent (send r s) = sent s @ [r]"
  "outputs (send r s) = outputs s" "alive (send r s) = alive s"
  by (simp_all add: send_def)

lemma add_task_frame [simp]:
  "app (add_task t s) = app s" "modal (add_task t s) = modal s"
  "monitor (add_task t s) = monitor s" "ledger (add_task t s) = ledger s"
  "webhook (add_task t s) = webhook s" "instance_no (add_task t s) = instance_no s"
  "source (add_task t s) = source s" "tasks (add_task t s) = tasks s @ [t]"
  "sent (add_task t s) = sent s" "outputs (add_task t s) = outputs s"
  "alive (add_task t s) = alive s"
  by (simp_all add: add_task_def)

lemma upd_frame [simp]:
  "app (upd f s) = f (app s)" "modal (upd f s) = modal s" "monitor (upd f s) = monitor s"
  "ledger (upd f s) = ledger s" "webhook (upd f s) = webhook s"
  "instance_no (upd f s) = instance_no s" "source (upd f s) = source s"
  "tasks (upd f s) = tasks s" "sent (upd f s) = sent s" "outputs (upd f s) = outputs s"
  "alive (upd f s) = alive s"
  by (simp_all add: upd_def)

lemma put_out_frame [simp]:
  "app (put_out out s) = app s" "modal (put_out out s) = modal s"
  "monitor (put_out out s) = monitor s" "ledger (put_out out s) = ledger s"
  "webhook (put_out out s) = webhook s" "instance_no (put_out out s) = instance_no s"
  "source (put_out out s) = source s" "tasks (put_out out s) = tasks s"
  "sent (put_out out s) = sent s" "outputs (put_out out s) = outputs s @ [out]"
  "alive (put_out out s) = alive s"
  by (simp_all add: put_out_def)

text \<open>The ledger mounts when the view changes to it.\<close>

definition ledger_mounts :: "sys \<Rightarrow> sys \<Rightarrow> bool" where
  "ledger_mounts old s \<longleftrightarrow> viewMode (app s) = AUDIT \<and> viewMode (app old) \<noteq> AUDIT"

lemma ledger_effect_frame [simp]:
  "app (ledger_effect old s) = app s" "modal (ledger_effect old s) = modal s"
  "webhook (ledger_effect old s) = webhook s" "source (ledger_effect old s) = source s"
  "instance_no (ledger_effect old s) = instance_no s"
  "outputs (ledger_effect old s) = outputs s" "alive (ledger_effect old s) = alive s"
  "tasks (ledger_effect old s) =
     tasks s @ (if ledger_mounts old s then [LedgerFetch (instance_no s)] else [])"
  "sent (ledger_effect old s) = sent s @ (if ledger_mounts old s then [GetDiffs] else [])"
  by (simp_all add: ledger_effect_def ledger_fetch_def ledger_mounts_def)

lemma source_effect_frame [simp]:
  "modal (source_effect np old s) = modal s" "monitor (source_effect np old s) = monitor s"
  "ledger (source_effect np old s) = ledger s" "webhook (source_effect np old s) = webhook s"
  "instance_no (source_effect np old s) = instance_no s"
  "tasks (source_effect np old s) = tasks s" "sent (source_effect np old s) = sent s"
  "outputs (source_effect np old s) = outputs s"
  by (simp_all add: source_effect_def split: sum.split prod.split)

lemma source_effect_app: "same_app (app s) (app (source_effect np old s))"
  by (auto simp: source_effect_def events_effect_same split: sum.split)

lemma source_effect_alive: "alive (source_effect np old s) \<Longrightarrow> alive s"
  by (auto simp: source_effect_def split: if_splits sum.splits)

text \<open>The state React renders in a commit, and whether a ledger starts fetching in it.\<close>

definition mounted :: "sys \<Rightarrow> sys \<Rightarrow> sys" where
  "mounted old s = mount_view old (mount_modal old s)"

lemma commit_eq:
  "commit np old s =
     (if \<not> alive s then s
      else case render_app (mounted old s) of
             Inl _ \<Rightarrow> crash (mounted old s)
           | Inr _ \<Rightarrow> prune_trees (source_effect np old (ledger_effect old (mounted old s))))"
  unfolding commit_def mounted_def Let_def by (rule refl)

lemma mounted_frame [simp]:
  "app (mounted old s) = app s" "source (mounted old s) = source s"
  "tasks (mounted old s) = tasks s" "sent (mounted old s) = sent s"
  "outputs (mounted old s) = outputs s" "alive (mounted old s) = alive s"
  by (simp_all add: mounted_def)

definition ledger_starts :: "sys \<Rightarrow> sys \<Rightarrow> bool" where
  "ledger_starts old s \<longleftrightarrow>
     alive s \<and> ledger_mounts old s \<and> (case render_app (mounted old s) of Inl _ \<Rightarrow> False | Inr _ \<Rightarrow> True)"

lemma commit_app: "same_app (app s) (app (commit np old s))"
  using source_effect_app [of "ledger_effect old (mounted old s)" np old]
  by (auto simp: commit_eq split: sum.split)

lemmas commit_fields [simp] = same_app_fields [OF commit_app]

lemma ledger_mounts_mounted [simp]: "ledger_mounts old (mounted old s) = ledger_mounts old s"
  by (simp add: ledger_mounts_def)

lemma commit_tasks:
  "tasks (commit np old s) =
     tasks s @ (if ledger_starts old s then [LedgerFetch (instance_no (mounted old s))] else [])"
  by (simp add: commit_eq ledger_starts_def split: sum.split)

lemma commit_sent:
  "sent (commit np old s) = sent s @ (if ledger_starts old s then [GetDiffs] else [])"
  by (simp add: commit_eq ledger_starts_def split: sum.split)

lemma commit_outputs [simp]: "outputs (commit np old s) = outputs s"
  by (simp add: commit_eq split: sum.split)

lemma commit_alive: "alive (commit np old s) \<Longrightarrow> alive s"
  by (simp add: commit_eq split: if_splits)

lemma commit_instance:
  "instance_no (commit np old s) =
     (if alive s \<and> viewMode (app s) \<noteq> viewMode (app old) then Suc (instance_no s) else instance_no s)"
  by (simp add: commit_eq mounted_def mount_view_def mount_modal_def split: sum.split)

lemma commit_ledger:
  "ledger (commit np old s) =
     (let l = if alive s \<and> viewMode (app s) \<noteq> viewMode (app old) then ledger_init else ledger s
      in if ledger_starts old s then fetch_start l else l)"
  by (simp add: commit_eq ledger_starts_def Let_def mounted_def mount_view_def mount_modal_def
      ledger_effect_def ledger_fetch_def ledger_mounts_def split: sum.split)

lemma commit_modal:
  "modal (commit np old s) =
     (if alive s \<and> showModal (app s) \<and> \<not> showModal (app old) then modal_init else modal s)"
  by (simp add: commit_eq mounted_def mount_modal_def split: sum.split)

lemma commit_webhook:
  "webhook (commit np old s) =
     (if alive s \<and> viewMode (app s) \<noteq> viewMode (app old) then webhook_init else webhook s)"
  by (simp add: commit_eq mounted_def mount_view_def mount_modal_def split: sum.split)

text \<open>A commit that leaves the application alive rendered, and its effects ran.\<close>

lemma commit_alive_iff:
  "alive (commit np old s) \<longleftrightarrow>
     alive s \<and> (\<exists>n. render_app (mounted old s) = Inr n)
     \<and> (viewMode (app s) \<noteq> viewMode (app old) \<or> np \<longrightarrow> (\<exists>r. events_effect (app s) = Inr r))"
  by (auto simp: commit_eq source_effect_def split: sum.split)

lemma commit_source:
  assumes "alive (commit np old s)"
  shows "source (commit np old s) =
     (if viewMode (app s) = viewMode (app old) \<and> \<not> np then source s
      else case events_effect (app s) of Inl _ \<Rightarrow> None | Inr (a, url) \<Rightarrow> url)"
  using assms by (auto simp: commit_eq source_effect_def split: sum.splits if_splits)

section \<open>What an enabled action says\<close>

lemma nav_bar_fires: "fires (nav_bar v) = range GoTo"
proof -
  have "fires (nav_bar v) = GoTo ` {MONITOR, SANDBOX, PROMPT, AUDIT, WEBHOOK}"
    by (auto simp: nav_bar_def nav_button_def)
  also have "{MONITOR, SANDBOX, PROMPT, AUDIT, WEBHOOK} = UNIV"
    by (auto intro: ViewMode.exhaust)
  finally show ?thesis .
qed

text \<open>The panel's actions by view.\<close>

definition panel_offers :: "sys \<Rightarrow> action set" where
  "panel_offers s =
     (case viewMode (app s) of
        PROMPT \<Rightarrow> {InPrompt e |e n. render_prompt (prompt (app s)) = Inr n \<and> e \<in> fires n}
      | SANDBOX \<Rightarrow> {InSandbox e |e n. render_sandbox (app s) (isSubmitting (app s))
                        (breakingChanges (app s)) = Inr n \<and> e \<in> fires n}
      | AUDIT \<Rightarrow> {InLedger e |e n. render_ledger (ledger s) = Inr n \<and> e \<in> fires n}
      | WEBHOOK \<Rightarrow> InWebhook ` fires (render_webhook (webhook s))
      | MONITOR \<Rightarrow> {InMonitor e |e n. render_monitor (status (app s)) (connectionState (app s))
                       (currentProjectId (app s)) (events (app s)) (diffStatus (app s))
                       (breakingChanges (app s)) (monitor s) = Inr n \<and> e \<in> fires n})"

definition modal_offers :: "sys \<Rightarrow> modal_act set" where
  "modal_offers s =
     (if showModal (app s)
      then fires (render_modal (overrideNote (app s)) (isSubmitting (app s)) (modal s)) else {})"

lemma view_panel_fires: "view_panel s = Inr n \<Longrightarrow> fires n = panel_offers s"
  by (cases "viewMode (app s)")
    (auto simp: view_panel_def panel_offers_def Let_def ebind_Inr_iff)

lemma render_app_fires:
  assumes "render_app s = Inr n"
  shows "fires n = range GoTo \<union> panel_offers s \<union> InModal ` modal_offers s"
  using assms view_panel_fires
  by (auto simp: render_app_def ebind_Inr_iff nav_bar_fires modal_panel_def modal_offers_def)

lemma enabled_user_iff:
  "enabled s (User act) \<longleftrightarrow>
     alive s \<and> (\<exists>n. render_app s = Inr n)
     \<and> act \<in> range GoTo \<union> panel_offers s \<union> InModal ` modal_offers s"
  by (auto simp: enabled.simps(1) render_app_fires split: sum.splits)

lemma enabled_modal:
  "enabled s (User (InModal act)) \<Longrightarrow> alive s \<and> showModal (app s) \<and> act \<in> modal_offers s"
  unfolding enabled_user_iff
  by (auto simp: panel_offers_def modal_offers_def split: ViewMode.splits if_splits)

lemma enabled_sandbox:
  "enabled s (User (InSandbox act)) \<Longrightarrow>
     alive s \<and> viewMode (app s) = SANDBOX
     \<and> (\<exists>n. render_sandbox (app s) (isSubmitting (app s)) (breakingChanges (app s)) = Inr n
           \<and> act \<in> fires n)"
  unfolding enabled_user_iff by (auto simp: panel_offers_def split: ViewMode.splits)

lemma enabled_prompt:
  "enabled s (User (InPrompt act)) \<Longrightarrow>
     alive s \<and> viewMode (app s) = PROMPT
     \<and> (\<exists>n. render_prompt (prompt (app s)) = Inr n \<and> act \<in> fires n)"
  unfolding enabled_user_iff by (auto simp: panel_offers_def split: ViewMode.splits)

lemma enabled_ledger:
  "enabled s (User (InLedger act)) \<Longrightarrow>
     alive s \<and> viewMode (app s) = AUDIT
     \<and> (\<exists>n. render_ledger (ledger s) = Inr n \<and> act \<in> fires n)"
  unfolding enabled_user_iff by (auto simp: panel_offers_def split: ViewMode.splits)

lemma enabled_monitor:
  "enabled s (User (InMonitor act)) \<Longrightarrow> alive s \<and> viewMode (app s) = MONITOR"
  unfolding enabled_user_iff by (auto simp: panel_offers_def split: ViewMode.splits)

lemma enabled_webhook:
  "enabled s (User (InWebhook act)) \<Longrightarrow> alive s \<and> viewMode (app s) = WEBHOOK"
  unfolding enabled_user_iff by (auto simp: panel_offers_def split: ViewMode.splits)

lemma handle_override_offered:
  "HandleOverride \<in> modal_offers s \<longleftrightarrow>
     showModal (app s) \<and> canSubmit (overrideNote (app s)) (isSubmitting (app s)) (modal s)"
  by (auto simp: modal_offers_def render_modal_fires)

lemma execute_offered:
  assumes "enabled s (User (InSandbox ExecuteSandboxDiff))" shows "\<not> isSubmitting (app s)"
  using enabled_sandbox [OF assms] execute_iff by blast

section \<open>The initial state\<close>

lemma sys_init_fields [simp]:
  "app sys_init = app_init" "modal sys_init = modal_init" "monitor sys_init = monitor_init"
  "ledger sys_init = ledger_init" "webhook sys_init = webhook_init" "instance_no sys_init = 0"
  "source sys_init = Some (js ''/api/events?project_id=default'')" "tasks sys_init = []"
  "sent sys_init = []" "outputs sys_init = []" "alive sys_init"
  by (simp_all add: sys_init_def)

lemma app_init_fields [simp]:
  "events app_init = []" "status app_init = SAFE" "diffId app_init = JNull"
  "diffStatus app_init = JNull" "breakingChanges app_init = JArr []" "\<not> showModal app_init"
  "overrideNote app_init = []" "\<not> isSubmitting app_init" "viewMode app_init = MONITOR"
  "currentProjectId app_init = JStr (js ''default'')" "connectionState app_init = CONNECTING"
  "prompt app_init = prompt_init" "sandboxMode app_init = OPENAPI"
  by (simp_all add: app_init_def)

lemma part_init_fields [simp]:
  "\<not> isPrompting prompt_init" "promptResult prompt_init = JStr []" "astAnalysis prompt_init = JNull"
  "\<not> loading ledger_init" "runs ledger_init = JArr []" "selectedRun ledger_init = JNull"
  "\<not> ackRisk modal_init" "\<not> ackPolicy modal_init"
  by (simp_all add: prompt_init_def ledger_init_def modal_init_def)

section \<open>Invariants\<close>

text \<open>
  A property of the initial state that every turn preserves holds in every state reached.
  \<open>ok\<close> is what is asked of the environment.
\<close>

locale sys_invariant =
  fixes ok :: "sys \<Rightarrow> event \<Rightarrow> bool" and inv :: "sys \<Rightarrow> bool"
  assumes init: "inv sys_init"
    and preserved: "reach_with ok s \<Longrightarrow> inv s \<Longrightarrow> ok s ev \<Longrightarrow> enabled s ev \<Longrightarrow> inv (step s ev)"
begin

lemma holds: "reach_with ok s \<Longrightarrow> inv s"
  by (induction rule: reach_with.induct) (auto elim!: sys_stepE intro: init preserved)

end

text \<open>
  Most invariants are kept by each half of a turn: by the handler, and by the commit after
  it.
\<close>

locale turn_invariant =
  fixes ok :: "sys \<Rightarrow> event \<Rightarrow> bool" and inv :: "sys \<Rightarrow> bool"
  assumes first: "inv sys_init"
    and user: "inv s \<Longrightarrow> ok s (User act) \<Longrightarrow> enabled s (User act) \<Longrightarrow> inv (user_step act s)"
    and connection: "inv s \<Longrightarrow> inv (upd (\<lambda>a. a\<lparr>connectionState := c\<rparr>) s)"
    and message: "inv s \<Longrightarrow> ok s (SourceMessage data) \<Longrightarrow> inv (upd (on_message data) s)"
    and task: "inv s \<Longrightarrow> ok s (Complete i r) \<Longrightarrow> i < length (tasks s)
      \<Longrightarrow> task_step (tasks s ! i) r (s\<lparr>tasks := remove_nth i (tasks s)\<rparr>) = (s', np) \<Longrightarrow> inv s'"
    and committed: "inv s \<Longrightarrow> inv (commit np old s)"

begin

lemma kept:
  assumes "inv s" "ok s ev" "enabled s ev" shows "inv (step s ev)"
proof (cases ev)
  case (Complete i r)
  obtain s' np where "task_step (tasks s ! i) r (s\<lparr>tasks := remove_nth i (tasks s)\<rparr>) = (s', np)"
    by fastforce
  with Complete assms task show ?thesis by (auto simp: complete_def intro: committed)
qed (use assms in \<open>auto intro: committed user connection message\<close>)

end

sublocale turn_invariant \<subseteq> sys_invariant
  by unfold_locales (rule first, rule kept)

end
