(* ===== verification/Prompt_Facts.thy ===== *)
theory Prompt_Facts
  imports Prompt Panel_Facts
begin

text \<open>
  The prompt compiler: what its panel offers, that it renders on a well-typed analysis, and
  what a finished request leaves.
\<close>

section \<open>Actions on offer\<close>

lemma count_boxes_fires: "count_boxes a = Inr ns \<Longrightarrow> fires_all ns = {}"
  by (auto simp: count_boxes_def and_child_def ebind_Inr_iff split: if_splits)

lemma dep_badge_fires: "dep_badge d = Inr n \<Longrightarrow> fires n = {}"
  by (auto simp: dep_badge_def and_child_def ebind_Inr_iff split: if_splits)

lemma dep_list_fires: "dep_list a = Inr ns \<Longrightarrow> fires_all ns = {}"
  by (fastforce simp: dep_list_def ebind_Inr_iff fires_all_UN
      dest: emap_Inr_set dep_badge_fires split: if_splits)

lemma caveat_box_fires: "caveat_box c = Inr n \<Longrightarrow> fires n = {}"
  by (auto simp: caveat_box_def Let_def ebind_Inr_iff)

lemma caveat_boxes_fires: "emap caveat_box cs = Inr ns \<Longrightarrow> fires_all ns = {}"
  by (auto simp: fires_all_UN dest!: emap_Inr_set dest: caveat_box_fires)

lemma caveat_list_fires: "caveat_list a = Inr ns \<Longrightarrow> fires_all ns = {}"
  by (auto simp: caveat_list_def ebind_Inr_iff caveat_boxes_fires split: if_splits)

lemma facts_panel_fires: "facts_panel p = Inr n \<Longrightarrow> fires n = {}"
  by (auto simp: facts_panel_def ebind_Inr_iff count_boxes_fires dep_list_fires caveat_list_fires)

lemma result_panel_fires:
  "result_panel p = Inr ns \<Longrightarrow>
     fires_all ns = (if truthy (promptResult p) then {CopyToClipboard, DownloadMarkdown} else {})"
  by (auto simp: result_panel_def and_child_def ebind_Inr_iff split: if_splits)

lemma lang_options:
  "option_values (map (\<lambda>l. Elem ''option'' [Value (js l)] [label l]) ls) = js ` set ls"
  "fires_all (map (\<lambda>l. Elem ''option'' [Value (js l)] [label l]) ls) = {}"
  by (induction ls) auto

lemma prompt_toolbar_fires:
  "fires (prompt_toolbar p) =
     SetPromptLang ` js ` set lang_names
     \<union> (if isPrompting p \<or> blank (promptCode p) then {} else {ExecutePrompt})"
  by (auto simp: prompt_toolbar_def lang_options js_trim_Nil)

lemma target_boxes_fires:
  "fires (target_boxes p) =
     range SetTargetDockerfile \<union> range SetTargetCLI \<union> range SetTargetCI \<union> range SetTargetK8s"
  by (auto simp: target_boxes_def)

definition prompt_offers :: "prompt \<Rightarrow> prompt_act set" where
  "prompt_offers p =
     SetPromptLang ` js ` set lang_names \<union> range SetPromptCode
     \<union> range SetTargetDockerfile \<union> range SetTargetCLI \<union> range SetTargetCI \<union> range SetTargetK8s
     \<union> (if isPrompting p \<or> blank (promptCode p) then {} else {ExecutePrompt})
     \<union> (if truthy (promptResult p) then {CopyToClipboard, DownloadMarkdown} else {})"

lemma render_prompt_fires: "render_prompt p = Inr n \<Longrightarrow> fires n = prompt_offers p"
  unfolding render_prompt_def
  by (auto simp: ebind_Inr_iff facts_panel_fires result_panel_fires prompt_toolbar_fires
      target_boxes_fires prompt_offers_def)

section \<open>Rendering\<close>

definition prompt_ok :: "prompt \<Rightarrow> bool" where
  "prompt_ok p \<longleftrightarrow> is_str (promptResult p) \<and> (nullish (astAnalysis p) \<or> CodeAnalysis (astAnalysis p))"

lemma CodeAnalysis_fields:
  assumes "CodeAnalysis a"
  shows "\<not> nullish a" "truthy a"
    "DetectedLanguage (opt_get a (js ''language''))"
    "is_array_of Dependency (opt_get a (js ''dependencies''))"
    "is_array_of PackagingCaveat (opt_get a (js ''caveats''))"
    "is_num (opt_get a (js ''function_count''))" "is_num (opt_get a (js ''class_count''))"
  using assms is_obj_not_nullish by (cases a; auto simp: CodeAnalysis_def is_obj_def)+

lemma language_line_total: "prompt_ok p \<Longrightarrow> \<exists>t. language_line p = Inr t"
proof (cases "truthy (astAnalysis p)")
  case True
  assume "prompt_ok p"
  with True have a: "CodeAnalysis (astAnalysis p)"
    by (auto simp: prompt_ok_def nullish_not_truthy)
  note f = CodeAnalysis_fields [OF a]
  have l: "\<not> nullish (opt_get (astAnalysis p) (js ''language''))"
    using f(3) by (simp add: DetectedLanguage_def is_obj_not_nullish)
  show ?thesis
    using f(3) unfolding language_line_def opt_get_get [OF f(1)] ebind_simps opt_get_get [OF l]
    by (auto simp: DetectedLanguage_def intro!: ebind_total is_str_to_str optional_str_or)
qed (simp add: language_line_def)

lemma count_boxes_total: "nullish a \<or> CodeAnalysis a \<Longrightarrow> \<exists>ns. count_boxes a = Inr ns"
  unfolding count_boxes_def
  by (auto intro!: and_child_total ebind_total is_num_child
      dest: CodeAnalysis_fields nullish_not_truthy)

lemma dep_badge_total: "Dependency d \<Longrightarrow> \<exists>n. dep_badge d = Inr n"
  unfolding dep_badge_def Dependency_def
  by (intro ebind_total and_child_total get_opt_get is_str_child is_obj_not_nullish; simp)

lemma caveat_box_total: "PackagingCaveat c \<Longrightarrow> \<exists>n. caveat_box c = Inr n"
  unfolding caveat_box_def
  by (auto simp: PackagingCaveat_def opt_get_get is_obj_not_nullish Let_def
      intro!: ebind_total is_str_child one_of_is_str)

lemma dep_list_total: "nullish a \<or> CodeAnalysis a \<Longrightarrow> \<exists>ns. dep_list a = Inr ns"
  unfolding dep_list_def
  by (rule ebind_total)
    (auto dest: nullish_not_truthy CodeAnalysis_fields(4)
      intro: array_length_gt0 rows_total [OF _ dep_badge_total])

lemma caveat_list_total: "nullish a \<or> CodeAnalysis a \<Longrightarrow> \<exists>ns. caveat_list a = Inr ns"
proof (cases "truthy a")
  case True
  assume "nullish a \<or> CodeAnalysis a"
  with True obtain cs where c: "opt_get a (js ''caveats'') = JArr cs" "\<forall>x \<in> set cs. PackagingCaveat x"
    using CodeAnalysis_fields(5) nullish_not_truthy by (fastforce simp: is_array_of_iff list_all_iff)
  obtain boxes where "emap caveat_box cs = Inr boxes"
    using c(2) emap_total [of cs caveat_box] caveat_box_total by blast
  with True c(1) show ?thesis by (simp add: caveat_list_def)
qed (simp add: caveat_list_def child_falsy)

lemma render_prompt_total: "prompt_ok p \<Longrightarrow> \<exists>n. render_prompt p = Inr n"
proof -
  assume ok: "prompt_ok p"
  have facts: "\<exists>n. facts_panel p = Inr n"
    using ok language_line_total unfolding facts_panel_def prompt_ok_def
    by (intro ebind_total count_boxes_total dep_list_total caveat_list_total) (auto simp: prompt_ok_def)
  have result: "\<exists>n. result_panel p = Inr n"
    using ok unfolding result_panel_def prompt_ok_def
    by (intro and_child_total ebind_total) (auto intro: is_str_child)
  show ?thesis
    unfolding render_prompt_def by (intro ebind_total facts result) simp
qed

interpretation prompt_panel: panel render_prompt prompt_ok prompt_offers
  by unfold_locales (simp_all add: render_prompt_total render_prompt_fires)

lemma execute_prompt_offered:
  "render_prompt p = Inr n \<Longrightarrow> ExecutePrompt \<in> fires n \<longleftrightarrow> \<not> isPrompting p \<and> \<not> blank (promptCode p)"
  by (auto simp: render_prompt_fires prompt_offers_def)

section \<open>Requests that fail\<close>

text \<open>
  When the prompt endpoint does not answer, answers with an error, or answers with
  something that is not a document, the compiler is idle again and its result is a text that
  ends with the code the user submitted, fenced; the facts of an earlier answer stay.
\<close>

theorem failed_prompt_keeps_code:
  assumes "r = NetError \<or> (\<exists>body. r = Resp False body) \<or> (\<exists>body. r = Resp True body \<and> json_parse body = None)"
  shows "\<not> isPrompting (prompt_done p0 r p) \<and> astAnalysis (prompt_done p0 r p) = astAnalysis p
    \<and> (\<exists>top. promptResult (prompt_done p0 r p) =
         JStr (top @ fence @ [10] @ promptCode p0 @ [10] @ fence @ [10]))"
proof -
  have tail: "\<exists>top. x @ code_section p0 = top @ fence @ [10] @ promptCode p0 @ [10] @ fence @ [10]" for x
    by (simp add: code_section_def)
  then have "\<exists>top. fallback_markdown p0 = top @ fence @ [10] @ promptCode p0 @ [10] @ fence @ [10]"
    "\<exists>top. offline_markdown p0 = top @ fence @ [10] @ promptCode p0 @ [10] @ fence @ [10]"
    unfolding fallback_markdown_def offline_markdown_def by (metis append.assoc)+
  with assms show ?thesis
    by (auto simp: prompt_done_def json_parse_res_def Let_def)
qed

lemma failed_prompt_keeps_code_witness:
  "\<exists>top. promptResult (prompt_done (prompt_init\<lparr>promptCode := js ''x = 1''\<rparr>) NetError prompt_init) =
     JStr (top @ fence @ [10] @ js ''x = 1'' @ [10] @ fence @ [10])"
  using failed_prompt_keeps_code [of NetError "prompt_init\<lparr>promptCode := js ''x = 1''\<rparr>" prompt_init]
  by simp

end
