(* ===== verification/Ledger_Facts.thy ===== *)
theory Ledger_Facts
  imports Ledger Panel_Facts
begin

text \<open>
  The ledger: its filter against the filter of lists, what it offers, and that it renders on
  well-typed records.
\<close>

section \<open>Filtering\<close>

definition run_status :: "jsval \<Rightarrow> jsval" where
  "run_status r = opt_get r (js ''status'')"

definition shows_run :: "StatusFilter \<Rightarrow> jsval \<Rightarrow> bool" where
  "shows_run f r \<longleftrightarrow> f = AllRuns \<or> run_status r = JStr (js (filter_str f))"

lemma filter_runs_eq:
  "\<forall>r \<in> set rs. \<not> nullish r \<Longrightarrow> filter_runs f rs = Inr (filter (shows_run f) rs)"
  by (induction rs) (auto simp: run_matches_def shows_run_def run_status_def opt_get_get)

lemma filter_runs_all: "filter_runs AllRuns rs = Inr rs"
  by (induction rs) (simp_all add: run_matches_def)

lemma DiffRunRecord_fields:
  assumes "DiffRunRecord r"
  shows "\<not> nullish r" "truthy r" "is_str (opt_get r (js ''id''))"
    "optional is_str (opt_get r (js ''commit_sha''))" "is_str (opt_get r (js ''status''))"
    "is_num (opt_get r (js ''breaking_count''))" "is_num (opt_get r (js ''dangerous_count''))"
  using assms is_obj_not_nullish one_of_is_str
  by (auto simp: DiffRunRecord_def is_obj_def split: jsval.splits)

lemma filteredRuns_eq:
  assumes "is_array_of DiffRunRecord (runs l)"
  shows "\<exists>rs. runs l = JArr rs \<and> filteredRuns l = Inr (filter (shows_run (statusFilter l)) rs)"
proof -
  obtain rs where r: "runs l = JArr rs" "\<forall>r \<in> set rs. DiffRunRecord r"
    using assms by (auto simp: is_array_of_iff list_all_iff)
  then have "\<forall>r \<in> set rs. \<not> nullish r" using DiffRunRecord_fields(1) by blast
  with r(1) show ?thesis by (simp add: filteredRuns_def filter_runs_eq)
qed

section \<open>Actions on offer\<close>

lemma status_badge_fires: "fires_all ns = {} \<Longrightarrow> fires (status_badge st ns) = {}"
  by (simp add: status_badge_def Let_def)

lemma sha_fires:
  "(if b then ebind m child else Inr [label t]) = Inr ns \<Longrightarrow> fires_all ns = {}"
  by (auto split: if_splits)

lemma run_row_fires: "run_row r = Inr n \<Longrightarrow> fires n = {SelectRun r}"
  unfolding run_row_def
  by (elim ebind_InrE)
    (auto simp: status_badge_fires sha_fires fires_shown_empty simp del: fires_all_shown if_split_asm)

lemma rows_fires: "emap run_row rs = Inr ns \<Longrightarrow> fires_all ns = SelectRun ` set rs"
  by (induction rs arbitrary: ns) (auto simp: ebind_Inr_iff run_row_fires)

lemma filter_runs_set: "filter_runs f rs = Inr ss \<Longrightarrow> set ss \<subseteq> set rs"
proof (induction rs arbitrary: ss)
  case (Cons r rs)
  then obtain keep rest where "filter_runs f rs = Inr rest" "ss = (if keep then r # rest else rest)"
    by (auto simp: ebind_Inr_iff)
  with Cons.IH show ?case by auto
qed simp

definition listed :: "jsval \<Rightarrow> jsval set" where
  "listed v = (case v of JArr rs \<Rightarrow> set rs | _ \<Rightarrow> {})"

lemma runs_body_fires: "runs_body l = Inr ns \<Longrightarrow> fires_all ns \<subseteq> SelectRun ` listed (runs l)"
proof -
  assume "runs_body l = Inr ns"
  then obtain rs where rs: "filteredRuns l = Inr rs" and "rs = [] \<and> fires_all ns = {} \<or> emap run_row rs = Inr ns"
    by (auto simp: runs_body_def ebind_Inr_iff split: if_splits)
  then have "fires_all ns = SelectRun ` set rs" using rows_fires by auto
  moreover have "set rs \<subseteq> listed (runs l)"
    using rs by (auto simp: filteredRuns_def ebind_Inr_iff elements_Inr listed_def
        dest: subsetD [OF filter_runs_set])
  ultimately show ?thesis by blast
qed

lemma inspect_modal_fires: "inspect_modal r = Inr ns \<Longrightarrow> fires_all ns \<subseteq> {CloseRun}"
  by (auto simp: inspect_modal_def and_child_def ebind_Inr_iff split: if_splits option.splits)

lemma filter_buttons_fires: "fires_all (filter_buttons l) = range SetStatusFilter"
proof -
  have "range SetStatusFilter = SetStatusFilter ` {AllRuns, PASSED, FAILED, OVERRIDDEN}"
    by (rule arg_cong [of _ _ "image SetStatusFilter"]) (auto intro: StatusFilter.exhaust)
  then show ?thesis by (auto simp: filter_buttons_def)
qed

lemma ledger_head_fires:
  "fires (ledger_head l) = range SetStatusFilter \<union> (if loading l then {} else {FetchRuns})"
  by (auto simp: ledger_head_def filter_buttons_fires)

definition ledger_offers :: "ledger \<Rightarrow> ledger_act set" where
  "ledger_offers l =
     range SetStatusFilter \<union> (if loading l then {} else {FetchRuns})
     \<union> SelectRun ` listed (runs l) \<union> {CloseRun}"

lemma header_cells_fires: "fires_all (map (\<lambda>h. Elem ''th'' [] [label h]) hs) = {}"
  by (induction hs) auto

lemma render_ledger_fires: "render_ledger l = Inr n \<Longrightarrow> fires n \<subseteq> ledger_offers l"
  unfolding render_ledger_def ledger_offers_def
  by (auto simp: ebind_Inr_iff header_cells_fires ledger_head_fires
      dest!: runs_body_fires inspect_modal_fires)

lemma fetch_offered: "render_ledger l = Inr n \<Longrightarrow> FetchRuns \<in> fires n \<Longrightarrow> \<not> loading l"
  using render_ledger_fires by (fastforce simp: ledger_offers_def split: if_splits)

section \<open>Rendering\<close>

lemma slice_total: "is_str v \<Longrightarrow> \<exists>w. slice_val n v = Inr w \<and> is_str w"
  by (auto simp: is_str_iff)

lemma slice_child: "is_str v \<Longrightarrow> \<exists>ns. ebind (slice_val n v) child = Inr ns"
  by (auto simp: is_str_iff)

lemma run_row_total:
  assumes "DiffRunRecord r" shows "\<exists>n. run_row r = Inr n"
proof -
  note f = DiffRunRecord_fields [OF assms]
  obtain w where w: "slice_val 8 (opt_get r (js ''id'')) = Inr w" "is_str w"
    using slice_total [OF f(3)] by blast
  show ?thesis
    unfolding run_row_def opt_get_get [OF f(1)] ebind_simps w(1)
    using f w(2)
    by (intro ebind_total) (auto intro: is_str_child is_num_child is_num_gt0 slice_child truthy_optional)
qed

lemma runs_body_total:
  assumes "is_array_of DiffRunRecord (runs l)" shows "\<exists>ns. runs_body l = Inr ns"
proof -
  obtain rs where r: "runs l = JArr rs" "filteredRuns l = Inr (filter (shows_run (statusFilter l)) rs)"
    using filteredRuns_eq [OF assms] by blast
  with assms have "\<exists>ns. emap run_row (filter (shows_run (statusFilter l)) rs) = Inr ns"
    by (intro emap_total run_row_total) (auto simp: is_array_of_iff list_all_iff)
  with r show ?thesis by (simp add: runs_body_def)
qed

lemma inspect_modal_total: "\<not> truthy r \<or> DiffRunRecord r \<Longrightarrow> \<exists>ns. inspect_modal r = Inr ns"
  unfolding inspect_modal_def
  by (intro and_child_total ebind_total)
    (auto intro: is_str_child optional_str_or dest: DiffRunRecord_fields(3,4))

definition ledger_ok :: "ledger \<Rightarrow> bool" where
  "ledger_ok l \<longleftrightarrow> is_array_of DiffRunRecord (runs l)
     \<and> (\<not> truthy (selectedRun l) \<or> DiffRunRecord (selectedRun l))"

lemma render_ledger_total: "ledger_ok l \<Longrightarrow> \<exists>n. render_ledger l = Inr n"
  unfolding render_ledger_def ledger_ok_def
  by (intro ebind_total runs_body_total inspect_modal_total) auto

interpretation ledger_panel: panel render_ledger ledger_ok ledger_offers
  by unfold_locales (simp_all add: render_ledger_total render_ledger_fires)

section \<open>Properties\<close>

lemma runs_body_exact:
  assumes "runs_body l = Inr ns" "filteredRuns l = Inr rs"
  shows "fires_all ns = SelectRun ` set rs"
proof (cases "rs = []")
  case False
  with assms have "emap run_row rs = Inr ns" by (simp add: runs_body_def)
  then show ?thesis by (rule rows_fires)
qed (use assms in \<open>auto simp: runs_body_def\<close>)

lemma render_ledger_select:
  assumes "render_ledger l = Inr n" "filteredRuns l = Inr rs"
  shows "{r. SelectRun r \<in> fires n} = set rs"
proof -
  obtain rows modal where rows: "runs_body l = Inr rows" and modal: "inspect_modal (selectedRun l) = Inr modal"
    and n: "fires n = fires (ledger_head l) \<union> fires_all rows \<union> fires_all modal"
    using assms(1) by (auto simp: render_ledger_def ebind_Inr_iff header_cells_fires)
  show ?thesis
    unfolding n runs_body_exact [OF rows assms(2)] ledger_head_fires
    using inspect_modal_fires [OF modal] by auto
qed

text \<open>
  On records of the declared type the ledger renders, and the runs it lists for
  inspection are exactly those whose status is the one of the filter, or all of them.
\<close>

theorem ledger_lists_filtered_runs:
  assumes "ledger_ok l" and "runs l = JArr rs"
  shows "\<exists>n. render_ledger l = Inr n \<and> {r. SelectRun r \<in> fires n} =
    {r \<in> set rs. statusFilter l = AllRuns
       \<or> opt_get r (js ''status'') = JStr (js (filter_str (statusFilter l)))}"
proof -
  obtain n where n: "render_ledger l = Inr n" using render_ledger_total [OF assms(1)] by blast
  have "filteredRuns l = Inr (filter (shows_run (statusFilter l)) rs)"
    using filteredRuns_eq [of l] assms by (auto simp: ledger_ok_def)
  then show ?thesis
    using n render_ledger_select [OF n] by (auto simp: shows_run_def run_status_def)
qed

definition recorded :: "string \<Rightarrow> jsval" where
  "recorded st =
     JObj [(js ''id'', JStr (js ''d1'')), (js ''project_id'', JStr (js ''default'')),
           (js ''status'', JStr (js st)), (js ''breaking_count'', JNum (nat_num 1)),
           (js ''dangerous_count'', JNum (nat_num 0)),
           (js ''created_at'', JStr (js ''2024-01-01T00:00:00Z''))]"

lemma recorded_ok: "st \<in> {''PASSED'', ''FAILED'', ''OVERRIDDEN''} \<Longrightarrow> DiffRunRecord (recorded st)"
  by (auto simp: recorded_def DiffRunRecord_def is_obj_def opt_get_def field_def is_str_def
      optional_def one_of_def is_num_def)

lemma recorded_status: "opt_get (recorded st) (js ''status'') = JStr (js st)"
  by (simp add: recorded_def opt_get_def field_def)

lemma ledger_lists_filtered_runs_witness:
  "\<exists>n. render_ledger (ledger_init\<lparr>runs := JArr [recorded ''FAILED'', recorded ''PASSED''], statusFilter := FAILED\<rparr>) = Inr n
     \<and> {r. SelectRun r \<in> fires n} = {recorded ''FAILED''}"
  using ledger_lists_filtered_runs
      [of "ledger_init\<lparr>runs := JArr [recorded ''FAILED'', recorded ''PASSED''], statusFilter := FAILED\<rparr>"
        "[recorded ''FAILED'', recorded ''PASSED'']"]
  by (auto simp: ledger_ok_def is_array_of_def ledger_init_def recorded_ok recorded_status)

end
