(* ===== verification/App_Flight.thy ===== *)
theory App_Flight
  imports App_Facts Prompt_Facts Ledger_Facts
begin

text \<open>
  Single flight: a control that starts an operation is disabled while the operation is under
  way, so at most one is, and the busy flag says exactly whether one is. The same contract
  holds for submissions (override and sandbox runs), the prompt compiler and the ledger.
\<close>

definition pending :: "(task \<Rightarrow> bool) \<Rightarrow> sys \<Rightarrow> nat" where
  "pending P s = length (filter P (tasks s))"

lemma pending_init [simp]: "pending P sys_init = 0"
  by (simp add: pending_def)

lemma pending_0_iff: "pending P s = 0 \<longleftrightarrow> (\<forall>t \<in> set (tasks s). \<not> P t)"
  by (simp add: pending_def filter_empty_conv)

lemma Suc_eq_of_bool [simp]: "Suc n = of_bool b \<longleftrightarrow> n = 0 \<and> b"
  by (cases b) auto

locale flight =
  fixes busy :: "sys \<Rightarrow> bool" and mine :: "sys \<Rightarrow> task \<Rightarrow> bool"
  assumes tracked: "reachable s \<Longrightarrow> pending (mine s) s = of_bool (busy s)"
begin

lemma busy_iff: "reachable s \<Longrightarrow> busy s \<longleftrightarrow> (\<exists>t \<in> set (tasks s). mine s t)"
  using tracked [of s] pending_0_iff [of "mine s" s] by (cases "busy s") auto

lemma at_most_one: "reachable s \<Longrightarrow> pending (mine s) s \<le> 1"
  by (simp add: tracked)

lemma unique_index:
  assumes "reachable s" "i < length (tasks s)" "j < length (tasks s)"
    "mine s (tasks s ! i)" "mine s (tasks s ! j)"
  shows "i = j"
proof (rule ccontr)
  assume ne: "i \<noteq> j"
  have "card {k. k < length (tasks s) \<and> mine s (tasks s ! k)} \<le> 1"
    using at_most_one [OF assms(1)] by (simp add: pending_def length_filter_conv_card)
  moreover have "card {i, j} \<le> card {k. k < length (tasks s) \<and> mine s (tasks s ! k)}"
    using assms by (intro card_mono) auto
  ultimately show False using ne by simp
qed

end

section \<open>Tasks of a step\<close>

lemma pending_remove:
  "i < length (tasks s) \<Longrightarrow>
     pending P s = pending P (s\<lparr>tasks := remove_nth i (tasks s)\<rparr>) + of_bool (P (tasks s ! i))"
  unfolding pending_def
  by (subst (1) id_take_nth_drop [of i "tasks s"]) (simp_all add: remove_nth_def)

lemma pending_add [simp]: "pending P (add_task t s) = pending P s + of_bool (P t)"
  by (simp add: pending_def)

lemma pending_send [simp]: "pending P (send r s) = pending P s"
  by (simp add: pending_def)

lemma pending_upd [simp]: "pending P (upd f s) = pending P s"
  by (simp add: pending_def)

lemma pending_put_out [simp]: "pending P (put_out out s) = pending P s"
  by (simp add: pending_def)

lemma pending_fields [simp]:
  "pending P (s\<lparr>app := a\<rparr>) = pending P s" "pending P (s\<lparr>modal := m\<rparr>) = pending P s"
  "pending P (s\<lparr>monitor := n\<rparr>) = pending P s" "pending P (s\<lparr>ledger := l\<rparr>) = pending P s"
  "pending P (s\<lparr>webhook := w\<rparr>) = pending P s"
  by (simp_all add: pending_def)

lemma pending_commit:
  "pending P (commit np old s) =
     pending P s + of_bool (ledger_starts old s \<and> P (LedgerFetch (instance_no (mounted old s))))"
  by (simp add: pending_def commit_tasks)

lemma ledger_fetch_app [simp]: "app (ledger_fetch s) = app s"
  by (simp add: ledger_fetch_def)

lemma pending_ledger_fetch [simp]:
  "pending P (ledger_fetch s) = pending P s + of_bool (P (LedgerFetch (instance_no s)))"
  by (simp add: ledger_fetch_def)

section \<open>Submissions\<close>

fun submitting :: "task \<Rightarrow> bool" where
  "submitting OverrideTask = True"
| "submitting (AuditFetch m src) = True"
| "submitting (AuditTimer m src) = True"
| "submitting (ProjectFetch b t) = True"
| "submitting DiffFetch = True"
| "submitting _ = False"

lemma load_sample_app [simp]:
  "isSubmitting (loadSample n a) = isSubmitting a" "prompt (loadSample n a) = prompt a"
  by (simp_all add: loadSample_def load_openapi_def load_source_def)

lemma set_pane_app [simp]:
  "isSubmitting (set_pane p t a) = isSubmitting a" "prompt (set_pane p t a) = prompt a"
  by (cases p; simp)+

lemma clear_all_app [simp]:
  "isSubmitting (clear_all a) = isSubmitting a" "prompt (clear_all a) = prompt a"
  by (simp_all add: clear_all_def)

lemma on_message_app [simp]:
  "isSubmitting (on_message d a) = isSubmitting a" "prompt (on_message d a) = prompt a"
  by (simp_all add: js_defs Let_def split: option.split sum.split)

lemma prompt_set_id: "act \<in> {ExecutePrompt, CopyToClipboard, DownloadMarkdown} \<Longrightarrow> prompt_set act p = p"
  by auto

lemma on_prompt_app [simp]:
  "isSubmitting (on_prompt f a) = isSubmitting a" "prompt (on_prompt f a) = f (prompt a)"
  by (simp_all add: on_prompt_def)

lemma start_override_submit:
  assumes "\<not> isSubmitting (app s)"
  shows "pending submitting (start_override s) =
    pending submitting s + of_bool (isSubmitting (app (start_override s)))"
  using assms by (simp add: start_override_def override_start_def split: sum.split)

lemma start_sandbox_submit:
  "pending submitting (start_sandbox s) = Suc (pending submitting s)"
  "isSubmitting (app (start_sandbox s))"
  by (simp_all add: start_sandbox_def sandbox_start_def)

lemma user_step_submit:
  assumes "pending submitting s = of_bool (isSubmitting (app s))" "enabled s (User act)"
  shows "pending submitting (user_step act s) = of_bool (isSubmitting (app (user_step act s)))"
proof (cases act)
  case (InModal a)
  with assms(2) have offered: "a \<in> modal_offers s" using enabled_modal by blast
  show ?thesis
  proof (cases "a = HandleOverride")
    case True
    with offered have "\<not> isSubmitting (app s)"
      by (simp add: handle_override_offered canSubmit_def)
    with True InModal assms(1) show ?thesis by (simp add: start_override_submit)
  qed (use InModal assms(1) in \<open>cases a; simp\<close>)
next
  case (InMonitor a)
  with assms(1) show ?thesis by (cases a) auto
next
  case (InSandbox a)
  show ?thesis
  proof (cases "a = ExecuteSandboxDiff")
    case True
    with InSandbox assms have "\<not> isSubmitting (app s)" using execute_offered by simp
    with True InSandbox assms(1) show ?thesis by (simp add: start_sandbox_submit)
  qed (use InSandbox assms(1) in \<open>cases a; simp split: option.split sum.split\<close>)
next
  case (InPrompt a)
  with assms(1) show ?thesis by (cases a) (simp_all add: start_prompt_def prompt_start_def split: sum.split)
next
  case (InLedger a)
  with assms(1) show ?thesis by (cases a) auto
next
  case (InWebhook a)
  with assms(1) show ?thesis by (cases a) auto
qed (use assms(1) in simp)

lemma task_step_submit:
  assumes "pending submitting s + of_bool (submitting t) = of_bool (isSubmitting (app s))"
    "task_step t r s = (s', np)"
  shows "pending submitting s' = of_bool (isSubmitting (app s'))"
  using assms
  by (cases t)
    (auto simp: override_done_def audit_timeout_def project_done_def diff_sent_def
      split: response.splits sum.splits bool.splits if_splits)

interpretation submit_inv: turn_invariant "\<lambda>_ _. True"
  "\<lambda>s. pending submitting s = of_bool (isSubmitting (app s))"
proof
  fix s s' i r np
  assume "pending submitting s = of_bool (isSubmitting (app s))" "i < length (tasks s)"
    "task_step (tasks s ! i) r (s\<lparr>tasks := remove_nth i (tasks s)\<rparr>) = (s', np)"
  then show "pending submitting s' = of_bool (isSubmitting (app s'))"
    by (intro task_step_submit [of "s\<lparr>tasks := remove_nth i (tasks s)\<rparr>" "tasks s ! i" r s' np])
      (simp_all add: pending_remove)
qed (use user_step_submit in \<open>auto simp: pending_commit\<close>)

interpretation submit: flight "\<lambda>s. isSubmitting (app s)" "\<lambda>_. submitting"
  by unfold_locales (rule submit_inv.holds)

text \<open>The last task of a submission, and what the others lead to.\<close>

fun final :: "task \<Rightarrow> bool" where
  "final OverrideTask = True"
| "final (AuditTimer m src) = True"
| "final DiffFetch = True"
| "final _ = False"

lemma final_ends: "final t \<Longrightarrow> task_step t r s = (s', np) \<Longrightarrow> \<not> isSubmitting (app s')"
  by (cases t)
    (auto simp: override_done_def audit_timeout_def diff_sent_def)

lemma submitting_leads:
  assumes "submitting t" "task_step t r s = (s', np)" "isSubmitting (app s')"
  shows "\<exists>t' \<in> set (tasks s'). final t'"
proof (cases "final t")
  case False
  with assms show ?thesis
    by (cases t)
      (auto simp: project_done_def split: response.splits sum.splits if_splits)
qed (use assms final_ends in blast)

lemma step_complete_app:
  assumes "i < length (tasks s)"
  obtains s' np where
    "task_step (tasks s ! i) r (s\<lparr>tasks := remove_nth i (tasks s)\<rparr>) = (s', np)"
    "step s (Complete i r) = commit np s s'"
  by (cases "task_step (tasks s ! i) r (s\<lparr>tasks := remove_nth i (tasks s)\<rparr>)")
    (simp add: complete_def)

lemma final_completes:
  assumes "i < length (tasks s)" "final (tasks s ! i)"
  shows "\<not> isSubmitting (app (step s (Complete i r)))"
  using step_complete_app [OF assms(1)] final_ends [OF assms(2)] commit_fields(12) by metis

lemma submitting_completes:
  assumes "i < length (tasks s)" "submitting (tasks s ! i)"
    "isSubmitting (app (step s (Complete i r)))"
  shows "\<exists>j < length (tasks (step s (Complete i r))). final (tasks (step s (Complete i r)) ! j)"
proof -
  obtain s' np where t: "task_step (tasks s ! i) r (s\<lparr>tasks := remove_nth i (tasks s)\<rparr>) = (s', np)"
    and c: "step s (Complete i r) = commit np s s'"
    using step_complete_app [OF assms(1)] .
  have "\<exists>t' \<in> set (tasks s'). final t'"
    using submitting_leads [OF assms(2) t] assms(3) c by simp
  then have "\<exists>t' \<in> set (tasks (commit np s s')). final t'" by (auto simp: commit_tasks)
  with c show ?thesis by (auto simp: in_set_conv_nth)
qed

section \<open>The prompt compiler\<close>

definition prompting :: "task \<Rightarrow> bool" where
  "prompting t \<longleftrightarrow> (case t of PromptFetch _ \<Rightarrow> True | _ \<Rightarrow> False)"

lemma prompting_simps [simp]:
  "prompting (PromptFetch p)" "\<not> prompting OverrideTask" "\<not> prompting (AuditFetch m src)"
  "\<not> prompting (AuditTimer m src)" "\<not> prompting (ProjectFetch b t)" "\<not> prompting DiffFetch"
  "\<not> prompting CopyTimer" "\<not> prompting (FileRead q c)" "\<not> prompting (LedgerFetch n)"
  "\<not> prompting (SavedTimer n)"
  by (simp_all add: prompting_def)

lemma prompt_done_idle [simp]: "\<not> isPrompting (prompt_done p0 r p)"
  by (simp add: prompt_done_def Let_def)

lemma prompt_set_busy [simp]: "isPrompting (prompt_set act p) = isPrompting p"
  by (cases act) simp_all

lemma handlers_prompt [simp]:
  "prompt (override_done r a) = prompt a" "prompt (audit_timeout m src a) = prompt a"
  "prompt (fst (project_done b t r a)) = prompt a" "prompt (diff_sent r a) = prompt a"
  "prompt (fst (override_start a)) = prompt a" "prompt (fst (sandbox_start a)) = prompt a"
  by (simp_all add: override_done_def audit_timeout_def project_done_def diff_sent_def
      override_start_def sandbox_start_def split: response.split sum.split bool.split)

lemma start_override_prompt [simp]:
  "prompt (app (start_override s)) = prompt (app s)"
  "pending prompting (start_override s) = pending prompting s"
  by (simp_all add: start_override_def override_start_def split: sum.split)

lemma start_sandbox_prompt [simp]:
  "prompt (app (start_sandbox s)) = prompt (app s)"
  "pending prompting (start_sandbox s) = pending prompting s"
  by (simp_all add: start_sandbox_def sandbox_start_def)

lemma start_prompt_busy:
  "isPrompting (prompt (app (start_prompt s)))"
  "pending prompting (start_prompt s) = Suc (pending prompting s)"
  by (simp_all add: start_prompt_def prompt_start_def on_prompt_def)

lemma enabled_execute_prompt:
  "enabled s (User (InPrompt ExecutePrompt)) \<Longrightarrow> \<not> isPrompting (prompt (app s))"
  using enabled_prompt execute_prompt_offered by blast

lemma user_step_prompt:
  assumes "pending prompting s = of_bool (isPrompting (prompt (app s)))" "enabled s (User act)"
  shows "pending prompting (user_step act s) = of_bool (isPrompting (prompt (app (user_step act s))))"
proof (cases act)
  case (InModal a)
  with assms(1) show ?thesis by (cases a) auto
next
  case (InMonitor a)
  with assms(1) show ?thesis by (cases a) auto
next
  case (InSandbox a)
  with assms(1) show ?thesis by (cases a) (simp_all split: option.split sum.split)
next
  case (InPrompt a)
  show ?thesis
  proof (cases "a = ExecutePrompt")
    case True
    with InPrompt assms have "\<not> isPrompting (prompt (app s))" using enabled_execute_prompt by simp
    with True InPrompt assms(1) show ?thesis by (simp add: start_prompt_busy)
  qed (use InPrompt assms(1) in \<open>cases a; simp split: sum.split\<close>)
next
  case (InLedger a)
  with assms(1) show ?thesis by (cases a) auto
next
  case (InWebhook a)
  with assms(1) show ?thesis by (cases a) auto
qed (use assms(1) in simp)

lemma task_step_prompt:
  assumes "pending prompting s + of_bool (prompting t) = of_bool (isPrompting (prompt (app s)))"
    "task_step t r s = (s', np)"
  shows "pending prompting s' = of_bool (isPrompting (prompt (app s')))"
proof (cases t)
  case (ProjectFetch b tg)
  obtain a chg q where p: "project_done b tg r (app s) = (a, chg, q)" by (cases "project_done b tg r (app s)")
  then have "prompt a = prompt (app s)" using handlers_prompt(3) [of b tg r "app s"] by simp
  with ProjectFetch p assms show ?thesis by (auto split: option.splits)
qed (use assms in \<open>auto split: if_splits response.splits\<close>)

interpretation compiling_inv: turn_invariant "\<lambda>_ _. True"
  "\<lambda>s. pending prompting s = of_bool (isPrompting (prompt (app s)))"
proof
  fix s s' i r np
  assume "pending prompting s = of_bool (isPrompting (prompt (app s)))" "i < length (tasks s)"
    "task_step (tasks s ! i) r (s\<lparr>tasks := remove_nth i (tasks s)\<rparr>) = (s', np)"
  then show "pending prompting s' = of_bool (isPrompting (prompt (app s')))"
    by (intro task_step_prompt [of "s\<lparr>tasks := remove_nth i (tasks s)\<rparr>" "tasks s ! i" r s' np])
      (simp_all add: pending_remove)
qed (use user_step_prompt in
  \<open>auto simp: pending_commit\<close>)

interpretation compiling: flight "\<lambda>s. isPrompting (prompt (app s))" "\<lambda>_. prompting"
  by unfold_locales (rule compiling_inv.holds)

section \<open>The ledger\<close>

text \<open>A response belongs to the panel that asked: a panel mounted later ignores it.\<close>

lemma user_step_instance [simp]: "instance_no (user_step act s) = instance_no s"
  by (induction act s rule: user_step.induct)
    (rename_tac act s; case_tac act;
     auto simp: start_override_def start_sandbox_def start_prompt_def ledger_fetch_def
      split: prod.split option.split sum.split)+

lemma task_step_instance: "task_step t r s = (s', np) \<Longrightarrow> instance_no s' = instance_no s"
  by (cases t) (auto split: if_splits response.splits option.splits prod.splits)

lemma user_step_ledger_task:
  "LedgerFetch n \<in> set (tasks (user_step act s)) \<Longrightarrow>
     LedgerFetch n \<in> set (tasks s) \<or> n = instance_no s"
  by (induction act s rule: user_step.induct)
    (rename_tac act s; case_tac act;
     auto simp: start_override_def start_sandbox_def start_prompt_def ledger_fetch_def
      split: prod.splits option.splits sum.splits if_splits)+

lemma task_step_ledger_task:
  "task_step t r s = (s', np) \<Longrightarrow> LedgerFetch n \<in> set (tasks s') \<Longrightarrow> LedgerFetch n \<in> set (tasks s)"
  by (cases t) (auto split: if_splits response.splits option.splits prod.splits)

definition aged :: "sys \<Rightarrow> bool" where
  "aged s \<longleftrightarrow> (\<forall>n. LedgerFetch n \<in> set (tasks s) \<longrightarrow> n \<le> instance_no s)"

lemma aged_commit:
  assumes "aged s" shows "aged (commit np old s)"
proof -
  have "instance_no (mounted old s) \<le> instance_no (commit np old s)" if "ledger_starts old s"
    using that
    by (simp add: commit_instance mounted_def mount_view_def mount_modal_def ledger_starts_def)
  with assms show ?thesis
    by (fastforce simp: aged_def commit_tasks commit_instance split: if_splits)
qed

lemma set_remove_nth: "x \<in> set (remove_nth i xs) \<Longrightarrow> x \<in> set xs"
  by (auto simp: remove_nth_def dest: in_set_takeD in_set_dropD)

lemma aged_user: "aged s \<Longrightarrow> aged (user_step act s)"
  using user_step_ledger_task by (fastforce simp: aged_def)

lemma aged_task:
  assumes "aged s" "task_step t r (s\<lparr>tasks := remove_nth i (tasks s)\<rparr>) = (s', np)" shows "aged s'"
  using assms(1) task_step_ledger_task [OF assms(2)] task_step_instance [OF assms(2)]
  by (auto simp: aged_def dest: set_remove_nth)

lemma aged_upd [simp]: "aged (upd f s) = aged s"
  by (simp add: aged_def)

definition fetch_of :: "nat \<Rightarrow> task \<Rightarrow> bool" where
  "fetch_of n t \<longleftrightarrow> t = LedgerFetch n"

definition fetching :: "sys \<Rightarrow> task \<Rightarrow> bool" where
  "fetching s = fetch_of (instance_no s)"

lemma aged_new: "aged s \<Longrightarrow> pending (fetch_of (Suc (instance_no s))) s = 0"
  by (auto simp: aged_def pending_0_iff fetch_of_def)

lemma commit_fetching:
  assumes "aged s" "pending (fetching s) s = of_bool (loading (ledger s))"
  shows "pending (fetching (commit np old s)) (commit np old s) = of_bool (loading (ledger (commit np old s)))"
proof (cases "alive s \<and> viewMode (app s) \<noteq> viewMode (app old)")
  case True
  then show ?thesis
    using aged_new [OF assms(1)]
    by (simp add: pending_commit fetching_def fetch_of_def commit_instance commit_ledger mounted_def mount_view_def
        mount_modal_def fetch_start_def ledger_init_def Let_def)
next
  case False
  then have "\<not> ledger_starts old s" by (auto simp: ledger_starts_def ledger_mounts_def)
  with False assms(2) show ?thesis
    by (auto simp: pending_commit fetching_def fetch_of_def commit_instance commit_ledger Let_def)
qed

lemma enabled_fetch: "enabled s (User (InLedger FetchRuns)) \<Longrightarrow> \<not> loading (ledger s)"
  using enabled_ledger fetch_offered by blast

lemma user_step_fetching:
  assumes "pending (fetching s) s = of_bool (loading (ledger s))" "enabled s (User act)"
  shows "pending (fetching (user_step act s)) (user_step act s) = of_bool (loading (ledger (user_step act s)))"
proof (cases act)
  case (InModal a)
  with assms(1) show ?thesis
    by (cases a) (auto simp: fetching_def fetch_of_def start_override_def split: option.split prod.split)
next
  case (InMonitor a)
  with assms(1) show ?thesis by (cases a) (auto simp: fetching_def fetch_of_def)
next
  case (InSandbox a)
  with assms(1) show ?thesis
    by (cases a) (auto simp: fetching_def fetch_of_def start_sandbox_def split: option.split sum.split prod.split)
next
  case (InPrompt a)
  with assms(1) show ?thesis
    by (cases a) (auto simp: fetching_def fetch_of_def start_prompt_def split: sum.split prod.split)
next
  case (InLedger a)
  show ?thesis
  proof (cases "a = FetchRuns")
    case True
    with InLedger assms have "\<not> loading (ledger s)" using enabled_fetch by simp
    with True InLedger assms(1) show ?thesis
      by (simp add: fetching_def fetch_of_def ledger_fetch_def fetch_start_def)
  qed (use InLedger assms(1) in \<open>cases a; simp add: fetching_def fetch_of_def\<close>)
next
  case (InWebhook a)
  with assms(1) show ?thesis by (cases a) (auto simp: fetching_def fetch_of_def)
qed (use assms(1) in \<open>simp add: fetching_def fetch_of_def\<close>)

lemma task_step_fetching:
  assumes "pending (fetching s) s + of_bool (fetching s t) = of_bool (loading (ledger s))"
    "task_step t r s = (s', np)"
  shows "pending (fetching s') s' = of_bool (loading (ledger s'))"
  using assms
  by (cases t)
    (auto simp: fetching_def fetch_of_def fetch_done_def split: if_splits response.splits option.splits prod.splits)

interpretation loading_inv: turn_invariant "\<lambda>_ _. True"
  "\<lambda>s. aged s \<and> pending (fetching s) s = of_bool (loading (ledger s))"
proof
  show "aged sys_init \<and> pending (fetching sys_init) sys_init = of_bool (loading (ledger sys_init))"
    by (simp add: aged_def)
next
  fix s s' i r np
  assume s: "aged s \<and> pending (fetching s) s = of_bool (loading (ledger s))" "i < length (tasks s)"
    and t: "task_step (tasks s ! i) r (s\<lparr>tasks := remove_nth i (tasks s)\<rparr>) = (s', np)"
  then show "aged s' \<and> pending (fetching s') s' = of_bool (loading (ledger s'))"
    using pending_remove [of i s "fetching s"] aged_task [OF _ t] task_step_fetching [OF _ t]
    by (simp add: fetching_def)
qed (auto simp: aged_commit commit_fetching aged_user user_step_fetching
    simp flip: fetching_def simp: fetching_def [of "upd _ _"])

interpretation loading: flight "\<lambda>s. loading (ledger s)" fetching
  by unfold_locales (use loading_inv.holds in blast)

end

