(* ===== verification/Monitor_Facts.thy ===== *)
theory Monitor_Facts
  imports Monitor Sandbox_Facts
begin

text \<open>
  The monitor: what it offers, that it renders on well-typed findings, and which nodes of a
  change's tree can be toggled.
\<close>

section \<open>Actions on offer\<close>

lemma event_feed_fires [simp]: "fires_all (event_feed es) = {}"
  by (induction es) (auto simp: event_feed_def fires_all_UN)

lemma status_icon_fires [simp]: "fires_all (status_icon st) = {}"
  by (simp add: status_icon_def)

definition card_offers :: "monitor \<Rightarrow> nat \<Rightarrow> jsval \<Rightarrow> monitor_act set" where
  "card_offers m i c = {ToggleJson i} \<union>
    (if expandedJson m i then ToggleNode i ` fires (json_tree (treeOpen m i) [] (js ''change_payload'') c) else {})"

lemma change_card_fires: "change_card m i c = Inr n \<Longrightarrow> fires n = card_offers m i c"
  unfolding change_card_def by (auto simp: ebind_Inr_iff card_offers_def)

lemma change_cards_fires:
  "change_cards m k cs = Inr ns \<Longrightarrow> fires_all ns = (\<Union>i < length cs. card_offers m (k + i) (cs ! i))"
proof (induction m k cs arbitrary: ns rule: change_cards.induct)
  case (2 m i c cs)
  then obtain n ms where n: "change_card m i c = Inr n" and ms: "change_cards m (Suc i) cs = Inr ms"
    and ns: "ns = n # ms" by (auto simp: ebind_Inr_iff)
  show ?case
    unfolding ns fires_all.simps change_card_fires [OF n] "2.IH" [OF ms] length_Cons
      lessThan_Suc_eq_insert_0
    by simp
qed simp

definition monitor_offers :: "jsval \<Rightarrow> monitor_act set" where
  "monitor_offers diffStatus =
     (if diffStatus = JStr (js ''FAILED'') then UNIV else {})"

lemma blocked_panel_fires: "blocked_panel m changes = Inr n \<Longrightarrow> OpenModal \<in> fires n"
  by (auto simp: blocked_panel_def ebind_Inr_iff)

lemma render_monitor_fires:
  "render_monitor st conn proj es ds changes m = Inr n \<Longrightarrow> fires n \<subseteq> monitor_offers ds"
  by (auto simp: render_monitor_def ebind_Inr_iff monitor_offers_def split: if_splits)

lemma override_offered:
  assumes "render_monitor st conn proj es ds changes m = Inr n"
  shows "OpenModal \<in> fires n \<longleftrightarrow> ds = JStr (js ''FAILED'')"
  using assms render_monitor_fires [OF assms] blocked_panel_fires
  by (auto simp: render_monitor_def ebind_Inr_iff monitor_offers_def split: if_splits)

section \<open>Rendering\<close>

lemma change_card_total:
  assumes "BreakingChange c" shows "\<exists>n. change_card m i c = Inr n"
proof -
  note f = BreakingChange_fields [OF assms]
  have line: "\<exists>ns. child (if truthy l then l else JStr (js ''TARGET_PATH'')) = Inr ns"
    if "optional is_str l" for l
    using that child_optional by (cases "truthy l") auto
  show ?thesis
    unfolding change_card_def opt_get_get [OF f(1)] ebind_simps
    by (intro ebind_total child_optional js_or_optional line f optional_JStr) simp
qed

lemma change_cards_total: "list_all BreakingChange cs \<Longrightarrow> \<exists>ns. change_cards m k cs = Inr ns"
proof (induction m k cs rule: change_cards.induct)
  case (2 m i c cs)
  then have "BreakingChange c" "list_all BreakingChange cs" by auto
  with 2 obtain n where "change_card m i c = Inr n" using change_card_total by blast
  with 2 \<open>list_all BreakingChange cs\<close> show ?case by auto
qed simp

lemma blocked_panel_total:
  assumes "is_array_of BreakingChange changes" shows "\<exists>n. blocked_panel m changes = Inr n"
proof -
  obtain cs where c: "changes = JArr cs" "list_all BreakingChange cs"
    using assms by (auto simp: is_array_of_iff)
  then obtain cards where "change_cards m 0 cs = Inr cards" using change_cards_total by blast
  with c(1) show ?thesis by (simp add: blocked_panel_def)
qed

lemma render_monitor_total:
  assumes "is_array_of BreakingChange changes" "is_str proj"
  shows "\<exists>n. render_monitor st conn proj es ds changes m = Inr n"
proof -
  have "\<exists>p. (if ds = JStr (js ''FAILED'') then ebind (blocked_panel m changes) (\<lambda>p. Inr [p]) else Inr []) = Inr p"
    using blocked_panel_total [OF assms(1), of m] by auto
  then show ?thesis
    unfolding render_monitor_def by (intro ebind_total is_str_child assms(2)) simp_all
qed

interpretation monitor_panel: panel
  "\<lambda>(st, conn, proj, es, ds, changes, m). render_monitor st conn proj es ds changes m"
  "\<lambda>(st, conn, proj, es, ds, changes, m). is_array_of BreakingChange changes \<and> is_str proj"
  "\<lambda>(st, conn, proj, es, ds, changes, m). monitor_offers ds"
  by unfold_locales (auto simp: render_monitor_total dest: render_monitor_fires)

interpretation sandbox_panel: panel
  "\<lambda>(s :: 'a sandbox_scheme, busy, changes). render_sandbox s busy changes"
  "\<lambda>(s, busy, changes). is_array_of BreakingChange changes"
  "\<lambda>(s, busy, changes). fires (toolbar busy (sandboxMode s)) \<union> body_actions"
  by unfold_locales (auto simp: render_sandbox_total dest: render_sandbox_fires(1))

section \<open>Properties\<close>

text \<open>
  On findings of the declared type the monitor renders, and it offers to open the
  override form exactly when the run it shows has failed.
\<close>

theorem monitor_offers_override_iff_failed:
  assumes "is_array_of BreakingChange changes" and "is_str project"
  shows "\<exists>n. render_monitor st conn project es diffStatus changes m = Inr n
    \<and> (OpenModal \<in> fires n \<longleftrightarrow> diffStatus = JStr (js ''FAILED''))"
  using render_monitor_total [OF assms] override_offered by blast

lemma monitor_offers_override_iff_failed_witness:
  "\<exists>n. render_monitor BREAKING CONNECTED (JStr (js ''default'')) [] (JStr (js ''FAILED''))
     (JArr [JObj [(js ''path'', JStr (js ''/users''))]]) monitor_init = Inr n \<and> OpenModal \<in> fires n"
  using monitor_offers_override_iff_failed
      [of "JArr [JObj [(js ''path'', JStr (js ''/users''))]]" "JStr (js ''default'')"
        BREAKING CONNECTED "[]" "JStr (js ''FAILED'')" monitor_init]
  by (simp add: is_array_of_def BreakingChange_def is_obj_def opt_get_def field_def optional_def
      one_of_def is_str_def)

end
