(* ===== verification/App_Invariants.thy ===== *)
theory App_Invariants
  imports App_Flight Monitor_Facts
begin

text \<open>
  What the reachable states have in common: the status agrees with the run it is about, the
  event source is the one of the current project, no override is sent without a note, and
  the feed holds the newest messages. Then what it takes for the application not to crash.
\<close>

section \<open>What user actions leave alone\<close>

definition core :: "app \<Rightarrow> jstr list \<times> Status \<times> jsval \<times> jsval \<times> jsval \<times> jsval" where
  "core a = (events a, status a, diffId a, diffStatus a, breakingChanges a, currentProjectId a)"

lemma core_eq: "core a = core b \<longleftrightarrow>
    events a = events b \<and> status a = status b \<and> diffId a = diffId b
    \<and> diffStatus a = diffStatus b \<and> breakingChanges a = breakingChanges b
    \<and> currentProjectId a = currentProjectId b"
  by (auto simp: core_def)

lemma core_updates [simp]:
  "core (a\<lparr>showModal := b\<rparr>) = core a" "core (a\<lparr>overrideNote := t\<rparr>) = core a"
  "core (a\<lparr>isSubmitting := b\<rparr>) = core a" "core (a\<lparr>viewMode := v\<rparr>) = core a"
  "core (a\<lparr>connectionState := c\<rparr>) = core a" "core (a\<lparr>sandboxMode := m\<rparr>) = core a"
  "core (on_prompt f a) = core a" "core (set_pane p t a) = core a"
  "core (clear_all a) = core a" "core (loadSample n a) = core a"
  by (simp_all add: core_def on_prompt_def clear_all_def loadSample_def load_openapi_def load_source_def)
    (cases p; simp)

lemmas set_pane_fields [simp] = core_updates(8) [unfolded core_eq]

lemma user_step_core [simp]: "core (app (user_step act s)) = core (app s)"
  by (induction act s rule: user_step.induct)
    (rename_tac act s; case_tac act;
     simp add: start_override_def override_start_def start_sandbox_def sandbox_start_def
       start_prompt_def prompt_start_def ledger_fetch_def split: option.split sum.split)+

lemmas user_step_fields [simp] = user_step_core [unfolded core_eq]

lemma user_step_alive [simp]:
  "alive (user_step act s) = alive s" "source (user_step act s) = source s"
  by (induction act s rule: user_step.induct)
    (rename_tac act s; case_tac act;
     simp add: start_override_def start_sandbox_def start_prompt_def ledger_fetch_def
       split: option.split sum.split prod.split)+

lemma task_step_alive: "task_step t r s = (s', np) \<Longrightarrow> alive s' = alive s \<and> source s' = source s"
  by (cases t) (auto split: if_splits response.splits option.splits prod.splits)

section \<open>Status\<close>

definition coherent :: "app \<Rightarrow> bool" where
  "coherent a \<longleftrightarrow>
     (status a = WARNING \<longrightarrow> diffStatus a = JStr (js ''OVERRIDDEN''))
     \<and> (status a = BREAKING \<longrightarrow> diffStatus a = JStr (js ''FAILED''))"

lemma coherent_core: "core a = core b \<Longrightarrow> coherent a = coherent b"
  by (simp add: coherent_def core_eq)

lemma coherent_message: "coherent a \<Longrightarrow> coherent (on_message d a)"
  by (auto simp: coherent_def js_defs Let_def split: option.split sum.split)

lemma task_step_coherent: "coherent (app s) \<Longrightarrow> task_step t r s = (s', np) \<Longrightarrow> coherent (app s')"
  by (cases t)
    (auto simp: coherent_def override_done_def audit_timeout_def project_done_def diff_sent_def
      on_prompt_def set_pane.simps coherent_core [of "set_pane _ _ _"]
      split: if_splits option.splits response.splits sum.splits bool.splits)

interpretation status_inv: turn_invariant "\<lambda>_ _. True" "\<lambda>s. coherent (app s)"
proof
  fix s old :: sys and np
  assume "coherent (app s)"
  then show "coherent (app (commit np old s))" by (simp add: coherent_def)
next
  fix s :: sys and act
  assume "coherent (app s)"
  then show "coherent (app (user_step act s))"
    using coherent_core [OF user_step_core] by blast
next
  fix s s' :: sys and i r np
  assume c: "coherent (app s)"
    and t: "task_step (tasks s ! i) r (s\<lparr>tasks := remove_nth i (tasks s)\<rparr>) = (s', np)"
  show "coherent (app s')" by (rule task_step_coherent [OF _ t]) (simp add: c)
qed (simp_all add: coherent_message, simp_all add: coherent_def)

section \<open>Subscription\<close>

definition subscribed :: "sys \<Rightarrow> bool" where
  "subscribed s \<longleftrightarrow>
     (alive s \<longrightarrow>
       (if truthy (currentProjectId (app s))
        then \<exists>url. events_url (currentProjectId (app s)) = Inr url \<and> source s = Some url
        else source s = None))"

lemma task_step_project:
  "task_step t r s = (s', np) \<Longrightarrow> np \<or> currentProjectId (app s') = currentProjectId (app s)"
  by (cases t)
    (auto simp: override_done_def audit_timeout_def project_done_def diff_sent_def on_prompt_def
      same_value_def
      split: if_splits option.splits response.splits sum.splits bool.splits)

lemma commit_subscribed:
  assumes old: "subscribed old" "alive s \<longrightarrow> alive old" "source s = source old"
    and project: "np \<or> currentProjectId (app s) = currentProjectId (app old)"
  shows "subscribed (commit np old s)"
proof -
  {
    assume a: "alive (commit np old s)"
    then have "alive s" by (rule commit_alive)
    have "if truthy (currentProjectId (app s))
        then \<exists>url. events_url (currentProjectId (app s)) = Inr url \<and> source (commit np old s) = Some url
        else source (commit np old s) = None"
    proof (cases "viewMode (app s) = viewMode (app old) \<and> \<not> np")
      case True
      then have "source (commit np old s) = source s" using commit_source [OF a] by simp
    with True assms \<open>alive s\<close> show ?thesis by (auto simp: subscribed_def)
    next
      case False
      then obtain b url where "events_effect (app s) = Inr (b, url)"
        using a by (auto simp: commit_alive_iff)
      with False show ?thesis
        by (auto simp: commit_source [OF a] events_effect_def ebind_Inr_iff split: if_splits)
    qed
  }
  then show ?thesis by (simp add: subscribed_def)
qed

lemma on_message_project [simp]: "currentProjectId (on_message d a) = currentProjectId a"
  by (simp add: js_defs Let_def split: option.split sum.split)

interpretation subscription: sys_invariant "\<lambda>_ _. True" subscribed
proof
  have "events_url (JStr (js ''default'')) = Inr (js ''/api/events?project_id=default'')"
    by (simp add: events_url_def js_def)
  then show "subscribed sys_init" by (simp add: subscribed_def)
next
  fix s ev
  assume inv: "subscribed s"
  show "subscribed (step s ev)"
  proof (cases ev)
    case (Complete i r)
    obtain s' np where t: "task_step (tasks s ! i) r (s\<lparr>tasks := remove_nth i (tasks s)\<rparr>) = (s', np)"
      by fastforce
    have "subscribed (commit np s s')"
      by (rule commit_subscribed [OF inv])
        (use task_step_alive [OF t] task_step_project [OF t] in auto)
    with Complete t show ?thesis by (simp add: complete_def)
  qed (use inv in \<open>simp_all add: commit_subscribed\<close>)
qed

section \<open>Overrides carry a note\<close>

definition noted :: "request \<Rightarrow> bool" where
  "noted r \<longleftrightarrow> (case r of PostOverride url note \<Rightarrow> \<not> blank note | _ \<Rightarrow> True)"

lemma start_override_sent:
  "sent (start_override s) = sent s \<or>
     (\<exists>i. truthy (diffId (app s)) \<and> to_str (diffId (app s)) = Inr i
        \<and> sent (start_override s) = sent s @ [PostOverride (override_url i) (overrideNote (app s))])"
  by (auto simp: start_override_def override_start_def split: sum.split)

definition is_override :: "request \<Rightarrow> bool" where
  "is_override r \<longleftrightarrow> (case r of PostOverride url note \<Rightarrow> True | _ \<Rightarrow> False)"

lemma noted_other: "\<not> is_override r \<Longrightarrow> noted r"
  by (simp add: noted_def is_override_def split: request.splits)

lemma user_step_sent:
  "act \<noteq> InModal HandleOverride \<Longrightarrow> \<exists>rs. sent (user_step act s) = sent s @ rs \<and> (\<forall>r \<in> set rs. \<not> is_override r)"
  by (induction act s rule: user_step.induct)
    (rename_tac act s; case_tac act;
     auto simp: start_sandbox_def sandbox_start_def start_prompt_def prompt_start_def ledger_fetch_def is_override_def
       split: option.split sum.split)+

lemma task_step_sent:
  "task_step t r s = (s', np) \<Longrightarrow> \<exists>rs. sent s' = sent s @ rs \<and> (\<forall>r \<in> set rs. \<not> is_override r)"
  by (cases t)
    (auto simp: is_override_def project_done_def
      split: if_splits option.splits prod.splits response.splits sum.splits)

lemma noted_append: "sent s' = sent s @ rs \<Longrightarrow> \<forall>r \<in> set rs. \<not> is_override r
    \<Longrightarrow> \<forall>r \<in> set (sent s). noted r \<Longrightarrow> \<forall>r \<in> set (sent s'). noted r"
  by (auto simp: noted_other)

interpretation note_inv: turn_invariant "\<lambda>_ _. True" "\<lambda>s. \<forall>r \<in> set (sent s). noted r"
proof
  fix s :: sys and act
  assume inv: "\<forall>r \<in> set (sent s). noted r" and en: "enabled s (User act)"
  show "\<forall>r \<in> set (sent (user_step act s)). noted r"
  proof (cases "act = InModal HandleOverride")
    case True
    with en have "canSubmit (overrideNote (app s)) (isSubmitting (app s)) (modal s)"
      using enabled_modal handle_override_offered by blast
    then have "\<not> blank (overrideNote (app s))" by (rule canSubmit_blank)
    with inv True start_override_sent [of s] show ?thesis by (auto simp: noted_def)
  next
    case False
    then show ?thesis using user_step_sent noted_append inv by metis
  qed
next
  fix s s' :: sys and i r np
  assume "\<forall>r \<in> set (sent s). noted r"
    "task_step (tasks s ! i) r (s\<lparr>tasks := remove_nth i (tasks s)\<rparr>) = (s', np)"
  then show "\<forall>r \<in> set (sent s'). noted r"
    using task_step_sent [of "tasks s ! i" r "s\<lparr>tasks := remove_nth i (tasks s)\<rparr>" s' np]
    by (auto simp: noted_other)
qed (auto simp: commit_sent noted_def)

section \<open>The feed\<close>

fun message_of :: "event \<Rightarrow> jstr list" where
  "message_of (SourceMessage data) = [data]"
| "message_of _ = []"

lemma task_step_events: "task_step t r s = (s', np) \<Longrightarrow> events (app s') = events (app s)"
  by (cases t)
    (auto simp: override_done_def audit_timeout_def project_done_def diff_sent_def on_prompt_def
      split: if_splits option.splits response.splits sum.splits bool.splits)

lemma on_message_events [simp]: "events (on_message d a) = take 50 (received d # events a)"
  by (simp add: js_defs Let_def split: option.split sum.split)

lemma step_events:
  "events (app (step s ev)) = take 50 (map received (rev (message_of ev)) @ events (app s))"
  if "length (events (app s)) \<le> 50"
proof (cases ev)
  case (Complete i r)
  obtain s' np where t: "task_step (tasks s ! i) r (s\<lparr>tasks := remove_nth i (tasks s)\<rparr>) = (s', np)"
    by fastforce
  with Complete that task_step_events [OF t] show ?thesis by (simp add: complete_def)
qed (use that in simp_all)

lemma run_events:
  "length (events (app s)) \<le> 50 \<Longrightarrow>
     events (app (run s evs)) = take 50 (map received (rev (concat (map message_of evs))) @ events (app s))"
proof (induction s evs rule: run.induct)
  case (2 s ev evs)
  then have "events (app (step s ev)) = take 50 (map received (rev (message_of ev)) @ events (app s))"
    by (simp add: step_events)
  moreover have "length (message_of ev) \<le> 50" by (cases ev) simp_all
  ultimately show ?case using 2 by simp
qed simp

end
