(* ===== verification/App_Safety.thy ===== *)
theory App_Safety
  imports App_Invariants
begin

text \<open>
  The types of the source are erased at run time, so the application is only as safe as what
  the server sends. Here is the contract on messages and responses under which every value
  kept in the state has its declared type, and the proof that the application then never
  unmounts itself by throwing while it renders.
\<close>

section \<open>The contract\<close>

definition sent_changes :: "jsval \<Rightarrow> jsval" where
  "sent_changes payload =
     opt_get (opt_get (opt_get payload (js ''data'')) (js ''raw_diff_payload'')) (js ''changes'')"

definition message_conforms :: "jstr \<Rightarrow> bool" where
  "message_conforms data =
     (case json_parse data of
        None \<Rightarrow> True
      | Some payload \<Rightarrow>
          opt_get payload (js ''type'') = JStr (js ''diff_completed'') \<longrightarrow>
          \<not> truthy (sent_changes payload) \<or> is_array_of BreakingChange (sent_changes payload))"

text \<open>A property of the parsed body of a response, if there is one.\<close>

definition body_sat :: "(jsval \<Rightarrow> bool) \<Rightarrow> response \<Rightarrow> bool" where
  "body_sat P r = (case r of NetError \<Rightarrow> True
     | Resp ok body \<Rightarrow> (case json_parse body of None \<Rightarrow> True | Some v \<Rightarrow> P v))"

fun response_conforms :: "task \<Rightarrow> response \<Rightarrow> bool" where
  "response_conforms (ProjectFetch b t) r =
     body_sat (\<lambda>v. is_str (opt_get v (js ''id''))) r"
| "response_conforms (PromptFetch p) r =
     body_sat (\<lambda>v. is_str (opt_get v (js ''markdown''))
        \<and> (nullish (opt_get v (js ''analysis'')) \<or> CodeAnalysis (opt_get v (js ''analysis'')))) r"
| "response_conforms (LedgerFetch n) r = body_sat (is_array_of DiffRunRecord) r"
| "response_conforms _ r = True"

fun conforms :: "sys \<Rightarrow> event \<Rightarrow> bool" where
  "conforms s (SourceMessage data) = message_conforms data"
| "conforms s (Complete i r) = response_conforms (tasks s ! i) r"
| "conforms s _ = True"

section \<open>Well-typed states\<close>

definition well_typed :: "sys \<Rightarrow> bool" where
  "well_typed s \<longleftrightarrow>
     is_array_of BreakingChange (breakingChanges (app s)) \<and> is_str (currentProjectId (app s))
     \<and> prompt_ok (prompt (app s)) \<and> ledger_ok (ledger s)"

lemma view_panel_total: "well_typed s \<Longrightarrow> \<exists>n. view_panel s = Inr n"
  using sandbox_panel.mounts [of "(app s, isSubmitting (app s), breakingChanges (app s))"]
    prompt_panel.mounts [of "prompt (app s)"] ledger_panel.mounts [of "ledger s"]
    monitor_panel.mounts [of "(status (app s), connectionState (app s), currentProjectId (app s),
      events (app s), diffStatus (app s), breakingChanges (app s), monitor s)"]
  by (cases "viewMode (app s)") (simp_all add: view_panel_def well_typed_def Let_def)

lemma render_app_total: "well_typed s \<Longrightarrow> \<exists>n. render_app s = Inr n"
  unfolding render_app_def by (intro ebind_total view_panel_total) simp_all

lemma events_effect_total: "well_typed s \<Longrightarrow> \<exists>r. events_effect (app s) = Inr r"
  by (auto simp: well_typed_def events_effect_def events_url_def is_str_iff)

lemma ledger_init_ok: "ledger_ok ledger_init"
  by (simp add: ledger_ok_def is_array_of_def)

lemma mounted_well_typed: "well_typed s \<Longrightarrow> well_typed (mounted old s)"
  by (simp add: well_typed_def mounted_def mount_view_def mount_modal_def ledger_init_ok)

lemma fetch_start_ok [simp]: "ledger_ok (fetch_start l) = ledger_ok l"
  by (simp add: ledger_ok_def fetch_start_def)

lemma commit_well_typed:
  assumes "well_typed s" shows "well_typed (commit np old s)"
  using assms by (simp add: well_typed_def commit_ledger Let_def ledger_init_ok)

lemma commit_stays_alive:
  assumes "well_typed s" "alive s" shows "alive (commit np old s)"
  using assms render_app_total [OF mounted_well_typed] events_effect_total
  by (simp add: commit_alive_iff)

section \<open>Preservation\<close>

lemma set_pane_prompt [simp]: "prompt (set_pane p t a) = prompt a"
  by (cases p) simp_all

lemma prompt_set_ok [simp]: "prompt_ok (prompt_set act p) = prompt_ok p"
  by (cases act) (simp_all add: prompt_ok_def)

lemma copy_ok [simp]: "prompt_ok (p\<lparr>copySuccess := b\<rparr>) = prompt_ok p"
    "prompt_ok (p\<lparr>isPrompting := b\<rparr>) = prompt_ok p"
  by (simp_all add: prompt_ok_def)

lemma prompt_step_ok [simp]: "prompt_ok (prompt (app (prompt_step act s))) = prompt_ok (prompt (app s))"
  by (cases act) (simp_all add: start_prompt_def prompt_start_def prompt_ok_def split: sum.split)

lemma other_steps_prompt [simp]:
  "prompt (app (modal_step m s)) = prompt (app s)"
  "prompt (app (monitor_step n s)) = prompt (app s)"
  "prompt (app (ledger_step l s)) = prompt (app s)"
  "prompt (app (webhook_step w s)) = prompt (app s)"
  by (cases m, simp_all) (cases n, simp_all, cases l, simp_all, cases w, simp_all)

lemma sandbox_step_prompt [simp]: "prompt (app (sandbox_step act s)) = prompt (app s)"
  by (cases act) (simp_all split: option.split sum.split)

lemma user_step_prompt_ok [simp]: "prompt_ok (prompt (app (user_step act s))) = prompt_ok (prompt (app s))"
  by (cases act) simp_all

lemma ledger_local_ok:
  assumes "ledger_ok l" "render_ledger l = Inr n" "act \<in> fires n"
  shows "ledger_ok (ledger_local act l)"
proof (cases act)
  case (SelectRun r)
  with assms(2,3) have "r \<in> listed (runs l)"
    using render_ledger_fires by (fastforce simp: ledger_offers_def split: if_splits)
  then obtain rs where "runs l = JArr rs" "r \<in> set rs"
    by (auto simp: listed_def split: jsval.splits)
  with SelectRun assms(1) show ?thesis by (simp add: ledger_ok_def is_array_of_def list_all_iff)
qed (use assms(1) in \<open>simp_all add: ledger_ok_def fetch_start_def\<close>)

lemma user_step_ledger: "ledger (user_step act s) =
    (case act of InLedger a \<Rightarrow> ledger_local a (ledger s) | _ \<Rightarrow> ledger s)"
  by (induction act s rule: user_step.induct)
    (rename_tac act s; case_tac act;
     simp add: start_override_def start_sandbox_def start_prompt_def ledger_fetch_def
       split: option.split sum.split prod.split)+

lemma on_message_ok:
  assumes "is_array_of BreakingChange (breakingChanges a)" "message_conforms d"
  shows "is_array_of BreakingChange (breakingChanges (on_message d a))"
proof (cases "json_parse d")
  case None
  with assms(1) show ?thesis by (simp add: on_message_def push_event_def Let_def)
next
  case (Some payload)
  have changes: "breakingChanges (on_diff_completed payload b) = js_or (sent_changes payload) (JArr [])" for b
    by (simp add: on_diff_completed_def sent_changes_def Let_def)
  show ?thesis
  proof (cases "get payload (js ''type'')")
    case (Inr ty)
    then have "opt_get payload (js ''type'') = ty" by (simp add: opt_get_def)
    with Some Inr assms show ?thesis
      by (auto simp: on_message_def on_payload_def push_event_def Let_def changes message_conforms_def
          js_or_def is_array_of_def)
  qed (use Some assms(1) in \<open>simp add: on_message_def on_payload_def push_event_def Let_def\<close>)
qed

lemma project_done_ok:
  assumes "is_str (currentProjectId a)" "body_sat (\<lambda>v. is_str (opt_get v (js ''id''))) r"
  shows "is_str (currentProjectId (fst (project_done b t r a)))"
    "breakingChanges (fst (project_done b t r a)) = breakingChanges a"
  using assms
  by (auto simp: project_done_def body_sat_def json_parse_res_def opt_get_def ebind_Inr_iff
      split: response.splits sum.splits option.splits)

lemma prompt_done_ok:
  assumes "prompt_ok p" "response_conforms (PromptFetch p0) r"
  shows "prompt_ok (prompt_done p0 r p)"
  using assms
  by (auto simp: prompt_done_def prompt_ok_def body_sat_def json_parse_res_def opt_get_def is_str_def Let_def
      split: response.splits sum.splits option.splits)

lemma fetch_done_ok:
  assumes "ledger_ok l" "body_sat (is_array_of DiffRunRecord) r"
  shows "ledger_ok (fetch_done r l)"
  using assms
  by (auto simp: fetch_done_def ledger_ok_def body_sat_def split: response.splits bool.splits option.splits)

lemma audit_changes_ok: "is_array_of BreakingChange (audit_changes m src)"
  by (cases m)
    (simp_all add: is_array_of_def BreakingChange_def is_obj_def opt_get_def field_def optional_def
      one_of_def is_str_def finding_def python_finding_def go_finding_def typescript_finding_def)

lemma task_step_ok:
  assumes "well_typed s" "response_conforms t r" "task_step t r s = (s', np)"
  shows "well_typed s'"
proof (cases t)
  case (ProjectFetch b tg)
  obtain a chg q where p: "project_done b tg r (app s) = (a, chg, q)" by (cases "project_done b tg r (app s)")
  with ProjectFetch assms have "is_str (currentProjectId a)" "breakingChanges a = breakingChanges (app s)"
    "prompt a = prompt (app s)"
    using project_done_ok [of "app s" r b tg] handlers_prompt(3) [of b tg r "app s"]
    by (simp_all add: well_typed_def)
  with p ProjectFetch assms show ?thesis by (auto simp: well_typed_def split: option.splits)
qed (use assms in \<open>auto simp: well_typed_def override_done_def audit_timeout_def diff_sent_def on_prompt_def
    audit_changes_ok prompt_done_ok fetch_done_ok simp del: response_conforms.simps(2)
    split: response.splits bool.splits if_splits\<close>)

interpretation typing: turn_invariant conforms "\<lambda>s. alive s \<and> well_typed s"
proof
  show "alive sys_init \<and> well_typed sys_init"
    by (simp add: well_typed_def is_array_of_def is_str_def prompt_ok_def ledger_init_ok)
next
  fix s :: sys and act
  assume s: "alive s \<and> well_typed s" and en: "enabled s (User act)"
  have "ledger_ok (ledger (user_step act s))"
  proof (cases act)
    case (InLedger a)
    with en obtain n where "render_ledger (ledger s) = Inr n" "a \<in> fires n"
      using enabled_ledger by blast
    with s have "ledger_ok (ledger_local a (ledger s))"
      using ledger_local_ok by (simp add: well_typed_def)
    with InLedger show ?thesis unfolding user_step_ledger by simp
  qed (use s in \<open>unfold user_step_ledger, simp_all add: well_typed_def\<close>)
  with s show "alive (user_step act s) \<and> well_typed (user_step act s)"
    by (simp add: well_typed_def)
next
  fix s s' :: sys and i r np
  assume s: "alive s \<and> well_typed s" and c: "conforms s (Complete i r)"
    and t: "task_step (tasks s ! i) r (s\<lparr>tasks := remove_nth i (tasks s)\<rparr>) = (s', np)"
  have "well_typed s'"
    by (rule task_step_ok [OF _ _ t]) (use s c in \<open>simp_all add: well_typed_def\<close>)
  with s task_step_alive [OF t] show "alive s' \<and> well_typed s'" by simp
next
  fix s old :: sys and np
  assume "alive s \<and> well_typed s"
  then show "alive (commit np old s) \<and> well_typed (commit np old s)"
    by (simp add: commit_stays_alive commit_well_typed)
qed (simp_all add: well_typed_def on_message_ok)

end
