(* ===== verification/App_Scenarios.thy ===== *)
theory App_Scenarios
  imports App_Safety
begin

text \<open>
  Turns from well-typed states: which events are enabled there and what the application's
  fields are after them. With these, sequences of turns are followed by simplification.
\<close>

section \<open>Turns that keep the application alive\<close>

definition sound :: "sys \<Rightarrow> bool" where
  "sound s \<longleftrightarrow> alive s \<and> well_typed s"

lemma sound_init: "sound sys_init"
  using typing.first by (simp add: sound_def)

lemma sound_step: "sound s \<Longrightarrow> conforms s ev \<Longrightarrow> enabled s ev \<Longrightarrow> sound (step s ev)"
  using typing.kept [of s ev] by (simp add: sound_def)

lemma sound_enabled_modal: "sound s \<Longrightarrow> act \<in> modal_offers s \<Longrightarrow> enabled s (User (InModal act))"
  unfolding enabled_user_iff using render_app_total by (auto simp: sound_def)

lemma sound_enabled_goto: "sound s \<Longrightarrow> enabled s (User (GoTo v))"
  unfolding enabled_user_iff using render_app_total by (auto simp: sound_def)

lemma sound_enabled_sandbox:
  assumes "sound s" "viewMode (app s) = SANDBOX"
    "act \<in> fires (toolbar (isSubmitting (app s)) (sandboxMode (app s)))"
  shows "enabled s (User (InSandbox act))"
proof -
  obtain n where "render_sandbox (app s) (isSubmitting (app s)) (breakingChanges (app s)) = Inr n"
    using assms(1) render_sandbox_total unfolding sound_def well_typed_def by blast
  with assms show ?thesis
    unfolding enabled_user_iff using render_app_total [of s] render_sandbox_fires(2)
    by (fastforce simp: sound_def panel_offers_def)
qed

lemma sound_enabled_prompt:
  assumes "sound s" "viewMode (app s) = PROMPT" "act \<in> prompt_offers (prompt (app s))"
  shows "enabled s (User (InPrompt act))"
proof -
  obtain n where "render_prompt (prompt (app s)) = Inr n"
    using assms(1) render_prompt_total by (auto simp: sound_def well_typed_def)
  with assms show ?thesis
    unfolding enabled_user_iff using render_app_total [of s]
    by (auto simp: sound_def panel_offers_def render_prompt_fires)
qed

lemma sound_enabled_open:
  assumes "sound s" "viewMode (app s) = MONITOR" "diffStatus (app s) = JStr (js ''FAILED'')"
  shows "enabled s (User (InMonitor OpenModal))"
proof -
  obtain n where n: "render_monitor (status (app s)) (connectionState (app s)) (currentProjectId (app s))
      (events (app s)) (diffStatus (app s)) (breakingChanges (app s)) (monitor s) = Inr n"
    using assms(1) render_monitor_total unfolding sound_def well_typed_def by blast
  with assms(3) have "OpenModal \<in> fires n" using override_offered by blast
  with n assms show ?thesis
    unfolding enabled_user_iff using render_app_total [of s] by (auto simp: sound_def panel_offers_def)
qed

lemma sound_source:
  assumes "reachable s" "sound s" "currentProjectId (app s) \<noteq> JStr []" shows "source s \<noteq> None"
  using subscription.holds [OF assms(1)] assms(2,3)
  by (auto simp: subscribed_def sound_def well_typed_def is_str_iff)

text \<open>A turn the user takes, with the state before it and the handler's state.\<close>

lemma user_turn_sound:
  "sound s \<Longrightarrow> enabled s (User act) \<Longrightarrow> sound (commit False s (user_step act s))"
  using sound_step [of s "User act"] by simp

lemma reachable_step: "reachable s \<Longrightarrow> enabled s ev \<Longrightarrow> reachable (step s ev)"
  by (rule reach_with.turned) (auto intro: sys_step.turn)

lemma reachable_run: "reachable s \<Longrightarrow> enabled_run s evs \<Longrightarrow> reachable (run s evs)"
  by (induction s evs rule: run.induct) (simp_all del: step.simps add: reachable_step)

section \<open>The override protocol\<close>

definition override_protocol :: "jstr \<Rightarrow> event list" where
  "override_protocol note =
     [User (InMonitor OpenModal), User (InModal (SetOverrideNote note)),
      User (InModal (SetAckRisk True)), User (InModal (SetAckPolicy True)),
      User (InModal HandleOverride)]"

lemma modal_turn:
  assumes "sound s" "act \<in> modal_offers s"
  shows "sound (step s (User (InModal act)))"
    "enabled s (User (InModal act))"
  using assms sound_enabled_modal sound_step by (simp_all del: step.simps)

lemma override_turn:
  assumes "diffId (app s) = JStr i" "i \<noteq> []"
  shows "sent (step s (User (InModal HandleOverride))) =
      sent s @ [PostOverride (override_url i) (overrideNote (app s))]"
    "isSubmitting (app (step s (User (InModal HandleOverride))))"
  using assms
  by (simp_all add: start_override_def override_start_def commit_sent ledger_starts_def ledger_mounts_def)

lemma override_protocol_runs:
  assumes s: "sound s" "viewMode (app s) = MONITOR" "diffStatus (app s) = JStr (js ''FAILED'')"
    "\<not> showModal (app s)" "\<not> isSubmitting (app s)" "diffId (app s) = JStr i" "i \<noteq> []"
    and filled: "\<not> blank note"
  shows "enabled_run s (override_protocol note)"
    "sent (run s (override_protocol note)) = sent s @ [PostOverride (override_url i) note]"
    "isSubmitting (app (run s (override_protocol note)))"
    "sound (run s (override_protocol note))"
proof -
  let ?s1 = "step s (User (InMonitor OpenModal))"
  let ?s2 = "step ?s1 (User (InModal (SetOverrideNote note)))"
  let ?s3 = "step ?s2 (User (InModal (SetAckRisk True)))"
  let ?s4 = "step ?s3 (User (InModal (SetAckPolicy True)))"
  let ?s5 = "step ?s4 (User (InModal HandleOverride))"
  have e1: "enabled s (User (InMonitor OpenModal))" using s by (intro sound_enabled_open)
  then have 1: "sound ?s1" using s(1) sound_step by (simp del: step.simps)
  have f1: "showModal (app ?s1)" "\<not> isSubmitting (app ?s1)" "diffId (app ?s1) = JStr i"
      "sent ?s1 = sent s" "modal ?s1 = modal_init" "viewMode (app ?s1) = MONITOR"
    using s by (simp_all add: commit_sent commit_modal ledger_starts_def ledger_mounts_def sound_def)
  have 2: "sound ?s2" "enabled ?s1 (User (InModal (SetOverrideNote note)))"
    by (intro modal_turn [OF 1]; simp add: modal_offers_def f1 render_modal_fires del: step.simps)+
  have f2: "showModal (app ?s2)" "\<not> isSubmitting (app ?s2)" "diffId (app ?s2) = JStr i"
      "overrideNote (app ?s2) = note" "sent ?s2 = sent s" "modal ?s2 = modal_init"
      "viewMode (app ?s2) = MONITOR"
    using f1 by (simp_all add: commit_sent commit_modal ledger_starts_def ledger_mounts_def)
  have 3: "sound ?s3" "enabled ?s2 (User (InModal (SetAckRisk True)))"
    by (intro modal_turn [OF 2(1)]; simp add: modal_offers_def f1 f2 render_modal_fires del: step.simps)+
  have f3: "showModal (app ?s3)" "\<not> isSubmitting (app ?s3)" "diffId (app ?s3) = JStr i"
      "overrideNote (app ?s3) = note" "sent ?s3 = sent s" "ackRisk (modal ?s3)"
      "viewMode (app ?s3) = MONITOR"
    using f2 by (simp_all add: commit_sent commit_modal ledger_starts_def ledger_mounts_def)
  have 4: "sound ?s4" "enabled ?s3 (User (InModal (SetAckPolicy True)))"
    by (intro modal_turn [OF 3(1)]; simp add: modal_offers_def f3 render_modal_fires del: step.simps)+
  have f4: "showModal (app ?s4)" "\<not> isSubmitting (app ?s4)" "diffId (app ?s4) = JStr i"
      "overrideNote (app ?s4) = note" "sent ?s4 = sent s" "ackRisk (modal ?s4)" "ackPolicy (modal ?s4)"
      "viewMode (app ?s4) = MONITOR"
    using f3 by (simp_all add: commit_sent commit_modal ledger_starts_def ledger_mounts_def)
  have submit: "canSubmit (overrideNote (app ?s4)) (isSubmitting (app ?s4)) (modal ?s4)"
    using f4 filled js_trim_Nil by (simp add: canSubmit_def del: step.simps)
  have 5: "sound ?s5" "enabled ?s4 (User (InModal HandleOverride))"
    by (intro modal_turn [OF 4(1)]; simp add: handle_override_offered f4(1) submit del: step.simps)+
  have f5: "sent ?s5 = sent s @ [PostOverride (override_url i) note]" "isSubmitting (app ?s5)"
    using override_turn [OF f4(3) s(7)] f4 by (simp_all del: step.simps)
  show "enabled_run s (override_protocol note)"
    unfolding override_protocol_def using e1 2(2) 3(2) 4(2) 5(2)
    by (simp del: step.simps)
  show "sent (run s (override_protocol note)) = sent s @ [PostOverride (override_url i) note]"
    "isSubmitting (app (run s (override_protocol note)))"
    "sound (run s (override_protocol note))"
    unfolding override_protocol_def run.simps using f5 5(1) by simp_all
qed

end
