(* ===== verification/App_Races.thy ===== *)
theory App_Races
  imports App_Scenarios
begin

text \<open>
  Turns that interleave: a message between opening the override form and submitting it, a
  message between an override and its response, responses that arrive after their state has
  gone, and answers the panels cannot render.
\<close>

section \<open>A finished run\<close>

definition completed_id :: "jsval \<Rightarrow> jsval" where
  "completed_id payload =
     js_or (js_or (opt_get (opt_get payload (js ''data'')) (js ''id'')) (opt_get payload (js ''diff_id'')))
       (opt_get payload (js ''id''))"

definition completed_status :: "jsval \<Rightarrow> jsval" where
  "completed_status payload =
     js_or (opt_get (opt_get payload (js ''data'')) (js ''status'')) (opt_get payload (js ''status''))"

definition announces :: "jstr \<Rightarrow> jsval \<Rightarrow> bool" where
  "announces data payload \<longleftrightarrow>
     json_parse data = Some payload
     \<and> get payload (js ''type'') = Inr (JStr (js ''diff_completed''))"

lemma on_message_completed:
  assumes "announces data payload"
  shows "on_message data a = a\<lparr>events := take 50 (received data # events a),
    diffId := completed_id payload, diffStatus := completed_status payload,
    status := (if completed_status payload = JStr (js ''FAILED'') then BREAKING else SAFE),
    breakingChanges := js_or (sent_changes payload) (JArr []),
    viewMode := (if viewMode a = SANDBOX then MONITOR else viewMode a)\<rparr>"
  using assms
  by (simp add: announces_def on_message_def on_payload_def on_diff_completed_def push_event_def Let_def
      completed_id_def completed_status_def sent_changes_def)

lemma message_keeps:
  "overrideNote (on_message d a) = overrideNote a" "showModal (on_message d a) = showModal a"
  "isSubmitting (on_message d a) = isSubmitting a"
  by (simp_all add: js_defs Let_def split: option.split sum.split)

section \<open>A concrete blocked run\<close>

definition failed_message :: jstr where
  "failed_message = js ''{\"type\":\"diff_completed\",\"data\":{\"id\":\"d1\",\"status\":\"FAILED\"}}''"

definition failed_payload :: jsval where
  "failed_payload =
     JObj [(js ''type'', JStr (js ''diff_completed'')),
           (js ''data'', JObj [(js ''id'', JStr (js ''d1'')), (js ''status'', JStr (js ''FAILED''))])]"

lemma failed_message_parse: "json_parse failed_message = Some failed_payload"
  by (simp add: failed_message_def failed_payload_def js_eval)

lemma failed_announces: "announces failed_message failed_payload"
  by (simp add: announces_def failed_message_parse) (simp add: failed_payload_def field_def)

lemma failed_payload_fields:
  "completed_id failed_payload = JStr (js ''d1'')"
  "completed_status failed_payload = JStr (js ''FAILED'')"
  "\<not> truthy (sent_changes failed_payload)"
  by (simp_all add: failed_payload_def completed_id_def completed_status_def sent_changes_def
      opt_get_def field_def js_or_def)

lemma failed_conforms: "message_conforms failed_message"
  by (simp add: message_conforms_def failed_message_parse failed_payload_fields)

definition blocked :: sys where
  "blocked = step sys_init (SourceMessage failed_message)"

lemma blocked_step: "enabled sys_init (SourceMessage failed_message)"
  by simp

lemma blocked_sound: "sound blocked"
  unfolding blocked_def by (rule sound_step [OF sound_init _ blocked_step]) (simp add: failed_conforms)

lemma blocked_reachable: "reachable blocked"
  unfolding blocked_def by (rule reachable_step [OF reach_with.start blocked_step])

lemma blocked_fields:
  "viewMode (app blocked) = MONITOR" "diffStatus (app blocked) = JStr (js ''FAILED'')"
  "diffId (app blocked) = JStr (js ''d1'')" "\<not> showModal (app blocked)"
  "\<not> isSubmitting (app blocked)" "status (app blocked) = BREAKING" "sent blocked = []"
  "tasks blocked = []" "currentProjectId (app blocked) = JStr (js ''default'')"
  by (simp_all add: blocked_def on_message_completed [OF failed_announces] failed_payload_fields
      commit_sent commit_tasks ledger_starts_def ledger_mounts_def)

lemma fields_of_override:
  "enabled_run blocked (override_protocol (js ''accepted''))"
  "sent (run blocked (override_protocol (js ''accepted''))) =
     [PostOverride (override_url (js ''d1'')) (js ''accepted'')]"
  "isSubmitting (app (run blocked (override_protocol (js ''accepted''))))"
  using override_protocol_runs [OF blocked_sound blocked_fields(1,2,4,5,3), of "js ''accepted''"]
  by (simp_all add: blocked_fields blank_def is_space_def js_def)

text \<open>The form filled in for the blocked run, about to be submitted.\<close>

definition ready :: sys where
  "ready = blocked\<lparr>app := (app blocked)\<lparr>showModal := True, overrideNote := js ''accepted''\<rparr>,
     modal := \<lparr>ackRisk = True, ackPolicy = True\<rparr>\<rparr>"

lemma ready_sound: "sound ready"
  using blocked_sound by (simp add: ready_def sound_def well_typed_def)

lemma ready_fields:
  "diffId (app ready) = JStr (js ''d1'')" "overrideNote (app ready) = js ''accepted''"
  "showModal (app ready)" "\<not> isSubmitting (app ready)" "sent ready = []" "tasks ready = []"
  "viewMode (app ready) = MONITOR" "diffStatus (app ready) = JStr (js ''FAILED'')"
  "ackRisk (modal ready)" "ackPolicy (modal ready)" "currentProjectId (app ready) = JStr (js ''default'')"
  by (simp_all add: ready_def blocked_fields)

lemma ready_source: "alive ready" "source ready \<noteq> None"
proof -
  show "alive ready" using ready_sound by (simp add: sound_def)
  have "source blocked \<noteq> None"
    by (rule sound_source [OF blocked_reachable blocked_sound]) (simp add: blocked_fields)
  then show "source ready \<noteq> None" by (simp add: ready_def)
qed

lemma accepted_not_blank: "\<not> blank (js ''accepted'')"
  by (simp add: blank_def is_space_def js_def)

lemma ready_submit: "HandleOverride \<in> modal_offers ready"
  using accepted_not_blank
  by (simp add: handle_override_offered canSubmit_def ready_fields js_trim_Nil)

lemma ready_turn:
  "enabled ready (User (InModal HandleOverride))"
  "sent (step ready (User (InModal HandleOverride))) =
     [PostOverride (override_url (js ''d1'')) (js ''accepted'')]"
  using modal_turn(2) [OF ready_sound ready_submit] override_turn(1) [OF ready_fields(1)]
  by (simp_all add: ready_fields del: step.simps)

section \<open>What a turn may send\<close>

lemma is_override_simps [simp]: "is_override (PostOverride u t)" "\<not> is_override GetDiffs"
  by (simp_all add: is_override_def)

lemma override_sent_cases:
  assumes "enabled s ev" "sent (step s ev) = sent s @ rs" "PostOverride url text \<in> set rs"
  shows "ev = User (InModal HandleOverride)
    \<and> (\<exists>i. truthy (diffId (app s)) \<and> to_str (diffId (app s)) = Inr i
          \<and> url = override_url i \<and> text = overrideNote (app s))"
proof (cases ev)
  case (User act)
  show ?thesis
  proof (cases "act = InModal HandleOverride")
    case True
    have "sent (step s ev) = sent (start_override s)
        \<or> sent (step s ev) = sent (start_override s) @ [GetDiffs]"
      unfolding User True by (simp add: commit_sent)
    then show ?thesis using start_override_sent [of s] assms(2,3) User True by auto
  next
    case False
    obtain us where "sent (user_step act s) = sent s @ us" "\<forall>r \<in> set us. \<not> is_override r"
      using user_step_sent [OF False] by blast
    with User assms(2,3) show ?thesis
      by (auto simp: commit_sent split: if_splits dest: bspec)
  qed
next
  case (Complete i r)
  then have i: "i < length (tasks s)" using assms(1) by simp
  obtain s' np where t: "task_step (tasks s ! i) r (s\<lparr>tasks := remove_nth i (tasks s)\<rparr>) = (s', np)"
    and c: "step s (Complete i r) = commit np s s'"
    using step_complete_app [OF i] .
  obtain us where "sent s' = sent s @ us" "\<forall>r \<in> set us. \<not> is_override r"
    using task_step_sent [OF t] by auto
  with Complete c assms(2,3) show ?thesis
    by (auto simp: commit_sent split: if_splits dest: bspec)
qed (use assms(2,3) in \<open>auto simp: commit_sent split: if_splits\<close>)

section \<open>A message while the form is open\<close>

lemma message_keeps_modal:
  assumes "showModal (app s)"
  shows "modal (step s (SourceMessage data)) = modal s"
    "showModal (app (step s (SourceMessage data)))"
    "overrideNote (app (step s (SourceMessage data))) = overrideNote (app s)"
    "isSubmitting (app (step s (SourceMessage data))) = isSubmitting (app s)"
  using assms by (simp_all add: commit_modal message_keeps)

lemma message_keeps_offer:
  "HandleOverride \<in> modal_offers s \<Longrightarrow> HandleOverride \<in> modal_offers (step s (SourceMessage data))"
  unfolding handle_override_offered using message_keeps_modal by simp

lemma message_completed_fields:
  assumes "announces data payload"
  shows "diffId (app (step s (SourceMessage data))) = completed_id payload"
    "diffStatus (app (step s (SourceMessage data))) = completed_status payload"
    "breakingChanges (app (step s (SourceMessage data))) = js_or (sent_changes payload) (JArr [])"
    "status (app (step s (SourceMessage data))) =
       (if completed_status payload = JStr (js ''FAILED'') then BREAKING else SAFE)"
  using on_message_completed [OF assms] by simp_all

lemma message_tasks: "\<exists>ts. tasks (step s (SourceMessage data)) = tasks s @ ts"
  by (simp add: commit_tasks)

definition later_message :: jstr where
  "later_message = js ''{\"type\":\"diff_completed\",\"data\":{\"id\":\"d2\",\"status\":\"FAILED\"}}''"

definition later_payload :: jsval where
  "later_payload =
     JObj [(js ''type'', JStr (js ''diff_completed'')),
           (js ''data'', JObj [(js ''id'', JStr (js ''d2'')), (js ''status'', JStr (js ''FAILED''))])]"

lemma later_parse: "json_parse later_message = Some later_payload"
  by (simp add: later_message_def later_payload_def js_eval)

lemma later_announces: "announces later_message later_payload"
  by (simp add: announces_def later_parse) (simp add: later_payload_def field_def)

lemma later_payload_fields:
  "completed_id later_payload = JStr (js ''d2'')"
  "completed_status later_payload = JStr (js ''FAILED'')"
  "\<not> truthy (sent_changes later_payload)"
  by (simp_all add: later_payload_def completed_id_def completed_status_def sent_changes_def
      opt_get_def field_def js_or_def)

lemma later_conforms: "message_conforms later_message"
  by (simp add: message_conforms_def later_parse later_payload_fields)

section \<open>Completions\<close>

lemma complete_override:
  assumes "i < length (tasks s)" "tasks s ! i = OverrideTask"
  shows "app (step s (Complete i (Resp True body))) =
    app (commit False s (upd (override_done (Resp True body)) (s\<lparr>tasks := remove_nth i (tasks s)\<rparr>)))"
  using assms by (simp add: complete_def)

lemma override_done_ok:
  "diffStatus (override_done (Resp True body) a) = JStr (js ''OVERRIDDEN'')"
  "status (override_done (Resp True body) a) = WARNING"
  "diffId (override_done (Resp True body) a) = diffId a"
  by (simp_all add: override_done_def)

lemma length_remove_nth: "i < length xs \<Longrightarrow> length (remove_nth i xs) = length xs - 1"
  by (simp add: remove_nth_def)

lemma audit_fetch_tasks:
  assumes "i < length (tasks s)" "tasks s ! i = AuditFetch m src"
  shows "tasks (step s (Complete i r)) = remove_nth i (tasks s) @ [AuditTimer m src]"
    "same_app (app s) (app (step s (Complete i r)))"
  using assms commit_app [of "add_task (AuditTimer m src) (s\<lparr>tasks := remove_nth i (tasks s)\<rparr>)"]
  by (simp_all add: complete_def commit_tasks ledger_starts_def ledger_mounts_def)

lemma audit_timer_fields:
  assumes "i < length (tasks s)" "tasks s ! i = AuditTimer m src"
  shows "diffStatus (app (step s (Complete i r))) = JStr (js ''FAILED'')"
    "status (app (step s (Complete i r))) = BREAKING"
    "breakingChanges (app (step s (Complete i r))) = audit_changes m src"
    "diffId (app (step s (Complete i r))) = diffId (app s)"
    "\<not> isSubmitting (app (step s (Complete i r)))"
  using assms by (simp_all add: complete_def audit_timeout_def)

section \<open>An analysis without lists\<close>

lemma dep_list_null:
  assumes "truthy a" "nullish (opt_get a (js ''dependencies''))" shows "dep_list a = Inl TypeErr"
proof -
  have "get (opt_get a (js ''dependencies'')) (js ''length'') = Inl TypeErr"
    using assms(2) by (simp add: get_Inl_iff)
  with assms(1) show ?thesis by (simp add: dep_list_def)
qed

lemma render_prompt_null:
  assumes "truthy (astAnalysis p)" "nullish (opt_get (astAnalysis p) (js ''dependencies''))"
  shows "\<nexists>n. render_prompt p = Inr n"
  using dep_list_null [OF assms] by (auto simp: render_prompt_def facts_panel_def ebind_Inr_iff)

lemma prompt_done_answer:
  assumes "json_parse body = Some v" "\<not> nullish v"
  shows "astAnalysis (prompt_done p0 (Resp True body) p) = opt_get v (js ''analysis'')"
  using assms by (simp add: prompt_done_def json_parse_res_def opt_get_get Let_def)

lemma prompt_answer_crashes:
  assumes "i < length (tasks s)" "tasks s ! i = PromptFetch p0" "viewMode (app s) = PROMPT"
    and body: "json_parse body = Some v" "\<not> nullish v" "truthy (opt_get v (js ''analysis''))"
    "nullish (opt_get (opt_get v (js ''analysis'')) (js ''dependencies''))"
  shows "\<not> alive (step s (Complete i (Resp True body)))"
proof -
  let ?s = "upd (on_prompt (prompt_done p0 (Resp True body))) (s\<lparr>tasks := remove_nth i (tasks s)\<rparr>)"
  have "\<nexists>n. render_prompt (prompt (app (mounted s ?s))) = Inr n"
    by (rule render_prompt_null) (use body in \<open>simp_all add: prompt_done_answer\<close>)
  moreover have "viewMode (app (mounted s ?s)) = PROMPT"
    using assms(3) by (simp add: on_prompt_def)
  ultimately have "\<nexists>n. render_app (mounted s ?s) = Inr n"
    by (auto simp: render_app_def view_panel_def Let_def ebind_Inr_iff)
  then show ?thesis using assms(1,2) by (simp add: complete_def commit_alive_iff)
qed

text \<open>The answer of a server whose analyzer is not running and that does not know the code.\<close>

definition null_answer :: jstr where
  "null_answer = js ''{\"analysis\":{\"language\":{\"name\":\"\"},\"dependencies\":null,\"entrypoints\":null,\"caveats\":null,\"function_count\":0,\"class_count\":0,\"line_count\":0,\"system_calls\":null},\"markdown\":\"# Prompt\"}''"

definition null_value :: jsval where
  "null_value =
     JObj [(js ''analysis'',
        JObj [(js ''language'', JObj [(js ''name'', JStr [])]), (js ''dependencies'', JNull),
              (js ''entrypoints'', JNull), (js ''caveats'', JNull),
              (js ''function_count'', JNum (nat_num 0)), (js ''class_count'', JNum (nat_num 0)),
              (js ''line_count'', JNum (nat_num 0)), (js ''system_calls'', JNull)]),
      (js ''markdown'', JStr (js ''# Prompt''))]"

lemma null_answer_parse: "json_parse null_answer = Some null_value"
  by (simp add: null_answer_def null_value_def js_eval)

lemma null_value_fields:
  "\<not> nullish null_value" "truthy (opt_get null_value (js ''analysis''))"
  "nullish (opt_get (opt_get null_value (js ''analysis'')) (js ''dependencies''))"
  by (simp_all add: null_value_def opt_get_def field_def)

lemma dead_offers_nothing: "\<not> alive s \<Longrightarrow> enabled s ev \<Longrightarrow> \<exists>i r. ev = Complete i r"
  by (cases ev) (simp_all add: enabled_user_iff)

section \<open>A new project\<close>

definition created_message :: jstr where
  "created_message = js ''{\"type\":\"project_created\"}''"

lemma created_parse: "json_parse created_message = Some (JObj [(js ''type'', JStr (js ''project_created''))])"
  by (simp add: created_message_def js_eval)

lemma on_message_created:
  assumes "json_parse data = Some payload" "get payload (js ''type'') = Inr (JStr (js ''project_created''))"
  shows "on_message data a = (push_event data a)\<lparr>status := SAFE\<rparr>"
  using assms by (simp add: on_message_def on_payload_def Let_def)

lemma created_conforms:
  assumes "json_parse data = Some payload" "get payload (js ''type'') = Inr (JStr (js ''project_created''))"
  shows "message_conforms data"
  using assms by (simp add: message_conforms_def opt_get_def)

section \<open>The ledger, opened\<close>

definition audit_open :: sys where
  "audit_open = step sys_init (User (GoTo AUDIT))"

lemma audit_open_reachable: "reachable audit_open"
  unfolding audit_open_def
  by (rule reachable_step [OF reach_with.start sound_enabled_goto [OF sound_init]])

lemma audit_open_loading: "loading (ledger audit_open)"
proof -
  have "well_typed (mounted sys_init (user_step (GoTo AUDIT) sys_init))"
    by (rule mounted_well_typed) (use sound_init in \<open>simp add: sound_def well_typed_def\<close>)
  then obtain n where "render_app (mounted sys_init (user_step (GoTo AUDIT) sys_init)) = Inr n"
    using render_app_total by blast
  then show ?thesis
    by (simp add: audit_open_def commit_ledger ledger_starts_def ledger_mounts_def fetch_start_def Let_def)
qed

end
