(* ===== verification/App_Refinement.thy ===== *)
theory App_Refinement
  imports App_Races
begin

text \<open>
  The application against smaller machines. A machine is given by what it shows of a state,
  what it sees of a turn and how it reacts; a simulation says that it follows the application
  turn by turn. The machine of this theory is the governance verdict: which run is shown, its
  outcome and the status of the pipeline.
\<close>

section \<open>Simulation\<close>

text \<open>What an observer sees of a sequence of turns.\<close>

fun trace :: "(sys \<Rightarrow> event \<Rightarrow> 'o) \<Rightarrow> sys \<Rightarrow> event list \<Rightarrow> 'o list" where
  "trace obs s [] = []"
| "trace obs s (ev # evs) = obs s ev # trace obs (step s ev) evs"

lemma trace_append: "trace obs s (evs @ fs) = trace obs s evs @ trace obs (run s evs) fs"
  by (induction obs s evs rule: trace.induct) simp_all

lemma run_append: "run s (evs @ fs) = run (run s evs) fs"
  by (induction s evs rule: run.induct) simp_all

locale simulation =
  fixes view :: "sys \<Rightarrow> 'a" and obs :: "sys \<Rightarrow> event \<Rightarrow> 'o" and react :: "'o \<Rightarrow> 'a \<Rightarrow> 'a"
  assumes follows: "view (step s ev) = react (obs s ev) (view s)"
begin

lemma follows_run: "view (run s evs) = fold react (trace obs s evs) (view s)"
  by (induction s evs rule: run.induct) (simp_all add: follows del: step.simps)

text \<open>A property of the view that every reaction to what is seen keeps holds to the end.\<close>

lemma lasts:
  assumes "\<And>x v. x \<in> set (trace obs s evs) \<Longrightarrow> P v \<Longrightarrow> P (react x v)" and "P (view s)"
  shows "P (view (run s evs))"
  unfolding follows_run
  by (rule fold_invariant [where Q = "\<lambda>x. x \<in> set (trace obs s evs)"]) (use assms in auto)

end

section \<open>The governance verdict\<close>

record verdict =
  shown_status :: Status
  shown_run :: jsval
  shown_outcome :: jsval

definition verdict_of :: "sys \<Rightarrow> verdict" where
  "verdict_of s = \<lparr>shown_status = status (app s), shown_run = diffId (app s),
     shown_outcome = diffStatus (app s)\<rparr>"

text \<open>What can move it.\<close>

datatype ruling =
    Announced jsval jsval
  | Overridden
  | Audited
  | Cleared
  | Unrelated

fun govern :: "ruling \<Rightarrow> verdict \<Rightarrow> verdict" where
  "govern (Announced i st) v =
     \<lparr>shown_status = (if st = JStr (js ''FAILED'') then BREAKING else SAFE), shown_run = i,
      shown_outcome = st\<rparr>"
| "govern Overridden v = v\<lparr>shown_status := WARNING, shown_outcome := JStr (js ''OVERRIDDEN'')\<rparr>"
| "govern Audited v = v\<lparr>shown_status := BREAKING, shown_outcome := JStr (js ''FAILED'')\<rparr>"
| "govern Cleared v = v\<lparr>shown_status := SAFE\<rparr>"
| "govern Unrelated v = v"

text \<open>The ruling of a message of the event source, and of a completed task.\<close>

definition message_ruling :: "jstr \<Rightarrow> ruling" where
  "message_ruling data =
     (case json_parse data of
        None \<Rightarrow> Unrelated
      | Some payload \<Rightarrow>
          let ty = opt_get payload (js ''type'')
          in if ty = JStr (js ''diff_overridden'') then Overridden
             else if ty = JStr (js ''project_created'') then Cleared
             else if ty = JStr (js ''diff_completed'')
             then Announced (completed_id payload) (completed_status payload)
             else Unrelated)"

fun task_ruling :: "task \<Rightarrow> response \<Rightarrow> ruling" where
  "task_ruling OverrideTask (Resp True body) = Overridden"
| "task_ruling (AuditTimer m src) r = Audited"
| "task_ruling _ _ = Unrelated"

fun rules_on :: "sys \<Rightarrow> event \<Rightarrow> ruling" where
  "rules_on s (SourceMessage data) = message_ruling data"
| "rules_on s (Complete i r) = task_ruling (tasks s ! i) r"
| "rules_on s _ = Unrelated"

lemma verdict_commit [simp]: "verdict_of (commit np old s) = verdict_of s"
  by (simp add: verdict_of_def)

lemma verdict_message: "verdict_of (upd (on_message d) s) = govern (message_ruling d) (verdict_of s)"
proof (cases "json_parse d")
  case (Some payload)
  then show ?thesis
    by (cases "get payload (js ''type'')")
      (auto simp: verdict_of_def message_ruling_def on_message_def on_payload_def on_diff_completed_def
        push_event_def opt_get_def [of payload "js ''type''"] completed_id_def completed_status_def Let_def)
qed (simp add: verdict_of_def message_ruling_def on_message_def push_event_def)

lemma verdict_task:
  "task_step t r s = (s', np) \<Longrightarrow> verdict_of s' = govern (task_ruling t r) (verdict_of s)"
  by (induction t r rule: task_ruling.induct)
    (auto simp: verdict_of_def override_done_def audit_timeout_def project_done_def diff_sent_def on_prompt_def
      split: if_splits option.splits response.splits sum.splits bool.splits)

lemma verdict_user [simp]: "verdict_of (user_step act s) = verdict_of s"
  by (simp add: verdict_of_def)

interpretation governance: simulation verdict_of rules_on govern
proof
  fix s ev
  show "verdict_of (step s ev) = govern (rules_on s ev) (verdict_of s)"
  proof (cases ev)
    case (Complete i r)
    obtain s' np where "task_step (tasks s ! i) r (s\<lparr>tasks := remove_nth i (tasks s)\<rparr>) = (s', np)"
      by fastforce
    with Complete verdict_task [OF this] show ?thesis by (simp add: complete_def verdict_of_def)
  qed (simp_all add: verdict_message, simp_all add: verdict_of_def)
qed

lemma rules_on_simps: "rules_on s (User act) = Unrelated" "rules_on s SourceOpen = Unrelated"
  by simp_all

section \<open>The override form\<close>

text \<open>What is ticked in the form, when it is mounted.\<close>

definition form_of :: "sys \<Rightarrow> (bool \<times> bool) option" where
  "form_of s = (if alive s \<and> showModal (app s) then Some (ackRisk (modal s), ackPolicy (modal s)) else None)"

datatype form_event = Opened | Closed | Risk bool | Policy bool | Untouched

fun fill :: "form_event \<Rightarrow> (bool \<times> bool) option \<Rightarrow> (bool \<times> bool) option" where
  "fill Opened None = Some (False, False)"
| "fill Closed f = None"
| "fill (Risk b) (Some (r, p)) = Some (b, p)"
| "fill (Policy b) (Some (r, p)) = Some (r, b)"
| "fill _ f = f"

fun form_task :: "task \<Rightarrow> response \<Rightarrow> form_event" where
  "form_task OverrideTask (Resp True body) = Closed"
| "form_task _ _ = Untouched"

fun form_turn :: "sys \<Rightarrow> event \<Rightarrow> form_event" where
  "form_turn s (User (InMonitor OpenModal)) = Opened"
| "form_turn s (User (InModal (SetShowModal b))) = (if b then Opened else Closed)"
| "form_turn s (User (InModal (SetAckRisk b))) = Risk b"
| "form_turn s (User (InModal (SetAckPolicy b))) = Policy b"
| "form_turn s (Complete i r) = form_task (tasks s ! i) r"
| "form_turn s _ = Untouched"

text \<open>A turn in which the application is unmounted takes the form with it.\<close>

definition touches_form :: "sys \<Rightarrow> event \<Rightarrow> form_event" where
  "touches_form s ev = (if alive (step s ev) then form_turn s ev else Closed)"

definition shell :: "app \<Rightarrow> bool \<times> ViewMode" where
  "shell a = (showModal a, viewMode a)"

lemma shell_eq: "shell a = shell b \<longleftrightarrow> showModal a = showModal b \<and> viewMode a = viewMode b"
  by (simp add: shell_def)

lemma shell_keeps [simp]:
  "shell (loadSample n a) = shell a" "shell (set_pane p t a) = shell a"
  "shell (clear_all a) = shell a" "shell (on_prompt f a) = shell a"
  "shell (a\<lparr>sandboxMode := m\<rparr>) = shell a" "shell (a\<lparr>overrideNote := t\<rparr>) = shell a"
  "shell (a\<lparr>isSubmitting := b\<rparr>) = shell a"
  by (simp_all add: shell_def loadSample_def load_openapi_def load_source_def clear_all_def on_prompt_def)
    (cases p; simp)

lemmas shell_fields [simp] = shell_keeps [unfolded shell_eq]

lemma start_keeps_form [simp]:
  "modal (start_override s) = modal s" "shell (app (start_override s)) = shell (app s)"
  "modal (start_sandbox s) = modal s" "shell (app (start_sandbox s)) = shell (app s)"
  "modal (start_prompt s) = modal s" "shell (app (start_prompt s)) = shell (app s)"
  "modal (ledger_fetch s) = modal s"
  by (simp_all add: start_override_def override_start_def start_sandbox_def sandbox_start_def
      start_prompt_def prompt_start_def ledger_fetch_def split: sum.split)

lemma panel_step_form [simp]:
  "modal (sandbox_step x s) = modal s" "shell (app (sandbox_step x s)) = shell (app s)"
  "modal (prompt_step p s) = modal s" "shell (app (prompt_step p s)) = shell (app s)"
  "modal (ledger_step l s) = modal s" "shell (app (ledger_step l s)) = shell (app s)"
  "modal (webhook_step w s) = modal s" "shell (app (webhook_step w s)) = shell (app s)"
proof -
  show "modal (sandbox_step x s) = modal s" "shell (app (sandbox_step x s)) = shell (app s)"
    by (cases x; simp split: option.split sum.split)+
  show "modal (prompt_step p s) = modal s" "shell (app (prompt_step p s)) = shell (app s)"
    by (cases p; simp split: sum.split)+
  show "modal (ledger_step l s) = modal s" "shell (app (ledger_step l s)) = shell (app s)"
    by (cases l; simp)+
  show "modal (webhook_step w s) = modal s" "shell (app (webhook_step w s)) = shell (app s)"
    by (cases w; simp)+
qed

lemmas panel_step_fields [simp] = panel_step_form(2,4,6,8) [unfolded shell_eq]
  start_keeps_form(2,4,6) [unfolded shell_eq]

lemma monitor_step_form [simp]:
  "modal (monitor_step n s) = modal s" "viewMode (app (monitor_step n s)) = viewMode (app s)"
  "showModal (app (monitor_step n s)) = (n = OpenModal \<or> showModal (app s))"
  by (cases n; simp)+

lemma modal_step_form:
  "modal (modal_step m s) = modal_local m (modal s)"
  "showModal (app (modal_step m s)) = (case m of SetShowModal b \<Rightarrow> b | _ \<Rightarrow> showModal (app s))"
  "viewMode (app (modal_step m s)) = viewMode (app s)"
  by (cases m; simp)+

lemma user_step_view:
  "viewMode (app (user_step act s)) = (case act of GoTo v \<Rightarrow> v | _ \<Rightarrow> viewMode (app s))"
  by (cases act) (simp_all add: modal_step_form)

lemma task_step_form:
  assumes "task_step t r s = (s', np)"
  shows "modal s' = modal s" "showModal (app s') = (showModal (app s) \<and> form_task t r \<noteq> Closed)"
    "viewMode (app s') = viewMode (app s)"
proof -
  show "viewMode (app s') = viewMode (app s)"
    using assms
    by (cases t)
      (auto simp: override_done_def audit_timeout_def project_done_def diff_sent_def
        split: if_splits option.splits response.splits sum.splits bool.splits)
  show "modal s' = modal s"
    using assms by (cases t) (auto split: if_splits option.splits prod.splits response.splits)
  show "showModal (app s') = (showModal (app s) \<and> form_task t r \<noteq> Closed)"
    using assms
    by (cases t; cases r)
      (auto simp: override_done_def audit_timeout_def project_done_def diff_sent_def
        split: if_splits option.splits sum.splits bool.splits)
qed

lemma form_commit:
  assumes "alive (commit np old s)" "alive old"
  shows "form_of (commit np old s) =
    (if showModal (app s) then Some (if showModal (app old) then (ackRisk (modal s), ackPolicy (modal s))
       else (False, False)) else None)"
  using assms commit_alive [OF assms(1)] by (simp add: form_of_def commit_modal)


lemma form_of_commit:
  assumes "alive (commit np old s)" "alive old" "modal s = modal old"
    "showModal (app s) = (showModal (app old) \<and> \<not> closing)"
  shows "form_of (commit np old s) = (if closing then None else form_of old)"
  using assms form_commit [OF assms(1,2)] by (simp add: form_of_def)

lemma form_task_cases: "form_task t r = Closed \<or> form_task t r = Untouched"
  by (induction t r rule: form_task.induct) simp_all

lemma form_task_never: "Risk b \<noteq> form_task t r" "Policy b \<noteq> form_task t r" "Opened \<noteq> form_task t r"
  using form_task_cases [of t r] by auto

lemma form_of_upd:
  assumes "alive (commit np s (upd f s))" "showModal (f (app s)) = showModal (app s)"
  shows "form_of (commit np s (upd f s)) = form_of s"
  using form_of_commit [OF assms(1), where closing = False] commit_alive [OF assms(1)] assms(2) by simp

lemma form_step:
  assumes "alive (step s ev)" "alive s"
  shows "form_of (step s ev) = fill (form_turn s ev) (form_of s)"
proof (cases ev)
  case (User act)
  have c: "form_of (step s ev) = (if showModal (app (user_step act s)) then Some (if showModal (app s)
      then (ackRisk (modal (user_step act s)), ackPolicy (modal (user_step act s))) else (False, False)) else None)"
    using form_commit assms User by simp
  show ?thesis
  proof (cases act)
    case (InModal m)
    with c User assms(2) show ?thesis
      by (cases m) (auto simp: modal_step_form form_of_def simp del: step.simps modal_step.simps)
  next
    case (InMonitor n)
    with c User assms(2) show ?thesis
      by (cases n) (auto simp: form_of_def simp del: step.simps monitor_step.simps)
  qed (use c User assms(2) in \<open>simp_all add: form_of_def del: step.simps\<close>)
next
  case (Complete i r)
  obtain s' np where t: "task_step (tasks s ! i) r (s\<lparr>tasks := remove_nth i (tasks s)\<rparr>) = (s', np)"
    by fastforce
  then have step: "step s ev = commit np s s'" by (simp add: Complete complete_def)
  have "form_of (commit np s s') = (if form_task (tasks s ! i) r = Closed then None else form_of s)"
    by (rule form_of_commit) (use assms task_step_form [OF t] step in \<open>simp_all\<close>)
  then show ?thesis unfolding step using form_task_cases [of "tasks s ! i" r] by (auto simp: Complete)
qed (use assms in \<open>simp_all add: form_of_upd message_keeps\<close>)

lemma step_alive: "alive (step s ev) \<Longrightarrow> alive s"
proof (cases ev)
  case (Complete i r)
  obtain s' np where "task_step (tasks s ! i) r (s\<lparr>tasks := remove_nth i (tasks s)\<rparr>) = (s', np)"
    by fastforce
  moreover assume "alive (step s ev)"
  ultimately show ?thesis using Complete task_step_alive by (auto simp: complete_def dest: commit_alive)
qed (auto dest: commit_alive)

interpretation form: simulation form_of touches_form fill
proof
  fix s ev
  show "form_of (step s ev) = fill (touches_form s ev) (form_of s)"
  proof (cases "alive (step s ev)")
    case True
    then show ?thesis using form_step step_alive by (simp add: touches_form_def del: step.simps)
  qed (simp add: touches_form_def form_of_def del: step.simps)
qed

fun risk_ticked :: "(bool \<times> bool) option \<Rightarrow> bool" where
  "risk_ticked (Some (r, p)) = r"
| "risk_ticked None = False"

fun policy_ticked :: "(bool \<times> bool) option \<Rightarrow> bool" where
  "policy_ticked (Some (r, p)) = p"
| "policy_ticked None = False"

lemma fill_ticks:
  "risk_ticked (fill x f) \<Longrightarrow> x = Risk True \<or> risk_ticked f"
  "policy_ticked (fill x f) \<Longrightarrow> x = Policy True \<or> policy_ticked f"
  "fill x f \<noteq> None \<Longrightarrow> x = Opened \<or> f \<noteq> None"
  by (induction x f rule: fill.induct) auto

lemma touches_form_cases:
  "touches_form s ev = Risk b \<Longrightarrow> ev = User (InModal (SetAckRisk b))"
  "touches_form s ev = Policy b \<Longrightarrow> ev = User (InModal (SetAckPolicy b))"
  "touches_form s ev = Opened \<Longrightarrow> ev = User (InMonitor OpenModal) \<or> ev = User (InModal (SetShowModal True))"
  by (auto simp: touches_form_def form_task_never simp del: step.simps elim!: form_turn.elims split: if_splits)

lemma trace_member: "x \<in> set (trace obs s evs) \<Longrightarrow> \<exists>t. \<exists>ev \<in> set evs. obs t ev = x"
  by (induction obs s evs rule: trace.induct) auto

text \<open>The acknowledgements of an open form were ticked since it was opened.\<close>

lemma form_ticked:
  assumes "\<not> showModal (app s)" "form_of (run s evs) = Some (True, True)"
  shows "User (InModal (SetAckRisk True)) \<in> set evs" "User (InModal (SetAckPolicy True)) \<in> set evs"
    "User (InMonitor OpenModal) \<in> set evs \<or> User (InModal (SetShowModal True)) \<in> set evs"
proof -
  let ?seen = "set (trace touches_form s evs)"
  have shut: "form_of s = None" using assms(1) by (simp add: form_of_def)
  have "Risk True \<in> ?seen"
    using form.lasts [of s evs "\<lambda>f. \<not> risk_ticked f"] fill_ticks(1) shut assms(2) by fastforce
  moreover have "Policy True \<in> ?seen"
    using form.lasts [of s evs "\<lambda>f. \<not> policy_ticked f"] fill_ticks(2) shut assms(2) by fastforce
  moreover have "Opened \<in> ?seen"
    using form.lasts [of s evs "\<lambda>f. f = None"] fill_ticks(3) shut assms(2) by fastforce
  ultimately show "User (InModal (SetAckRisk True)) \<in> set evs" "User (InModal (SetAckPolicy True)) \<in> set evs"
    "User (InMonitor OpenModal) \<in> set evs \<or> User (InModal (SetShowModal True)) \<in> set evs"
    using trace_member touches_form_cases by metis+
qed

section \<open>Redelivery\<close>

lemma on_payload_again:
  "on_payload p (push_event d (on_payload p a)) = push_event d (on_payload p a)"
  by (cases a) (auto simp: on_payload_def on_diff_completed_def push_event_def Let_def split: sum.split)

lemma on_message_again: "on_message d (on_message d a) = push_event d (on_message d a)"
proof (cases "json_parse d")
  case (Some p)
  have "on_payload p (push_event d (on_payload p (push_event d a)))
      = push_event d (on_payload p (push_event d a))"
    by (rule on_payload_again)
  with Some show ?thesis by (simp add: on_message_def)
qed (simp add: on_message_def)

lemma commit_same_view: "viewMode (app s) = viewMode (app old) \<Longrightarrow> app (commit False old s) = app s"
  by (simp add: commit_eq source_effect_def split: sum.split)

lemma push_event_connection: "push_event d (a\<lparr>connectionState := c\<rparr>) = (push_event d a)\<lparr>connectionState := c\<rparr>"
  by (simp add: push_event_def)

lemma on_payload_connection:
  "on_payload p (a\<lparr>connectionState := c\<rparr>) = (on_payload p a)\<lparr>connectionState := c\<rparr>"
proof (cases "get p (js ''type'')")
  case (Inr ty)
  then show ?thesis by (simp add: on_payload_def on_diff_completed_def Let_def)
qed (simp add: on_payload_def)

lemma on_message_connection:
  "on_message d (a\<lparr>connectionState := c\<rparr>) = (on_message d a)\<lparr>connectionState := c\<rparr>"
  by (cases "json_parse d") (simp_all add: on_message_def push_event_connection on_payload_connection)

lemma message_again:
  "app (step (step s (SourceMessage d)) (SourceMessage d)) = push_event d (app (step s (SourceMessage d)))"
proof -
  define t where "t = step s (SourceMessage d)"
  obtain c where t: "app t = (on_message d (app s))\<lparr>connectionState := c\<rparr>"
    using commit_app [of "upd (on_message d) s" False s] by (auto simp: same_app_def t_def)
  have on_t: "on_message d (app t) = push_event d (app t)"
    unfolding t by (simp add: on_message_connection on_message_again push_event_connection)
  then have "viewMode (on_message d (app t)) = viewMode (app t)" by (simp add: push_event_def)
  then show ?thesis unfolding t_def [symmetric] by (simp add: commit_same_view on_t)
qed

end
