(* ===== verification/App_Termination.thy ===== *)
theory App_Termination
  imports App_Refinement
begin

text \<open>
  Every operation ends. The work of a state is the number of completions its tasks can still
  lead to: two for an audit, which waits for its response and then for its timer, and for a
  contract diff, which makes two requests; one for any other. A completion uses work up and
  only the user's actions add to it, so the tasks drain in any order, and the number of
  requests is bounded by that of the user's actions.
\<close>

section \<open>Work\<close>

fun weight :: "task \<Rightarrow> nat" where
  "weight (AuditFetch m src) = 2"
| "weight (ProjectFetch b t) = 2"
| "weight _ = 1"

definition work :: "sys \<Rightarrow> nat" where
  "work s = sum_list (map weight (tasks s))"

lemma weight_pos: "0 < weight t"
  by (cases t) simp_all

lemma work_0_iff: "work s = 0 \<longleftrightarrow> tasks s = []"
proof -
  have "work s = 0 \<longleftrightarrow> (\<forall>t \<in> set (tasks s). weight t = 0)" by (simp add: work_def)
  also have "\<dots> \<longleftrightarrow> tasks s = []" using weight_pos by (cases "tasks s") (auto simp: neq0_conv)
  finally show ?thesis .
qed

lemma work_simps [simp]:
  "work (add_task t s) = work s + weight t" "work (send r s) = work s" "work (upd f s) = work s"
  "work (put_out out s) = work s" "work (s\<lparr>app := a\<rparr>) = work s" "work (s\<lparr>modal := m\<rparr>) = work s"
  "work (s\<lparr>monitor := n\<rparr>) = work s" "work (s\<lparr>ledger := l\<rparr>) = work s"
  "work (s\<lparr>webhook := w\<rparr>) = work s" "work (ledger_fetch s) = Suc (work s)"
  by (simp_all add: work_def ledger_fetch_def)

lemma work_remove:
  "i < length (tasks s) \<Longrightarrow> work s = work (s\<lparr>tasks := remove_nth i (tasks s)\<rparr>) + weight (tasks s ! i)"
  unfolding work_def
  by (subst (1) id_take_nth_drop [of i "tasks s"]) (simp_all add: remove_nth_def)

lemma work_commit: "work (commit np old s) = work s + of_bool (ledger_starts old s)"
  by (simp add: work_def commit_tasks)

lemma ledger_stays: "viewMode (app s) = viewMode (app old) \<Longrightarrow> \<not> ledger_starts old s"
  by (auto simp: ledger_starts_def ledger_mounts_def)

section \<open>Each turn\<close>

lemma task_step_work: "task_step t r s = (s', np) \<Longrightarrow> work s' < work s + weight t"
  by (cases t) (auto split: if_splits response.splits option.splits prod.splits)

lemma complete_work:
  assumes "i < length (tasks s)"
  shows "work (step s (Complete i r)) < work s"
proof -
  obtain s' np where t: "task_step (tasks s ! i) r (s\<lparr>tasks := remove_nth i (tasks s)\<rparr>) = (s', np)"
    and c: "step s (Complete i r) = commit np s s'"
    using step_complete_app [OF assms] .
  have "\<not> ledger_starts s s'" using task_step_form(3) [OF t] by (intro ledger_stays) simp
  then have "work (step s (Complete i r)) = work s'" unfolding c work_commit by simp
  with task_step_work [OF t] work_remove [OF assms] show ?thesis by simp
qed

lemma user_step_work: "work (user_step act s) \<le> work s + (case act of GoTo v \<Rightarrow> 0 | _ \<Rightarrow> 2)"
proof (cases act)
  case (InModal a)
  then show ?thesis by (cases a) (simp_all add: start_override_def split: option.split prod.split)
next
  case (InMonitor a)
  then show ?thesis by (cases a) simp_all
next
  case (InSandbox a)
  then show ?thesis
    by (cases a) (simp_all add: start_sandbox_def split: option.split sum.split prod.split)
next
  case (InPrompt a)
  then show ?thesis by (cases a) (simp_all add: start_prompt_def split: sum.split prod.split)
next
  case (InLedger a)
  then show ?thesis by (cases a) simp_all
next
  case (InWebhook a)
  then show ?thesis by (cases a) simp_all
qed simp

lemma user_work: "work (step s (User act)) \<le> work s + 2"
proof (cases act)
  case (GoTo v)
  then show ?thesis by (simp add: work_commit)
qed (use user_step_work [of act s] ledger_stays [of "user_step act s" s] in
    \<open>simp_all add: user_step_view work_commit del: user_step.simps\<close>)

lemma message_stays: "\<not> ledger_starts s (upd (on_message d) s)"
  by (auto simp: ledger_starts_def ledger_mounts_def js_defs Let_def split: option.splits sum.splits if_splits)

fun by_user :: "event \<Rightarrow> bool" where
  "by_user (User act) = True"
| "by_user _ = False"

fun completes :: "event \<Rightarrow> bool" where
  "completes (Complete i r) = True"
| "completes _ = False"

lemma step_work:
  "enabled s ev \<Longrightarrow> work (step s ev) + of_bool (completes ev) \<le> work s + 2 * of_bool (by_user ev)"
proof (cases ev)
  case (User act)
  then show ?thesis using user_work [of s act] by (simp del: step.simps)
next
  case (Complete i r)
  moreover assume "enabled s ev"
  ultimately show ?thesis using complete_work [of i s r] by (simp del: step.simps)
qed (simp_all add: work_commit message_stays ledger_stays)

section \<open>Runs\<close>

abbreviation count :: "('a \<Rightarrow> bool) \<Rightarrow> 'a list \<Rightarrow> nat" where
  "count P xs \<equiv> length (filter P xs)"

lemma run_work:
  "enabled_run s evs \<Longrightarrow> work (run s evs) + count completes evs \<le> work s + 2 * count by_user evs"
proof (induction s evs rule: run.induct)
  case (2 s ev evs)
  then show ?case using step_work [of s ev] by (auto simp del: step.simps)
qed simp

text \<open>Requests made or still to be made by a contract diff that has its project pending.\<close>

fun creating :: "task \<Rightarrow> bool" where
  "creating (ProjectFetch b t) = True"
| "creating _ = False"

definition requests :: "sys \<Rightarrow> nat" where
  "requests s = length (sent s) + pending creating s"

lemma requests_commit: "requests (commit np old s) = requests s + of_bool (ledger_starts old s)"
  by (simp add: requests_def pending_commit commit_sent)

lemma task_step_requests:
  "task_step t r s = (s', np) \<Longrightarrow> requests s' \<le> requests s + of_bool (creating t)"
  by (cases t) (auto simp: requests_def split: if_splits response.splits option.splits prod.splits)

lemma user_step_requests:
  "requests (user_step act s) \<le> requests s + (case act of GoTo v \<Rightarrow> 0 | _ \<Rightarrow> 2)"
proof (cases act)
  case (InModal a)
  then show ?thesis by (cases a) (simp_all add: requests_def start_override_def split: option.split prod.split)
next
  case (InMonitor a)
  then show ?thesis by (cases a) (simp_all add: requests_def)
next
  case (InSandbox a)
  then show ?thesis
    by (cases a) (simp_all add: requests_def start_sandbox_def split: option.split sum.split prod.split)
next
  case (InPrompt a)
  then show ?thesis by (cases a) (simp_all add: requests_def start_prompt_def split: sum.split prod.split)
next
  case (InLedger a)
  then show ?thesis by (cases a) (simp_all add: requests_def ledger_fetch_def)
next
  case (InWebhook a)
  then show ?thesis by (cases a) (simp_all add: requests_def)
qed (simp add: requests_def)

lemma step_requests:
  assumes "enabled s ev"
  shows "requests (step s ev) \<le> requests s + 2 * of_bool (by_user ev)"
proof (cases ev)
  case (User act)
  show ?thesis
  proof (cases act)
    case (GoTo v)
    with User show ?thesis by (simp add: requests_commit) (simp add: requests_def)
  qed (use User user_step_requests [of act s] ledger_stays [of "user_step act s" s] in
      \<open>simp_all add: user_step_view requests_commit del: user_step.simps\<close>)
next
  case (Complete i r)
  with assms have i: "i < length (tasks s)" by simp
  obtain s' np where t: "task_step (tasks s ! i) r (s\<lparr>tasks := remove_nth i (tasks s)\<rparr>) = (s', np)"
    and c: "step s (Complete i r) = commit np s s'"
    using step_complete_app [OF i] .
  have "\<not> ledger_starts s s'" using task_step_form(3) [OF t] by (intro ledger_stays) simp
  moreover have "requests s = requests (s\<lparr>tasks := remove_nth i (tasks s)\<rparr>) + of_bool (creating (tasks s ! i))"
    using pending_remove [OF i, of creating] by (simp add: requests_def)
  ultimately show ?thesis using task_step_requests [OF t] c Complete by (simp add: requests_commit del: step.simps)
qed (simp_all add: requests_commit message_stays ledger_stays, simp_all add: requests_def)

lemma run_requests:
  "enabled_run s evs \<Longrightarrow> requests (run s evs) \<le> requests s + 2 * count by_user evs"
proof (induction s evs rule: run.induct)
  case (2 s ev evs)
  then show ?case using step_requests [of s ev] by (auto simp del: step.simps)
qed simp

section \<open>Draining\<close>

text \<open>
  Completions in the order a scheduler picks, with the responses it picks, while there are any
  and the fuel lasts.
\<close>

fun drain :: "(sys \<Rightarrow> nat \<times> response) \<Rightarrow> nat \<Rightarrow> sys \<Rightarrow> sys" where
  "drain pick 0 s = s"
| "drain pick (Suc n) s =
     (if tasks s = [] then s
      else drain pick n (step s (Complete (fst (pick s) mod length (tasks s)) (snd (pick s)))))"

lemma drain_empty: "work s \<le> n \<Longrightarrow> tasks (drain pick n s) = []"
proof (induction pick n s rule: drain.induct)
  case (1 pick s)
  then show ?case using work_0_iff by simp
next
  case (2 pick n s)
  show ?case
  proof (cases "tasks s = []")
    case False
    then have "fst (pick s) mod length (tasks s) < length (tasks s)" by simp
    from complete_work [OF this, of "snd (pick s)"] 2 False show ?thesis by (simp del: step.simps)
  qed simp
qed

lemma drain_reachable: "reachable s \<Longrightarrow> reachable (drain pick n s)"
proof (induction pick n s rule: drain.induct)
  case (2 pick n s)
  then show ?case using reachable_step [of s] by (simp del: step.simps)
qed simp

lemma drained_idle:
  assumes "reachable s" "tasks s = []"
  shows "\<not> isSubmitting (app s)" "\<not> isPrompting (prompt (app s))" "\<not> loading (ledger s)"
  using submit.busy_iff [OF assms(1)] compiling.busy_iff [OF assms(1)] loading.busy_iff [OF assms(1)] assms(2)
  by simp_all

end
