(* ===== verification/Number_Facts.thy ===== *)
theory Number_Facts
  imports Complex_Main Js_Number
begin

text \<open>
  Doubles and their decimal text: rounding depends on the value of a ratio only, its results
  are canonical, the printed digits read back as the number, and the printed text is a number
  of the JSON grammar. Together: a finite number other than minus zero survives printing and
  parsing.
\<close>

section \<open>Rounding\<close>

lemma nlog2_bounds: "0 < n \<Longrightarrow> 2 ^ nlog2 n \<le> n \<and> n < 2 ^ Suc (nlog2 n)"
proof (induction n rule: nlog2.induct)
  case (1 n)
  show ?case
  proof (cases "n < 2")
    case False
    with 1 have "2 ^ nlog2 (n div 2) \<le> n div 2" "n div 2 < 2 ^ Suc (nlog2 (n div 2))" by simp_all
    with False show ?thesis by (subst (1 2) nlog2.simps) auto
  qed (use 1 in \<open>simp add: nlog2.simps\<close>)
qed

lemma nlog2_power: "nlog2 (2 ^ j) = j"
proof (induction j)
  case (Suc j)
  then show ?case by (subst nlog2.simps) simp
qed (simp add: nlog2.simps)

lemma round_even_scaled: "0 < k \<Longrightarrow> round_even (n * k, d * k) = round_even (n, d)"
  by (simp add: round_even_def Let_def mult.assoc [symmetric] flip: mult_mod_left)

lemma round_even_ratio:
  assumes "n * d' = n' * d" "0 < d" "0 < d'"
  shows "round_even (n, d) = round_even (n', d')"
  using round_even_scaled [OF assms(3), of n d] round_even_scaled [OF assms(2), of n' d'] assms(1)
  by (simp add: mult.commute)

lemma round_even_exact: "0 < d \<Longrightarrow> round_even (m * d, d) = m"
  by (simp add: round_even_def)

lemma round_even_le: "n \<le> k * d \<Longrightarrow> 0 < d \<Longrightarrow> round_even (n, d) \<le> k"
proof -
  assume le: "n \<le> k * d" and d: "0 < d"
  then have "n div d \<le> k" by (metis div_le_mono nonzero_mult_div_cancel_right less_numeral_extra(3))
  moreover have "n mod d = 0" if "n div d = k"
    using le div_mult_mod_eq [of n d] unfolding that by simp
  ultimately show ?thesis using d by (cases "k = n div d") (auto simp: round_even_def Let_def)
qed

lemma round_even_ge: "k * d \<le> n \<Longrightarrow> 0 < d \<Longrightarrow> k \<le> round_even (n, d)"
  using less_eq_div_iff_mult_less_eq [of d k n] by (auto simp: round_even_def Let_def)

lemma scale2_ratio:
  "0 < b \<Longrightarrow> 0 < b' \<Longrightarrow> a * b' = a' * b \<Longrightarrow>
    fst (scale2 e a b) * snd (scale2 e a' b') = fst (scale2 e a' b') * snd (scale2 e a b)"
  by (simp add: scale2_def)

lemma scale2_pos: "0 < b \<Longrightarrow> 0 < snd (scale2 e a b)"
  by (simp add: scale2_def)

lemma scale2_real:
  "0 < b \<Longrightarrow> real (fst (scale2 e a b)) / real (snd (scale2 e a b)) = real a / real b / 2 powr e"
  by (simp add: scale2_def powr_minus powr_realpow [symmetric] field_simps)
lemma le_real: "0 < d \<Longrightarrow> k * d \<le> n \<longleftrightarrow> real k \<le> real n / real d"
  by (simp add: le_divide_eq flip: of_nat_mult)

lemma le_div_real: "0 < d \<Longrightarrow> k \<le> n div d \<longleftrightarrow> real k \<le> real n / real d"
  by (simp only: le_real [symmetric] less_eq_div_iff_mult_less_eq)

lemma exp2_of_log:
  assumes "0 < a" "0 < b"
  shows "exp2_of a b = max (- 1074) (\<lfloor>log 2 (real a / real b)\<rfloor> - 52)"
proof -
  define v where "v = real a / real b"
  define l where "l = int (nlog2 a) - int (nlog2 b)"
  have bounds: "2 powr real_of_int (int (nlog2 n)) \<le> real n" "real n < 2 powr real_of_int (int (nlog2 n) + 1)"
    if "0 < n" for n
  proof -
    have "real (2 ^ nlog2 n) \<le> real n" "real n < real (2 ^ Suc (nlog2 n))"
      using nlog2_bounds [OF that] by (simp_all only: of_nat_le_iff of_nat_less_iff)
    then show "2 powr real_of_int (int (nlog2 n)) \<le> real n" "real n < 2 powr real_of_int (int (nlog2 n) + 1)"
      by (simp_all add: powr_realpow powr_add)
  qed
  have pos: "0 < v" using assms by (simp add: v_def)
  have low: "2 powr (l - 1) < v"
  proof -
    have "2 powr (l - 1) = 2 powr int (nlog2 a) / 2 powr (int (nlog2 b) + 1)"
      by (simp add: l_def powr_diff [symmetric] diff_diff_eq)
    also have "\<dots> < v" unfolding v_def
      using bounds [OF assms(1)] bounds [OF assms(2)] assms by (intro frac_less2) auto
    finally show ?thesis by simp
  qed
  have high: "v < 2 powr (l + 1)"
  proof -
    have "v < 2 powr (int (nlog2 a) + 1) / 2 powr int (nlog2 b)" unfolding v_def
      using bounds [OF assms(1)] bounds [OF assms(2)] assms by (intro frac_less) auto
    also have "\<dots> = 2 powr (l + 1)" by (simp add: l_def powr_diff [symmetric] algebra_simps)
    finally show ?thesis by simp
  qed
  have "(2 ^ 53 \<le> fst (scale2 (l - 53) a b) div snd (scale2 (l - 53) a b)) \<longleftrightarrow> 2 powr l \<le> v"
  proof -
    have "(2 ^ 53 \<le> fst (scale2 (l - 53) a b) div snd (scale2 (l - 53) a b))
      \<longleftrightarrow> real (2 ^ 53) \<le> v / 2 powr (l - 53)"
      unfolding v_def scale2_real [OF assms(2), symmetric]
      by (rule le_div_real) (rule scale2_pos [OF assms(2)])
    also have "\<dots> \<longleftrightarrow> 2 powr l \<le> v"
      by (simp add: powr_diff le_divide_eq)
    finally show ?thesis .
  qed
  then have "exp2_of a b = max (- 1074) (if 2 powr l \<le> v then l - 52 else l - 53)"
    unfolding exp2_of_def Let_def l_def by (simp add: case_prod_beta)
  moreover have "\<lfloor>log 2 v\<rfloor> = (if 2 powr l \<le> v then l else l - 1)"
    using low high pos by (auto simp: floor_log_eq_powr_iff)
  ultimately show ?thesis by (simp add: v_def)
qed

lemma ratio_num_ratio:
  assumes "a * b' = a' * b" "0 < b" "0 < b'"
  shows "ratio_num neg a b = ratio_num neg a' b'"
proof (cases "a = 0")
  case False
  then have pos: "0 < a" "0 < a'" using assms by (auto intro: Nat.gr0I)
  have "real a * real b' = real a' * real b" using assms(1) by (metis of_nat_mult)
  then have "real a / real b = real a' / real b'"
    using assms by (simp add: frac_eq_eq)
  then have e: "exp2_of a b = exp2_of a' b'"
    using exp2_of_log [OF pos(1) assms(2)] exp2_of_log [OF pos(2) assms(3)] by simp
  have "round_even (scale2 x a b) = round_even (scale2 x a' b')" for x
    using round_even_ratio [OF scale2_ratio [OF assms(2,3,1), of x]]
      scale2_pos [OF assms(2)] scale2_pos [OF assms(3)] by simp
  with pos e show ?thesis by (simp add: ratio_num_def)
qed (use assms in \<open>simp add: ratio_num_def\<close>)

lemma dec_num_cases:
  "dec_num neg d (int n) = ratio_num neg (d * 10 ^ n) 1"
  "dec_num neg d (- int n) = ratio_num neg d (10 ^ n)"
  by (simp_all add: dec_num_def)

lemma dec_num_shift: "dec_num neg (d * 10 ^ j) x = dec_num neg d (x + int j)"
proof (cases x rule: int_cases2)
  case (nonneg n)
  then have "x + int j = int (j + n)" by simp
  with nonneg show ?thesis by (simp only: dec_num_cases power_add mult.assoc)
next
  case (nonpos n)
  show ?thesis
  proof (cases "n \<le> j")
    case True
    then obtain i where "j = i + n" by (metis add.commute le_Suc_ex)
    moreover from this have "x + int j = int i" using nonpos by simp
    ultimately show ?thesis using nonpos
      by (simp only: dec_num_cases power_add) (rule ratio_num_ratio; simp)
  next
    case False
    then obtain i where "n = j + i" using le_Suc_ex nat_le_linear by blast
    moreover from this have "x + int j = - int i" using nonpos by simp
    ultimately show ?thesis using nonpos
      by (simp only: dec_num_cases power_add) (rule ratio_num_ratio; simp)
  qed
qed

lemma dec_num_sign: "dec_num False d x = Dbl False m e \<Longrightarrow> dec_num neg d x = Dbl neg m e"
  by (auto simp: dec_num_def ratio_num_def Let_def split: if_splits prod.splits)

section \<open>Canonical doubles\<close>

definition canonical :: "nat \<Rightarrow> int \<Rightarrow> bool" where
  "canonical m e \<longleftrightarrow> m < 2 ^ 53 \<and> - 1074 \<le> e \<and> e \<le> 971 \<and> (2 ^ 52 \<le> m \<or> e = - 1074)"

lemma scale2_range:
  assumes "0 < a" "0 < b"
  defines "nd \<equiv> scale2 (exp2_of a b) a b"
  shows "fst nd \<le> 2 ^ 53 * snd nd" and "- 1074 < exp2_of a b \<Longrightarrow> 2 ^ 52 * snd nd \<le> fst nd"
proof -
  define v where "v = real a / real b"
  define l where "l = \<lfloor>log 2 v\<rfloor>"
  have e: "exp2_of a b = max (- 1074) (l - 52)"
    unfolding l_def v_def by (rule exp2_of_log [OF assms(1,2)])
  have pos: "0 < v" using assms(1,2) by (simp add: v_def)
  then have v: "2 powr l \<le> v" "v < 2 powr (l + 1)"
    using floor_log_eq_powr_iff [of v 2 l] by (simp_all add: l_def)
  have ratio: "real (fst nd) / real (snd nd) = v / 2 powr exp2_of a b" "0 < snd nd"
    using scale2_real [OF assms(2)] scale2_pos [OF assms(2)] by (simp_all add: nd_def v_def)
  have "v < 2 powr 53 * 2 powr exp2_of a b"
  proof -
    have "2 powr (l + 1) \<le> 2 powr (53 + exp2_of a b)" using e by simp
    with v(2) have "v < 2 powr (53 + exp2_of a b)" by linarith
    then show ?thesis by (simp add: powr_add)
  qed
  then have "real (fst nd) / real (snd nd) \<le> 2 powr 53"
    unfolding ratio by (simp add: divide_le_eq)
  then show "fst nd \<le> 2 ^ 53 * snd nd"
    using ratio(2) by (simp add: divide_le_eq powr_realpow [symmetric] flip: of_nat_le_iff)
  show "2 ^ 52 * snd nd \<le> fst nd" if "- 1074 < exp2_of a b"
  proof -
    have "2 powr 52 * 2 powr exp2_of a b = 2 powr l" using e that by (simp add: powr_diff)
    with v(1) have "2 powr 52 \<le> real (fst nd) / real (snd nd)"
      unfolding ratio by (simp add: le_divide_eq)
    then show ?thesis using ratio(2) le_real [OF ratio(2), of "2 ^ 52"] by simp
  qed
qed

text \<open>Every number read is infinite or canonical.\<close>

lemma ratio_num_canonical:
  assumes "0 < b" and "ratio_num neg a b = Dbl s m e"
  shows "s = neg \<and> canonical m e"
proof (cases "a = 0")
  case False
  define nd where "nd = scale2 (exp2_of a b) a b"
  define m0 where "m0 = round_even nd"
  have range: "fst nd \<le> 2 ^ 53 * snd nd" "- 1074 < exp2_of a b \<Longrightarrow> 2 ^ 52 * snd nd \<le> fst nd"
    using scale2_range [of a b] False assms(1) by (simp_all add: nd_def)
  have d: "0 < snd nd" using scale2_pos [OF assms(1)] by (simp add: nd_def)
  have "m0 \<le> 2 ^ 53" using round_even_le [OF range(1) d] by (simp add: m0_def)
  moreover have "2 ^ 52 \<le> m0" if "- 1074 < exp2_of a b"
    using round_even_ge [OF range(2) [OF that] d] by (simp add: m0_def)
  moreover have "- 1074 \<le> exp2_of a b" by (simp add: exp2_of_def Let_def)
  ultimately show ?thesis using assms(2) False
    by (cases "m0 = 2 ^ 53")
      (auto simp: ratio_num_def Let_def canonical_def simp flip: nd_def m0_def split: if_splits)
qed (use assms(2) in \<open>auto simp: ratio_num_def canonical_def\<close>)

lemma dec_num_canonical:
  assumes "dec_num neg d x = Dbl s m e"
  shows "s = neg \<and> canonical m e"
proof (cases "0 \<le> x")
  case True
  with assms show ?thesis by (intro ratio_num_canonical [of 1]) (simp_all add: dec_num_def)
next
  case False
  with assms show ?thesis
    by (intro ratio_num_canonical [of "10 ^ nat (- x)"]) (simp_all add: dec_num_def)
qed

text \<open>Beyond the largest exponent the result is infinite.\<close>

lemma ratio_num_overflow:
  assumes "2 ^ 1024 * b \<le> a" "0 < b"
  shows "ratio_num neg a b = Inf neg"
proof -
  have "0 < a" using assms by (intro Nat.gr0I) simp
  have "2 powr real_of_int 1024 \<le> real a / real b"
    using le_real [OF assms(2), of "2 ^ 1024" a] assms(1) by (simp add: powr_realpow)
  then have "1024 \<le> log 2 (real a / real b)"
    using \<open>0 < a\<close> assms(2) by (subst le_log_iff) auto
  then have "972 \<le> exp2_of a b"
    using exp2_of_log [OF \<open>0 < a\<close> assms(2)] by (simp add: le_floor_iff)
  with \<open>0 < a\<close> show ?thesis by (simp add: ratio_num_def Let_def)
qed

lemma dec_num_inf: "dec_num neg d x = Inf s \<Longrightarrow> s = neg"
  by (auto simp: dec_num_def ratio_num_def Let_def split: if_splits prod.splits)

text \<open>The exact value of a canonical double is read as it.\<close>

definition num_ratio :: "nat \<Rightarrow> int \<Rightarrow> nat \<times> nat" where
  "num_ratio m e = (if 0 \<le> e then (m * 2 ^ nat e, 1) else (m, 2 ^ nat (- e)))"

lemma num_ratio_pos: "0 < snd (num_ratio m e)"
  by (simp add: num_ratio_def)

lemma num_ratio_real: "real (fst (num_ratio m e)) / real (snd (num_ratio m e)) = real m * 2 powr e"
  by (simp add: num_ratio_def powr_minus powr_realpow [symmetric] field_simps)

lemma ratio_num_exact:
  assumes "canonical m e" "0 < m"
  shows "ratio_num neg (fst (num_ratio m e)) (snd (num_ratio m e)) = Dbl neg m e"
proof -
  define a where "a = fst (num_ratio m e)"
  define b where "b = snd (num_ratio m e)"
  have pos: "0 < a" "0 < b" using assms(2) by (simp_all add: a_def b_def num_ratio_def)
  have v: "real a / real b = real m * 2 powr e" unfolding a_def b_def by (rule num_ratio_real)
  define k where "k = \<lfloor>log 2 (real m)\<rfloor>"
  have m: "2 powr k \<le> real m" "real m < 2 powr (k + 1)"
    using floor_log_eq_powr_iff [of "real m" 2 k] assms(2) by (simp_all add: k_def)
  have "\<lfloor>log 2 (real a / real b)\<rfloor> = k + e"
    unfolding v using m assms(2) by (simp add: floor_log_eq_powr_iff powr_add algebra_simps)
  then have "exp2_of a b = max (- 1074) (k + e - 52)" using exp2_of_log [OF pos] by simp
  moreover have "k < 53"
  proof -
    have "2 powr k < 2 powr 53" using m(1) assms(1) by (simp add: canonical_def)
    then show ?thesis using powr_less_cancel_iff [of 2 "real_of_int k" 53] by simp
  qed
  moreover have "k = 52" if "2 ^ 52 \<le> m"
  proof -
    have "2 powr 52 < 2 powr (k + 1)" using m(2) that by simp
    then show ?thesis using powr_less_cancel_iff [of 2 52 "real_of_int k + 1"] \<open>k < 53\<close> by simp
  qed
  ultimately have e: "exp2_of a b = e" using assms(1) by (auto simp: canonical_def)
  have "fst (scale2 e a b) = m * snd (scale2 e a b)"
    by (simp add: scale2_def a_def b_def num_ratio_def)
  then have "round_even (scale2 e a b) = m"
    using round_even_exact [OF scale2_pos [OF pos(2)]] by (metis prod.collapse)
  with e assms pos show ?thesis unfolding a_def [symmetric] b_def [symmetric]
    by (simp add: ratio_num_def canonical_def)
qed

section \<open>Digits\<close>

lemma undec_app: "undec (s @ t) = undec s * 10 ^ length t + undec t"
proof (induction t rule: rev_induct)
  case (snoc c t)
  have "undec (s @ t @ [c]) = 10 * undec (s @ t) + (c - 48)" by (metis append_assoc undec_snoc)
  with snoc show ?case by (simp add: undec_snoc)
qed (simp add: undec_def)

lemma undec_zeros: "undec (replicate j 48) = 0"
  by (induction j) (simp_all add: undec_def)

lemma undec_pad: "undec (s @ replicate j 48) = undec s * 10 ^ j"
  by (simp add: undec_app undec_zeros)

lemma undec_lead: "undec (48 # s) = undec s" "undec (replicate j 48 @ s) = undec s"
  using undec_app [of "[48]" s] undec_app [of "replicate j 48" s]
  by (simp_all add: undec_zeros) (simp add: undec_def)

lemma strip_zeros_split: "\<exists>j. s = strip_zeros s @ replicate j 48"
proof -
  have "rev s = takeWhile (\<lambda>c. c = 48) (rev s) @ dropWhile (\<lambda>c. c = 48) (rev s)" by simp
  moreover have "takeWhile (\<lambda>c. c = 48) t = replicate (length (takeWhile (\<lambda>c. c = 48) t)) 48"
    for t :: jstr by (induction t) auto
  ultimately have "rev s = replicate (length (takeWhile (\<lambda>c. c = 48) (rev s))) 48 @ rev (strip_zeros s)"
    unfolding strip_zeros_def by (metis rev_rev_ident)
  then have "s = strip_zeros s @ replicate (length (takeWhile (\<lambda>c. c = 48) (rev s))) 48"
    by (metis rev_append rev_replicate rev_rev_ident)
  then show ?thesis ..
qed

lemma hd_dec: "0 < n \<Longrightarrow> hd (dec n) \<noteq> 48"
proof (induction n rule: dec.induct)
  case (1 n)
  then show ?case by (subst dec.simps) (simp add: hd_append dec_nonempty)
qed

text \<open>Significant digits: what is printed for a positive integer without its final zeros.\<close>

definition significant :: "jstr \<Rightarrow> bool" where
  "significant s \<longleftrightarrow> list_all is_digit s \<and> s \<noteq> [] \<and> hd s \<noteq> 48"

lemma significant_strip:
  assumes "0 < n"
  shows "significant (strip_zeros (dec n))"
proof -
  obtain j where s: "dec n = strip_zeros (dec n) @ replicate j 48" using strip_zeros_split by blast
  have "strip_zeros (dec n) \<noteq> []"
  proof
    assume "strip_zeros (dec n) = []"
    then have "undec (dec n) = undec (replicate j 48)" using s by simp
    with assms show False by (simp add: undec_dec undec_zeros)
  qed
  moreover have "list_all is_digit (strip_zeros (dec n))"
    using dec_digits [of n] s by (metis list_all_append)
  ultimately show ?thesis using hd_dec [OF assms] s by (metis hd_append2 significant_def)
qed

section \<open>The shortest digits\<close>

lemma digit_candidate_reads: "digit_candidate x a b n k = Some c \<Longrightarrow> dec_num False c (n - int k) = x"
  by (auto simp: digit_candidate_def Let_def split: if_splits)

lemma shortest_reads:
  assumes "canonical m e" "0 < m"
    and "shortest fuel (Dbl False m e) (fst (num_ratio m e)) (snd (num_ratio m e)) n k = (c, x)"
  shows "dec_num False c x = Dbl False m e"
  using assms(3)
proof (induction fuel arbitrary: k)
  case 0
  obtain j where j: "snd (num_ratio m e) = 2 ^ j" unfolding num_ratio_def by (metis power_0 snd_conv)
  have "dec_num False c x = ratio_num False (fst (num_ratio m e) * 5 ^ j) (10 ^ j)"
    using 0 dec_num_cases(2) [of False _ j] by (auto simp: j nlog2_power)
  also have "\<dots> = ratio_num False (fst (num_ratio m e)) (snd (num_ratio m e))"
    unfolding j by (rule ratio_num_ratio) (simp_all add: mult.assoc flip: power_mult_distrib)
  finally show ?case using ratio_num_exact [OF assms(1,2)] by simp
next
  case (Suc fuel)
  then show ?case
    by (auto simp: digit_candidate_reads split: option.splits)
qed

text \<open>The printed form of a non-zero double: its significant digits and the place of the point.\<close>

lemma num_str_layout:
  assumes "canonical m e" "0 < m"
  obtains ds n where "significant ds" "dec_num neg (undec ds) (n - int (length ds)) = Dbl neg m e"
    "num_str (Dbl neg m e) = (if neg then [45] else []) @ layout ds n"
proof -
  define a where "a = fst (num_ratio m e)"
  define b where "b = snd (num_ratio m e)"
  obtain c x where s: "shortest 17 (Dbl False m e) a b (dec_exp a b) 1 = (c, x)" by fastforce
  then have reads: "dec_num False c x = Dbl False m e"
    using shortest_reads [OF assms] unfolding a_def b_def by blast
  have pos: "0 < c"
    using reads assms(2) by (intro Nat.gr0I) (simp add: dec_num_def ratio_num_def split: if_splits)
  obtain j where strip: "dec c = strip_zeros (dec c) @ replicate j 48" using strip_zeros_split by blast
  define ds where "ds = strip_zeros (dec c)"
  have c: "c = undec ds * 10 ^ j" using strip undec_dec [of c] undec_pad unfolding ds_def by metis
  have len: "length (dec c) = length ds + j" using strip unfolding ds_def by (metis length_append length_replicate)
  have "dec_num neg (undec ds) (x + int j) = Dbl neg m e"
    using dec_num_sign [OF reads] c dec_num_shift by metis
  moreover have "num_str (Dbl neg m e)
      = (if neg then [45] else []) @ layout ds (int (length (dec c)) + x)"
    using assms(2) s by (simp add: num_ratio_def a_def b_def ds_def Let_def split: if_splits)
  ultimately show ?thesis
    using that [of ds "int (length (dec c)) + x"] significant_strip [OF pos] len
    by (simp add: ds_def algebra_simps)
qed

text \<open>What follows a value or a number in a written document.\<close>

definition delim :: "jstr \<Rightarrow> bool" where
  "delim r \<longleftrightarrow> (case r of [] \<Rightarrow> True | c # _ \<Rightarrow> c \<in> {44, 93, 125, 10})"

lemma delim_cases:
  assumes "delim r"
  obtains "r = []" | c r' where "r = c # r'" "\<not> is_digit c" "c \<noteq> 46" "c \<noteq> 101" "c \<noteq> 69" "c \<noteq> 45" "c \<noteq> 43"
  using assms by (cases r) (auto simp: delim_def is_digit_def)

lemma digits_delim:
  assumes "delim r"
  shows "takeWhile is_digit (s @ r) = takeWhile is_digit s"
    "dropWhile is_digit (s @ r) = dropWhile is_digit s @ r"
  using assms by (cases rule: delim_cases; induction s; simp)+

lemma scan_exp_delim:
  assumes "delim r"
  shows "scan_exp (s @ r) = map_option (\<lambda>(x, y). (x, y @ r)) (scan_exp s)"
proof (cases s)
  case Nil
  with assms show ?thesis by (cases rule: delim_cases) (simp_all add: scan_exp_def)
next
  case (Cons c cs)
  show ?thesis
  proof (cases cs)
    case Nil
    with assms Cons show ?thesis
      by (cases rule: delim_cases) (simp_all add: scan_exp_def)
  next
    case (Cons d ds)
    then show ?thesis
      using \<open>s = c # cs\<close> digits_delim [OF assms] digits_delim [OF assms, of "d # ds"]
      by (simp add: scan_exp_def Let_def)
  qed
qed

text \<open>The unsigned part of a number.\<close>

definition scan_unsigned :: "bool \<Rightarrow> jstr \<Rightarrow> (jnum \<times> jstr) option" where
  "scan_unsigned neg t =
     (let ip = takeWhile is_digit t; r1 = dropWhile is_digit t
      in if ip = [] \<or> (hd ip = 48 \<and> tl ip \<noteq> []) then None
         else case (case r1 of
                      c # cs \<Rightarrow> if c = 46
                        then if takeWhile is_digit cs = [] then None
                             else Some (takeWhile is_digit cs, dropWhile is_digit cs)
                        else Some ([], r1)
                    | [] \<Rightarrow> Some ([], [])) of
                None \<Rightarrow> None
              | Some (fp, r2) \<Rightarrow>
                  (case scan_exp r2 of
                     None \<Rightarrow> None
                   | Some (x, r3) \<Rightarrow>
                       Some (dec_num neg (undec (ip @ fp)) (x - int (length fp)), r3)))"

lemma scan_json_num_unsigned:
  "scan_json_num s = (case s of c # cs \<Rightarrow> if c = 45 then scan_unsigned True cs else scan_unsigned False s
     | [] \<Rightarrow> None)"
proof (cases s)
  case (Cons c cs)
  then show ?thesis
    unfolding scan_json_num_def scan_unsigned_def
    by (cases "c = 45") (simp_all add: Let_def del: takeWhile.simps dropWhile.simps)
qed (simp add: scan_json_num_def)

lemma scan_unsigned_delim:
  assumes "delim r"
  shows "scan_unsigned neg (t @ r) = map_option (\<lambda>(n, y). (n, y @ r)) (scan_unsigned neg t)"
proof -
  have r: "scan_exp r = Some (0, r)" "\<And>c cs. r = c # cs \<Longrightarrow> c \<noteq> 46"
    using scan_exp_delim [OF assms, of "[]"] assms by (auto simp: scan_exp_def delim_def split: list.splits)
  define ip where "ip = takeWhile is_digit t"
  define r1 where "r1 = dropWhile is_digit t"
  have split: "takeWhile is_digit (t @ r) = ip" "dropWhile is_digit (t @ r) = r1 @ r"
    using digits_delim [OF assms] by (simp_all add: ip_def r1_def)
  show ?thesis
  proof (cases r1)
    case Nil
    with r show ?thesis
      unfolding scan_unsigned_def split ip_def [symmetric] r1_def [symmetric]
      by (cases r) (simp_all add: Let_def scan_exp_def)
  next
    case (Cons c cs)
    then show ?thesis
      using scan_exp_delim [OF assms, of "dropWhile is_digit cs"] scan_exp_delim [OF assms, of "c # cs"]
      unfolding scan_unsigned_def split ip_def [symmetric] r1_def [symmetric]
      by (simp add: Let_def digits_delim [OF assms] split: option.split)
  qed
qed

lemma scan_json_num_delim:
  assumes "delim r" "s \<noteq> []"
  shows "scan_json_num (s @ r) = map_option (\<lambda>(n, y). (n, y @ r)) (scan_json_num s)"
proof (cases s)
  case (Cons c cs)
  then show ?thesis
    using scan_unsigned_delim [OF assms(1), of True cs] scan_unsigned_delim [OF assms(1), of False "c # cs"]
    by (simp add: scan_json_num_unsigned)
qed (use assms(2) in simp)

section \<open>Printed numbers read back\<close>

lemma takeWhile_digits:
  "list_all is_digit s \<Longrightarrow> \<not> is_digit c \<Longrightarrow> takeWhile is_digit (s @ c # r) = s"
  "list_all is_digit s \<Longrightarrow> \<not> is_digit c \<Longrightarrow> dropWhile is_digit (s @ c # r) = c # r"
  "list_all is_digit s \<Longrightarrow> takeWhile is_digit s = s"
  "list_all is_digit s \<Longrightarrow> dropWhile is_digit s = []"
  by (induction s) simp_all

lemma scan_integer:
  assumes "list_all is_digit s" "s \<noteq> []" "hd s \<noteq> 48"
  shows "scan_unsigned neg s = Some (dec_num neg (undec s) 0, [])"
  using assms by (simp add: scan_unsigned_def Let_def takeWhile_digits scan_exp_def)

lemma scan_point:
  assumes "list_all is_digit s" "s \<noteq> []" "hd s \<noteq> 48 \<or> tl s = []"
    and "list_all is_digit t" "t \<noteq> []" "scan_exp r = Some (x, [])" "r = [] \<or> \<not> is_digit (hd r)"
  shows "scan_unsigned neg (s @ 46 # t @ r) = Some (dec_num neg (undec (s @ t)) (x - int (length t)), [])"
proof -
  have "\<not> is_digit 46" by (simp add: is_digit_def)
  moreover have "takeWhile is_digit (t @ r) = t" "dropWhile is_digit (t @ r) = r"
    using assms(4,7) by (cases r; simp add: takeWhile_digits)+
  ultimately show ?thesis using assms by (auto simp: scan_unsigned_def Let_def takeWhile_digits)
qed

lemma scan_exponent:
  "scan_exp (101 # (if 0 \<le> n then 43 # dec (nat n) else 45 # dec (nat (- n)))) = Some (n, [])"
  using dec_digits dec_nonempty by (simp add: scan_exp_def Let_def takeWhile_digits undec_dec)

lemma scan_power:
  assumes "list_all is_digit s" "s \<noteq> []" "hd s \<noteq> 48" "scan_exp (101 # r) = Some (x, [])"
  shows "scan_unsigned neg (s @ 101 # r) = Some (dec_num neg (undec s) x, [])"
  using assms by (simp add: scan_unsigned_def Let_def takeWhile_digits is_digit_def)

lemma scan_layout:
  assumes "significant s"
  shows "scan_unsigned neg (layout s n) = Some (dec_num neg (undec s) (n - int (length s)), [])"
proof -
  define k where "k = int (length s)"
  define ex where "ex = (if 0 \<le> n - 1 then 43 # dec (nat (n - 1)) else 45 # dec (nat (- (n - 1))))"
  have s: "list_all is_digit s" "s \<noteq> []" "hd s \<noteq> 48" using assms by (simp_all add: significant_def)
  have ex: "scan_exp (101 # ex) = Some (n - 1, [])" unfolding ex_def by (rule scan_exponent)
  consider (int) "k \<le> n" "n \<le> 21" | (point) "n < k" "0 < n" "n \<le> 21" | (small) "- 6 < n" "n \<le> 0"
    | (one) "n \<le> - 6 \<or> 21 < n" "k = 1" | (many) "n \<le> - 6 \<or> 21 < n" "k \<noteq> 1" by linarith
  then show ?thesis
  proof cases
    case int
    then have "layout s n = s @ replicate (nat (n - k)) 48" by (simp add: layout_def k_def)
    moreover have "list_all is_digit (s @ replicate (nat (n - k)) 48)"
      using s by (auto simp: list_all_iff is_digit_def)
    ultimately show ?thesis
      using scan_integer [of "s @ replicate (nat (n - k)) 48" neg] s int
      by (simp add: undec_pad dec_num_shift k_def)
  next
    case point
    then have "layout s n = take (nat n) s @ 46 # drop (nat n) s @ []" by (simp add: layout_def k_def)
    moreover have "list_all is_digit (take (nat n) s)" "list_all is_digit (drop (nat n) s)"
      using s(1) by (simp_all add: list_all_iff) (meson in_set_takeD in_set_dropD)+
    moreover have "scan_exp [] = Some (0, [])" by (simp add: scan_exp_def)
    ultimately show ?thesis
      using scan_point [of "take (nat n) s" "drop (nat n) s" "[]" 0 neg] s point
      by (simp add: k_def hd_take)
  next
    case small
    have "scan_exp [] = Some (0, [])" by (simp add: scan_exp_def)
    moreover have "list_all is_digit [48]" "list_all is_digit (replicate (nat (- n)) 48 @ s)"
      using s(1) by (auto simp: list_all_iff is_digit_def)
    moreover have "0 < k" using s(2) by (simp add: k_def)
    then have "layout s n = [48] @ 46 # (replicate (nat (- n)) 48 @ s) @ []"
      using small unfolding layout_def Let_def k_def [symmetric] by simp
    ultimately show ?thesis
      using scan_point [of "[48]" "replicate (nat (- n)) 48 @ s" "[]" 0 neg] s small
      by (simp add: undec_lead k_def)
  next
    case one
    then have "layout s n = s @ 101 # ex" by (auto simp: layout_def k_def ex_def)
    then show ?thesis using scan_power [OF s ex, of neg] one by (simp add: k_def)
  next
    case many
    have "layout s n = take 1 s @ 46 # drop 1 s @ 101 # ex"
      using many by (auto simp: layout_def k_def ex_def)
    moreover have "tl s \<noteq> []" using many s(2) by (cases s) (auto simp: k_def)
    ultimately show ?thesis
      using scan_point [of "take 1 s" "drop 1 s" "101 # ex" "n - 1" neg] s ex
      by (cases s) (auto simp: is_digit_def k_def diff_diff_eq)
  qed
qed

text \<open>A number that the printer writes so that it reads back.\<close>

definition stable :: "jnum \<Rightarrow> bool" where
  "stable n \<longleftrightarrow> scan_json_num (num_str n) = Some (n, [])"

lemma scan_json_num_none: "c \<noteq> 45 \<Longrightarrow> \<not> is_digit c \<Longrightarrow> scan_json_num (c # cs) = None"
  by (simp add: scan_json_num_unsigned scan_unsigned_def)

lemma scan_json_num_head:
  assumes "scan_json_num s = Some x"
  obtains c cs where "s = c # cs" "c = 45 \<or> is_digit c"
proof (cases s)
  case Nil
  with assms show ?thesis by (simp add: scan_json_num_unsigned)
next
  case (Cons c cs)
  with assms scan_json_num_none [of c cs] that show ?thesis by force
qed

theorem num_reads_back:
  assumes "canonical m e" "0 < m \<or> (\<not> neg \<and> e = - 1074)"
  shows "stable (Dbl neg m e)"
proof (cases "0 < m")
  case True
  then obtain ds n where ds: "significant ds" "dec_num neg (undec ds) (n - int (length ds)) = Dbl neg m e"
    "num_str (Dbl neg m e) = (if neg then [45] else []) @ layout ds n"
    using num_str_layout [OF assms(1)] by metis
  have scan: "scan_unsigned neg (layout ds n) = Some (Dbl neg m e, [])"
    using scan_layout [OF ds(1)] ds(2) by simp
  show ?thesis
  proof (cases neg)
    case True
    with scan ds(3) show ?thesis by (simp add: stable_def scan_json_num_unsigned)
  next
    case False
    have "layout ds n \<noteq> []" "hd (layout ds n) \<noteq> 45"
      using scan by (cases "layout ds n"; auto simp: scan_unsigned_def Let_def is_digit_def)+
    with False scan ds(3) show ?thesis
      by (cases "layout ds n") (simp_all add: stable_def scan_json_num_unsigned)
  qed
next
  case False
  with assms(2) show ?thesis
    by (simp add: stable_def scan_json_num_unsigned scan_unsigned_def is_digit_def Let_def scan_exp_def
        undec_def dec_num_def ratio_num_def)
qed

end
