(* ===== verification/Json_Codec.thy ===== *)
theory Json_Codec
  imports Js_Stringify Number_Facts
begin

text \<open>
  \<open>JSON.stringify\<close> against \<open>JSON.parse\<close>: the text written for a value is read back as
  that value, so formatting a document changes its layout only. The interface the formatter
  relies on is the locale \<open>codec\<close>.
\<close>

section \<open>The interface\<close>

locale codec =
  fixes print :: "'v \<Rightarrow> 't option" and parse :: "'t \<Rightarrow> 'v option" and ok :: "'v \<Rightarrow> bool"
  assumes prints: "ok v \<Longrightarrow> \<exists>t. print v = Some t"
    and reads_back: "ok v \<Longrightarrow> print v = Some t \<Longrightarrow> parse t = Some v"
begin

definition reformat :: "'t \<Rightarrow> 't option" where
  "reformat t = Option.bind (parse t) print"

lemma reformat_same: "parse t = Some v \<Longrightarrow> ok v \<Longrightarrow> \<exists>u. reformat t = Some u \<and> parse u = Some v"
  using prints reads_back by (fastforce simp: reformat_def)

lemma reformat_idem: "parse t = Some v \<Longrightarrow> ok v \<Longrightarrow> reformat t = Some u \<Longrightarrow> reformat u = Some u"
  using reads_back by (simp add: reformat_def)

lemma print_inj: "ok v \<Longrightarrow> ok w \<Longrightarrow> print v = print w \<Longrightarrow> v = w"
  using prints reads_back by (metis option.inject)

end

section \<open>White space and delimiters\<close>

text \<open>Tokens put before those of the rest of a text.\<close>

definition prefixed :: "'a list \<Rightarrow> 'a list option \<Rightarrow> 'a list option" where
  "prefixed xs o1 = map_option ((@) xs) o1"

lemma prefixed_prefixed [simp]: "prefixed xs (prefixed ys o1) = prefixed (xs @ ys) o1"
  by (cases o1) (simp_all add: prefixed_def)

lemma prefixed_Some [simp]: "prefixed xs (Some ys) = Some (xs @ ys)"
  by (simp add: prefixed_def)

lemma map_option_Cons: "map_option ((#) x) o1 = prefixed [x] o1"
  by (cases o1) (simp_all add: prefixed_def)

lemma lex_Nil: "lex [] = Some []"
  by (simp add: lex.simps)

lemma lex_space: "list_all json_space ws \<Longrightarrow> lex (ws @ s) = lex s"
  by (induction ws) (simp_all add: lex.simps)

section \<open>Numbers\<close>

lemma lex_stable:
  assumes "stable n" "delim r"
  shows "lex (num_str n @ r) = prefixed [TLit (JNum n)] (lex r)"
proof -
  obtain c cs where s: "num_str n = c # cs" and c: "c = 45 \<or> is_digit c"
    using assms(1) scan_json_num_head unfolding stable_def by blast
  have "scan_json_num (num_str n @ r) = Some (n, r)"
    using assms scan_json_num_delim [OF assms(2), of "num_str n"] s by (simp add: stable_def)
  then have "lex1 (c # cs @ r) = Some (TLit (JNum n), r)"
    using c s by (auto simp: lex1_def is_digit_def js_def)
  moreover have "\<not> json_space c" using c by (auto simp: json_space_def is_digit_def)
  ultimately show ?thesis by (simp add: s lex.simps [of "c # cs @ r"] map_option_Cons)
qed

section \<open>Strings\<close>

lemma radix_hex: "n < 16 \<Longrightarrow> radix_digit (hex_digit n) = Some n"
  by (simp add: radix_digit_def hex_digit_def is_digit_def)

lemma hex_digits:
  assumes "c < (65536::nat)"
  shows "16 * (16 * (16 * (c div 4096) + c div 256 mod 16) + c div 16 mod 16) + c mod 16 = c"
proof -
  have "c div 4096 = c div 256 div 16" "c div 256 = c div 16 div 16"
    by (simp_all add: div_mult2_eq [symmetric])
  then have "16 * (c div 4096) + c div 256 mod 16 = c div 256"
    "16 * (c div 256) + c div 16 mod 16 = c div 16" "16 * (c div 16) + c mod 16 = c"
    by (metis mult_div_mod_eq)+
  then show ?thesis by simp
qed

lemma hex4_escape:
  assumes "c < 65536"
  shows "hex4 (hex_digit (c div 4096)) (hex_digit (c div 256 mod 16))
    (hex_digit (c div 16 mod 16)) (hex_digit (c mod 16)) = Some c"
proof -
  have "c div 4096 < 16" using assms by (simp add: less_mult_imp_div_less)
  then show ?thesis using hex_digits [OF assms] by (simp add: hex4_def radix_hex)
qed

lemma lex_quote_char: "lex_string acc (quote_char c @ x) = lex_string (c # acc) x"
proof (cases "c < 32 \<or> lead_surrogate c \<or> trail_surrogate c")
  case True
  then have "c < 65536" by (auto simp: lead_surrogate_def trail_surrogate_def)
  then have "hex4 (hex_digit (c div 4096 mod 16)) (hex_digit (c div 256 mod 16))
    (hex_digit (c div 16 mod 16)) (hex_digit (c mod 16)) = Some c"
    using hex4_escape by simp
  with True show ?thesis
    by (simp add: quote_char_def unicode_escape_def escape_of_def)
next
  case False
  then show ?thesis by (simp add: quote_char_def escape_of_def)
qed

lemma lex_quote_body: "lex_string acc (quote_body s @ 34 # r) = Some (rev acc @ s, r)"
proof (induction s arbitrary: acc rule: quote_body.induct)
  case (3 c d cs)
  show ?case
  proof (cases "lead_surrogate c \<and> trail_surrogate d")
    case True
    with 3 show ?thesis by (simp add: lead_surrogate_def trail_surrogate_def)
  next
    case False
    then have "quote_body (c # d # cs) = quote_char c @ quote_body (d # cs)"
      by (simp only: quote_body.simps if_False)
    then show ?thesis using 3(2) [OF False] by (simp only: append_assoc lex_quote_char) simp
  qed
qed (simp_all add: lex_quote_char)

lemma lex_quote: "lex (quote s @ r) = prefixed [TString s] (lex r)"
  by (simp add: quote_def map_option_Cons lex.simps [of "34 # _"] lex1_def json_space_def lex_quote_body)

lemma lex_punct:
  "lex (91 # r) = prefixed [TOpenA] (lex r)" "lex (93 # r) = prefixed [TCloseA] (lex r)"
  "lex (123 # r) = prefixed [TOpenO] (lex r)" "lex (125 # r) = prefixed [TCloseO] (lex r)"
  "lex (58 # r) = prefixed [TColon] (lex r)" "lex (44 # r) = prefixed [TComma] (lex r)"
  by (simp_all add: lex.simps [of "_ # r"] lex1_def json_space_def map_option_Cons)

section \<open>The tokens of a document\<close>

fun toks :: "jsval \<Rightarrow> token list" where
  "toks (JStr s) = [TString s]"
| "toks (JArr vs) = TOpenA # join [TComma] (map toks vs) @ [TCloseA]"
| "toks (JObj ms) =
     TOpenO # join [TComma] (map (\<lambda>(k, v). TString k # TColon # toks v) ms) @ [TCloseO]"
| "toks v = [TLit v]"

text \<open>Text that is cut into the given tokens wherever a value may stand.\<close>

definition written :: "jstr \<Rightarrow> token list \<Rightarrow> bool" where
  "written p ts \<longleftrightarrow> (\<forall>r. delim r \<longrightarrow> lex (p @ r) = prefixed ts (lex r))"

lemma written_quote: "written (quote s) [TString s]"
  by (simp add: written_def lex_quote)

lemma written_number: "stable n \<Longrightarrow> written (num_str n) [TLit (JNum n)]"
  by (simp add: written_def lex_stable)

lemma written_word: "written (js ''null'') [TLit JNull]" "written (js ''true'') [TLit (JBool True)]"
  "written (js ''false'') [TLit (JBool False)]"
  by (simp_all add: written_def js_def lex.simps [of "_ # _"] lex1_def json_space_def map_option_Cons)

lemma written_join:
  assumes "list_all2 written ps tss" "list_all json_space ws" "ps \<noteq> []" "delim r"
  shows "lex (join (44 # ws) ps @ r) = prefixed (join [TComma] tss) (lex r)"
  using assms
proof (induction ps tss rule: list_all2_induct)
  case (Cons p ps ts tss)
  show ?case
  proof (cases ps)
    case Nil
    with Cons show ?thesis by (simp add: written_def)
  next
    case ps: (Cons q qs)
    then obtain us uss where tss: "tss = us # uss" using Cons.hyps(2) by (cases tss) auto
    have "lex (p @ 44 # ws @ join (44 # ws) ps @ r)
        = prefixed ts (lex (44 # ws @ join (44 # ws) ps @ r))"
      using Cons.hyps(1) by (simp add: written_def delim_def)
    then show ?thesis
      using Cons.IH Cons.prems by (simp add: ps tss lex_punct lex_space)
  qed
qed simp

text \<open>The tokens of the brackets around the parts of a container.\<close>

lemma written_wrap:
  assumes "list_all2 written ps tss" "list_all json_space gap" "list_all json_space ind"
    and "opn = 91 \<and> cls = 93 \<and> to = TOpenA \<and> tc = TCloseA
      \<or> opn = 123 \<and> cls = 125 \<and> to = TOpenO \<and> tc = TCloseO"
  shows "written (wrap gap ind opn cls ps) (to # join [TComma] tss @ [tc])"
proof -
  have brackets: "lex (opn # s) = prefixed [to] (lex s)" "lex (cls # s) = prefixed [tc] (lex s)"
    "delim (cls # s)" for s
    using assms(4) by (auto simp: lex_punct delim_def)
  have sp: "list_all json_space [10]" "delim (10 # s)" for s
    by (simp_all add: json_space_def delim_def)
  show ?thesis
  proof (cases "ps = []")
    case True
    with assms(1) show ?thesis by (simp add: written_def wrap_def brackets)
  next
    case False
    note parts = written_join [OF assms(1) _ False]
    show ?thesis
    proof (cases "gap = []")
      case True
      with False show ?thesis
        using parts [of "[]"] by (simp add: written_def wrap_def brackets)
    next
      case gap: False
      have ws: "list_all json_space ([10] @ ind @ gap)" "list_all json_space ([10] @ ind)"
        using assms(2,3) sp by simp_all
      show ?thesis unfolding written_def
      proof (intro allI impI)
        fix r
        have "wrap gap ind opn cls ps @ r = opn # ([10] @ ind @ gap)
            @ join (44 # [10] @ ind @ gap) ps @ ([10] @ ind) @ cls # r"
          using False gap by (simp add: wrap_def Let_def)
        then show "lex (wrap gap ind opn cls ps @ r) = prefixed (to # join [TComma] tss @ [tc]) (lex r)"
          using parts [OF ws(1), of "([10] @ ind) @ cls # r"] sp(2)
          by (simp only: brackets lex_space [OF ws(1)] lex_space [OF ws(2)])
            (simp add:)
      qed
    qed
  qed
qed

section \<open>Values that can be printed\<close>

text \<open>
  \<open>exact\<close>: every number is finite and none is minus zero, the two kinds of numbers that
  \<open>JSON.stringify\<close> does not write so that they read back. \<open>parsed\<close>: what \<open>JSON.parse\<close>
  can give; its numbers are rounded to doubles, the members of its objects are in the order of
  own properties without duplicates.
\<close>

fun exact :: "jsval \<Rightarrow> bool" where
  "exact (JNum (Inf neg)) = False"
| "exact (JNum (Dbl neg m e)) = (0 < m \<or> \<not> neg)"
| "exact (JArr vs) = list_all exact vs"
| "exact (JObj ms) = list_all (\<lambda>(k, v). exact v) ms"
| "exact v = True"

fun parsed :: "jsval \<Rightarrow> bool" where
  "parsed JUndef = False"
| "parsed (JNum (Dbl neg m e)) = canonical m e"
| "parsed (JArr vs) = list_all parsed vs"
| "parsed (JObj ms) = (list_all (\<lambda>(k, v). parsed v) ms \<and> mk_obj ms = JObj ms)"
| "parsed v = True"

lemma stable_number:
  assumes "parsed (JNum n)" "exact (JNum n)"
  shows "stable n" "\<exists>neg m e. n = Dbl neg m e"
proof -
  obtain neg m e where n: "n = Dbl neg m e" using assms(2) by (cases n) auto
  then show "\<exists>neg m e. n = Dbl neg m e" by blast
  show "stable n"
    unfolding n using assms n by (intro num_reads_back) (auto simp: canonical_def)
qed

lemma written_member:
  assumes "written p (toks v)"
  shows "written (quote k @ 58 # p) (TString k # TColon # toks v)"
    "written (quote k @ 58 # 32 # p) (TString k # TColon # toks v)"
  using assms lex_space [of "[32]"] by (simp_all add: written_def lex_quote lex_punct json_space_def)

theorem stringify_written:
  assumes "parsed v" "exact v" "list_all json_space gap" "list_all json_space ind"
  shows "\<exists>p. stringify gap ind v = Some p \<and> written p (toks v)"
  using assms(1,2,4)
proof (induction v arbitrary: ind)
  case (JNum n)
  then obtain neg m e where "n = Dbl neg m e" using stable_number by blast
  with written_number [OF stable_number(1) [OF JNum(1,2)]] show ?case by (simp del: num_str.simps)
next
  case (JArr vs)
  have ind: "list_all json_space (ind @ gap)" using JArr.prems(3) assms(3) by simp
  have "\<forall>v\<in>set vs. \<exists>p. stringify gap (ind @ gap) v = Some p \<and> written p (toks v)"
    using JArr.IH [OF _ _ _ ind] JArr.prems(1,2) by (simp add: list_all_iff)
  then have "list_all2 written (stringify_elems gap (ind @ gap) vs) (map toks vs)"
    by (induction vs) auto
  from written_wrap [OF this assms(3) JArr.prems(3), of 91 93 TOpenA TCloseA]
  show ?case by simp
next
  case (JObj ms)
  have ind: "list_all json_space (ind @ gap)" using JObj.prems(3) assms(3) by simp
  have "\<forall>(k, v)\<in>set ms. \<exists>p. stringify gap (ind @ gap) v = Some p \<and> written p (toks v)"
    using JObj.IH [OF _ _ _ _ ind] JObj.prems(1,2) by (fastforce simp: list_all_iff)
  then have "list_all2 written (stringify_members gap (ind @ gap) ms)
      (map (\<lambda>(k, v). TString k # TColon # toks v) ms)"
    by (induction ms) (auto simp: written_member)
  from written_wrap [OF this assms(3) JObj.prems(3), of 123 125 TOpenO TCloseO]
  show ?case by simp
qed (simp_all add: written_quote written_word)

section \<open>Parsing the tokens of a value\<close>

definition reads :: "jsval \<Rightarrow> bool" where
  "reads v \<longleftrightarrow> (\<forall>st ts. parse_tokens MValue st (toks v @ ts) = parse_tokens (MDone v) st ts)"

lemma readsD: "reads v \<Longrightarrow> parse_tokens MValue st (toks v @ ts) = parse_tokens (MDone v) st ts"
  by (simp add: reads_def)

lemma toks_head: "\<exists>t ts. toks v = t # ts \<and> t \<noteq> TCloseA"
  by (cases v) auto

lemma start_or_end:
  "t \<noteq> TCloseA \<Longrightarrow> parse_tokens MValueOrEnd st (t # ts) = parse_tokens MValue st (t # ts)"
  by simp

lemma parse_elems:
  assumes "list_all reads vs" "vs \<noteq> []"
  shows "parse_tokens MValue (FArr acc # st) (join [TComma] (map toks vs) @ TCloseA # ts)
    = parse_tokens (MDone (JArr (rev acc @ vs))) st ts"
  using assms
proof (induction vs arbitrary: acc)
  case (Cons v vs)
  have v: "parse_tokens MValue (FArr acc # st) (toks v @ us) = parse_tokens (MDone v) (FArr acc # st) us"
    for us using Cons.prems(1) by (simp add: readsD)
  show ?case
  proof (cases vs)
    case Nil
    with v show ?thesis by simp
  next
    case (Cons w ws)
    with v Cons.IH [of "v # acc"] Cons.prems(1) show ?thesis by simp
  qed
qed simp

lemma parse_members:
  assumes "list_all (\<lambda>(k, v). reads v) ms" "ms \<noteq> []"
  shows "parse_tokens (MKey acc) st
      (join [TComma] (map (\<lambda>(k, v). TString k # TColon # toks v) ms) @ TCloseO # ts)
    = parse_tokens (MDone (mk_obj (rev acc @ ms))) st ts"
  using assms
proof (induction ms arbitrary: acc)
  case (Cons kv ms)
  obtain k v where kv: "kv = (k, v)" by fastforce
  have v: "parse_tokens MValue (FObj acc k # st) (toks v @ us) = parse_tokens (MDone v) (FObj acc k # st) us"
    for us using Cons.prems(1) kv by (simp add: readsD)
  show ?case
  proof (cases ms)
    case Nil
    with v kv show ?thesis by simp
  next
    case (Cons w ws)
    with v kv Cons.IH [of "(k, v) # acc"] Cons.prems(1) show ?thesis by simp
  qed
qed simp

theorem parsed_reads: "parsed v \<Longrightarrow> reads v"
proof (induction v)
  case (JArr vs)
  then have vs: "list_all reads vs" by (simp add: list_all_iff)
  show ?case unfolding reads_def
  proof (cases vs)
    case (Cons w ws)
    show "\<forall>st ts. parse_tokens MValue st (toks (JArr vs) @ ts) = parse_tokens (MDone (JArr vs)) st ts"
    proof (intro allI)
      fix st ts
      obtain t us where us: "join [TComma] (map toks vs) @ TCloseA # ts = t # us" "t \<noteq> TCloseA"
        using toks_head [of w] Cons by (cases ws) auto
      then have "parse_tokens MValue st (toks (JArr vs) @ ts) = parse_tokens MValue (FArr [] # st) (t # us)"
        using start_or_end [OF us(2)] by simp
      also have "\<dots> = parse_tokens (MDone (JArr vs)) st ts"
        using parse_elems [OF vs, of "[]" st ts] us(1) Cons by simp
      finally show "parse_tokens MValue st (toks (JArr vs) @ ts) = parse_tokens (MDone (JArr vs)) st ts" .
    qed
  qed simp
next
  case (JObj ms)
  then have ms: "list_all (\<lambda>(k, v). reads v) ms" "mk_obj ms = JObj ms"
    by (fastforce simp: list_all_iff)+
  show ?case unfolding reads_def
  proof (cases ms)
    case (Cons kv ks)
    show "\<forall>st ts. parse_tokens MValue st (toks (JObj ms) @ ts) = parse_tokens (MDone (JObj ms)) st ts"
    proof (intro allI)
      fix st ts
      obtain k us where us: "join [TComma] (map (\<lambda>(k, v). TString k # TColon # toks v) ms) @ TCloseO # ts
          = TString k # us" using Cons by (cases kv; cases ks) auto
      then have "parse_tokens MValue st (toks (JObj ms) @ ts) = parse_tokens (MKey []) st (TString k # us)"
        by simp
      also have "\<dots> = parse_tokens (MDone (JObj ms)) st ts"
        using parse_members [OF ms(1), of "[]" st ts] us Cons ms(2) by simp
      finally show "parse_tokens MValue st (toks (JObj ms) @ ts) = parse_tokens (MDone (JObj ms)) st ts" .
    qed
  qed (use ms in simp)
qed (simp_all add: reads_def)

section \<open>What the parser gives\<close>

abbreviation put_all :: "(jstr \<times> 'a) list \<Rightarrow> (jstr \<times> 'a) list \<Rightarrow> (jstr \<times> 'a) list" where
  "put_all ms acc \<equiv> fold (\<lambda>(k, v). put k v) ms acc"

lemma put_keys: "set (map fst (put k v ms)) = insert k (set (map fst ms))"
  by (induction k v ms rule: put.induct) auto

lemma put_distinct: "distinct (map fst ms) \<Longrightarrow> distinct (map fst (put k v ms))"
proof (induction k v ms rule: put.induct)
  case (2 k v l w ms)
  then show ?case using put_keys [of k v ms] by auto
qed simp

lemma put_all_distinct: "distinct (map fst acc) \<Longrightarrow> distinct (map fst (put_all ms acc))"
proof (induction ms arbitrary: acc)
  case (Cons m ms)
  then show ?case using put_distinct [of acc "fst m" "snd m"] by (simp add: case_prod_beta)
qed simp

lemma put_values: "list_all (\<lambda>m. P (snd m)) ms \<Longrightarrow> P v \<Longrightarrow> list_all (\<lambda>m. P (snd m)) (put k v ms)"
  by (induction k v ms rule: put.induct) auto

lemma put_all_values: "list_all (\<lambda>m. P (snd m)) ms \<Longrightarrow> list_all (\<lambda>m. P (snd m)) acc \<Longrightarrow> list_all (\<lambda>m. P (snd m)) (put_all ms acc)"
proof (induction ms arbitrary: acc)
  case (Cons m ms)
  then show ?case using put_values [of P acc "snd m" "fst m"] by (simp add: case_prod_beta)
qed simp

lemma put_new: "k \<notin> fst ` set ms \<Longrightarrow> put k v ms = ms @ [(k, v)]"
  by (induction ms) auto

lemma put_all_new: "distinct (map fst (acc @ ms)) \<Longrightarrow> put_all ms acc = acc @ ms"
proof (induction ms arbitrary: acc)
  case (Cons m ms)
  then have "fst m \<notin> fst ` set acc" by auto
  with Cons show ?case by (cases m) (simp add: put_new)
qed simp

lemma own_order_set: "set (own_order ms) = set ms"
  by (auto simp: own_order_def)

lemma own_order_distinct: "distinct (map fst ms) \<Longrightarrow> distinct (map fst (own_order ms))"
  unfolding distinct_map own_order_set by (auto simp: own_order_def)

lemma own_order_own_order: "own_order (own_order ms) = own_order ms"
proof -
  let ?f = "\<lambda>m::jstr \<times> 'a. the (index_of (fst m))"
  let ?I = "\<lambda>m::jstr \<times> 'a. index_of (fst m) \<noteq> None"
  have "filter ?I (own_order ms) = sort_key ?f (filter ?I ms)"
    by (simp add: own_order_def filter_sort) (auto simp: filter_empty_conv)
  moreover have "filter (\<lambda>x. (\<exists>y. index_of (fst x) = Some y) \<and> index_of (fst x) = None) ms = []"
    by (auto simp: filter_empty_conv)
  then have "filter (\<lambda>m. \<not> ?I m) (own_order ms) = filter (\<lambda>m. \<not> ?I m) ms"
    by (simp add: own_order_def filter_sort)
  ultimately show ?thesis unfolding own_order_def [of "own_order ms"]
    by (simp add: own_order_def [of ms] sort_key_id_if_sorted)
qed

lemma mk_obj_same:
  assumes "distinct (map fst ms)"
  shows "mk_obj (own_order ms) = JObj (own_order ms)"
proof -
  from own_order_distinct [OF assms] show ?thesis using put_all_new [of "[]" "own_order ms"] by (simp add: mk_obj_def own_order_own_order)
qed

lemma mk_obj_parsed:
  assumes "list_all (\<lambda>m. parsed (snd m)) ms"
  shows "parsed (mk_obj ms)"
proof -
  have "list_all (\<lambda>m. parsed (snd m)) (put_all ms [])" using put_all_values [OF assms, of "[]"] by simp
  then have "list_all (\<lambda>m. parsed (snd m)) (own_order (put_all ms []))"
    by (simp add: list_all_iff own_order_set)
  moreover have "mk_obj (own_order (put_all ms [])) = JObj (own_order (put_all ms []))"
    using put_all_distinct [of "[]" ms] mk_obj_same by simp
  ultimately show ?thesis by (simp add: mk_obj_def list_all_iff case_prod_beta)
qed

fun token_ok :: "token \<Rightarrow> bool" where
  "token_ok (TLit v) = parsed v"
| "token_ok t = True"

fun frame_ok :: "frame \<Rightarrow> bool" where
  "frame_ok (FArr vs) = list_all parsed vs"
| "frame_ok (FObj ms k) = list_all (\<lambda>m. parsed (snd m)) ms"

fun mode_ok :: "mode \<Rightarrow> bool" where
  "mode_ok (MKey ms) = list_all (\<lambda>m. parsed (snd m)) ms"
| "mode_ok (MColon ms k) = list_all (\<lambda>m. parsed (snd m)) ms"
| "mode_ok (MDone v) = parsed v"
| "mode_ok m = True"

lemma dec_num_parsed: "parsed (JNum (dec_num neg d x))"
  by (cases "dec_num neg d x") (auto dest: dec_num_canonical)

lemma scan_unsigned_parsed: "scan_unsigned neg s = Some (n, r) \<Longrightarrow> parsed (JNum n)"
  by (auto simp: scan_unsigned_def Let_def dec_num_parsed split: if_splits list.splits option.splits)

lemma scan_json_num_parsed: "scan_json_num s = Some (n, r) \<Longrightarrow> parsed (JNum n)"
  by (simp add: scan_json_num_unsigned scan_unsigned_parsed split: list.splits if_splits)

lemma lex1_ok: "lex1 s = Some (t, r) \<Longrightarrow> token_ok t"
  by (auto simp: lex1_def scan_json_num_parsed split: list.splits if_splits)

lemma lex_ok: "lex s = Some ts \<Longrightarrow> list_all token_ok ts"
proof (induction s arbitrary: ts rule: lex.induct)
  case (1 s)
  show ?case
  proof (cases s)
    case (Cons c cs)
    consider (space) "json_space c" "lex cs = Some ts" | (token) t r us where "\<not> json_space c"
      "lex1 s = Some (t, r)" "lex r = Some us" "ts = t # us"
      using 1(3) Cons by (auto simp: lex.simps [of "c # cs"] split: if_splits option.splits)
    then show ?thesis
    proof cases
      case space
      then show ?thesis using 1(1) [OF Cons] by blast
    next
      case token
      then show ?thesis using 1(2) [OF Cons token(1)] lex1_ok by fastforce
    qed
  qed (use 1 in \<open>simp add: lex.simps\<close>)
qed

lemma start_value_ok:
  "start_value t st = Some (m, st') \<Longrightarrow> token_ok t \<Longrightarrow> list_all frame_ok st
    \<Longrightarrow> mode_ok m \<and> list_all frame_ok st'"
  by (cases t) auto

lemma parse_step_ok:
  "parse_step m st t = Some (m', st') \<Longrightarrow> token_ok t \<Longrightarrow> mode_ok m \<Longrightarrow> list_all frame_ok st
    \<Longrightarrow> mode_ok m' \<and> list_all frame_ok st'"
  by (induction m st t rule: parse_step.induct)
    (auto simp: list_all_rev mk_obj_parsed dest: start_value_ok split: if_splits list.splits frame.splits token.splits)

lemma parse_tokens_ok:
  "parse_tokens m st ts = Some v \<Longrightarrow> list_all token_ok ts \<Longrightarrow> mode_ok m \<Longrightarrow> list_all frame_ok st
    \<Longrightarrow> parsed v"
proof (induction ts arbitrary: m st)
  case (Cons t ts)
  then show ?case using parse_step_ok by (fastforce split: option.splits prod.splits)
qed (auto split: mode.splits list.splits)

theorem json_parse_parsed: "json_parse s = Some v \<Longrightarrow> parsed v"
  using parse_tokens_ok lex_ok by (fastforce simp: json_parse_def bind_eq_Some_conv)

section \<open>The codec\<close>

abbreviation codable :: "jsval \<Rightarrow> bool" where
  "codable v \<equiv> parsed v \<and> exact v"

lemma stringify_reads_back:
  assumes "codable v" "list_all json_space gap"
  shows "\<exists>t. stringify gap [] v = Some t \<and> json_parse t = Some v"
proof -
  obtain p where p: "stringify gap [] v = Some p" "written p (toks v)"
    using stringify_written [of v gap "[]"] assms by auto
  from p(2) have "lex p = Some (toks v)"
    using lex_Nil by (auto simp: written_def delim_def dest: spec [of _ "[]"])
  moreover have "parse_tokens MValue [] (toks v) = Some v"
    using readsD [OF parsed_reads, of v "[]" "[]"] assms(1) by simp
  ultimately show ?thesis using p(1) by (simp add: json_parse_def)
qed

interpretation indented: codec json_stringify2 json_parse codable
  using stringify_reads_back [of _ "[32, 32]"]
  by unfold_locales (fastforce simp: json_stringify2_def json_space_def)+

interpretation compact: codec json_stringify json_parse codable
  using stringify_reads_back [of _ "[]"]
  by unfold_locales (fastforce simp: json_stringify_def)+

end
