(* ===== verification/Endpoints.thy ===== *)
theory Endpoints
  imports App_Termination Json_Codec
begin

text \<open>
  What a request looks like on the wire: its address, its JSON body or form, and the header
  the contract upload carries (the \<open>fetch\<close> calls of \<open>App.tsx\<close> and of
  \<open>AuditLedger.tsx\<close>), and the path prefix the development server forwards
  (\<open>viewer/vite.config.ts\<close>).
\<close>

section \<open>Requests on the wire\<close>

fun request_url :: "request \<Rightarrow> jstr" where
  "request_url (PostOverride url note) = url"
| "request_url (PostCodeDiff lang src) = js ''/api/code-diff''"
| "request_url (PostProject name) = js ''/api/projects''"
| "request_url (PostDiff pid base target) = js ''/api/diffs''"
| "request_url (PostPrompt body) = js ''/api/prompt''"
| "request_url GetDiffs = js ''/api/diffs''"

fun request_json :: "request \<Rightarrow> jsval option" where
  "request_json (PostOverride url note) = Some (JObj [(js ''note'', JStr note)])"
| "request_json (PostCodeDiff lang src) =
     Some (JObj [(js ''source_code'', JStr src), (js ''mode'', JStr (js ''code_migration'')),
                 (js ''language'', JStr (js lang))])"
| "request_json (PostProject name) = Some (JObj [(js ''name'', JStr (js name))])"
| "request_json (PostPrompt body) = Some body"
| "request_json (PostDiff pid base target) = None"
| "request_json GetDiffs = None"

text \<open>The fields of the multipart form; the two documents are sent as files.\<close>

fun request_form :: "request \<Rightarrow> (jstr \<times> jstr) list" where
  "request_form (PostDiff pid base target) =
     [(js ''project_id'', pid), (js ''commit_sha'', js ''manual-sandbox-run''),
      (js ''base_spec'', base), (js ''target_spec'', target)]"
| "request_form _ = []"

definition request_body :: "request \<Rightarrow> jstr option" where
  "request_body r = Option.bind (request_json r) json_stringify"

text \<open>The key of \<open>server.proxy\<close>: addresses that start with it are forwarded to the server.\<close>

definition proxy_key :: jstr where
  "proxy_key = js ''/api''"

record dev_server =
  dev_host :: jstr
  dev_port :: nat
  dev_allowed_hosts :: "jstr list"
  dev_proxy :: "(jstr \<times> jstr) list"

definition vite_server :: dev_server where
  "vite_server = \<lparr>dev_host = js ''0.0.0.0'', dev_port = 5173, dev_allowed_hosts = [js ''viewer''],
     dev_proxy = [(proxy_key, js ''http://server:8080'')]\<rparr>"

text \<open>Where the development server sends a request on; others it answers itself.\<close>

definition forwarded :: "jstr \<Rightarrow> jstr option" where
  "forwarded url = map_option (\<lambda>(k, target). target @ url)
     (find (\<lambda>(k, target). starts_with url k) (dev_proxy vite_server))"

abbreviation proxied :: "jstr \<Rightarrow> bool" where
  "proxied url \<equiv> starts_with url proxy_key"

lemma forwarded_proxied: "forwarded url = (if proxied url then Some (js ''http://server:8080'' @ url) else None)"
  by (simp add: forwarded_def vite_server_def)

section \<open>Bodies are read as they were meant\<close>

lemma codable_override: "codable (JObj [(js ''note'', JStr t)])"
  by (simp add: mk_obj_def own_order_def index_of_def is_digit_def js_def)

lemma codable_code_diff:
  "codable (JObj [(js ''source_code'', JStr s), (js ''mode'', JStr m), (js ''language'', JStr l)])"
  by (simp add: mk_obj_def own_order_def index_of_def is_digit_def js_def)

lemma codable_project: "codable (JObj [(js ''name'', JStr n)])"
  by (simp add: mk_obj_def own_order_def index_of_def is_digit_def js_def)

lemma codable_prompt: "codable (prompt_request p)"
  by (simp add: prompt_request_def mk_obj_def own_order_def index_of_def is_digit_def js_def)

text \<open>The requests the application makes.\<close>

definition made :: "request \<Rightarrow> bool" where
  "made r \<longleftrightarrow> (case r of PostOverride url note \<Rightarrow> \<exists>i. url = override_url i
     | PostPrompt body \<Rightarrow> \<exists>p. body = prompt_request p | _ \<Rightarrow> True)"

lemma made_codable: "made r \<Longrightarrow> request_json r = Some v \<Longrightarrow> codable v"
  by (cases r) (auto simp: made_def codable_override codable_code_diff codable_project codable_prompt
      simp del: parsed.simps exact.simps)

lemma override_url_proxied: "proxied (override_url i)"
  by (simp add: proxy_key_def override_url_def js_def)

lemma made_proxied: "made r \<Longrightarrow> proxied (request_url r)"
  by (cases r) (auto simp: made_def override_url_proxied, simp_all add: proxy_key_def js_def)

section \<open>Every request is one of these\<close>

lemma user_step_made:
  "\<exists>rs. sent (user_step act s) = sent s @ rs \<and> (\<forall>r \<in> set rs. made r)"
proof (cases act)
  case (InModal a)
  then show ?thesis
    by (cases a) (auto simp: made_def start_override_def override_start_def split: sum.split)
next
  case (InMonitor a)
  then show ?thesis by (cases a) auto
next
  case (InSandbox a)
  then show ?thesis
    by (cases a) (auto simp: made_def start_sandbox_def sandbox_start_def split: option.split sum.split)
next
  case (InPrompt a)
  then show ?thesis
    by (cases a) (auto simp: made_def start_prompt_def prompt_start_def split: sum.split)
next
  case (InLedger a)
  then show ?thesis by (cases a) (auto simp: made_def ledger_fetch_def)
next
  case (InWebhook a)
  then show ?thesis by (cases a) auto
qed simp

lemma task_step_made:
  "task_step t r s = (s', np) \<Longrightarrow> \<exists>rs. sent s' = sent s @ rs \<and> (\<forall>r \<in> set rs. made r)"
  by (cases t)
    (auto simp: made_def project_done_def
      split: if_splits option.splits prod.splits response.splits sum.splits)

interpretation made_inv: turn_invariant "\<lambda>_ _. True" "\<lambda>s. \<forall>r \<in> set (sent s). made r"
proof
  fix s :: sys and act
  assume "\<forall>r \<in> set (sent s). made r"
  then show "\<forall>r \<in> set (sent (user_step act s)). made r" using user_step_made [of act s] by auto
next
  fix s s' :: sys and i r np
  assume "\<forall>r \<in> set (sent s). made r"
    "task_step (tasks s ! i) r (s\<lparr>tasks := remove_nth i (tasks s)\<rparr>) = (s', np)"
  then show "\<forall>r \<in> set (sent s'). made r"
    using task_step_made [of "tasks s ! i" r "s\<lparr>tasks := remove_nth i (tasks s)\<rparr>" s' np] by auto
qed (auto simp: commit_sent made_def)

lemma source_proxied:
  assumes "reachable s" "alive s" "source s = Some url"
  shows "proxied url"
  using subscription.holds [OF assms(1)] assms(2,3)
  by (auto simp: subscribed_def events_url_def ebind_Inr_iff proxy_key_def js_def split: if_splits)

end
