(* ===== verification/Format_Facts.thy ===== *)
theory Format_Facts
  imports Sandbox Json_Codec
begin

text \<open>
  The formatter of the sandbox: it changes the layout of a document and nothing else, up to
  what reading the document into doubles already does to its numbers.
\<close>

lemma formatJSON_reformat:
  "formatJSON code = (case indented.reformat code of
      Some t \<Rightarrow> Inr t
    | None \<Rightarrow> Inl (if json_parse code = None then SyntaxErr else TypeErr))"
  by (simp add: formatJSON_def json_parse_res_def indented.reformat_def split: option.split)

lemma formatJSON_readable: "json_parse code = Some v \<Longrightarrow> formatJSON code \<noteq> Inl e"
  using json_parse_parsed [of code v]
  by (cases v) (simp_all add: formatJSON_def json_parse_res_def json_stringify2_def)

lemma large_number: "dec_num False 1 309 = Inf False"
  using ratio_num_overflow [of 1 "10 ^ 309" False] by (simp add: dec_num_def)

lemma minus_zero: "dec_num True 0 0 = Dbl True 0 (- 1074)"
  by (simp add: dec_num_def ratio_num_def)

lemma neighbours: "dec_num False 9007199254740993 0 = dec_num False 9007199254740992 0"
  by (simp add: js_eval)

lemma extreme_read:
  "json_parse (js ''[1e309,-0]'') = Some (JArr [JNum (Inf False), JNum (Dbl True 0 (- 1074))])"
  using large_number minus_zero by (simp add: js_eval js_def del: dec_num_def ratio_num_def)

text \<open>
  C34. If a document is JSON and its numbers are neither too large for a double nor minus zero,
  formatting succeeds, the new text is read as the same value, and formatting again changes
  nothing.
\<close>

theorem format_keeps_document:
  assumes "json_parse code = Some v" and "exact v"
  shows "\<exists>t. formatJSON code = Inr t \<and> json_parse t = Some v \<and> formatJSON t = Inr t"
proof -
  have ok: "codable v" using json_parse_parsed assms by blast
  then obtain t where t: "indented.reformat code = Some t" "json_parse t = Some v"
    using indented.reformat_same assms(1) by blast
  moreover have "indented.reformat t = Some t"
    using indented.reformat_idem [OF assms(1) ok t(1)] .
  ultimately show ?thesis by (auto simp: formatJSON_reformat)
qed

lemma format_keeps_document_witness:
  "\<exists>t. formatJSON (js ''{\"a\":[1.50,\"x\"]}'') = Inr t \<and> formatJSON t = Inr t"
proof -
  have "\<exists>v. json_parse (js ''{\"a\":[1.50,\"x\"]}'') = Some v \<and> exact v"
    by (simp add: js_eval js_def)
  then show ?thesis using format_keeps_document by blast
qed

text \<open>
  Outside those bounds formatting changes the document: an over-large number becomes null,
  minus zero becomes zero, and two integers beyond \<open>2 ^ 53\<close> get the same text.
\<close>

theorem format_changes_extreme_numbers:
  "formatJSON (js ''[1e309,-0]'') = Inr (js_lines [''['', ''  null,'', ''  0'', '']''])
    \<and> formatJSON (js ''[9007199254740993]'') = formatJSON (js ''[9007199254740992]'')"
proof -
  have "json_parse (js ''[9007199254740993]'') = json_parse (js ''[9007199254740992]'')"
    using neighbours by (simp add: js_eval js_def del: dec_num_def)
  then show ?thesis
    by (simp add: formatJSON_def json_parse_res_def extreme_read) (simp add: js_eval js_lines_def js_def)
qed

end
