(* ===== verification/Tree_Facts.thy ===== *)
theory Tree_Facts
  imports App_System Monitor_Facts
begin

text \<open>
  The collapsible tree of a change against its specification: the rows that can be toggled
  are exactly the containers that are mounted, that is, not below a collapsed row.
\<close>

section \<open>Values as \<open>JSON.parse\<close> makes them\<close>

fun wf_json :: "jsval \<Rightarrow> bool"
  and wf_elems :: "jsval list \<Rightarrow> bool"
  and wf_members :: "(jstr \<times> jsval) list \<Rightarrow> bool" where
  "wf_json (JArr vs) = (length vs < 2 ^ 32 \<and> wf_elems vs)"
| "wf_json (JObj ms) = (distinct (map fst ms) \<and> wf_members ms)"
| "wf_json _ = True"
| "wf_elems [] = True"
| "wf_elems (v # vs) = (wf_json v \<and> wf_elems vs)"
| "wf_members [] = True"
| "wf_members ((k, v) # ms) = (wf_json v \<and> wf_members ms)"

fun is_branch :: "jsval \<Rightarrow> bool" where
  "is_branch (JArr vs) = (vs \<noteq> [])"
| "is_branch (JObj ms) = (ms \<noteq> [])"
| "is_branch _ = False"

section \<open>Array indices\<close>

lemma dec_canonical: "hd (dec n) \<noteq> 48 \<or> tl (dec n) = []"
proof (induction n rule: dec.induct)
  case (1 n)
  show ?case
  proof (cases "n < 10")
    case False
    have "hd (dec (n div 10)) \<noteq> 48"
    proof (cases "n div 10 < 10")
      case True
      with False show ?thesis by (subst dec.simps) simp
    next
      case False
      then have "tl (dec (n div 10)) \<noteq> []"
        by (subst dec.simps) (simp add: dec_nonempty tl_append2)
      with 1 \<open>\<not> n < 10\<close> show ?thesis by simp
    qed
    with False show ?thesis by (subst (1) dec.simps) (simp add: dec_nonempty)
  qed (subst dec.simps, simp)
qed

lemma undec_pos: "k \<noteq> [] \<Longrightarrow> list_all is_digit k \<Longrightarrow> hd k \<noteq> 48 \<Longrightarrow> 0 < undec k"
proof (induction k rule: rev_induct)
  case (snoc c s)
  then show ?case
    by (cases "s = []") (auto simp: undec_snoc undec_def is_digit_def)
qed simp

lemma dec_undec:
  assumes "k \<noteq> []" "list_all is_digit k" "hd k \<noteq> 48 \<or> tl k = []"
  shows "dec (undec k) = k"
  using assms
proof (induction k rule: rev_induct)
  case (snoc c s)
  then have c: "48 \<le> c" "c - 48 < 10" by (auto simp: is_digit_def)
  show ?case
  proof (cases "s = []")
    case True
    with c show ?thesis by (subst dec.simps) (simp add: undec_def)
  next
    case False
    with snoc.prems have s: "list_all is_digit s" "hd s \<noteq> 48" by auto
    then have "0 < undec s" using undec_pos False by blast
    moreover have "dec (undec s) = s" using snoc.IH False s by simp
    moreover obtain d where d: "c = 48 + d" "d < 10" using c by (metis le_add_diff_inverse)
    ultimately show ?thesis
      unfolding undec_snoc d(1) by (subst dec.simps) simp
  qed
qed simp

lemma index_of_dec: "n < 2 ^ 32 - 1 \<Longrightarrow> index_of (dec n) = Some n"
  using dec_canonical [of n] by (simp add: index_of_def dec_nonempty dec_digits undec_dec)

lemma index_of_Some: "index_of k = Some n \<Longrightarrow> k = dec n"
  by (auto simp: index_of_def dec_undec split: if_splits)

lemma dec_inj: "dec m = dec n \<longleftrightarrow> m = n"
  by (metis undec_dec)

section \<open>Children\<close>

definition kids :: "jsval \<Rightarrow> (jstr \<times> jsval) list" where
  "kids v = (case v of JArr vs \<Rightarrow> map (\<lambda>i. (dec i, vs ! i)) [0..<length vs]
     | JObj ms \<Rightarrow> ms | _ \<Rightarrow> [])"

lemma child_at_iff:
  assumes "wf_json v" shows "child_at v k = Some w \<longleftrightarrow> (k, w) \<in> set (kids v)"
proof (cases v)
  case (JArr vs)
  have "i < length vs \<Longrightarrow> index_of (dec i) = Some i" for i
    using assms JArr by (intro index_of_dec) simp
  with JArr show ?thesis
    by (auto simp: kids_def dest: index_of_Some split: option.splits)
next
  case (JObj ms)
  with assms show ?thesis by (auto simp: kids_def)
qed (simp_all add: kids_def)

lemma is_branch_kids: "is_branch v \<longleftrightarrow> kids v \<noteq> []"
  by (cases v) (simp_all add: kids_def)

lemma wf_elems_nth: "wf_elems vs \<Longrightarrow> i < length vs \<Longrightarrow> wf_json (vs ! i)"
  by (induction vs arbitrary: i) (auto simp: nth_Cons split: nat.splits)

lemma wf_members_in: "wf_members ms \<Longrightarrow> (k, v) \<in> set ms \<Longrightarrow> wf_json v"
  by (induction ms) auto

lemma wf_kids: "wf_json v \<Longrightarrow> (k, w) \<in> set (kids v) \<Longrightarrow> wf_json w"
  by (cases v) (auto simp: kids_def wf_elems_nth wf_members_in)

section \<open>Rows\<close>

lemma json_elems_fires:
  "fires_all (json_elems ex path i vs) =
     (\<Union>j < length vs. fires (json_tree ex (dec (i + j) # path) (dec (i + j)) (vs ! j)))"
proof (induction vs arbitrary: i)
  case (Cons v vs)
  show ?case
    unfolding json_elems.simps fires_all.simps Cons.IH length_Cons lessThan_Suc_eq_insert_0 by simp
qed simp

lemma json_members_fires:
  "fires_all (json_members ex path ms) = (\<Union>(k, v) \<in> set ms. fires (json_tree ex (k # path) k v))"
  by (induction ms) auto

lemma kids_rows_fires:
  "fires_all (case v of JArr vs \<Rightarrow> json_elems ex path 0 vs | JObj ms \<Rightarrow> json_members ex path ms | _ \<Rightarrow> [])
    = (\<Union>(k, w) \<in> set (kids v). fires (json_tree ex (k # path) k w))"
  by (cases v) (auto simp: json_elems_fires json_members_fires kids_def)

lemma json_elems_Nil: "json_elems ex path i vs = [] \<longleftrightarrow> vs = []"
  by (cases vs) auto

lemma json_members_Nil: "json_members ex path ms = [] \<longleftrightarrow> ms = []"
  by (cases ms) auto

lemma branch_row_fires:
  "fires (branch_row ex path name a b rows) =
     (if rows = [] then {} else insert path (if ex path then fires_all rows else {}))"
  by (auto simp: branch_row_def)

lemma json_tree_fires:
  "fires (json_tree ex path name v) =
     (if is_branch v
      then insert path (if ex path then \<Union>(k, w) \<in> set (kids v). fires (json_tree ex (k # path) k w) else {})
      else {})"
  using kids_rows_fires [where v = v and ex = ex and path = path]
  by (cases v)
    (simp_all add: branch_row_fires json_elems_Nil json_members_Nil leaf_row_def leaf_text_def
      split: option.splits)

section \<open>Mounted nodes\<close>

lemma mounted_at_append:
  "mounted_at ex v (q @ path) =
     Option.bind (mounted_at ex v path) (\<lambda>w. mounted_at (\<lambda>p. ex (p @ path)) w q)"
proof (induction q)
  case (Cons k q)
  then show ?case by (cases "mounted_at ex v path") simp_all
qed (cases "mounted_at ex v path"; simp)

definition branches_at :: "tree_state \<Rightarrow> jsval \<Rightarrow> jstr list set" where
  "branches_at ex v = {q. \<exists>w. mounted_at ex v q = Some w \<and> is_branch w}"

lemma branches_at_step:
  assumes "wf_json v"
  shows "branches_at ex v =
    (if is_branch v
     then insert [] (if ex [] then \<Union>(k, w) \<in> set (kids v). (\<lambda>q. q @ [k]) ` branches_at (\<lambda>p. ex (p @ [k])) w else {})
     else {})"
proof -
  have last: "mounted_at ex v (q @ [k]) =
      (if ex [] then Option.bind (child_at v k) (\<lambda>w. mounted_at (\<lambda>p. ex (p @ [k])) w q) else None)" for q k
    by (simp add: mounted_at_append)
  have below: "q @ [k] \<in> branches_at ex v \<longleftrightarrow>
      ex [] \<and> (\<exists>w. (k, w) \<in> set (kids v) \<and> q \<in> branches_at (\<lambda>p. ex (p @ [k])) w)" for q k
    using child_at_iff [OF assms] by (auto simp: branches_at_def last bind_eq_Some_conv)
  have here: "[] \<in> branches_at ex v \<longleftrightarrow> is_branch v" by (simp add: branches_at_def)
  show ?thesis
  proof (rule set_eqI)
    fix p
    show "p \<in> branches_at ex v \<longleftrightarrow> p \<in> (if is_branch v
     then insert [] (if ex [] then \<Union>(k, w) \<in> set (kids v). (\<lambda>q. q @ [k]) ` branches_at (\<lambda>p. ex (p @ [k])) w else {})
     else {})"
      by (cases p rule: rev_cases) (auto simp: here below is_branch_kids)
  qed
qed

lemma size_elem: "i < length vs \<Longrightarrow> size (vs ! i) < Suc (size_list size vs)"
  using size_list_estimation' [OF nth_mem order_refl, of i vs size] by simp

lemma size_member: "(k, w) \<in> set ms \<Longrightarrow> size w < Suc (size_list (size_prod (\<lambda>_. 0) size) ms)"
  by (induction ms) auto

lemma json_tree_mounted:
  "wf_json v \<Longrightarrow> fires (json_tree ex path name v) = (\<lambda>q. q @ path) ` branches_at (\<lambda>p. ex (p @ path)) v"
proof (induction v arbitrary: path name rule: measure_induct_rule [of size])
  case (less v)
  have rows: "fires (json_tree ex (k # path) k w) =
      (\<lambda>q. q @ path) ` (\<lambda>q. q @ [k]) ` branches_at (\<lambda>p. ex ((p @ [k]) @ path)) w"
    if "(k, w) \<in> set (kids v)" for k w
  proof -
    have "size w < size v"
      using that by (cases v) (auto simp: kids_def size_elem size_member)
    then show ?thesis
      using less.IH [of w "k # path" k] wf_kids [OF less.prems that] by (simp add: image_image)
  qed
  have "(\<Union>(k, w) \<in> set (kids v). fires (json_tree ex (k # path) k w)) =
      (\<lambda>q. q @ path) ` (\<Union>(k, w) \<in> set (kids v). (\<lambda>q. q @ [k]) ` branches_at (\<lambda>p. ex ((p @ [k]) @ path)) w)"
    unfolding image_UN by (rule SUP_cong) (use rows in auto)
  then show ?case
    unfolding json_tree_fires [of ex path] branches_at_step [OF less.prems, of "\<lambda>p. ex (p @ path)"]
    by simp
qed

section \<open>Properties\<close>

text \<open>
  C36. In the tree of a change the rows that can be toggled are exactly the non-empty
  objects and arrays all of whose ancestors are expanded, each under its own path.
\<close>

theorem tree_rows_are_mounted_branches:
  assumes "wf_json v"
  shows "fires (json_tree ex [] name v) = {path. \<exists>w. mounted_at ex v path = Some w \<and> is_branch w}"
  using json_tree_mounted [OF assms, of ex "[]" name] by (simp add: branches_at_def)

lemma tree_rows_are_mounted_branches_witness:
  "[js ''data''] \<in> fires (json_tree tree_init [] (js ''change_payload'') (JObj [(js ''data'', JArr [JArr [JNull]])]))
   \<and> [js ''0'', js ''data''] \<notin> fires (json_tree tree_init [] (js ''change_payload'') (JObj [(js ''data'', JArr [JArr [JNull]])]))"
  using tree_rows_are_mounted_branches
      [of "JObj [(js ''data'', JArr [JArr [JNull]])]" tree_init "js ''change_payload''"]
  by (simp add: tree_init_def)

end
