(* ===== verification/Migration_Facts.thy ===== *)
theory Migration_Facts
  imports Migration App_State
begin

text \<open>
  The rewrites of the local audits: the replacement of \<open>var\<close> against a reference that splits
  the source into words, what a rewrite leaves alone, and what it does to concrete sources.
\<close>

section \<open>Words\<close>

text \<open>The maximal runs of word characters, and the other characters one by one.\<close>

fun tokens :: "jstr \<Rightarrow> jstr list" where
  "tokens [] = []"
| "tokens (c # cs) =
     (if is_word c then (c # takeWhile is_word cs) # tokens (dropWhile is_word cs) else [c] # tokens cs)"

lemma concat_tokens: "concat (tokens s) = s"
  by (induction s rule: tokens.induct) simp_all

lemma word_at_simps [simp]: "word_at (Some c) = is_word c" "\<not> word_at None"
  by (simp_all add: word_at_def)

lemma hd_opt_dropWhile: "\<not> word_at (hd_opt (dropWhile is_word cs))"
  by (induction cs) simp_all

lemma whole_word_inside:
  assumes "w \<noteq> []" "list_all is_word w" "word_at prev" "list_all is_word u"
  shows "replace_all (whole_word w) rep prev (u @ r) =
    u @ replace_all (whole_word w) rep (if u = [] then prev else Some (last u)) r"
  using assms(3,4)
proof (induction u arbitrary: prev)
  case (Cons c u)
  then have "rmatch (whole_word w) prev ((c # u) @ r) = None"
    using rmatch_whole_word [OF assms(1,2)] by simp
  then have "replace_all (whole_word w) rep prev ((c # u) @ r) =
      c # replace_all (whole_word w) rep (Some c) (u @ r)"
    by (simp add: replace_all_miss)
  with Cons show ?case by simp
qed simp

lemma whole_word_prefix:
  assumes "list_all is_word w" "starts_with (t @ r) w" "\<not> word_at (hd_opt (drop (length w) (t @ r)))"
    "list_all is_word t" "\<not> word_at (hd_opt r)"
  shows "w = t"
proof -
  obtain x where x: "t @ r = w @ x" using assms(2) by (auto simp: starts_with_iff)
  then have "\<not> word_at (hd_opt x)" using assms(3) by simp
  then have "takeWhile is_word (w @ x) = w"
    using assms(1) by (cases x) (auto simp: takeWhile_append1 takeWhile_append2 list_all_iff)
  moreover have "takeWhile is_word (t @ r) = t"
    using assms(4,5) by (cases r) (auto simp: takeWhile_append1 takeWhile_append2 list_all_iff)
  ultimately show ?thesis using x by simp
qed

lemma replace_whole_word:
  assumes w: "w \<noteq> []" "list_all is_word w" and prev: "\<not> word_at prev \<or> \<not> word_at (hd_opt s)"
  shows "replace_all (whole_word w) (\<lambda>_. new) prev s =
    concat (map (\<lambda>t. if t = w then new else t) (tokens s))"
  using prev
proof (induction s arbitrary: prev rule: tokens.induct)
  case 1
  have "rmatch (whole_word w) prev [] = None"
    using w by (cases w) (simp_all add: rmatch_whole_word)
  then show ?case by (simp add: replace_all_Nil)
next
  case (2 c cs)
  show ?case
  proof (cases "is_word c")
    case False
    have "\<not> starts_with (c # cs) w" using w False by (cases w) auto
    then have "rmatch (whole_word w) prev (c # cs) = None" by (simp add: rmatch_whole_word w)
    moreover have "[c] \<noteq> w" using w False by auto
    ultimately show ?thesis using 2 False by (simp add: replace_all_miss)
  next
    case True
    define t where "t = c # takeWhile is_word cs"
    define r where "r = dropWhile is_word cs"
    have s: "c # cs = t @ r" by (simp add: t_def r_def)
    have t: "list_all is_word t" using True by (auto simp: t_def list_all_iff dest: set_takeWhileD)
    have r: "\<not> word_at (hd_opt r)" by (simp add: r_def hd_opt_dropWhile)
    have prev: "\<not> word_at prev" using "2.prems" True by (simp add: hd_opt_def)
    note IH = "2.IH"(1) [OF True, folded r_def]
    have tokens: "tokens (c # cs) = t # tokens r" using True by (simp add: t_def r_def)
    show ?thesis
    proof (cases "t = w")
      case True
      have "rmatch (whole_word w) prev (c # cs) = Some (w, [], r)"
        unfolding s rmatch_whole_word [OF w] using True prev r by (simp add: starts_with_iff)
      then show ?thesis
        unfolding tokens using True IH w(1) r by (simp add: replace_all_hit)
    next
      case False
      have "rmatch (whole_word w) prev (c # cs) = None"
        unfolding s rmatch_whole_word [OF w] using whole_word_prefix [OF w(2) _ _ t r] False by auto
      then have "replace_all (whole_word w) (\<lambda>_. new) prev (c # cs) =
          c # replace_all (whole_word w) (\<lambda>_. new) (Some c) (takeWhile is_word cs @ r)"
        by (simp add: replace_all_miss r_def)
      also have "\<dots> = t @ replace_all (whole_word w) (\<lambda>_. new) (Some (last t)) r"
        using whole_word_inside [OF w, of "Some c" "takeWhile is_word cs"] t
        by (simp add: t_def)
      finally show ?thesis unfolding tokens using False IH r by simp
    qed
  qed
qed

lemma rewrite_typescript_tokens:
  "rewrite_typescript src = concat (map (\<lambda>t. if t = js ''var'' then js ''const'' else t) (tokens src))"
  unfolding rewrite_typescript_def js_replace_def
  by (rule replace_whole_word) (simp_all add: js_def is_word_def)

section \<open>Sources a rewrite leaves alone\<close>

lemma js_replace_absent: "\<not> js_includes s p \<Longrightarrow> js_replace (lit p) rep s = s"
  by (simp add: js_replace_def replace_all_no_match occurs_lit)

lemma occurs_starts: "occurs (lit p @ re) prev s \<Longrightarrow> js_includes s p"
  by (induction s arbitrary: prev)
    (auto simp: rmatch_lit_append split: if_splits elim: starts_with.elims)

lemma js_replace_absent_start: "\<not> js_includes s p \<Longrightarrow> js_replace (lit p @ re) rep s = s"
  by (metis js_replace_def occurs_starts replace_all_no_match)

lemma rewrite_python_absent:
  assumes "\<not> js_includes src (js ''import urllib2'')" "\<not> js_includes src (js ''print'')"
    "\<not> js_includes src (js ''xrange('')" "\<not> js_includes src (js ''unicode('')"
  shows "rewrite_python src = src"
  using assms
  by (simp add: rewrite_python_def print_quoted_def js_replace_absent js_replace_absent_start Let_def)

lemma rewrite_go_absent:
  assumes "\<not> js_includes src (js ''\"io/ioutil\"'')" "\<not> js_includes src (js ''ioutil.ReadFile'')"
  shows "rewrite_go src = src"
  using assms by (simp add: rewrite_go_def js_replace_absent Let_def)

lemma tokens_id: "w \<notin> set ts \<Longrightarrow> map (\<lambda>t. if t = w then new else t) ts = ts"
  by (induction ts) auto

lemma rewrite_typescript_absent: "js ''var'' \<notin> set (tokens src) \<Longrightarrow> rewrite_typescript src = src"
  by (simp add: rewrite_typescript_tokens tokens_id concat_tokens)

section \<open>The samples\<close>

definition python_sample :: jstr where
  "python_sample = js_lines [''import urllib2'', '''', ''def fetch():'', ''    print \"Fetching...\"'',
     ''    for i in xrange(10):'', ''        print \"Index\", i'',
     ''    return urllib2.urlopen(\"http://example.com\")'']"

lemma python_sample_loaded:
  "sourceCode (loadSample (js ''Python 2 -> Python 3: Legacy EVE-style Code Migration'') s) = python_sample"
  by (simp add: loadSample_def load_openapi_def load_source_def python_sample_def)

lemma python_sample_rewritten:
  "rewrite_python python_sample = js_lines
     [''import urllib.request'', '''', ''def fetch():'', ''    print(\"Fetching...\")'',
      ''    for i in range(10):'', ''        print(\"Index\"), i'',
      ''    return urllib2.urlopen(\"http://example.com\")'']"
  unfolding python_sample_def rewrite_python_def print_quoted_def Let_def
  by (simp add: js_eval js_replace_def replace_all.simps print_call_def)

section \<open>Properties\<close>

text \<open>
  The TypeScript rewrite works word by word: the source is cut into its maximal runs of
  word characters and its other characters, the words \<open>var\<close> become \<open>const\<close>, and every
  other piece stays as it is.
\<close>

theorem typescript_rewrite_is_wordwise:
  "rewrite_typescript src = concat (map (\<lambda>t. if t = js ''var'' then js ''const'' else t) (tokens src))
   \<and> concat (tokens src) = src"
  by (simp add: rewrite_typescript_tokens concat_tokens)

text \<open>
  A source with none of the things an audit of its language looks for is proposed
  unchanged.
\<close>

theorem clean_sources_unchanged:
  "(\<not> js_includes src (js ''import urllib2'') \<and> \<not> js_includes src (js ''print'')
      \<and> \<not> js_includes src (js ''xrange('') \<and> \<not> js_includes src (js ''unicode('')
      \<longrightarrow> rewrite_python src = src)
   \<and> (\<not> js_includes src (js ''\"io/ioutil\"'') \<and> \<not> js_includes src (js ''ioutil.ReadFile'')
      \<longrightarrow> rewrite_go src = src)
   \<and> (js ''var'' \<notin> set (tokens src) \<longrightarrow> rewrite_typescript src = src)"
  using rewrite_python_absent rewrite_go_absent rewrite_typescript_absent by blast

lemma clean_sources_unchanged_witness:
  "rewrite_python (js ''let x = 1'') = js ''let x = 1'' \<and> rewrite_go (js ''let x = 1'') = js ''let x = 1''
   \<and> rewrite_typescript (js ''let x = 1'') = js ''let x = 1''"
  using clean_sources_unchanged [of "js ''let x = 1''"] by (simp add: js_eval)

text \<open>
  What the Python audit proposes for the Python sample of the menu: the print statement
  with two arguments keeps its second argument outside the call, and the function of the
  module whose import was renamed keeps its old name.
\<close>

theorem python_sample_proposal:
  "rewrite_python (sourceCode (loadSample (js ''Python 2 -> Python 3: Legacy EVE-style Code Migration'') s)) =
     js_lines
     [''import urllib.request'', '''', ''def fetch():'', ''    print(\"Fetching...\")'',
      ''    for i in range(10):'', ''        print(\"Index\"), i'',
      ''    return urllib2.urlopen(\"http://example.com\")'']"
  unfolding python_sample_loaded by (rule python_sample_rewritten)

end
