(* ===== verification/Sample_Facts.thy ===== *)
theory Sample_Facts
  imports App_State Sandbox_Facts
begin

text \<open>
  The samples of the menu: which contracts are valid documents, which mode a sample selects,
  and what it leaves alone.
\<close>

abbreviation required_field :: jstr where
  "required_field \<equiv> js ''OpenAPI: Breaking Required Field''"

abbreviation enum_removal :: jstr where
  "enum_removal \<equiv> js ''OpenAPI: Breaking Enum Removal''"

abbreviation removed_endpoint :: jstr where
  "removed_endpoint \<equiv> js ''OpenAPI: Removed Endpoint''"

section \<open>Contracts\<close>

lemma required_field_base: "json_parse (sandboxBase (loadSample required_field s)) = None"
  by (simp add: loadSample_def load_openapi_def) (simp add: js_eval)

lemma required_field_target: "json_parse (sandboxTarget (loadSample required_field s)) = None"
  by (simp add: loadSample_def load_openapi_def) (simp add: js_eval)

lemma enum_removal_base: "\<exists>v. json_parse (sandboxBase (loadSample enum_removal s)) = Some v"
  by (simp add: loadSample_def load_openapi_def) (simp add: js_eval)

lemma enum_removal_target: "\<exists>v. json_parse (sandboxTarget (loadSample enum_removal s)) = Some v"
  by (simp add: loadSample_def load_openapi_def) (simp add: js_eval)

lemma removed_endpoint_base: "\<exists>v. json_parse (sandboxBase (loadSample removed_endpoint s)) = Some v"
  by (simp add: loadSample_def load_openapi_def) (simp add: js_eval)

lemma removed_endpoint_target: "\<exists>v. json_parse (sandboxTarget (loadSample removed_endpoint s)) = Some v"
  by (simp add: loadSample_def load_openapi_def) (simp add: js_eval)

lemma valid_object:
  "starts_with (js_trim code) (js ''{'') \<Longrightarrow>
     format (getFormatAndValidation m code) = ''JSON''
     \<and> valid (getFormatAndValidation m code) = (json_parse code \<noteq> None)"
  by (simp add: getFormatAndValidation_def Let_def)

lemma openapi_samples_start:
  "starts_with (js_trim (sandboxBase (loadSample required_field s))) (js ''{'')"
  "starts_with (js_trim (sandboxTarget (loadSample required_field s))) (js ''{'')"
  "starts_with (js_trim (sandboxBase (loadSample enum_removal s))) (js ''{'')"
  "starts_with (js_trim (sandboxTarget (loadSample enum_removal s))) (js ''{'')"
  "starts_with (js_trim (sandboxBase (loadSample removed_endpoint s))) (js ''{'')"
  "starts_with (js_trim (sandboxTarget (loadSample removed_endpoint s))) (js ''{'')"
  by (simp_all add: loadSample_def load_openapi_def) (simp_all add: js_eval)

section \<open>Properties\<close>

text \<open>
  Of the contracts of the three OpenAPI samples in the menu, in its order, the editor
  marks both of the first sample as invalid: they do not parse. The others are valid.
\<close>

theorem openapi_samples_validity:
  "map (\<lambda>n. let t = loadSample (js n) s in
        (valid (getFormatAndValidation OPENAPI (sandboxBase t)),
         valid (getFormatAndValidation OPENAPI (sandboxTarget t)))) (take 3 sample_names)
   = [(False, False), (True, True), (True, True)]"
  using enum_removal_base [of s] enum_removal_target [of s] removed_endpoint_base [of s]
    removed_endpoint_target [of s]
  by (simp add: sample_names_def Let_def valid_object openapi_samples_start required_field_base
      required_field_target)

end
