(* ===== verification/Go_Store.thy ===== *)
theory Go_Store
  imports Js_Value "HOL-Library.Sublist"
begin

text \<open>
  \<open>internal/db/db.go\<close> over the tables of \<open>migrations/001_initial_schema.sql\<close>, and the records
  of \<open>internal/models/models.go\<close>. The tables are lists of rows; each operation is one
  statement or transaction, so one that fails leaves them as they were. What PostgreSQL does
  itself is a parameter (\<open>postgres\<close>): which text is a UUID, which text a column takes, how a
  document is stored in a JSONB column, in which order rows are read. Each call gets what the
  database chooses for it: the identifier of \<open>gen_random_uuid\<close>, the time of \<open>NOW\<close>, and
  whether the database can be reached.
\<close>

section \<open>Records\<close>

record Project =
  proj_id :: jstr
  proj_name :: jstr
  proj_created :: nat

record DiffRun =
  run_id :: jstr
  run_project :: jstr
  run_commit :: "jstr option"
  row_status :: jstr
  breaking_count :: int
  dangerous_count :: int
  raw_diff_payload :: jsval
  run_created :: nat

record AuditOverride =
  over_id :: jstr
  over_run :: jstr
  over_by :: jstr
  over_note :: jstr
  over_created :: nat

record tables =
  projects :: "Project list"
  diff_runs :: "DiffRun list"
  audit_overrides :: "AuditOverride list"

definition no_tables :: tables where
  "no_tables = \<lparr>projects = [], diff_runs = [], audit_overrides = []\<rparr>"

section \<open>The database\<close>

record postgres =
  uuid_in :: "jstr \<Rightarrow> jstr option"
  text_in :: "jstr \<Rightarrow> bool"
  jsonb_in :: "jsval \<Rightarrow> jsval option"
  scan :: "DiffRun list \<Rightarrow> DiffRun list"

record call =
  fresh :: jstr
  now :: nat
  reached :: bool

datatype db_error = Unreachable | BadText | BadUuid | TooLong | OutOfRange | Duplicate | NoParent | NoRows

type_synonym 'a db = "db_error + 'a"

definition varchar :: "postgres \<Rightarrow> nat \<Rightarrow> jstr \<Rightarrow> db_error option" where
  "varchar pg n s = (if \<not> text_in pg s then Some BadText else if n < length s then Some TooLong else None)"

definition int4 :: "int \<Rightarrow> db_error option" where
  "int4 i = (if - (2 ^ 31) \<le> i \<and> i < 2 ^ 31 then None else Some OutOfRange)"

text \<open>The first error of a list of checks.\<close>

fun first_error :: "db_error option list \<Rightarrow> db_error option" where
  "first_error [] = None"
| "first_error (Some e # es) = Some e"
| "first_error (None # es) = first_error es"

definition check :: "bool \<Rightarrow> db_error \<Rightarrow> db_error option" where
  "check ok e = (if ok then None else Some e)"

section \<open>Operations\<close>

definition CreateProject :: "postgres \<Rightarrow> call \<Rightarrow> jstr \<Rightarrow> tables \<Rightarrow> (Project \<times> tables) db" where
  "CreateProject pg c name t =
     (case first_error [check (reached c) Unreachable, varchar pg 255 name,
         check (name \<notin> proj_name ` set (projects t)) Duplicate,
         check (fresh c \<notin> proj_id ` set (projects t)) Duplicate] of
        Some e \<Rightarrow> Inl e
      | None \<Rightarrow>
          (let p = \<lparr>proj_id = fresh c, proj_name = name, proj_created = now c\<rparr>
           in Inr (p, t\<lparr>projects := projects t @ [p]\<rparr>)))"

text \<open>
  \<open>InsertDiffRun\<close>: the caller's record gets the generated columns, the row the canonical
  identifier and the stored document.
\<close>

definition InsertDiffRun :: "postgres \<Rightarrow> call \<Rightarrow> DiffRun \<Rightarrow> tables \<Rightarrow> (DiffRun \<times> tables) db" where
  "InsertDiffRun pg c r t =
     (case (uuid_in pg (run_project r), jsonb_in pg (raw_diff_payload r)) of
        (None, _) \<Rightarrow> Inl (if reached c then BadUuid else Unreachable)
      | (Some pid, None) \<Rightarrow> Inl (if reached c then BadText else Unreachable)
      | (Some pid, Some doc) \<Rightarrow>
          (case first_error [check (reached c) Unreachable,
              (case run_commit r of None \<Rightarrow> None | Some s \<Rightarrow> varchar pg 40 s),
              varchar pg 20 (row_status r), int4 (breaking_count r), int4 (dangerous_count r),
              check (fresh c \<notin> run_id ` set (diff_runs t)) Duplicate,
              check (pid \<in> proj_id ` set (projects t)) NoParent] of
             Some e \<Rightarrow> Inl e
           | None \<Rightarrow>
               (let r' = r\<lparr>run_id := fresh c, run_created := now c\<rparr>;
                    row = r'\<lparr>run_project := pid, raw_diff_payload := doc\<rparr>
                in Inr (r', t\<lparr>diff_runs := diff_runs t @ [row]\<rparr>))))"

definition mark_overridden :: "jstr \<Rightarrow> DiffRun \<Rightarrow> DiffRun" where
  "mark_overridden i r = (if run_id r = i then r\<lparr>row_status := js ''OVERRIDDEN''\<rparr> else r)"

text \<open>The transaction of \<open>OverrideDiffRun\<close>: the audit record, then the status of the run.\<close>

definition OverrideDiffRun ::
  "postgres \<Rightarrow> call \<Rightarrow> AuditOverride \<Rightarrow> tables \<Rightarrow> (AuditOverride \<times> tables) db" where
  "OverrideDiffRun pg c a t =
     (case uuid_in pg (over_run a) of
        None \<Rightarrow> Inl (if reached c then BadUuid else Unreachable)
      | Some rid \<Rightarrow>
          (case first_error [check (reached c) Unreachable, varchar pg 255 (over_by a),
              check (text_in pg (over_note a)) BadText,
              check (fresh c \<notin> over_id ` set (audit_overrides t)) Duplicate,
              check (rid \<in> run_id ` set (diff_runs t)) NoParent] of
             Some e \<Rightarrow> Inl e
           | None \<Rightarrow>
               (let a' = a\<lparr>over_id := fresh c, over_created := now c\<rparr>
                in Inr (a', t\<lparr>audit_overrides := audit_overrides t @ [a'\<lparr>over_run := rid\<rparr>],
                              diff_runs := map (mark_overridden rid) (diff_runs t)\<rparr>))))"

definition effective_limit :: "int \<Rightarrow> nat" where
  "effective_limit limit = (if limit \<le> 0 \<or> 100 < limit then 50 else nat limit)"

text \<open>\<open>ORDER BY created_at DESC LIMIT\<close>: rows with the same time keep the order they are read in.\<close>

definition newest :: "nat \<Rightarrow> DiffRun list \<Rightarrow> DiffRun list" where
  "newest n rs = take n (sort_key (\<lambda>r. - int (run_created r)) rs)"

definition ListDiffRuns :: "postgres \<Rightarrow> call \<Rightarrow> jstr \<Rightarrow> int \<Rightarrow> tables \<Rightarrow> (DiffRun list) db" where
  "ListDiffRuns pg c project limit t =
     (if \<not> reached c then Inl Unreachable
      else if project = [] then Inr (newest (effective_limit limit) (scan pg (diff_runs t)))
      else (case uuid_in pg project of
              None \<Rightarrow> Inl BadUuid
            | Some pid \<Rightarrow>
                Inr (newest (effective_limit limit)
                  (scan pg (filter (\<lambda>r. run_project r = pid) (diff_runs t))))))"

definition GetDiffRun :: "postgres \<Rightarrow> call \<Rightarrow> jstr \<Rightarrow> tables \<Rightarrow> DiffRun db" where
  "GetDiffRun pg c i t =
     (if \<not> reached c then Inl Unreachable
      else (case uuid_in pg i of
              None \<Rightarrow> Inl BadUuid
            | Some rid \<Rightarrow>
                (case find (\<lambda>r. run_id r = rid) (diff_runs t) of Some r \<Rightarrow> Inr r | None \<Rightarrow> Inl NoRows)))"

definition GetAuditOverride :: "postgres \<Rightarrow> call \<Rightarrow> jstr \<Rightarrow> tables \<Rightarrow> AuditOverride db" where
  "GetAuditOverride pg c i t =
     (if \<not> reached c then Inl Unreachable
      else (case uuid_in pg i of
              None \<Rightarrow> Inl BadUuid
            | Some rid \<Rightarrow>
                (case sort_key (\<lambda>a. - int (over_created a)) (filter (\<lambda>a. over_run a = rid) (audit_overrides t)) of
                   a # as \<Rightarrow> Inr a | [] \<Rightarrow> Inl NoRows)))"

section \<open>The invariant of the tables\<close>

text \<open>
  Keys are unique and references point to rows; a run is overridden exactly when there is an
  audit record for it, and otherwise failed or passed as its counter says.
\<close>

definition tables_ok :: "tables \<Rightarrow> bool" where
  "tables_ok t \<longleftrightarrow>
     distinct (map proj_id (projects t)) \<and> distinct (map proj_name (projects t))
     \<and> distinct (map run_id (diff_runs t)) \<and> distinct (map over_id (audit_overrides t))
     \<and> run_project ` set (diff_runs t) \<subseteq> proj_id ` set (projects t)
     \<and> over_run ` set (audit_overrides t) \<subseteq> run_id ` set (diff_runs t)
     \<and> (\<forall>r \<in> set (diff_runs t).
          (if run_id r \<in> over_run ` set (audit_overrides t) then row_status r = js ''OVERRIDDEN''
           else row_status r = (if 0 < breaking_count r then js ''FAILED'' else js ''PASSED'')))"

text \<open>A run as the worker makes it.\<close>

definition judged :: "DiffRun \<Rightarrow> bool" where
  "judged r \<longleftrightarrow> row_status r = (if 0 < breaking_count r then js ''FAILED'' else js ''PASSED'')"

lemma first_error_None [simp]: "first_error (x # xs) = None \<longleftrightarrow> x = None \<and> first_error xs = None"
  by (cases x) simp_all

lemma check_simps [simp]: "check ok e = None \<longleftrightarrow> ok" "check True e = None" "check False e = Some e"
  by (simp_all add: check_def)

lemma no_tables_ok: "tables_ok no_tables"
  by (simp add: tables_ok_def no_tables_def)

lemma CreateProject_Inr:
  "CreateProject pg c name t = Inr (p, t') \<longleftrightarrow>
     reached c \<and> varchar pg 255 name = None \<and> name \<notin> proj_name ` set (projects t)
     \<and> fresh c \<notin> proj_id ` set (projects t)
     \<and> p = \<lparr>proj_id = fresh c, proj_name = name, proj_created = now c\<rparr>
     \<and> t' = t\<lparr>projects := projects t @ [p]\<rparr>"
  by (auto simp: CreateProject_def Let_def split: option.splits)

lemma create_ok: "tables_ok t \<Longrightarrow> CreateProject pg c name t = Inr (p, t') \<Longrightarrow> tables_ok t'"
  by (auto simp: tables_ok_def CreateProject_Inr)

lemma insert_ok:
  assumes "tables_ok t" "judged r" "InsertDiffRun pg c r t = Inr (r', t')"
  shows "tables_ok t'"
proof -
  from assms(3) obtain pid doc where
    pid: "pid \<in> proj_id ` set (projects t)" and new: "fresh c \<notin> run_id ` set (diff_runs t)" and
    t': "t' = t\<lparr>diff_runs := diff_runs t @ [r\<lparr>run_id := fresh c, run_created := now c,
      run_project := pid, raw_diff_payload := doc\<rparr>]\<rparr>"
    by (auto simp: InsertDiffRun_def Let_def split: option.splits)
  have "fresh c \<notin> over_run ` set (audit_overrides t)"
    using assms(1) new unfolding tables_ok_def by blast
  then show ?thesis
    using assms(1,2) pid new by (auto simp: tables_ok_def t' judged_def)
qed

lemma mark_overridden_simps [simp]:
  "run_id (mark_overridden i r) = run_id r" "run_project (mark_overridden i r) = run_project r"
  "breaking_count (mark_overridden i r) = breaking_count r"
  "row_status (mark_overridden i r) = (if run_id r = i then js ''OVERRIDDEN'' else row_status r)"
  by (simp_all add: mark_overridden_def)

lemma mark_overridden_comp [simp]: "run_id \<circ> mark_overridden i = run_id"
  "run_project \<circ> mark_overridden i = run_project"
  by (simp_all add: fun_eq_iff)

lemma override_Inr:
  assumes "OverrideDiffRun pg c a t = Inr (a', t')"
  obtains rid where "uuid_in pg (over_run a) = Some rid" "rid \<in> run_id ` set (diff_runs t)"
    "fresh c \<notin> over_id ` set (audit_overrides t)" "a' = a\<lparr>over_id := fresh c, over_created := now c\<rparr>"
    "t' = t\<lparr>audit_overrides := audit_overrides t @ [a'\<lparr>over_run := rid\<rparr>],
            diff_runs := map (mark_overridden rid) (diff_runs t)\<rparr>"
  using assms by (auto simp: OverrideDiffRun_def Let_def split: option.splits)

lemma override_ok:
  assumes "tables_ok t" "OverrideDiffRun pg c a t = Inr (a', t')"
  shows "tables_ok t'"
  using assms(2)
proof (rule override_Inr)
  fix rid
  assume rid: "rid \<in> run_id ` set (diff_runs t)" "fresh c \<notin> over_id ` set (audit_overrides t)"
    and a': "a' = a\<lparr>over_id := fresh c, over_created := now c\<rparr>"
    and t': "t' = t\<lparr>audit_overrides := audit_overrides t @ [a'\<lparr>over_run := rid\<rparr>],
            diff_runs := map (mark_overridden rid) (diff_runs t)\<rparr>"
  have "over_run ` set (audit_overrides t') = insert rid (over_run ` set (audit_overrides t))"
    by (auto simp: t')
  then show ?thesis
    using assms(1) rid unfolding tables_ok_def t' by (simp add: a' image_comp del: image_insert)
qed

section \<open>The ledger a store keeps\<close>

text \<open>
  What the rest of the server relies on, whatever the store: runs do not disappear, their status
  changes to \<open>OVERRIDDEN\<close> only, and the audit trail is only appended to.
\<close>

locale ledger_store =
  fixes statuses :: "'t \<Rightarrow> jstr \<Rightarrow> jstr option" and trail :: "'t \<Rightarrow> 'a list" and perform :: "'o \<Rightarrow> 't \<Rightarrow> 't"
  assumes keeps: "statuses t i = Some s \<Longrightarrow>
      statuses (perform x t) i = Some s \<or> statuses (perform x t) i = Some (js ''OVERRIDDEN'')"
    and appends: "prefix (trail t) (trail (perform x t))"
begin

lemma run_kept:
  "statuses t i = Some s \<Longrightarrow>
     statuses (fold perform xs t) i = Some s \<or> statuses (fold perform xs t) i = Some (js ''OVERRIDDEN'')"
proof (induction xs arbitrary: t s)
  case (Cons x xs)
  from keeps [OF Cons.prems, of x] show ?case
    using Cons.IH [of "perform x t"] by auto
qed simp

lemma overridden_for_good:
  "statuses t i = Some (js ''OVERRIDDEN'') \<Longrightarrow> statuses (fold perform xs t) i = Some (js ''OVERRIDDEN'')"
  using run_kept by blast

lemma trail_kept: "prefix (trail t) (trail (fold perform xs t))"
proof (induction xs arbitrary: t)
  case (Cons x xs)
  show ?case using appends [of t x] Cons.IH [of "perform x t"] by (auto intro: prefix_order.trans)
qed simp

end

datatype store_op =
    CreateOp call jstr
  | InsertOp call DiffRun
  | OverrideOp call AuditOverride

fun perform :: "postgres \<Rightarrow> store_op \<Rightarrow> tables \<Rightarrow> tables" where
  "perform pg (CreateOp c name) t = (case CreateProject pg c name t of Inl _ \<Rightarrow> t | Inr (_, t') \<Rightarrow> t')"
| "perform pg (InsertOp c r) t = (case InsertDiffRun pg c r t of Inl _ \<Rightarrow> t | Inr (_, t') \<Rightarrow> t')"
| "perform pg (OverrideOp c a) t = (case OverrideDiffRun pg c a t of Inl _ \<Rightarrow> t | Inr (_, t') \<Rightarrow> t')"

definition statuses :: "tables \<Rightarrow> jstr \<Rightarrow> jstr option" where
  "statuses t = map_of (map (\<lambda>r. (run_id r, row_status r)) (diff_runs t))"

lemma statuses_marked:
  "map_of (map (\<lambda>r. (run_id r, row_status r)) (map (mark_overridden k) rs)) i =
     (case map_of (map (\<lambda>r. (run_id r, row_status r)) rs) i of
        None \<Rightarrow> None | Some s \<Rightarrow> Some (if i = k then js ''OVERRIDDEN'' else s))"
  by (induction rs) auto

interpretation postgres_ledger: ledger_store statuses audit_overrides "perform pg" for pg
proof
  show "statuses (perform pg x t) i = Some s \<or> statuses (perform pg x t) i = Some (js ''OVERRIDDEN'')"
    if "statuses t i = Some s" for t i s x
  proof (cases x)
    case (CreateOp c name)
    with that show ?thesis
      by (cases "CreateProject pg c name t") (auto simp: statuses_def CreateProject_Inr)
  next
    case (InsertOp c r)
    with that show ?thesis
      by (cases "InsertDiffRun pg c r t")
        (auto simp: statuses_def InsertDiffRun_def Let_def map_add_def split: option.splits)
  next
    case (OverrideOp c a)
    with that show ?thesis
      by (cases "OverrideDiffRun pg c a t")
        (auto simp: statuses_def OverrideDiffRun_def Let_def statuses_marked split: option.splits simp del: map_map)
  qed
  show "prefix (audit_overrides t) (audit_overrides (perform pg x t))" for t x
    by (cases x) (auto simp: CreateProject_Inr InsertDiffRun_def OverrideDiffRun_def Let_def
        split: sum.splits option.splits prod.splits)
qed

end
