(* ===== verification/Go_Broker.thy ===== *)
theory Go_Broker
  imports Js_Strings "HOL-Library.Sublist"
begin

text \<open>
  \<open>internal/api/broker.go\<close>: the server's event broker. One goroutine takes events from a
  buffered channel and, holding the mutex, offers each to the clients of its project; every
  client has the goroutine of its HTTP request. The offers do not block: a client that is not
  receiving at that moment misses the event. The model interleaves the goroutines at the points
  where they lock, send and receive.
\<close>

section \<open>State\<close>

record broker_event =
  ProjectID :: jstr
  Payload :: jstr

text \<open>
  Where the goroutine of \<open>ServeHTTP\<close> is: in its \<open>select\<close>, writing a message, past its
  loop, past the removal of its channel, past closing it.
\<close>

datatype handler = Selecting | Writing jstr | Returning | ChanRemoved | ChanClosed

type_synonym client = nat

text \<open>
  \<open>held\<close> is the event \<open>listen\<close> has received and not yet got the mutex for, \<open>sending\<close>
  the event under delivery with the clients still to be visited; the mutex is held while it is
  there. The last five fields record history: the project a client asked for, what was written
  to its response, the events published, those whose delivery has begun, and how many these
  were when the client was registered.
\<close>

record broker =
  clients :: "jstr \<Rightarrow> client set option"
  notifier :: "broker_event list"
  held :: "broker_event option"
  sending :: "(broker_event \<times> client set) option"
  handlers :: "client \<Rightarrow> handler option"
  asked_for :: "client \<Rightarrow> jstr"
  responded :: "client \<Rightarrow> jstr list"
  published :: "broker_event list"
  taken :: "broker_event list"
  since :: "client \<Rightarrow> nat"

definition NewBroker :: broker where
  "NewBroker =
     \<lparr>clients = (\<lambda>_. None), notifier = [], held = None, sending = None, handlers = (\<lambda>_. None),
      asked_for = (\<lambda>_. []), responded = (\<lambda>_. []), published = [], taken = [], since = (\<lambda>_. 0)\<rparr>"

definition notifier_capacity :: nat where
  "notifier_capacity = 100"

section \<open>Operations\<close>

text \<open>The clients of a project; a missing key of a Go map is an empty map.\<close>

definition clients_of :: "broker \<Rightarrow> jstr \<Rightarrow> client set" where
  "clients_of b p = (case clients b p of None \<Rightarrow> {} | Some cs \<Rightarrow> cs)"

text \<open>\<open>ServeHTTP\<close> up to its loop, given the query parameter.\<close>

definition query_project :: "jstr \<Rightarrow> jstr" where
  "query_project q = (if q = [] then js ''default'' else q)"

definition register :: "jstr \<Rightarrow> client \<Rightarrow> broker \<Rightarrow> broker" where
  "register q c b =
     b\<lparr>clients := (clients b)(query_project q := Some (insert c (clients_of b (query_project q)))),
       handlers := (handlers b)(c := Some Selecting),
       asked_for := (asked_for b)(c := query_project q),
       since := (since b)(c := length (taken b))\<rparr>"

text \<open>The deferred function: the removal under the mutex.\<close>

definition unregister :: "client \<Rightarrow> broker \<Rightarrow> broker" where
  "unregister c b =
     (let cs = clients_of b (asked_for b c) - {c}
      in b\<lparr>clients := (clients b)(asked_for b c := (if cs = {} then None else Some cs)),
           handlers := (handlers b)(c := Some ChanRemoved)\<rparr>)"

definition set_handler :: "client \<Rightarrow> handler \<Rightarrow> broker \<Rightarrow> broker" where
  "set_handler c h b = b\<lparr>handlers := (handlers b)(c := Some h)\<rparr>"

definition notify :: "broker_event \<Rightarrow> broker \<Rightarrow> broker" where
  "notify ev b = b\<lparr>notifier := notifier b @ [ev], published := published b @ [ev]\<rparr>"

text \<open>\<open>listen\<close>: receive an event; lock and look up its clients.\<close>

definition receive_event :: "broker \<Rightarrow> broker" where
  "receive_event b =
     (case notifier b of [] \<Rightarrow> b | ev # evs \<Rightarrow> b\<lparr>notifier := evs, held := Some ev\<rparr>)"

definition begin_delivery :: "broker \<Rightarrow> broker" where
  "begin_delivery b =
     (case held b of
        None \<Rightarrow> b
      | Some ev \<Rightarrow> b\<lparr>held := None, sending := Some (ev, clients_of b (ProjectID ev)),
                    taken := taken b @ [ev]\<rparr>)"

text \<open>The inner \<open>select\<close>: a send that succeeds only when the client is receiving.\<close>

definition offer :: "client \<Rightarrow> broker \<Rightarrow> broker" where
  "offer c b =
     (case sending b of
        None \<Rightarrow> b
      | Some (ev, rest) \<Rightarrow>
          b\<lparr>sending := Some (ev, rest - {c}),
            handlers := (if handlers b c = Some Selecting
                         then (handlers b)(c := Some (Writing (Payload ev))) else handlers b)\<rparr>)"

definition unlock :: "broker \<Rightarrow> broker" where
  "unlock b = b\<lparr>sending := None\<rparr>"

text \<open>Writing the message to the response, back to the \<open>select\<close>.\<close>

definition flush :: "client \<Rightarrow> broker \<Rightarrow> broker" where
  "flush c b =
     (case handlers b c of
        Some (Writing m) \<Rightarrow>
          b\<lparr>responded := (responded b)(c := responded b c @ [m]), handlers := (handlers b)(c := Some Selecting)\<rparr>
      | _ \<Rightarrow> b)"

section \<open>Steps\<close>

datatype broker_act =
    Connect jstr client
  | Publish broker_event
  | Receive
  | Lock
  | Offer client
  | Unlock
  | Flush client
  | Hangup client
  | Unregister client
  | Close client

text \<open>What can happen: taking the mutex needs it free, sending to a full channel waits.\<close>

fun broker_can :: "broker \<Rightarrow> broker_act \<Rightarrow> bool" where
  "broker_can b (Connect q c) = (sending b = None \<and> handlers b c = None)"
| "broker_can b (Publish ev) = (length (notifier b) < notifier_capacity)"
| "broker_can b Receive = (sending b = None \<and> held b = None \<and> notifier b \<noteq> [])"
| "broker_can b Lock = (sending b = None \<and> held b \<noteq> None)"
| "broker_can b (Offer c) = (case sending b of None \<Rightarrow> False | Some (ev, rest) \<Rightarrow> c \<in> rest)"
| "broker_can b Unlock = (case sending b of None \<Rightarrow> False | Some (ev, rest) \<Rightarrow> rest = {})"
| "broker_can b (Flush c) = (case handlers b c of Some (Writing m) \<Rightarrow> True | _ \<Rightarrow> False)"
| "broker_can b (Hangup c) = (handlers b c = Some Selecting)"
| "broker_can b (Unregister c) = (sending b = None \<and> handlers b c = Some Returning)"
| "broker_can b (Close c) = (handlers b c = Some ChanRemoved)"

fun broker_do :: "broker_act \<Rightarrow> broker \<Rightarrow> broker" where
  "broker_do (Connect q c) b = register q c b"
| "broker_do (Publish ev) b = notify ev b"
| "broker_do Receive b = receive_event b"
| "broker_do Lock b = begin_delivery b"
| "broker_do (Offer c) b = offer c b"
| "broker_do Unlock b = unlock b"
| "broker_do (Flush c) b = flush c b"
| "broker_do (Hangup c) b = set_handler c Returning b"
| "broker_do (Unregister c) b = unregister c b"
| "broker_do (Close c) b = set_handler c ChanClosed b"

inductive broker_step :: "broker \<Rightarrow> broker_act \<Rightarrow> broker \<Rightarrow> bool" where
  acts: "broker_can b x \<Longrightarrow> broker_step b x (broker_do x b)"

inductive_cases broker_stepE: "broker_step b x b'"

inductive broker_reachable :: "broker \<Rightarrow> bool" where
  new: "broker_reachable NewBroker"
| stepped: "broker_reachable b \<Longrightarrow> broker_step b x b' \<Longrightarrow> broker_reachable b'"


section \<open>Invariants\<close>

definition subscribed_handler :: "handler option \<Rightarrow> bool" where
  "subscribed_handler h \<longleftrightarrow> (case h of Some Selecting \<Rightarrow> True | Some (Writing m) \<Rightarrow> True
     | Some Returning \<Rightarrow> True | _ \<Rightarrow> False)"

text \<open>The map holds exactly the clients between registration and removal, and no empty entry.\<close>

definition map_ok :: "broker \<Rightarrow> bool" where
  "map_ok b \<longleftrightarrow>
     (\<forall>p c. c \<in> clients_of b p \<longleftrightarrow> asked_for b c = p \<and> subscribed_handler (handlers b c))
     \<and> (\<forall>p. clients b p \<noteq> Some {})"

text \<open>The clients still to be visited are clients of the event's project.\<close>

definition delivery_ok :: "broker \<Rightarrow> bool" where
  "delivery_ok b \<longleftrightarrow>
     (case sending b of None \<Rightarrow> True
      | Some (ev, rest) \<Rightarrow> taken b \<noteq> [] \<and> last (taken b) = ev \<and> rest \<subseteq> clients_of b (ProjectID ev))"

definition queue_ok :: "broker \<Rightarrow> bool" where
  "queue_ok b \<longleftrightarrow>
     length (notifier b) \<le> notifier_capacity
     \<and> published b = taken b @ (case held b of None \<Rightarrow> [] | Some ev \<Rightarrow> [ev]) @ notifier b"

text \<open>What a client has got, being written included, and what it could have got.\<close>

definition got :: "broker \<Rightarrow> client \<Rightarrow> jstr list" where
  "got b c = responded b c @ (case handlers b c of Some (Writing m) \<Rightarrow> [m] | _ \<Rightarrow> [])"

definition awaits :: "broker \<Rightarrow> client \<Rightarrow> bool" where
  "awaits b c \<longleftrightarrow> (case sending b of None \<Rightarrow> False | Some (ev, rest) \<Rightarrow> c \<in> rest)"

definition due :: "broker \<Rightarrow> client \<Rightarrow> jstr list" where
  "due b c = map Payload (filter (\<lambda>ev. ProjectID ev = asked_for b c)
     (drop (since b c) (if awaits b c then butlast (taken b) else taken b)))"

definition feeds_ok :: "broker \<Rightarrow> bool" where
  "feeds_ok b \<longleftrightarrow>
     (\<forall>c. subseq (got b c) (due b c) \<and> since b c \<le> length (if awaits b c then butlast (taken b) else taken b)
        \<and> (handlers b c = None \<longrightarrow> responded b c = []))"


lemmas broker_ops = register_def unregister_def set_handler_def notify_def receive_event_def
  begin_delivery_def offer_def unlock_def flush_def

lemma subscribed_simps [simp]:
  "\<not> subscribed_handler None" "subscribed_handler (Some Selecting)" "subscribed_handler (Some (Writing m))"
  "subscribed_handler (Some Returning)" "\<not> subscribed_handler (Some ChanRemoved)"
  "\<not> subscribed_handler (Some ChanClosed)"
  by (simp_all add: subscribed_handler_def)

lemma clients_of_simps [simp]:
  "clients_of (b\<lparr>handlers := h\<rparr>) p = clients_of b p" "clients_of (b\<lparr>sending := sd\<rparr>) p = clients_of b p"
  "clients_of (b\<lparr>held := e\<rparr>) p = clients_of b p" "clients_of (b\<lparr>notifier := n\<rparr>) p = clients_of b p"
  "clients_of (b\<lparr>taken := t\<rparr>) p = clients_of b p" "clients_of (b\<lparr>responded := w\<rparr>) p = clients_of b p"
  "clients_of (b\<lparr>published := t\<rparr>) p = clients_of b p" "clients_of (b\<lparr>asked_for := j\<rparr>) p = clients_of b p"
  "clients_of (b\<lparr>since := k\<rparr>) p = clients_of b p"
  "clients_of (b\<lparr>clients := (clients b)(q := Some cs)\<rparr>) p = (if p = q then cs else clients_of b p)"
  "clients_of (b\<lparr>clients := (clients b)(q := None)\<rparr>) p = (if p = q then {} else clients_of b p)"
  by (simp_all add: clients_of_def)

lemma init_ok: "map_ok NewBroker" "delivery_ok NewBroker" "queue_ok NewBroker" "feeds_ok NewBroker"
  by (simp_all add: NewBroker_def map_ok_def delivery_ok_def queue_ok_def feeds_ok_def clients_of_def
      got_def due_def)

lemma map_ok_act:
  assumes "map_ok b" "broker_can b x" shows "map_ok (broker_do x b)"
proof (cases x)
  case (Unregister c)
  with assms show ?thesis
    by (auto simp: map_ok_def unregister_def Let_def)
next
  case (Flush c)
  with assms show ?thesis
    by (auto simp: map_ok_def flush_def split: option.splits handler.splits)
next
  case (Offer c)
  with assms show ?thesis
    by (auto simp: map_ok_def offer_def split: option.splits)
qed (use assms in \<open>auto simp: map_ok_def broker_ops split: list.splits option.splits\<close>)

lemma delivery_ok_act: "map_ok b \<Longrightarrow> delivery_ok b \<Longrightarrow> broker_can b x \<Longrightarrow> delivery_ok (broker_do x b)"
  by (cases x)
    (auto simp: delivery_ok_def broker_ops clients_of_def Let_def
      split: list.splits option.splits handler.splits if_splits)

lemma queue_ok_act: "queue_ok b \<Longrightarrow> broker_can b x \<Longrightarrow> queue_ok (broker_do x b)"
  by (cases x)
    (auto simp: queue_ok_def broker_ops Let_def split: list.splits option.splits handler.splits)

text \<open>The feed of one client, as far as its delivery has come.\<close>

definition begun :: "broker \<Rightarrow> client \<Rightarrow> broker_event list" where
  "begun b c = (if awaits b c then butlast (taken b) else taken b)"

definition feed_ok :: "broker \<Rightarrow> client \<Rightarrow> bool" where
  "feed_ok b c \<longleftrightarrow> subseq (got b c) (due b c) \<and> since b c \<le> length (begun b c)
     \<and> (handlers b c = None \<longrightarrow> responded b c = [])"

lemma feeds_ok_iff: "feeds_ok b \<longleftrightarrow> (\<forall>c. feed_ok b c)"
  by (simp add: feeds_ok_def feed_ok_def begun_def)

lemma due_begun: "due b c =
    map Payload (filter (\<lambda>ev. ProjectID ev = asked_for b c) (drop (since b c) (begun b c)))"
  by (simp add: due_def begun_def)

lemma feed_ok_same:
  assumes "feed_ok b c" "got b' c = got b c" "responded b' c = responded b c \<or> handlers b' c \<noteq> None"
    "handlers b' c = None \<longrightarrow> handlers b c = None"
    "begun b' c = begun b c" "asked_for b' c = asked_for b c" "since b' c = since b c"
  shows "feed_ok b' c"
  using assms by (auto simp: feed_ok_def due_begun)

lemma feed_ok_more:
  assumes "feed_ok b c" "got b' c = got b c @ ms" "handlers b' c = None \<longrightarrow> handlers b c = None"
    "responded b' c = responded b c"
    "begun b' c = begun b c @ [ev]" "asked_for b' c = asked_for b c" "since b' c = since b c"
    "ms = [] \<or> ms = [Payload ev] \<and> ProjectID ev = asked_for b c"
  shows "feed_ok b' c"
proof -
  have "due b' c = due b c @ (if ProjectID ev = asked_for b c then [Payload ev] else [])"
    using assms(1,5-7) by (simp add: due_begun feed_ok_def)
  moreover have "subseq (got b c @ ms) (due b c @ (if ProjectID ev = asked_for b c then [Payload ev] else []))"
    using assms(1,8) by (auto simp: feed_ok_def intro: list_emb_append_mono list_emb_append2)
  ultimately show ?thesis using assms by (simp add: feed_ok_def)
qed

lemma feeds_ok_act:
  assumes "map_ok b" "delivery_ok b" "feeds_ok b" "broker_can b x" shows "feeds_ok (broker_do x b)"
  unfolding feeds_ok_iff
proof
  fix c
  have c: "feed_ok b c" using assms(3) by (simp add: feeds_ok_iff)
  show "feed_ok (broker_do x b) c"
  proof (cases x)
    case (Connect q d)
    show ?thesis
    proof (cases "c = d")
      case True
      with c assms(4) Connect show ?thesis
        by (simp add: feed_ok_def register_def got_def due_begun begun_def awaits_def)
    qed (rule feed_ok_same [OF c], use Connect in \<open>simp_all add: register_def got_def begun_def awaits_def\<close>)
  next
    case Lock
    with assms(4) obtain ev where ev: "held b = Some ev" "sending b = None" by auto
    show ?thesis
    proof (cases "c \<in> clients_of b (ProjectID ev)")
      case True
      show ?thesis
        by (rule feed_ok_same [OF c])
          (use Lock ev True in \<open>simp_all add: begin_delivery_def got_def begun_def awaits_def\<close>)
    next
      case False
      show ?thesis
        by (rule feed_ok_more [OF c, where ms = "[]" and ev = ev])
          (use Lock ev False in \<open>simp_all add: begin_delivery_def got_def begun_def awaits_def\<close>)
    qed
  next
    case (Offer d)
    with assms(4) obtain ev rest where ev: "sending b = Some (ev, rest)" "d \<in> rest"
      by (auto split: option.splits)
    show ?thesis
    proof (cases "c = d")
      case True
      have last: "taken b = butlast (taken b) @ [ev]" and "d \<in> clients_of b (ProjectID ev)"
        using assms(2) ev by (auto simp: delivery_ok_def)
      then have "ProjectID ev = asked_for b d" using assms(1) by (auto simp: map_ok_def)
      then show ?thesis
        by (intro feed_ok_more [OF c, where ev = ev and
              ms = "if handlers b d = Some Selecting then [Payload ev] else []"])
          (use Offer ev True last in \<open>simp_all add: offer_def got_def begun_def awaits_def\<close>)
    next
      case False
      show ?thesis
        by (rule feed_ok_same [OF c])
          (use Offer ev False in \<open>simp_all add: offer_def got_def begun_def awaits_def\<close>)
    qed
  next
    case (Flush d)
    with assms(4) obtain m where "handlers b d = Some (Writing m)"
      by (auto split: option.splits handler.splits)
    with Flush show ?thesis
      by (intro feed_ok_same [OF c]) (simp_all add: flush_def got_def begun_def awaits_def)
  next
    case (Publish ev)
    show ?thesis
      by (rule feed_ok_same [OF c])
        (use Publish assms(4) in \<open>auto simp: notify_def got_def begun_def awaits_def Let_def split: list.splits option.splits\<close>)
  next
    case Receive
    show ?thesis
      by (rule feed_ok_same [OF c])
        (use Receive assms(4) in \<open>auto simp: receive_event_def got_def begun_def awaits_def Let_def split: list.splits option.splits\<close>)
  next
    case Unlock
    show ?thesis
      by (rule feed_ok_same [OF c])
        (use Unlock assms(4) in \<open>auto simp: unlock_def got_def begun_def awaits_def Let_def split: list.splits option.splits\<close>)
  next
    case (Hangup d)
    show ?thesis
      by (rule feed_ok_same [OF c])
        (use Hangup assms(4) in \<open>auto simp: set_handler_def got_def begun_def awaits_def Let_def split: list.splits option.splits\<close>)
  next
    case (Unregister d)
    show ?thesis
      by (rule feed_ok_same [OF c])
        (use Unregister assms(4) in \<open>auto simp: unregister_def got_def begun_def awaits_def Let_def split: list.splits option.splits\<close>)
  next
    case (Close d)
    show ?thesis
      by (rule feed_ok_same [OF c])
        (use Close assms(4) in \<open>auto simp: set_handler_def got_def begun_def awaits_def Let_def split: list.splits option.splits\<close>)
  qed
qed

text \<open>All of it holds in every reachable state.\<close>

lemma broker_ok:
  "broker_reachable b \<Longrightarrow> map_ok b \<and> delivery_ok b \<and> queue_ok b \<and> feeds_ok b"
proof (induction rule: broker_reachable.induct)
  case (stepped b x b')
  then show ?case
    using map_ok_act delivery_ok_act queue_ok_act feeds_ok_act by (auto elim!: broker_stepE)
qed (simp add: init_ok)

section \<open>What the broker promises\<close>

text \<open>Runs of the broker, for its examples.\<close>

fun broker_run :: "broker_act list \<Rightarrow> broker \<Rightarrow> broker option" where
  "broker_run [] b = Some b"
| "broker_run (x # xs) b = (if broker_can b x then broker_run xs (broker_do x b) else None)"

lemma broker_run_reachable:
  "broker_run xs b = Some b' \<Longrightarrow> broker_reachable b \<Longrightarrow> broker_reachable b'"
  by (induction xs arbitrary: b)
    (auto split: if_splits intro: broker_reachable.stepped broker_step.acts)

lemma broker_example_reachable:
  "broker_run xs NewBroker = Some b \<Longrightarrow> broker_reachable b"
  by (rule broker_run_reachable [OF _ broker_reachable.new])

text \<open>
  Client 0 follows the default project and client 1 another one. The first event reaches
  client 0; the second finds it still writing the first.
\<close>

definition busy_client_run :: "broker_act list" where
  "busy_client_run =
     (let ev = (\<lambda>m. \<lparr>ProjectID = js ''default'', Payload = js m\<rparr>)
      in [Connect [] 0, Connect (js ''other'') 1, Publish (ev ''one''), Publish (ev ''two''),
          Receive, Lock, Offer 0, Unlock, Receive, Lock, Offer 0, Unlock, Flush 0])"

text \<open>
  The broker isolates projects: what was written to a client are messages published for
  the project it asked for, in the order they were published.
\<close>

theorem broker_isolates_projects:
  assumes "broker_reachable b"
  shows "subseq (responded b c) (map Payload (filter (\<lambda>ev. ProjectID ev = asked_for b c) (published b)))"
proof -
  have "queue_ok b" "feed_ok b c" using broker_ok [OF assms] by (simp_all add: feeds_ok_iff)
  have "subseq (responded b c) (got b c)" by (auto simp: got_def intro: prefix_imp_subseq)
  also have "subseq (got b c) (due b c)" using \<open>feed_ok b c\<close> by (simp add: feed_ok_def)
  also have "subseq (due b c) (map Payload (filter (\<lambda>ev. ProjectID ev = asked_for b c) (taken b)))"
    unfolding due_begun begun_def
    by (intro subseq_map subseq_filter) (auto intro: subseq_order.trans simp: butlast_conv_take)
  also have "subseq \<dots> (map Payload (filter (\<lambda>ev. ProjectID ev = asked_for b c) (published b)))"
    using \<open>queue_ok b\<close> by (auto simp: queue_ok_def intro: prefix_imp_subseq)
  finally show ?thesis .
qed

theorem broker_isolates_projects_witness:
  "\<exists>b. broker_run busy_client_run NewBroker = Some b
     \<and> responded b 0 = [js ''one''] \<and> map Payload (published b) = [js ''one'', js ''two'']
     \<and> subseq (responded b 0) (map Payload (filter (\<lambda>ev. ProjectID ev = asked_for b 0) (published b)))
     \<and> responded b 1 = []"
proof -
  have "map_option (\<lambda>b. (responded b 0, map Payload (published b), responded b 1))
      (broker_run busy_client_run NewBroker) = Some ([js ''one''], [js ''one'', js ''two''], [])"
    by (simp add: busy_client_run_def broker_ops NewBroker_def clients_of_def query_project_def
        notifier_capacity_def Let_def)
  then obtain b where b: "broker_run busy_client_run NewBroker = Some b" "responded b 0 = [js ''one'']"
    "map Payload (published b) = [js ''one'', js ''two'']" "responded b 1 = []"
    by (simp only: map_option_eq_Some prod.inject) (elim exE conjE)
  show ?thesis
    by (intro exI [of _ b] conjI b broker_isolates_projects [OF broker_example_reachable [OF b(1)]])
qed

text \<open>
  C40. The broker never sends on a closed channel: whoever it offers an event to still has its
  goroutine in the loop, or past it with its channel not yet removed.
\<close>

theorem broker_never_sends_on_closed:
  assumes "broker_reachable b" and "broker_can b (Offer c)"
  shows "handlers b c \<noteq> Some ChanRemoved \<and> handlers b c \<noteq> Some ChanClosed"
proof -
  obtain ev rest where "sending b = Some (ev, rest)" "c \<in> rest"
    using assms(2) by (auto split: option.splits)
  then have "c \<in> clients_of b (ProjectID ev)"
    using broker_ok [OF assms(1)] by (auto simp: delivery_ok_def)
  then show ?thesis using broker_ok [OF assms(1)] by (auto simp: map_ok_def)
qed

theorem broker_never_sends_on_closed_witness:
  "\<exists>b. broker_run (take 6 busy_client_run) NewBroker = Some b \<and> broker_can b (Offer 0)
     \<and> handlers b 0 \<noteq> Some ChanRemoved \<and> handlers b 0 \<noteq> Some ChanClosed"
proof -
  have "map_option (\<lambda>b. broker_can b (Offer 0)) (broker_run (take 6 busy_client_run) NewBroker) = Some True"
    by (simp add: busy_client_run_def broker_ops NewBroker_def clients_of_def query_project_def
        notifier_capacity_def Let_def)
  then obtain b where b: "broker_run (take 6 busy_client_run) NewBroker = Some b" "broker_can b (Offer 0)"
    by (simp only: map_option_eq_Some) (elim exE conjE, simp only: simp_thms)
  show ?thesis
    using broker_never_sends_on_closed [OF broker_example_reachable [OF b(1)] b(2)]
    by (intro exI [of _ b] conjI b) simp_all
qed

end
