(* ===== verification/Go_Prompt.thy ===== *)
theory Go_Prompt
  imports Js_Json
begin

text \<open>
  \<open>internal/analyzer/ast.go\<close>: the analysis of a source as the server holds it, the client of the
  analysis service with its fallbacks, and the prompt it writes. A slice is \<open>None\<close> when it is
  nil, which JSON shows as \<open>null\<close>.
\<close>

section \<open>The analysis\<close>

record GoDependency =
  Name :: jstr
  IsCExt :: bool
  IsNative :: bool
  PackageHint :: jstr

record GoEntrypoint =
  Kind :: jstr
  Line :: jstr

record GoCaveat =
  Severity :: jstr
  Message :: jstr

record GoAnalysis =
  LanguageName :: jstr
  LanguageVersion :: jstr
  LanguageRuntime :: jstr
  Dependencies :: "GoDependency list option"
  Entrypoints :: "GoEntrypoint list option"
  Caveats :: "GoCaveat list option"
  FunctionCount :: int
  ClassCount :: int
  LineCount :: int
  SystemCalls :: "jstr list option"

definition zero_analysis :: GoAnalysis where
  "zero_analysis = \<lparr>LanguageName = [], LanguageVersion = [], LanguageRuntime = [], Dependencies = None,
     Entrypoints = None, Caveats = None, FunctionCount = 0, ClassCount = 0, LineCount = 0, SystemCalls = None\<rparr>"

definition plain_dependency :: "string \<Rightarrow> GoDependency" where
  "plain_dependency n = \<lparr>Name = js n, IsCExt = False, IsNative = False, PackageHint = []\<rparr>"

definition mockAnalyzeCode :: "jstr \<Rightarrow> GoAnalysis" where
  "mockAnalyzeCode code =
     (if js_includes code (js ''def fetch_data():'') then
        zero_analysis\<lparr>LanguageName := js ''Python'', LanguageVersion := js ''2.x (Legacy - Migration Required)'',
          LanguageRuntime := js ''CPython'',
          Dependencies := Some [plain_dependency ''urllib2'', (plain_dependency ''numpy'')\<lparr>IsCExt := True\<rparr>],
          Entrypoints := Some [\<lparr>Kind = js ''python_main'', Line = js ''if __name__ == \"__main__\":''\<rparr>],
          Caveats := Some
            [\<lparr>Severity = js ''WARNING'', Message = js ''Python 2.x code detected. Python 2 reached End-of-Life on January 1, 2020. PyInstaller 3.6 is the last version supporting Python 2. Consider migrating to Python 3 first.''\<rparr>,
             \<lparr>Severity = js ''WARNING'', Message = js ''C-extension dependencies detected (e.g. pandas, numpy, torch). When using PyInstaller, you MUST add --hidden-import flags for each C-extension. Nuitka may require --include-package overrides.''\<rparr>],
          FunctionCount := 1, ClassCount := 0, LineCount := 10\<rparr>
      else if js_includes code (js ''package main'') then
        zero_analysis\<lparr>LanguageName := js ''Go'', LanguageVersion := js ''1.x'',
          Dependencies := Some [plain_dependency ''fmt'', plain_dependency ''net/http''],
          Entrypoints := Some [\<lparr>Kind = js ''go_main'', Line = js ''func main() {''\<rparr>], Caveats := Some [],
          FunctionCount := 1, ClassCount := 1, LineCount := 15\<rparr>
      else if js_includes code (js ''export function start()'') then
        zero_analysis\<lparr>LanguageName := js ''TypeScript'', LanguageRuntime := js ''Node.js'',
          Dependencies := Some [plain_dependency ''express''], Entrypoints := Some [], Caveats := Some [],
          FunctionCount := 1, ClassCount := 0, LineCount := 10\<rparr>
      else zero_analysis)"

text \<open>
  \<open>AnalyzeCode\<close>: \<open>mocked\<close> is what the environment says, \<open>client\<close> whether a client could be made,
  \<open>rpc\<close> the call (a mode, a language, a source), \<open>decode\<close> the reading of its answer. The
  language of the request is left empty.
\<close>

definition AnalyzeCode ::
  "bool \<Rightarrow> bool \<Rightarrow> (jstr \<times> jstr \<times> jstr \<Rightarrow> jstr option) \<Rightarrow> (jstr \<Rightarrow> GoAnalysis option) \<Rightarrow> jstr \<Rightarrow> GoAnalysis" where
  "AnalyzeCode mocked client rpc decode src =
     (if mocked then mockAnalyzeCode src
      else if \<not> client then zero_analysis
      else (case rpc (js ''analyze'', [], src) of
              None \<Rightarrow> mockAnalyzeCode src
            | Some out \<Rightarrow> (case decode out of None \<Rightarrow> zero_analysis | Some a \<Rightarrow> a)))"

section \<open>The prompt\<close>

definition go_int :: "int \<Rightarrow> jstr" where
  "go_int i = (if i < 0 then 45 # dec (nat (- i)) else dec (nat i))"

definition items :: "'a list option \<Rightarrow> 'a list" where
  "items xs = (case xs of None \<Rightarrow> [] | Some ys \<Rightarrow> ys)"

text \<open>A warning sign and an information sign, with their variation selector.\<close>

definition warning_sign :: jstr where
  "warning_sign = [9888, 65039]"

definition info_sign :: jstr where
  "info_sign = [8505, 65039]"

definition code_item :: "jstr \<Rightarrow> jstr \<Rightarrow> jstr" where
  "code_item s rest = js ''- `'' @ s @ js ''`'' @ rest @ [10]"

definition section_of :: "'a list \<Rightarrow> jstr \<Rightarrow> ('a \<Rightarrow> jstr) \<Rightarrow> jstr" where
  "section_of xs title line = (if xs = [] then [] else title @ concat (map line xs))"

definition hidden_imports :: "jstr \<Rightarrow> GoAnalysis \<Rightarrow> jstr" where
  "hidden_imports before a =
     concat (map (\<lambda>d. before @ js ''--hidden-import='' @ Name d) (filter IsCExt (items (Dependencies a))))"

definition dockerPromptForLang :: "GoAnalysis \<Rightarrow> jstr" where
  "dockerPromptForLang a =
     (if LanguageName a = js ''Python'' then
        js ''Generate a multi-stage Dockerfile for this Python application:'' @ [10]
        @ js ''- **Stage 1 (builder):** Use python:3.11-slim. Install all dependencies via pip. If packaging to a single binary, use PyInstaller with these hidden imports:''
        @ hidden_imports ([32, 92, 10] @ js ''      '') a @ [10]
        @ js_lines [''- **Stage 2 (runtime):** Use python:3.11-alpine or distroless/python3. Copy only the compiled artifact.'',
            ''- Add a non-root USER for security.'', ''- Set PYTHONDONTWRITEBYTECODE=1 and PYTHONUNBUFFERED=1.'', '''', '''']
      else if LanguageName a = js ''Go'' then
        js_lines [''Generate a multi-stage Dockerfile for this Go application:''] @ [10]
        @ js ''- **Stage 1 (builder):** Use golang:1.23-alpine. Run: CGO_ENABLED=0 GOOS=linux go build -a -ldflags ''
        @ [39] @ js ''-extldflags \"-static\"'' @ [39] @ js '' -o /app/server ./cmd/...'' @ [10]
        @ js_lines [''- **Stage 2 (runtime):** Use scratch or alpine:latest. Copy only the compiled binary from Stage 1.'',
            ''- Add a non-root USER via addgroup/adduser in Alpine stage.'', '''', '''']
      else if LanguageName a = js ''JavaScript'' \<or> LanguageName a = js ''TypeScript'' then
        js_lines [''Generate a multi-stage Dockerfile for this Node.js application:'',
          ''- **Stage 1 (deps):** Use node:20-alpine. Run npm ci --only=production.'',
          ''- **Stage 2 (builder):** Run npm run build (for TypeScript compilation or bundling).'',
          ''- **Stage 3 (runtime):** Use node:20-alpine. Copy only node_modules and dist/. Run as non-root.'', '''', '''']
      else js_lines [''Generate an appropriate multi-stage Dockerfile for the detected language.'', '''', ''''])"

definition cliPromptForLang :: "GoAnalysis \<Rightarrow> jstr" where
  "cliPromptForLang a =
     (if LanguageName a = js ''Python'' then
        js_lines [''Generate a shell script that:'', ''1. Creates and activates a virtualenv'',
          ''2. Installs dependencies: pip install -r requirements.txt'',
          ''3. Runs PyInstaller with the correct flags:'', ''   pyinstaller --onefile'']
        @ hidden_imports [32] a
        @ js_lines ['' main.py'', ''4. Alternatively, provide the Nuitka command for higher-performance compilation.'', '''', '''']
      else if LanguageName a = js ''Go'' then
        js ''Generate a Makefile and build script that runs:'' @ [10]
        @ js ''CGO_ENABLED=0 GOOS=linux GOARCH=amd64 go build -a -trimpath -ldflags ''
        @ [39] @ js ''-w -s -extldflags \"-static\"'' @ [39] @ js '' -o ./bin/app ./cmd/...'' @ [10, 10]
        @ js_lines [''Also provide cross-compilation commands for darwin/arm64 and windows/amd64.'', '''', '''']
      else if LanguageName a = js ''JavaScript'' \<or> LanguageName a = js ''TypeScript'' then
        js_lines [''Generate an npm script and pkg command to produce a standalone binary:'',
          ''1. npm run build (compile TypeScript if needed)'',
          ''2. npx pkg . --targets node18-linux-x64,node18-macos-arm64,node18-win-x64 --output ./bin/app'', '''', '''']
      else js_lines [''Generate an appropriate local build command for the detected language.'', '''', ''''])"

definition report_section :: "GoAnalysis \<Rightarrow> jstr" where
  "report_section a =
     js_lines [''## Code Analysis Report'', '''', '''']
     @ js ''- **Language:** '' @ LanguageName a @ [10]
     @ (if LanguageVersion a \<noteq> [] then js ''- **Version:** '' @ LanguageVersion a @ [10] else [])
     @ (if LanguageRuntime a \<noteq> [] then js ''- **Runtime:** '' @ LanguageRuntime a @ [10] else [])
     @ js ''- **Lines of Code:** '' @ go_int (LineCount a) @ [10]
     @ js ''- **Functions:** '' @ go_int (FunctionCount a) @ js '' | **Classes/Structs:** '' @ go_int (ClassCount a) @ [10]
     @ section_of (items (Entrypoints a)) ([10] @ js ''**Detected Entrypoints:**'' @ [10])
         (\<lambda>p. code_item (Kind p) (js '' '' @ [8594] @ js '' `'' @ Line p @ js ''`''))
     @ section_of (items (Dependencies a)) ([10] @ js ''**Detected Dependencies:**'' @ [10])
         (\<lambda>d. code_item (Name d) (if IsCExt d then [32] @ warning_sign @ js '' **C-Extension**'' else []))
     @ section_of (items (Caveats a)) ([10] @ js ''**Packaging Caveats & Warnings:**'' @ [10])
         (\<lambda>c. [10] @ (if Severity c = js ''WARNING'' then warning_sign else info_sign) @ [32] @ Message c @ [10])
     @ section_of (items (SystemCalls a))
         ([10] @ warning_sign @ js '' **SECURITY WARNING: System Calls Detected** '' @ warning_sign @ [10]
          @ js ''The following system calls were detected and must be handled securely:'' @ [10])
         (\<lambda>c. code_item c [])"

text \<open>The four targets, each with its title and its text.\<close>

definition target_sections :: "GoAnalysis \<Rightarrow> (string \<times> jstr) list" where
  "target_sections a =
     [(''docker'', js_lines [''### 1. Multi-Stage Production Dockerfile'', '''', ''''] @ dockerPromptForLang a),
      (''cli'', js_lines [''### 2. Standalone Local Binary Build Script'', '''', ''''] @ cliPromptForLang a),
      (''github_actions'', js_lines
         [''### 3. GitHub Actions CI/CD Pipeline'', '''', ''Generate a complete `.github/workflows/build.yml` that:'',
          ''- Runs on `push` and `pull_request` to `main`'',
          ''- Sets up the correct language environment (versions as detected)'',
          ''- Installs all detected dependencies'', ''- Runs linting and tests'', ''- Builds the production artifact'',
          ''- Uploads the artifact to GitHub Releases on tagged pushes'', '''', '''']),
      (''kubernetes'', js_lines
         [''### 4. Kubernetes Deployment Spec'', '''',
          ''Generate a complete `k8s/deployment.yaml` and `k8s/service.yaml` with:'',
          ''- Appropriate resource requests and limits based on the dependency profile'',
          ''- Liveness and readiness probes'', ''- ConfigMap for environment variables'',
          ''- HorizontalPodAutoscaler configuration'', '''', ''''])]"

definition SynthesizePrompt :: "GoAnalysis \<Rightarrow> (jstr \<Rightarrow> bool) \<Rightarrow> jstr \<Rightarrow> jstr" where
  "SynthesizePrompt a targets raw =
     js_lines [''# TM3L Deterministic Build System Prompt'', '''', '''']
     @ js ''> **This prompt was deterministically generated by the TM3L AST Static Analyzer. Do NOT skip any instructions below ''
     @ [8212] @ js_lines ['' they are derived from deep code inspection.**'', '''', '''']
     @ report_section a
     @ js_lines ['''', ''---'', '''', ''## Your Directives'', '''', '''']
     @ js ''You are an Expert Build Engineer and DevOps Architect. Based on the analysis above, ''
     @ js ''generate the exact build artifacts requested below. Follow every caveat listed above. ''
     @ js ''Do not generate generic templates '' @ [8212]
     @ js_lines ['' tailor every command and configuration specifically to the dependencies and language version detected.'', '''', '''']
     @ concat (map snd (filter (\<lambda>t. targets (js (fst t))) (target_sections a)))
     @ js_lines ['''', ''---'', '''', ''## Source Code to Compile'', '''', ''```'', '''']
     @ raw @ js_lines ['''', ''```'', '''']"

section \<open>The analysis as JSON\<close>

definition filled :: "string \<Rightarrow> jstr \<Rightarrow> (jstr \<times> jsval) list" where
  "filled k s = (if s = [] then [] else [(js k, JStr s)])"

definition slice_json :: "('a \<Rightarrow> jsval) \<Rightarrow> 'a list option \<Rightarrow> jsval" where
  "slice_json f xs = (case xs of None \<Rightarrow> JNull | Some ys \<Rightarrow> JArr (map f ys))"

definition go_dependency_json :: "GoDependency \<Rightarrow> jsval" where
  "go_dependency_json d = JObj ([(js ''name'', JStr (Name d))]
     @ (if IsCExt d then [(js ''is_c_extension'', JBool True)] else [])
     @ (if IsNative d then [(js ''is_native'', JBool True)] else [])
     @ filled ''package_hint'' (PackageHint d))"

definition go_entrypoint_json :: "GoEntrypoint \<Rightarrow> jsval" where
  "go_entrypoint_json p = JObj ([(js ''kind'', JStr (Kind p))] @ filled ''line'' (Line p))"

definition go_caveat_json :: "GoCaveat \<Rightarrow> jsval" where
  "go_caveat_json c = JObj [(js ''severity'', JStr (Severity c)), (js ''message'', JStr (Message c))]"

definition go_analysis_json :: "GoAnalysis \<Rightarrow> jsval" where
  "go_analysis_json a = JObj
     [(js ''language'', JObj ([(js ''name'', JStr (LanguageName a))]
         @ filled ''version'' (LanguageVersion a) @ filled ''runtime'' (LanguageRuntime a))),
      (js ''dependencies'', slice_json go_dependency_json (Dependencies a)),
      (js ''entrypoints'', slice_json go_entrypoint_json (Entrypoints a)),
      (js ''caveats'', slice_json go_caveat_json (Caveats a)),
      (js ''function_count'', int_json (FunctionCount a)), (js ''class_count'', int_json (ClassCount a)),
      (js ''line_count'', int_json (LineCount a)), (js ''system_calls'', slice_json JStr (SystemCalls a))]"

end
