(* ===== verification/Go_Server.thy ===== *)
theory Go_Server
  imports Go_Store Go_Broker Go_Prompt
begin

text \<open>
  \<open>internal/api\<close>: the handlers of \<open>handlers.go\<close> and \<open>webhooks.go\<close> with the checks of
  \<open>middleware.go\<close>, and the worker of \<open>worker.go\<close>. A handler is a function of what the libraries and the environment
  give it (\<open>server_env\<close>), of what its calls to the database and the cache meet, of the request
  and of the server's state; its outcome is the answer, the tables, the cache, the events it
  publishes, the jobs it queues, and the requests it makes itself. Temporary files hold their text in the job.
\<close>

section \<open>State and environment\<close>

record DiffJob =
  job_project :: jstr
  job_commit :: jstr
  base_text :: jstr
  target_text :: jstr
  job_mode :: jstr
  job_language :: jstr

record server =
  store :: tables
  hub :: broker
  queue :: "DiffJob list"
  cache :: "jstr \<Rightarrow> (nat \<times> jstr) option"

text \<open>
  \<open>encoding/json\<close> (encoding a value, decoding the string fields of a request, reading the
  counters of the engine's output, indented encoding), the times of \<open>time.Time\<close>, the messages of database errors,
  the JWT library (the claims of a token that a key makes valid at a time, signing claims), the
  hexadecimal HMAC-SHA256 of a text under a key, and the variables of the environment.
\<close>

record pull_request =
  pr_action :: jstr
  pr_repo :: jstr
  pr_sha :: jstr
  pr_comments :: jstr

record server_env =
  pg :: postgres
  encode :: "jsval \<Rightarrow> jstr"
  decode_body :: "string list \<Rightarrow> jstr \<Rightarrow> jstr + jstr list"
  read_ipc :: "jstr \<Rightarrow> (int \<times> int) option"
  rfc3339 :: "nat \<Rightarrow> jstr"
  db_message :: "db_error \<Rightarrow> jstr"
  jwt_parse :: "jstr \<Rightarrow> nat \<Rightarrow> jstr \<Rightarrow> jsval option"
  jwt_sign :: "jstr \<Rightarrow> jsval \<Rightarrow> jstr option"
  hmac_sha256 :: "jstr \<Rightarrow> jstr \<Rightarrow> jstr"
  getenv :: "string \<Rightarrow> jstr"
  grpc_client :: bool
  decode_analysis :: "jstr \<Rightarrow> GoAnalysis option"
  decode_prompt :: "jstr \<Rightarrow> jstr + jstr \<times> (jstr \<Rightarrow> bool)"
  decode_pull :: "jstr \<Rightarrow> pull_request option"
  encode_indent :: "jsval \<Rightarrow> jstr"
  valid_url :: "jstr \<Rightarrow> bool"

text \<open>Variables of the environment, with the values taken when they are not set.\<close>

definition getenv_or :: "server_env \<Rightarrow> string \<Rightarrow> string \<Rightarrow> jstr" where
  "getenv_or e k d = (if getenv e k = [] then js d else getenv e k)"

definition JWTSecret :: "server_env \<Rightarrow> jstr" where
  "JWTSecret e = getenv_or e ''TM3L_JWT_SECRET'' ''super-secret-default-key''"

definition ci_token :: "server_env \<Rightarrow> jstr" where
  "ci_token e = getenv_or e ''TM3L_CI_TOKEN'' ''secret-ci-token''"

definition admin_password :: "server_env \<Rightarrow> jstr" where
  "admin_password e = getenv_or e ''ADMIN_PASSWORD'' ''admin''"

definition webhook_address :: "server_env \<Rightarrow> jstr" where
  "webhook_address e = getenv_or e ''WEBHOOK_URL'' ''http://localhost:8080/mock-webhook''"

definition mock_analyzer :: "server_env \<Rightarrow> bool" where
  "mock_analyzer e \<longleftrightarrow> getenv e ''GO_ENV'' = js ''test'' \<or> getenv e ''MOCK_ANALYZER'' = js ''1''"

text \<open>The \<open>sub\<close> claim of a token that is valid at a time; \<open>JUndef\<close> when it has none.\<close>

definition jwt_sub :: "server_env \<Rightarrow> nat \<Rightarrow> jstr \<Rightarrow> jsval option" where
  "jwt_sub e t tok = map_option (\<lambda>claims. opt_get claims (js ''sub'')) (jwt_parse e (JWTSecret e) t tok)"

definition login_claims :: "nat \<Rightarrow> jsval" where
  "login_claims t = JObj [(js ''exp'', int_json (int ((t + 24 * 3600 * 1000000) div 1000000))),
     (js ''sub'', JStr (js ''admin''))]"

text \<open>
  What the calls of one request meet: the database twice, Redis, temporary files, the analysis
  service, and the Git provider, of which a \<open>GET\<close> gives a body when its status is 200, and a
  \<open>POST\<close> whether there was an answer; an address that cannot be requested has none.
\<close>

record calls =
  db_call :: call
  db_call2 :: call
  redis_up :: bool
  temp_ok :: bool
  analyzer :: "jstr \<times> jstr \<times> jstr \<Rightarrow> jstr option"
  git_get :: "jstr \<Rightarrow> jstr \<Rightarrow> jstr option"
  git_post :: "jstr \<Rightarrow> jstr \<Rightarrow> jstr \<Rightarrow> bool"

record http =
  code :: nat
  body_text :: jstr
  set_cookie :: "jstr option"

text \<open>
  A request to a Git provider: the address and the token it carries, and a body to post; and the
  notification of an override: the address, the event and its signature.
\<close>

datatype out_request = GitGet jstr jstr | GitPost jstr jstr jstr | HookPost jstr jstr jstr

record outcome =
  answer :: http
  stored :: tables
  cached :: "jstr \<Rightarrow> (nat \<times> jstr) option"
  emitted :: "broker_event list"
  enqueued :: "DiffJob list"
  outgoing :: "out_request list"

text \<open>\<open>JobQueue\<close> holds a hundred jobs, and five workers take them: \<open>queue\<close> starts with the jobs under way.\<close>

definition job_capacity :: nat where
  "job_capacity = 100"

definition workers :: nat where
  "workers = 5"

definition server_init :: server where
  "server_init = \<lparr>store = no_tables, hub = NewBroker, queue = [], cache = (\<lambda>_. None)\<rparr>"

definition nothing_but :: "http \<Rightarrow> server \<Rightarrow> outcome" where
  "nothing_but h s = \<lparr>answer = h, stored = store s, cached = cache s, emitted = [], enqueued = [],
     outgoing = []\<rparr>"

text \<open>\<open>http.Error\<close> ends the message with a line feed, as the JSON encoder does a value.\<close>

definition http_error :: "jstr \<Rightarrow> nat \<Rightarrow> http" where
  "http_error msg c = \<lparr>code = c, body_text = msg @ [10], set_cookie = None\<rparr>"

definition http_json :: "server_env \<Rightarrow> nat \<Rightarrow> jsval \<Rightarrow> http" where
  "http_json e c v = \<lparr>code = c, body_text = encode e v @ [10], set_cookie = None\<rparr>"

section \<open>Records as JSON\<close>

definition project_json :: "server_env \<Rightarrow> Project \<Rightarrow> jsval" where
  "project_json e p = JObj [(js ''id'', JStr (proj_id p)), (js ''name'', JStr (proj_name p)),
     (js ''created_at'', JStr (rfc3339 e (proj_created p)))]"

definition commit_json :: "jstr option \<Rightarrow> (jstr \<times> jsval) list" where
  "commit_json c = (case c of None \<Rightarrow> [] | Some s \<Rightarrow> [(js ''commit_sha'', JStr s)])"

definition run_json :: "server_env \<Rightarrow> DiffRun \<Rightarrow> jsval" where
  "run_json e r = JObj ([(js ''id'', JStr (run_id r)), (js ''project_id'', JStr (run_project r))]
     @ commit_json (run_commit r)
     @ [(js ''status'', JStr (row_status r)), (js ''breaking_count'', int_json (breaking_count r)),
        (js ''dangerous_count'', int_json (dangerous_count r)),
        (js ''raw_diff_payload'', raw_diff_payload r),
        (js ''created_at'', JStr (rfc3339 e (run_created r)))])"

definition override_json :: "server_env \<Rightarrow> AuditOverride \<Rightarrow> jsval" where
  "override_json e a = JObj [(js ''id'', JStr (over_id a)), (js ''diff_run_id'', JStr (over_run a)),
     (js ''overridden_by'', JStr (over_by a)), (js ''override_note'', JStr (over_note a)),
     (js ''created_at'', JStr (rfc3339 e (over_created a)))]"

text \<open>Maps are encoded with their keys sorted.\<close>

definition completed_event :: "server_env \<Rightarrow> DiffRun \<Rightarrow> jsval" where
  "completed_event e r = JObj [(js ''data'', run_json e r), (js ''type'', JStr (js ''diff_completed''))]"

definition created_event :: "server_env \<Rightarrow> Project \<Rightarrow> jsval" where
  "created_event e p = JObj [(js ''data'', project_json e p), (js ''type'', JStr (js ''project_created''))]"

definition overridden_event :: "server_env \<Rightarrow> jstr \<Rightarrow> jstr \<Rightarrow> jstr \<Rightarrow> nat \<Rightarrow> jsval" where
  "overridden_event e i user note t =
     JObj [(js ''diff_id'', JStr i), (js ''overridden_by'', JStr user), (js ''override_note'', JStr note),
           (js ''timestamp'', JStr (rfc3339 e t)), (js ''type'', JStr (js ''diff_overridden''))]"

section \<open>Handlers\<close>

definition handleHealthCheck :: "server \<Rightarrow> outcome" where
  "handleHealthCheck s = nothing_but \<lparr>code = 200, body_text = [], set_cookie = None\<rparr> s"

definition handleCreateProject :: "server_env \<Rightarrow> calls \<Rightarrow> jstr \<Rightarrow> server \<Rightarrow> outcome" where
  "handleCreateProject e x body s =
     (case decode_body e [''name''] body of
        Inr [name] \<Rightarrow>
          (case CreateProject (pg e) (db_call x) name (store s) of
             Inl err \<Rightarrow> nothing_but (http_error (db_message e err) 500) s
           | Inr (p, t) \<Rightarrow>
               \<lparr>answer = http_json e 201 (project_json e p), stored = t, cached = cache s,
                emitted = [\<lparr>ProjectID = proj_id p, Payload = encode e (created_event e p)\<rparr>], enqueued = [],
                outgoing = []\<rparr>)
      | Inl msg \<Rightarrow> nothing_but (http_error msg 400) s
      | _ \<Rightarrow> nothing_but (http_error [] 400) s)"

text \<open>The list is cached for a minute, in microseconds; nothing removes an entry before that.\<close>

definition cache_key :: "jstr \<Rightarrow> jstr" where
  "cache_key project = js ''diff_runs:'' @ (if project = [] then js ''all'' else project)"

definition cache_hit :: "calls \<Rightarrow> jstr \<Rightarrow> server \<Rightarrow> jstr option" where
  "cache_hit x key s =
     (if redis_up x
      then (case cache s key of
              Some (expires, v) \<Rightarrow> if now (db_call x) < expires then Some v else None
            | None \<Rightarrow> None)
      else None)"

definition handleListDiffs :: "server_env \<Rightarrow> calls \<Rightarrow> jstr \<Rightarrow> server \<Rightarrow> outcome" where
  "handleListDiffs e x project s =
     (case cache_hit x (cache_key project) s of
        Some v \<Rightarrow> nothing_but \<lparr>code = 200, body_text = v, set_cookie = None\<rparr> s
      | None \<Rightarrow>
          (case ListDiffRuns (pg e) (db_call x) project 50 (store s) of
             Inl err \<Rightarrow> nothing_but (http_error (db_message e err) 500) s
           | Inr runs \<Rightarrow>
               (let v = encode e (JArr (map (run_json e) runs))
                in (nothing_but \<lparr>code = 200, body_text = v, set_cookie = None\<rparr> s)
                     \<lparr>cached := (if redis_up x
                        then (cache s)(cache_key project \<mapsto> (now (db_call x) + 60 * 1000000, v))
                        else cache s)\<rparr>)))"

definition handleGetDiff :: "server_env \<Rightarrow> calls \<Rightarrow> jstr \<Rightarrow> server \<Rightarrow> outcome" where
  "handleGetDiff e x i s =
     (case GetDiffRun (pg e) (db_call x) i (store s) of
        Inl err \<Rightarrow> nothing_but (http_error (js ''diff not found'') 404) s
      | Inr r \<Rightarrow>
          nothing_but (http_json e 200 (JObj [(js ''diff'', run_json e r),
            (js ''override'', case GetAuditOverride (pg e) (db_call2 x) i (store s) of
               Inl err \<Rightarrow> JNull | Inr a \<Rightarrow> override_json e a)])) s)"

definition handleLogin :: "server_env \<Rightarrow> calls \<Rightarrow> jstr \<Rightarrow> server \<Rightarrow> outcome" where
  "handleLogin e x body s =
     (case decode_body e [''password''] body of
        Inr [password] \<Rightarrow>
          if password \<noteq> admin_password e then nothing_but (http_error (js ''invalid password'') 401) s
          else (case jwt_sign e (JWTSecret e) (login_claims (now (db_call x))) of
                  None \<Rightarrow> nothing_but (http_error (js ''failed to sign token'') 500) s
                | Some tok \<Rightarrow>
                    nothing_but ((http_json e 200 (JObj [(js ''status'', JStr (js ''logged_in''))]))
                      \<lparr>set_cookie := Some tok\<rparr>) s)
      | Inl msg \<Rightarrow> nothing_but (http_error msg 400) s
      | _ \<Rightarrow> nothing_but (http_error [] 400) s)"

text \<open>The form of a contract upload; \<open>None\<close> is a body that is no multipart form.\<close>

definition form_value :: "(jstr \<times> jstr) list \<Rightarrow> string \<Rightarrow> jstr" where
  "form_value form k = (case map_of form (js k) of Some v \<Rightarrow> v | None \<Rightarrow> [])"

definition handleRunDiff :: "server_env \<Rightarrow> (jstr \<times> jstr) list option \<Rightarrow> server \<Rightarrow> outcome" where
  "handleRunDiff e form s =
     (case form of
        None \<Rightarrow> nothing_but (http_error (js ''Failed to parse multipart form'') 400) s
      | Some fs \<Rightarrow>
          if form_value fs ''project_id'' = []
          then nothing_but (http_error (js ''project_id is required'') 400) s
          else (case (map_of fs (js ''base_spec''), map_of fs (js ''target_spec'')) of
                  (None, _) \<Rightarrow> nothing_but (http_error (js ''base_spec file is required'') 400) s
                | (Some _, None) \<Rightarrow> nothing_but (http_error (js ''target_spec file is required'') 400) s
                | (Some b, Some t) \<Rightarrow>
                    (nothing_but (http_json e 202 (JObj [(js ''status'', JStr (js ''queued''))])) s)
                      \<lparr>enqueued := [\<lparr>job_project = form_value fs ''project_id'',
                         job_commit = form_value fs ''commit_sha'', base_text = b, target_text = t,
                         job_mode = [], job_language = []\<rparr>]\<rparr>))"

text \<open>\<open>dispatchWebhook\<close>: the event goes to one more address, signed.\<close>

definition dispatchWebhook :: "server_env \<Rightarrow> jstr \<Rightarrow> out_request list" where
  "dispatchWebhook e payload =
     (if \<not> valid_url e (webhook_address e) then []
      else [HookPost (webhook_address e) payload (js ''sha256='' @ hmac_sha256 e (JWTSecret e) payload)])"

definition handleOverrideDiff :: "server_env \<Rightarrow> calls \<Rightarrow> jstr \<Rightarrow> jstr \<Rightarrow> jstr \<Rightarrow> server \<Rightarrow> outcome" where
  "handleOverrideDiff e x user i body s =
     (case decode_body e [''note''] body of
        Inr [note] \<Rightarrow>
          (case OverrideDiffRun (pg e) (db_call x)
               \<lparr>over_id = [], over_run = i, over_by = user, over_note = note, over_created = 0\<rparr> (store s) of
             Inl err \<Rightarrow> nothing_but (http_error (db_message e err) 500) s
           | Inr (a, t) \<Rightarrow>
               \<lparr>answer = http_json e 200 (JObj [(js ''overridden_by'', JStr user),
                    (js ''override_id'', JStr (over_id a)), (js ''status'', JStr (js ''success''))]),
                stored = t, cached = cache s,
                emitted = [\<lparr>ProjectID = (case GetDiffRun (pg e) (db_call2 x) i t of
                               Inl err \<Rightarrow> js ''default'' | Inr r \<Rightarrow> run_project r),
                             Payload = encode e (overridden_event e i user note (now (db_call2 x)))\<rparr>],
                enqueued = [],
                outgoing = dispatchWebhook e (encode e (overridden_event e i user note (now (db_call2 x))))\<rparr>)
      | Inl msg \<Rightarrow> nothing_but (http_error msg 400) s
      | _ \<Rightarrow> nothing_but (http_error [] 400) s)"

definition or_default :: "jstr \<Rightarrow> string \<Rightarrow> jstr" where
  "or_default v d = (if v = [] then js d else v)"

definition handleCodeDiff :: "server_env \<Rightarrow> calls \<Rightarrow> jstr \<Rightarrow> server \<Rightarrow> outcome" where
  "handleCodeDiff e x body s =
     (case decode_body e [''source_code'', ''mode'', ''language''] body of
        Inr [src, mode, language] \<Rightarrow>
          if src = [] then nothing_but (http_error (js ''source_code is required'') 400) s
          else if \<not> temp_ok x then nothing_but (http_error (js ''Failed to create temp file'') 500) s
          else (nothing_but (http_json e 202 (JObj [(js ''language'', JStr (or_default language ''python'')),
                   (js ''mode'', JStr (or_default mode ''code_migration'')),
                   (js ''status'', JStr (js ''queued''))])) s)
                 \<lparr>enqueued := [\<lparr>job_project = js ''code-diff'', job_commit = js ''manual-code-diff'',
                    base_text = src, target_text = src, job_mode = or_default mode ''code_migration'',
                    job_language = or_default language ''python''\<rparr>]\<rparr>
      | Inl msg \<Rightarrow> nothing_but (http_error msg 400) s
      | _ \<Rightarrow> nothing_but (http_error [] 400) s)"

text \<open>The prompt: an analysis of the source and a text made from it; maps are encoded with their keys sorted.\<close>

definition analysis_of :: "server_env \<Rightarrow> calls \<Rightarrow> jstr \<Rightarrow> GoAnalysis" where
  "analysis_of e x = AnalyzeCode (mock_analyzer e) (grpc_client e) (analyzer x) (decode_analysis e)"

definition handleGeneratePrompt :: "server_env \<Rightarrow> calls \<Rightarrow> jstr \<Rightarrow> server \<Rightarrow> outcome" where
  "handleGeneratePrompt e x body s =
     (case decode_prompt e body of
        Inl msg \<Rightarrow> nothing_but (http_error msg 400) s
      | Inr (src, targets) \<Rightarrow>
          if src = [] then nothing_but (http_error (js ''source_code is required'') 400) s
          else nothing_but (http_json e 200 (JObj
                 [(js ''analysis'', go_analysis_json (analysis_of e x src)),
                  (js ''markdown'', JStr (SynthesizePrompt (analysis_of e x src) targets src))])) s)"

section \<open>Webhooks\<close>

text \<open>\<open>webhooks.go\<close>: a pull request is analysed and commented on.\<close>

definition git_token :: "server_env \<Rightarrow> string \<Rightarrow> jstr" where
  "git_token e provider =
     (if provider = ''Forgejo'' \<and> getenv e ''FORGEJO_TOKEN'' \<noteq> [] then getenv e ''FORGEJO_TOKEN''
      else getenv e ''GITHUB_TOKEN'')"

definition contents_url :: "pull_request \<Rightarrow> jstr" where
  "contents_url p = js ''https://api.github.com/repos/'' @ pr_repo p @ js ''/contents/main.go?ref='' @ pr_sha p"

definition sample_file :: jstr where
  "sample_file = js ''package main'' @ [10, 10] @ js ''import \"fmt\"'' @ [10, 10] @ js ''func main() {'' @ [10, 9]
     @ js ''fmt.Println(\"Hello, World!\")'' @ [10] @ js ''}'' @ [10]"

definition fetchPRFile :: "server_env \<Rightarrow> calls \<Rightarrow> string \<Rightarrow> pull_request \<Rightarrow> jstr \<times> out_request list" where
  "fetchPRFile e x provider p =
     (let token = git_token e provider; url = contents_url p
      in if token = [] \<or> \<not> valid_url e url then (sample_file, [])
         else (case git_get x url token of Some body \<Rightarrow> body | None \<Rightarrow> sample_file, [GitGet url token]))"

definition comment_body :: "server_env \<Rightarrow> string \<Rightarrow> GoAnalysis \<Rightarrow> jstr" where
  "comment_body e provider a =
     js ''## '' @ [55357, 56589] @ js '' TM3L Break Detector Analysis ('' @ js provider @ js '')'' @ [10, 10]
     @ js ''| Language | Functions | Classes | System Calls |'' @ [10] @ js ''| :--- | :--- | :--- | :--- |'' @ [10]
     @ js ''| '' @ LanguageName a @ js '' | '' @ go_int (FunctionCount a) @ js '' | '' @ go_int (ClassCount a)
     @ js '' | '' @ go_int (int (length (items (SystemCalls a)))) @ js '' |'' @ [10, 10]
     @ js ''```json'' @ [10] @ encode_indent e (go_analysis_json a) @ [10] @ js ''```''"

definition postPRComment :: "server_env \<Rightarrow> calls \<Rightarrow> string \<Rightarrow> pull_request \<Rightarrow> jstr \<Rightarrow> bool \<times> out_request list" where
  "postPRComment e x provider p comment =
     (let token = git_token e provider; url = pr_comments p;
          body = encode e (JObj [(js ''body'', JStr comment)])
      in if token = [] \<or> url = [] then (True, [])
         else if \<not> valid_url e url then (False, [])
         else (git_post x url token body, [GitPost url token body]))"

definition processPullRequestWebhook :: "server_env \<Rightarrow> calls \<Rightarrow> string \<Rightarrow> jstr \<Rightarrow> server \<Rightarrow> outcome" where
  "processPullRequestWebhook e x provider body s =
     (case decode_pull e body of
        None \<Rightarrow> nothing_but (http_error (js ''invalid payload'') 400) s
      | Some p \<Rightarrow>
          if pr_action p \<noteq> js ''opened'' \<and> pr_action p \<noteq> js ''synchronize''
          then nothing_but \<lparr>code = 200, body_text = js ''{\"status\": \"ignored\"}'', set_cookie = None\<rparr> s
          else (case fetchPRFile e x provider p of
                  (src, gets) \<Rightarrow>
                    (case postPRComment e x provider p (comment_body e provider (analysis_of e x src)) of
                       (posted, posts) \<Rightarrow>
                         (nothing_but
                            (if posted
                             then \<lparr>code = 200, body_text = js ''{\"status\": \"processed\"}'', set_cookie = None\<rparr>
                             else http_error (js ''failed to post comment'') 500) s)
                           \<lparr>outgoing := gets @ posts\<rparr>)))"

section \<open>Middleware\<close>

definition RequireAPIKey :: "server_env \<Rightarrow> jstr \<Rightarrow> (server \<Rightarrow> outcome) \<Rightarrow> server \<Rightarrow> outcome" where
  "RequireAPIKey e authorization handler s =
     (if \<not> starts_with authorization (js ''Bearer '')
      then nothing_but (http_error (js ''missing or invalid authorization header'') 401) s
      else if drop 7 authorization \<noteq> ci_token e then nothing_but (http_error (js ''invalid api key'') 401) s
      else handler s)"

definition RequireJWT :: "server_env \<Rightarrow> nat \<Rightarrow> jstr option \<Rightarrow> (jstr \<Rightarrow> server \<Rightarrow> outcome) \<Rightarrow> server \<Rightarrow> outcome" where
  "RequireJWT e t cookie handler s =
     (case cookie of
        None \<Rightarrow> nothing_but (http_error (js ''missing jwt cookie'') 401) s
      | Some tok \<Rightarrow>
          (case jwt_sub e t tok of
             None \<Rightarrow> nothing_but (http_error (js ''invalid jwt'') 401) s
           | Some sub \<Rightarrow> handler (case sub of JStr u \<Rightarrow> u | _ \<Rightarrow> js ''anonymous'') s))"

section \<open>Routes\<close>

datatype route =
    Health
  | Login jstr
  | Projects jstr
  | ListDiffs jstr
  | GetDiff jstr
  | RunDiff jstr "(jstr \<times> jstr) list option"
  | OverrideDiff "jstr option" jstr jstr
  | CodeDiff jstr
  | Prompt jstr
  | Webhook string jstr

fun routes :: "server_env \<Rightarrow> calls \<Rightarrow> route \<Rightarrow> server \<Rightarrow> outcome" where
  "routes e x Health = handleHealthCheck"
| "routes e x (Login body) = handleLogin e x body"
| "routes e x (Projects body) = handleCreateProject e x body"
| "routes e x (ListDiffs project) = handleListDiffs e x project"
| "routes e x (GetDiff i) = handleGetDiff e x i"
| "routes e x (RunDiff authorization form) = RequireAPIKey e authorization (handleRunDiff e form)"
| "routes e x (OverrideDiff cookie i body) =
     RequireJWT e (now (db_call x)) cookie (\<lambda>user. handleOverrideDiff e x user i body)"
| "routes e x (CodeDiff body) = handleCodeDiff e x body"
| "routes e x (Prompt body) = handleGeneratePrompt e x body"
| "routes e x (Webhook provider body) = processPullRequestWebhook e x provider body"

section \<open>The worker\<close>

text \<open>
  The request to the analyzer: mode, language, source. It is not made when a contract is no
  JSON document; when there is none, or it fails, the command line is tried.
\<close>

definition is_code_job :: "DiffJob \<Rightarrow> bool" where
  "is_code_job j \<longleftrightarrow> job_mode j = js ''python_migration'' \<or> job_mode j = js ''code_migration''"

definition analyze_request :: "server_env \<Rightarrow> DiffJob \<Rightarrow> (jstr \<times> jstr \<times> jstr) option" where
  "analyze_request e j =
     (if is_code_job j
      then Some (js ''code_migration'', or_default (job_language j) ''python'', target_text j)
      else (case (json_parse (base_text j), json_parse (target_text j)) of
              (Some b, Some t) \<Rightarrow>
                Some (js ''openapi'', [], encode e (JObj [(js ''base'', b), (js ''target'', t)]))
            | _ \<Rightarrow> None))"

definition runAnalysisJob ::
  "server_env \<Rightarrow> (jstr \<times> jstr \<times> jstr \<Rightarrow> jstr option) \<Rightarrow> (DiffJob \<Rightarrow> jstr option) \<Rightarrow> DiffJob \<Rightarrow> jstr option" where
  "runAnalysisJob e rpc cli j =
     (case Option.bind (analyze_request e j) rpc of Some out \<Rightarrow> Some out | None \<Rightarrow> cli j)"

definition job_run :: "DiffJob \<Rightarrow> jstr \<Rightarrow> int \<times> int \<Rightarrow> DiffRun" where
  "job_run j raw counts =
     \<lparr>run_id = [], run_project = job_project j, run_commit = Some (job_commit j),
      row_status = (if 0 < fst counts then js ''FAILED'' else js ''PASSED''),
      breaking_count = fst counts, dangerous_count = snd counts,
      raw_diff_payload = (case json_parse raw of Some v \<Rightarrow> v | None \<Rightarrow> JNull), run_created = 0\<rparr>"

definition processJob :: "server_env \<Rightarrow> call \<Rightarrow> jstr option \<Rightarrow> DiffJob \<Rightarrow> tables \<Rightarrow> tables \<times> broker_event list" where
  "processJob e c output j t =
     (case output of
        None \<Rightarrow> (t, [])
      | Some raw \<Rightarrow>
          (case read_ipc e raw of
             None \<Rightarrow> (t, [])
           | Some counts \<Rightarrow>
               (case InsertDiffRun (pg e) c (job_run j raw counts) t of
                  Inl err \<Rightarrow> (t, [])
                | Inr (r, t') \<Rightarrow>
                    (t', [\<lparr>ProjectID = run_project r, Payload = encode e (completed_event e r)\<rparr>]))))"

section \<open>Steps\<close>

datatype server_act =
    Serve calls route
  | Work nat call "jstr option"
  | Deliver broker_act

definition settle :: "outcome \<Rightarrow> server \<Rightarrow> server" where
  "settle out s = s\<lparr>store := stored out, cache := cached out, hub := fold notify (emitted out) (hub s),
     queue := queue s @ enqueued out\<rparr>"

fun server_do :: "server_env \<Rightarrow> server_act \<Rightarrow> server \<Rightarrow> server" where
  "server_do e (Serve x rt) s = settle (routes e x rt s) s"
| "server_do e (Work k c output) s =
     (if k < workers \<and> k < length (queue s)
      then (case processJob e c output (queue s ! k) (store s) of
              (t, evs) \<Rightarrow> s\<lparr>store := t, hub := fold notify evs (hub s),
                             queue := take k (queue s) @ drop (Suc k) (queue s)\<rparr>)
      else s)"
| "server_do e (Deliver b) s = s\<lparr>hub := broker_do b (hub s)\<rparr>"

text \<open>Publishing and queueing wait while the channel is full.\<close>

definition room :: "broker_event list \<Rightarrow> broker \<Rightarrow> bool" where
  "room evs b \<longleftrightarrow> length (notifier b) + length evs \<le> notifier_capacity"

fun server_can :: "server_env \<Rightarrow> server \<Rightarrow> server_act \<Rightarrow> bool" where
  "server_can e s (Serve x rt) \<longleftrightarrow>
     room (emitted (routes e x rt s)) (hub s)
     \<and> length (queue s) + length (enqueued (routes e x rt s)) \<le> job_capacity + workers"
| "server_can e s (Work k c output) \<longleftrightarrow>
     k < workers \<and> k < length (queue s) \<and> room (snd (processJob e c output (queue s ! k) (store s))) (hub s)"
| "server_can e s (Deliver b) \<longleftrightarrow> (\<forall>ev. b \<noteq> Publish ev) \<and> broker_can (hub s) b"

inductive server_step :: "server_env \<Rightarrow> server \<Rightarrow> server_act \<Rightarrow> server \<Rightarrow> bool" for e where
  acts: "server_can e s a \<Longrightarrow> server_step e s a (server_do e a s)"

inductive_cases server_stepE: "server_step e s a s'"

inductive server_reach :: "server_env \<Rightarrow> (server \<Rightarrow> server_act \<Rightarrow> bool) \<Rightarrow> server \<Rightarrow> bool" for e ok where
  start: "server_reach e ok server_init"
| stepped: "server_reach e ok s \<Longrightarrow> ok s a \<Longrightarrow> server_step e s a s' \<Longrightarrow> server_reach e ok s'"

end
