(* ===== verification/Server_Facts.thy ===== *)
theory Server_Facts
  imports Go_Server
begin

text \<open>
  What the server keeps: every step writes the tables through the operations of the store, so
  its ledger is one; the tables stay consistent; the broker only takes steps of its own; the
  jobs of code audits belong to a project that is none.
\<close>

section \<open>Writing through the store\<close>

text \<open>The operation a request performs, when it comes to that.\<close>

fun request_op :: "server_env \<Rightarrow> calls \<Rightarrow> route \<Rightarrow> store_op option" where
  "request_op e x (Projects body) =
     (case decode_body e [''name''] body of Inr [name] \<Rightarrow> Some (CreateOp (db_call x) name) | _ \<Rightarrow> None)"
| "request_op e x (OverrideDiff cookie i body) =
     (case Option.bind cookie (jwt_sub e (now (db_call x))) of
        None \<Rightarrow> None
      | Some sub \<Rightarrow>
          (case decode_body e [''note''] body of
             Inr [note] \<Rightarrow> Some (OverrideOp (db_call x) \<lparr>over_id = [], over_run = i,
               over_by = (case sub of JStr u \<Rightarrow> u | _ \<Rightarrow> js ''anonymous''), over_note = note, over_created = 0\<rparr>)
           | _ \<Rightarrow> None))"
| "request_op e x rt = None"

lemma nothing_but_stored [simp]: "stored (nothing_but h s) = store s" "emitted (nothing_but h s) = []"
  "enqueued (nothing_but h s) = []" "outgoing (nothing_but h s) = []" "answer (nothing_but h s) = h" "cached (nothing_but h s) = cache s"
  by (simp_all add: nothing_but_def)

lemmas handler_defs = handleHealthCheck_def handleCreateProject_def handleListDiffs_def handleGetDiff_def
  handleLogin_def handleRunDiff_def handleOverrideDiff_def handleCodeDiff_def handleGeneratePrompt_def
  processPullRequestWebhook_def RequireAPIKey_def RequireJWT_def

lemma routes_stored:
  "stored (routes e x rt s) = (case request_op e x rt of None \<Rightarrow> store s | Some u \<Rightarrow> perform (pg e) u (store s))"
proof (cases rt)
  case (Projects body)
  then show ?thesis
    by (auto simp: handler_defs split: sum.splits list.splits prod.splits)
next
  case (OverrideDiff cookie i body)
  then show ?thesis
    by (auto simp: handler_defs split: sum.splits list.splits prod.splits option.splits)
qed (auto simp: handler_defs Let_def split: sum.splits list.splits prod.splits option.splits)

definition job_op :: "server_env \<Rightarrow> call \<Rightarrow> jstr option \<Rightarrow> DiffJob \<Rightarrow> store_op option" where
  "job_op e c res j =
     (case res of None \<Rightarrow> None
      | Some raw \<Rightarrow> (case read_ipc e raw of None \<Rightarrow> None | Some counts \<Rightarrow> Some (InsertOp c (job_run j raw counts))))"

lemma processJob_stored:
  "fst (processJob e c res j t) = (case job_op e c res j of None \<Rightarrow> t | Some u \<Rightarrow> perform (pg e) u t)"
  by (auto simp: processJob_def job_op_def split: option.splits sum.splits prod.splits)

fun step_op :: "server_env \<Rightarrow> server \<Rightarrow> server_act \<Rightarrow> store_op option" where
  "step_op e s (Serve x rt) = request_op e x rt"
| "step_op e s (Work k c res) =
     (if k < workers \<and> k < length (queue s) then job_op e c res (queue s ! k) else None)"
| "step_op e s (Deliver b) = None"

lemma server_do_store:
  "store (server_do e a s) =
     (case step_op e s a of None \<Rightarrow> store s | Some u \<Rightarrow> perform (pg e) u (store s))"
proof (cases a)
  case (Work k c res)
  then show ?thesis
    using processJob_stored [of e c res "queue s ! k" "store s"]
    by (auto split: prod.splits option.splits)
qed (simp_all add: settle_def routes_stored)

text \<open>So the server is a ledger, whatever it does.\<close>

interpretation server_ledger: ledger_store "\<lambda>s. statuses (store s)" "\<lambda>s. audit_overrides (store s)" "server_do e" for e
proof
  show "statuses (store (server_do e a s)) i = Some st \<or> statuses (store (server_do e a s)) i = Some (js ''OVERRIDDEN'')"
    if "statuses (store s) i = Some st" for s i st a
  proof (cases "step_op e s a")
    case (Some u)
    with postgres_ledger.keeps [OF that, of "pg e" u] show ?thesis by (simp add: server_do_store)
  qed (use that in \<open>simp add: server_do_store\<close>)
  show "prefix (audit_overrides (store s)) (audit_overrides (store (server_do e a s)))" for s a
    using postgres_ledger.appends [of "store s"] by (cases "step_op e s a") (simp_all add: server_do_store)
qed

section \<open>Invariants\<close>

lemma judged_job [simp]: "judged (job_run j raw counts)"
  by (simp add: judged_def job_run_def)

lemma request_never_inserts: "request_op e x rt \<noteq> Some (InsertOp c r)"
  by (cases rt) (auto split: sum.splits list.splits option.splits)

lemma step_op_judged: "step_op e s a = Some (InsertOp c r) \<Longrightarrow> judged r"
  by (cases a) (auto simp: request_never_inserts job_op_def split: option.splits if_splits)

lemma perform_ok:
  assumes "tables_ok t" "\<And>c r. u = InsertOp c r \<Longrightarrow> judged r"
  shows "tables_ok (perform d u t)"
proof (cases u)
  case (CreateOp c name)
  with assms(1) show ?thesis
    using create_ok [of t d c name] by (cases "CreateProject d c name t") auto
next
  case (InsertOp c r)
  with assms show ?thesis
    using insert_ok [of t r d c] by (cases "InsertDiffRun d c r t") auto
next
  case (OverrideOp c a)
  with assms(1) show ?thesis
    using override_ok [of t d c a] by (cases "OverrideDiffRun d c a t") auto
qed

lemma step_tables_ok:
  assumes "tables_ok (store s)" shows "tables_ok (store (server_do e a s))"
proof (cases "step_op e s a")
  case (Some u)
  have "tables_ok (perform (pg e) u (store s))"
    using assms by (rule perform_ok) (use Some step_op_judged in blast)
  with Some show ?thesis by (simp add: server_do_store)
qed (use assms in \<open>simp add: server_do_store\<close>)

lemma server_tables_ok: "server_reach e ok s \<Longrightarrow> tables_ok (store s)"
  by (induction rule: server_reach.induct)
    (auto simp: server_init_def no_tables_ok elim!: server_stepE intro: step_tables_ok)

text \<open>The broker of the server takes its own steps only.\<close>

lemma publish_all:
  "room evs b \<Longrightarrow> broker_reachable b \<Longrightarrow> broker_reachable (fold notify evs b)"
proof (induction evs arbitrary: b)
  case (Cons ev evs)
  then have "broker_step b (Publish ev) (notify ev b)"
    using broker_step.acts [of b "Publish ev"] by (simp add: room_def)
  moreover have "room evs (notify ev b)" using Cons.prems by (simp add: room_def notify_def)
  ultimately show ?case using Cons by (auto intro: broker_reachable.stepped)
qed simp

lemma server_hub_reachable: "server_reach e ok s \<Longrightarrow> broker_reachable (hub s)"
proof (induction rule: server_reach.induct)
  case (stepped s a s')
  then have can: "server_can e s a" and s': "s' = server_do e a s" by (auto elim: server_stepE)
  show ?case
  proof (cases a)
    case (Serve x rt)
    with can stepped.IH show ?thesis by (simp add: s' settle_def publish_all)
  next
    case (Work k c res)
    with can stepped.IH show ?thesis
      by (auto simp: s' split: prod.splits intro: publish_all)
  next
    case (Deliver b)
    with can stepped.IH show ?thesis by (auto simp: s' intro: broker_reachable.stepped broker_step.acts)
  qed
qed (simp add: server_init_def broker_reachable.new)

text \<open>Jobs without a mode are contract comparisons; all others are code audits.\<close>

definition job_ok :: "DiffJob \<Rightarrow> bool" where
  "job_ok j \<longleftrightarrow> job_mode j = [] \<or> job_project j = js ''code-diff''"

lemma routes_jobs: "\<forall>j \<in> set (enqueued (routes e x rt s)). job_ok j"
  by (cases rt)
    (auto simp: handler_defs job_ok_def Let_def split: sum.splits list.splits prod.splits option.splits)

lemma server_jobs_ok: "server_reach e ok s \<Longrightarrow> \<forall>j \<in> set (queue s). job_ok j"
proof (induction rule: server_reach.induct)
  case (stepped s a s')
  then have "s' = server_do e a s" by (auto elim: server_stepE)
  then show ?case
    using stepped.IH routes_jobs
    by (cases a) (auto simp: settle_def split: prod.splits if_splits dest: in_set_takeD in_set_dropD)
qed (simp add: server_init_def)

text \<open>Runs of the server that wait nowhere.\<close>

fun server_can_all :: "server_env \<Rightarrow> server_act list \<Rightarrow> server \<Rightarrow> bool" where
  "server_can_all e [] s = True"
| "server_can_all e (a # acts) s \<longleftrightarrow> server_can e s a \<and> server_can_all e acts (server_do e a s)"

lemma server_run_reach:
  "server_reach e (\<lambda>_ _. True) s \<Longrightarrow> server_can_all e acts s \<Longrightarrow>
     server_reach e (\<lambda>_ _. True) (fold (server_do e) acts s)"
proof (induction acts arbitrary: s)
  case (Cons a acts)
  then show ?case by (auto intro: server_reach.stepped server_step.acts)
qed simp

end
