(* ===== verification/Rs_Text.thy ===== *)
theory Rs_Text
  imports Js_Strings
begin

text \<open>
  What the engine's analyzers share: the string methods of Rust they call, and the syntax trees
  of the crate \<open>tree-sitter\<close> as they see them, a kind, a text, a row, the field a node is in its
  parent, and children. How a source is parsed is left to the crate.
\<close>

section \<open>Strings\<close>

text \<open>The property \<open>White_Space\<close> of Unicode.\<close>

definition rs_space :: "nat \<Rightarrow> bool" where
  "rs_space c \<longleftrightarrow> c \<in> {9, 10, 11, 12, 13, 32, 133, 160, 5760, 8232, 8233, 8239, 8287, 12288}
     \<or> (8192 \<le> c \<and> c \<le> 8202)"

definition trim_with :: "(nat \<Rightarrow> bool) \<Rightarrow> jstr \<Rightarrow> jstr" where
  "trim_with P s = rev (dropWhile P (rev (dropWhile P s)))"

definition rs_trim :: "jstr \<Rightarrow> jstr" where
  "rs_trim = trim_with rs_space"

definition trim_matches :: "nat \<Rightarrow> jstr \<Rightarrow> jstr" where
  "trim_matches c = trim_with (\<lambda>d. d = c)"

text \<open>\<open>strip_prefix(p).unwrap_or(d)\<close> and \<open>strip_suffix(p).unwrap_or(d)\<close>.\<close>

definition without_prefix :: "jstr \<Rightarrow> jstr \<Rightarrow> jstr \<Rightarrow> jstr" where
  "without_prefix p d s = (if starts_with s p then drop (length p) s else d)"

definition ends_with :: "jstr \<Rightarrow> jstr \<Rightarrow> bool" where
  "ends_with s p = starts_with (rev s) (rev p)"

definition without_suffix :: "jstr \<Rightarrow> jstr \<Rightarrow> jstr \<Rightarrow> jstr" where
  "without_suffix p d s = (if ends_with s p then take (length s - length p) s else d)"

text \<open>\<open>replace\<close> for a pattern that is not empty: non-overlapping occurrences from the left.\<close>

function rs_replace :: "jstr \<Rightarrow> jstr \<Rightarrow> jstr \<Rightarrow> jstr" where
  "rs_replace p r s =
     (case s of [] \<Rightarrow> []
      | c # cs \<Rightarrow> if p \<noteq> [] \<and> starts_with s p then r @ rs_replace p r (drop (length p) s)
                 else c # rs_replace p r cs)"
  by pat_completeness auto
termination
  by (relation "measure (\<lambda>(p, r, s). length s)") auto

declare rs_replace.simps [simp del]

fun replace_first :: "jstr \<Rightarrow> jstr \<Rightarrow> jstr \<Rightarrow> jstr" where
  "replace_first p r [] = []"
| "replace_first p r (c # cs) =
     (if starts_with (c # cs) p then r @ drop (length p) (c # cs) else c # replace_first p r cs)"

text \<open>\<open>lines\<close>: no last empty line, and no carriage return at the end of a line.\<close>

definition chomp :: "jstr \<Rightarrow> jstr" where
  "chomp l = (if l \<noteq> [] \<and> last l = 13 then butlast l else l)"

definition rs_lines :: "jstr \<Rightarrow> jstr list" where
  "rs_lines s =
     (let ls = split_char 10 s
      in if last ls = [] then map chomp (butlast ls) else map chomp (butlast ls) @ [last ls])"

definition get_line :: "jstr \<Rightarrow> nat \<Rightarrow> jstr" where
  "get_line code n = (if n - 1 < length (rs_lines code) then rs_lines code ! (n - 1) else [])"

text \<open>\<open>splitn(2, c)\<close>.\<close>

definition split_once :: "nat \<Rightarrow> jstr \<Rightarrow> jstr \<times> jstr option" where
  "split_once c s =
     (case dropWhile (\<lambda>d. d \<noteq> c) s of [] \<Rightarrow> (s, None) | d # ds \<Rightarrow> (takeWhile (\<lambda>d. d \<noteq> c) s, Some ds))"

section \<open>Syntax trees\<close>

datatype snode = Node (node_kind: jstr) (node_text: jstr) (node_row: nat) (node_field: "jstr option")
  (children: "snode list")

definition is_kind :: "snode \<Rightarrow> string \<Rightarrow> bool" where
  "is_kind n k \<longleftrightarrow> node_kind n = js k"

definition child_by_field_name :: "snode \<Rightarrow> string \<Rightarrow> snode option" where
  "child_by_field_name n f = find (\<lambda>c. node_field c = Some (js f)) (children n)"

text \<open>A line is counted from one.\<close>

definition line_of :: "snode \<Rightarrow> nat" where
  "line_of n = node_row n + 1"

definition line_path :: "nat \<Rightarrow> jstr" where
  "line_path n = js ''line:L'' @ dec n"

text \<open>
  The analyzers visit a node, then its children in order: \<open>walk\<close> is their recursion, and
  \<open>preorder\<close> the nodes in the order they are visited.
\<close>

fun walk :: "(snode \<Rightarrow> 's \<Rightarrow> 's) \<Rightarrow> snode \<Rightarrow> 's \<Rightarrow> 's" where
  "walk visit (Node k t r f cs) s = fold (walk visit) cs (visit (Node k t r f cs) s)"

fun preorder :: "snode \<Rightarrow> snode list" where
  "preorder (Node k t r f cs) = Node k t r f cs # concat (map preorder cs)"

lemma walk_preorder: "walk visit n s = fold visit (preorder n) s"
proof (induction visit n s rule: walk.induct)
  case (1 visit k t r f cs s)
  have "fold (walk visit) cs u = fold visit (concat (map preorder cs)) u" if "\<And>c u. c \<in> set cs \<Longrightarrow> walk visit c u = fold visit (preorder c) u" for u
    using that by (induction cs arbitrary: u) simp_all
  then show ?case using 1 by simp
qed

end
