(* ===== verification/Rs_Regex.thy ===== *)
theory Rs_Regex
  imports Rs_Text Js_Regex
begin

text \<open>
  The regular expressions of the engine. Their syntax is a datatype, so that the patterns of the
  sources are values; what they match is a relation; \<open>first_match\<close> is a backtracking matcher that
  finds a match exactly when there is one. The crate that does the matching is not part of the
  repository: \<open>regex_engine\<close> is what is used of it.
\<close>

section \<open>Scalar values\<close>

text \<open>Rust's strings are sequences of scalar values: surrogate pairs count as one.\<close>

fun points :: "jstr \<Rightarrow> nat list" where
  "points [] = []"
| "points (h # s) =
     (case s of
        l # s' \<Rightarrow> if 0xD800 \<le> h \<and> h \<le> 0xDBFF \<and> 0xDC00 \<le> l \<and> l \<le> 0xDFFF
                then (0x10000 + (h - 0xD800) * 1024 + (l - 0xDC00)) # points s' else h # points s
      | [] \<Rightarrow> [h])"

definition units :: "nat \<Rightarrow> jstr" where
  "units c = (if c < 0x10000 then [c]
     else [0xD800 + (c - 0x10000) div 1024, 0xDC00 + (c - 0x10000) mod 1024])"

section \<open>Patterns\<close>

text \<open>\<open>NoCase\<close> is an ASCII capital under the flag \<open>i\<close>; the ones used have no other case variants.\<close>

datatype char_class = Is nat | NoCase nat | WordChar | DigitChar | SpaceChar

record unicode_tables =
  word_char :: "nat \<Rightarrow> bool"
  digit_char :: "nat \<Rightarrow> bool"

fun in_class :: "unicode_tables \<Rightarrow> char_class \<Rightarrow> nat \<Rightarrow> bool" where
  "in_class u (Is c) d \<longleftrightarrow> d = c"
| "in_class u (NoCase c) d \<longleftrightarrow> d = c \<or> d = c + 32"
| "in_class u WordChar d \<longleftrightarrow> word_char u d"
| "in_class u DigitChar d \<longleftrightarrow> digit_char u d"
| "in_class u SpaceChar d \<longleftrightarrow> rs_space d"

datatype rx = Eps | Class char_class | Many char_class | Seq rx rx | Alt rx rx | Group nat rx
  | WordEdge | TextStart

definition some_of :: "char_class \<Rightarrow> rx" where
  "some_of k = Seq (Class k) (Many k)"

definition seqs :: "rx list \<Rightarrow> rx" where
  "seqs rs = foldr Seq rs Eps"

definition letters :: "(nat \<Rightarrow> char_class) \<Rightarrow> string \<Rightarrow> rx" where
  "letters k w = seqs (map (\<lambda>c. Class (k c)) (js w))"

section \<open>Matching\<close>

definition word_here :: "unicode_tables \<Rightarrow> nat option \<Rightarrow> bool" where
  "word_here u c = (case c of None \<Rightarrow> False | Some d \<Rightarrow> word_char u d)"

text \<open>
  \<open>matches u r p m rest gs\<close>: \<open>r\<close> can match \<open>m\<close>, after the character \<open>p\<close> (none at the start) and
  before \<open>rest\<close>, with the captures \<open>gs\<close>.
\<close>

inductive matches ::
  "unicode_tables \<Rightarrow> rx \<Rightarrow> nat option \<Rightarrow> nat list \<Rightarrow> nat list \<Rightarrow> (nat \<times> nat list) list \<Rightarrow> bool" for u where
  eps: "matches u Eps p [] rest []"
| char: "in_class u k d \<Longrightarrow> matches u (Class k) p [d] rest []"
| many: "list_all (in_class u k) m \<Longrightarrow> matches u (Many k) p m rest []"
| seq: "matches u a p m (m' @ rest) gs \<Longrightarrow> matches u b (last_opt p m) m' rest gs'
    \<Longrightarrow> matches u (Seq a b) p (m @ m') rest (gs @ gs')"
| left: "matches u a p m rest gs \<Longrightarrow> matches u (Alt a b) p m rest gs"
| right: "matches u b p m rest gs \<Longrightarrow> matches u (Alt a b) p m rest gs"
| group: "matches u a p m rest gs \<Longrightarrow> matches u (Group n a) p m rest ((n, m) # gs)"
| edge: "word_here u p \<noteq> word_here u (hd_opt rest) \<Longrightarrow> matches u WordEdge p [] rest []"
| start: "matches u TextStart None [] rest []"

inductive_simps matches_simps [simp]:
  "matches u Eps p m rest gs"
  "matches u (Class k) p m rest gs"
  "matches u (Many k) p m rest gs"
  "matches u (Seq a b) p m rest gs"
  "matches u (Alt a b) p m rest gs"
  "matches u (Group n a) p m rest gs"
  "matches u WordEdge p m rest gs"
  "matches u TextStart p m rest gs"

text \<open>All matches at a position, in the order a backtracking matcher tries them.\<close>

primrec tries ::
  "unicode_tables \<Rightarrow> rx \<Rightarrow> nat option \<Rightarrow> nat list \<Rightarrow> (nat list \<times> nat list \<times> (nat \<times> nat list) list) list" where
  "tries u Eps = (\<lambda>p s. [([], s, [])])"
| "tries u (Class k) = (\<lambda>p s. case s of d # ds \<Rightarrow> if in_class u k d then [([d], ds, [])] else [] | [] \<Rightarrow> [])"
| "tries u (Many k) = (\<lambda>p s. map (\<lambda>n. (take n s, drop n s, []))
     (rev [0..<Suc (length (takeWhile (in_class u k) s))]))"
| "tries u (Seq a b) = (\<lambda>p s. concat (map (\<lambda>(m, r, gs).
     map (\<lambda>(m', r', gs'). (m @ m', r', gs @ gs')) (tries u b (last_opt p m) r)) (tries u a p s)))"
| "tries u (Alt a b) = (\<lambda>p s. tries u a p s @ tries u b p s)"
| "tries u (Group n a) = (\<lambda>p s. map (\<lambda>(m, r, gs). (m, r, (n, m) # gs)) (tries u a p s))"
| "tries u WordEdge = (\<lambda>p s. if word_here u p \<noteq> word_here u (hd_opt s) then [([], s, [])] else [])"
| "tries u TextStart = (\<lambda>p s. if p = None then [([], s, [])] else [])"

lemma takeWhile_prefix:
  "n \<le> length (takeWhile P s) \<longleftrightarrow> n \<le> length s \<and> list_all P (take n s)"
proof (induction s arbitrary: n)
  case (Cons c s)
  then show ?case by (cases n) auto
qed simp

lemma set_down: "x \<in> set (map f (rev [0..<Suc n])) \<longleftrightarrow> (\<exists>k\<le>n. x = f k)"
  by (auto simp: image_iff less_Suc_eq_le simp del: upt_Suc)

lemma tries_iff: "(m, rest, gs) \<in> set (tries u r p s) \<longleftrightarrow> matches u r p m rest gs \<and> s = m @ rest"
proof (induction r arbitrary: p s m rest gs)
  case (Class k)
  then show ?case by (cases s) auto
next
  case (Many k)
  have "(m, rest, gs) \<in> set (tries u (Many k) p s) \<longleftrightarrow>
      gs = [] \<and> (\<exists>n. n \<le> length (takeWhile (in_class u k) s) \<and> m = take n s \<and> rest = drop n s)"
    unfolding tries.simps set_down by auto
  also have "\<dots> \<longleftrightarrow> gs = [] \<and> list_all (in_class u k) m \<and> s = m @ rest"
  proof (intro iffI)
    assume "gs = [] \<and> (\<exists>n. n \<le> length (takeWhile (in_class u k) s) \<and> m = take n s \<and> rest = drop n s)"
    then show "gs = [] \<and> list_all (in_class u k) m \<and> s = m @ rest" by (auto simp: takeWhile_prefix)
  next
    assume "gs = [] \<and> list_all (in_class u k) m \<and> s = m @ rest"
    then have "gs = []" "length m \<le> length (takeWhile (in_class u k) s)" "m = take (length m) s" "rest = drop (length m) s"
      by (simp_all add: takeWhile_prefix)
    then show "gs = [] \<and> (\<exists>n. n \<le> length (takeWhile (in_class u k) s) \<and> m = take n s \<and> rest = drop n s)" by blast
  qed
  finally show ?case by auto
next
  case (Seq a b)
  show ?case
  proof
    assume "(m, rest, gs) \<in> set (tries u (Seq a b) p s)"
    then show "matches u (Seq a b) p m rest gs \<and> s = m @ rest" by (fastforce simp: Seq.IH)
  next
    assume "matches u (Seq a b) p m rest gs \<and> s = m @ rest"
    then obtain m1 m2 gs1 gs2 where m: "m = m1 @ m2" "gs = gs1 @ gs2" "s = m @ rest"
      and "matches u a p m1 (m2 @ rest) gs1" "matches u b (last_opt p m1) m2 rest gs2" by auto
    then have "(m1, m2 @ rest, gs1) \<in> set (tries u a p s)" "(m2, rest, gs2) \<in> set (tries u b (last_opt p m1) (m2 @ rest))"
      by (simp_all add: Seq.IH)
    then show "(m, rest, gs) \<in> set (tries u (Seq a b) p s)" unfolding m(1,2) by (auto simp: image_iff intro!: rev_bexI)
  qed
next
  case (Group n a)
  have "(m, rest, gs) \<in> set (tries u (Group n a) p s) \<longleftrightarrow> (\<exists>gs'. gs = (n, m) # gs' \<and> (m, rest, gs') \<in> set (tries u a p s))"
    by (auto simp: image_iff intro!: rev_bexI)
  then show ?case by (auto simp: Group.IH)
qed auto

text \<open>The first position with a match.\<close>

fun search ::
  "unicode_tables \<Rightarrow> rx \<Rightarrow> nat option \<Rightarrow> nat list \<Rightarrow> (nat list \<times> nat list \<times> (nat \<times> nat list) list) option" where
  "search u r p s =
     (case tries u r p s of
        x # xs \<Rightarrow> Some x
      | [] \<Rightarrow> (case s of [] \<Rightarrow> None | c # cs \<Rightarrow> search u r (Some c) cs))"

declare search.simps [simp del]

definition found_at :: "unicode_tables \<Rightarrow> rx \<Rightarrow> nat option \<Rightarrow> nat list \<Rightarrow> nat list \<Rightarrow> nat list \<Rightarrow> nat list
    \<Rightarrow> (nat \<times> nat list) list \<Rightarrow> bool" where
  "found_at u r p s pre m rest gs \<longleftrightarrow> s = pre @ m @ rest \<and> matches u r (last_opt p pre) m rest gs"

lemma search_sound: "search u r p s = Some (m, rest, gs) \<Longrightarrow> \<exists>pre. found_at u r p s pre m rest gs"
proof (induction u r p s rule: search.induct)
  case (1 u r p s)
  show ?case
  proof (cases "tries u r p s")
    case Nil
    with "1.prems" obtain c cs where s: "s = c # cs" "search u r (Some c) cs = Some (m, rest, gs)"
      by (auto simp: search.simps [of u r p s] split: list.splits)
    from "1.IH" [OF Nil s] obtain pre where "found_at u r (Some c) cs pre m rest gs" by blast
    with s(1) have "found_at u r p s (c # pre) m rest gs" by (simp add: found_at_def)
    then show ?thesis ..
  next
    case (Cons x xs)
    with "1.prems" have "(m, rest, gs) \<in> set (tries u r p s)" by (simp add: search.simps [of u r p s])
    then have "found_at u r p s [] m rest gs" by (simp add: found_at_def tries_iff)
    then show ?thesis ..
  qed
qed

lemma search_complete: "found_at u r p s pre m rest gs \<Longrightarrow> search u r p s \<noteq> None"
proof (induction u r p s arbitrary: pre rule: search.induct)
  case (1 u r p s)
  show ?case
  proof (cases "tries u r p s")
    case Nil
    show ?thesis
    proof (cases pre)
      case Nil
      with "1.prems" have "(m, rest, gs) \<in> set (tries u r p s)" by (simp add: found_at_def tries_iff)
      with \<open>tries u r p s = []\<close> show ?thesis by simp
    next
      case (Cons c pre')
      with "1.prems" have "s = c # (pre' @ m @ rest)" "found_at u r (Some c) (pre' @ m @ rest) pre' m rest gs"
        by (simp_all add: found_at_def)
      then have "search u r (Some c) (pre' @ m @ rest) \<noteq> None" using "1.IH" [OF \<open>tries u r p s = []\<close>] by blast
      then show ?thesis
        unfolding search.simps [of u r p s] \<open>tries u r p s = []\<close> by (simp add: \<open>s = c # (pre' @ m @ rest)\<close>)
    qed
  qed (simp add: search.simps [of u r p s])
qed

section \<open>The crate\<close>

text \<open>The text of a group, empty when the group takes no part in the match.\<close>

definition group_text :: "(nat \<times> nat list) list \<Rightarrow> nat \<Rightarrow> jstr" where
  "group_text gs n = (case map_of gs n of None \<Rightarrow> [] | Some t \<Rightarrow> concat (map units t))"

text \<open>What \<open>captures\<close> promises: it finds a match when there is one, and its groups are those of a match.\<close>

locale regex_engine =
  fixes u :: unicode_tables and captures :: "rx \<Rightarrow> jstr \<Rightarrow> (nat \<Rightarrow> jstr) option"
  assumes sound: "captures r s = Some g
      \<Longrightarrow> \<exists>pre m rest gs. found_at u r None (points s) pre m rest gs \<and> g = group_text gs"
    and complete: "captures r s = None \<Longrightarrow> \<not> found_at u r None (points s) pre m rest gs"
begin

lemma captures_iff: "captures r s \<noteq> None \<longleftrightarrow> (\<exists>pre m rest gs. found_at u r None (points s) pre m rest gs)"
  using sound complete by (cases "captures r s") blast+

end

definition first_match :: "unicode_tables \<Rightarrow> rx \<Rightarrow> jstr \<Rightarrow> (nat \<Rightarrow> jstr) option" where
  "first_match u r s = map_option (\<lambda>(m, rest, gs). group_text gs) (search u r None (points s))"

interpretation backtracking: regex_engine u "first_match u" for u
proof
  fix r s g
  assume "first_match u r s = Some g"
  then obtain m rest gs where "search u r None (points s) = Some (m, rest, gs)" "g = group_text gs"
    by (auto simp: first_match_def)
  then show "\<exists>pre m rest gs. found_at u r None (points s) pre m rest gs \<and> g = group_text gs"
    using search_sound by blast
next
  fix r s pre m rest gs
  assume "first_match u r s = None"
  then show "\<not> found_at u r None (points s) pre m rest gs"
    using search_complete by (fastforce simp: first_match_def)
qed

end
