(* ===== verification/Diff_Engine.thy ===== *)
theory Diff_Engine
  imports Js_Strings "HOL-Library.AList" "HOL-Library.Word"
begin

text \<open>
  \<open>engine/src/diff.rs\<close>, with \<open>models.rs\<close> and \<open>config.rs\<close>: the comparison of two OpenAPI
  documents. The documents are values of the crate \<open>openapiv3\<close>; the types below have the
  fields the comparison reads. Its \<open>IndexMap\<close>s are association lists in insertion order, as
  are the \<open>HashMap\<close>s of \<open>diff_parameters\<close>, whose order of iteration is a parameter:
  \<open>iter s m\<close> enumerates the map \<open>m\<close>, and the seed \<open>s\<close> is different for each map of a
  comparison, so that no two of them need to agree. Strings are lists of character codes, and
  counters are natural numbers: a \<open>usize\<close> holds the number of elements of a vector.
\<close>

section \<open>Results and configuration\<close>

record Change =
  severity_of :: jstr
  path_of :: jstr
  description_of :: jstr
  citation_of :: jstr
  fix_of :: jstr

record IPCResponse =
  breaking :: nat
  dangerous :: nat
  additive_of :: nat
  changes_of :: "Change list"

record TM3LConfig =
  ignore_rules :: "jstr list"
  allow_breaking_enums :: bool
  allow_type_coercion :: bool
  strict_mode :: bool
  custom_citations :: "(jstr \<times> jstr) list"

definition default_config :: TM3LConfig where
  "default_config = \<lparr>ignore_rules = [], allow_breaking_enums = False, allow_type_coercion = False,
     strict_mode = False, custom_citations = []\<rparr>"

definition ignores :: "TM3LConfig \<Rightarrow> string \<Rightarrow> bool" where
  "ignores cfg rule = (js rule \<in> set (ignore_rules cfg))"

definition cite :: "TM3LConfig \<Rightarrow> string \<Rightarrow> string \<Rightarrow> jstr" where
  "cite cfg rule fallback =
     (case map_of (custom_citations cfg) (js rule) of Some c \<Rightarrow> c | None \<Rightarrow> js fallback)"

section \<open>Documents\<close>

datatype 'a ReferenceOr = Item 'a | Reference

text \<open>The kinds of schema that are no \<open>Type\<close> are not looked into.\<close>

datatype Schema = TypeSchema SchemaType | OtherSchema
  and SchemaType =
    StringType "jstr option list"
  | NumberType
  | IntegerType
  | ObjectType "jstr list" "(jstr \<times> Schema ReferenceOr) list"
  | ArrayType
  | BooleanType

type_synonym Content = "(jstr \<times> Schema ReferenceOr option) list"

datatype ParameterKind = Query | Header | Path | Cookie

record Parameter =
  kind :: ParameterKind
  pname :: jstr
  required :: bool

datatype StatusCode = Code "16 word" | Range "16 word"

record Operation =
  parameters :: "Parameter ReferenceOr list"
  op_body :: "Content ReferenceOr option"
  responses :: "(StatusCode \<times> Content ReferenceOr) list"

record PathItem =
  op_get :: "Operation option"
  op_put :: "Operation option"
  op_post :: "Operation option"
  op_delete :: "Operation option"
  op_patch :: "Operation option"

type_synonym OpenAPI = "(jstr \<times> PathItem ReferenceOr) list"

section \<open>The tally of a comparison\<close>

text \<open>The vector of changes and the counters that are passed along.\<close>

record tally =
  found :: "Change list"
  n_breaking :: nat
  n_additive :: nat

definition report :: "Change \<Rightarrow> tally \<Rightarrow> tally" where
  "report c t = t\<lparr>found := found t @ [c], n_breaking := n_breaking t + 1\<rparr>"

definition count_severity :: "string \<Rightarrow> Change list \<Rightarrow> nat" where
  "count_severity s cs = length (filter (\<lambda>c. severity_of c = js s) cs)"

text \<open>Counting the changes of a pair of schemas, then appending them.\<close>

definition append_local :: "Change list \<Rightarrow> tally \<Rightarrow> tally" where
  "append_local cs t =
     t\<lparr>found := found t @ cs, n_breaking := n_breaking t + count_severity ''BREAKING'' cs,
       n_additive := n_additive t + count_severity ''ADDITIVE'' cs\<rparr>"

definition breaking_change :: "jstr \<Rightarrow> jstr \<Rightarrow> jstr \<Rightarrow> jstr \<Rightarrow> Change" where
  "breaking_change p d c f =
     \<lparr>severity_of = js ''BREAKING'', path_of = p, description_of = d, citation_of = c, fix_of = f\<rparr>"

definition quoted :: "jstr \<Rightarrow> jstr" where
  "quoted s = [39] @ s @ [39]"

definition dot :: "jstr \<Rightarrow> jstr \<Rightarrow> jstr" where
  "dot a b = a @ js ''.'' @ b"

section \<open>Schemas\<close>

fun type_name :: "SchemaType \<Rightarrow> string" where
  "type_name (StringType e) = ''string''"
| "type_name NumberType = ''number''"
| "type_name IntegerType = ''integer''"
| "type_name (ObjectType r ps) = ''object''"
| "type_name ArrayType = ''array''"
| "type_name BooleanType = ''boolean''"

definition type_change :: "TM3LConfig \<Rightarrow> SchemaType \<Rightarrow> SchemaType \<Rightarrow> jstr \<Rightarrow> Change list" where
  "type_change cfg b t location =
     (if type_name b \<noteq> type_name t \<and> \<not> allow_type_coercion cfg \<and> \<not> ignores cfg ''type_change''
      then [breaking_change location
              (js ''Data type changed from '' @ quoted (js (type_name b)) @ js '' to ''
                 @ quoted (js (type_name t)) @ js ''.'')
              (cite cfg ''type_change''
                 ''Changing a field's data type breaks backwards compatibility.'')
              (js ''Keep the original data type or create a new field/endpoint.'')]
      else [])"

definition enum_removal :: "TM3LConfig \<Rightarrow> jstr \<Rightarrow> jstr option \<Rightarrow> Change" where
  "enum_removal cfg location v =
     breaking_change location
       (js ''Enum value '' @ quoted (case v of Some s \<Rightarrow> s | None \<Rightarrow> js ''null'')
          @ js '' was removed.'')
       (cite cfg ''enum_removal''
          ''Removing an enum value breaks backwards compatibility for clients expecting it.'')
       (js ''Restore the enum value.'')"

fun enum_changes :: "TM3LConfig \<Rightarrow> SchemaType \<Rightarrow> SchemaType \<Rightarrow> jstr \<Rightarrow> Change list" where
  "enum_changes cfg (StringType bs) (StringType ts) location =
     (if \<not> allow_breaking_enums cfg \<and> \<not> ignores cfg ''enum_removal''
      then map (enum_removal cfg location) (filter (\<lambda>v. v \<notin> set ts) bs)
      else [])"
| "enum_changes cfg _ _ location = []"

definition made_required :: "TM3LConfig \<Rightarrow> jstr \<Rightarrow> jstr \<Rightarrow> Change" where
  "made_required cfg location f =
     breaking_change (dot location f)
       (js ''Field '' @ quoted f @ js '' was made required, but it was optional before.'')
       (cite cfg ''new_required_field''
          ''Adding a required field to a request breaks backward compatibility for old clients.'')
       (js ''Make the field optional, or introduce a v2 endpoint.'')"

definition required_changes :: "TM3LConfig \<Rightarrow> jstr list \<Rightarrow> jstr list \<Rightarrow> jstr \<Rightarrow> Change list" where
  "required_changes cfg breq treq location =
     (if \<not> ignores cfg ''new_required_field''
      then map (made_required cfg location) (filter (\<lambda>f. f \<notin> set breq) treq)
      else [])"

function (sequential) diff_schemas :: "TM3LConfig \<Rightarrow> Schema \<Rightarrow> Schema \<Rightarrow> jstr \<Rightarrow> Change list"
and diff_objects :: "TM3LConfig \<Rightarrow> SchemaType \<Rightarrow> SchemaType \<Rightarrow> jstr \<Rightarrow> Change list"
and diff_properties :: "TM3LConfig \<Rightarrow> (jstr \<times> Schema ReferenceOr) list
      \<Rightarrow> (jstr \<times> Schema ReferenceOr) list \<Rightarrow> jstr \<Rightarrow> Change list"
where
  "diff_schemas cfg (TypeSchema b) (TypeSchema t) location =
     type_change cfg b t location @ enum_changes cfg b t location @ diff_objects cfg b t location"
| "diff_schemas cfg _ _ location = []"
| "diff_objects cfg (ObjectType breq bprops) (ObjectType treq tprops) location =
     required_changes cfg breq treq location @ diff_properties cfg bprops tprops location"
| "diff_objects cfg _ _ location = []"
| "diff_properties cfg [] tprops location = []"
| "diff_properties cfg ((k, Item b) # bprops) tprops location =
     (case map_of tprops k of
        Some (Item t) \<Rightarrow> diff_schemas cfg b t (dot location k)
      | _ \<Rightarrow> []) @ diff_properties cfg bprops tprops location"
| "diff_properties cfg ((k, Reference) # bprops) tprops location =
     diff_properties cfg bprops tprops location"
  by pat_completeness auto
termination
  by (relation "measure (case_sum (\<lambda>(_, b, _, _). size b) (case_sum (\<lambda>(_, b, _, _). size b)
      (\<lambda>(_, ps, _, _). size_list (size_prod (\<lambda>_. 0) (size_ReferenceOr size)) ps)))") auto

section \<open>Media types\<close>

definition diff_media ::
  "TM3LConfig \<Rightarrow> Content \<Rightarrow> (jstr \<Rightarrow> jstr) \<Rightarrow> jstr \<times> Schema ReferenceOr option \<Rightarrow> tally \<Rightarrow> tally" where
  "diff_media cfg tcontent location m t =
     (case (snd m, map_of tcontent (fst m)) of
        (Some (Item bs), Some (Some (Item ts))) \<Rightarrow>
          append_local (diff_schemas cfg bs ts (location (fst m))) t
      | _ \<Rightarrow> t)"

definition diff_content ::
  "TM3LConfig \<Rightarrow> Content \<Rightarrow> Content \<Rightarrow> (jstr \<Rightarrow> jstr) \<Rightarrow> tally \<Rightarrow> tally" where
  "diff_content cfg bcontent tcontent location = fold (diff_media cfg tcontent location) bcontent"

section \<open>Parameters\<close>

fun kind_name :: "ParameterKind \<Rightarrow> string" where
  "kind_name Query = ''query''"
| "kind_name Header = ''header''"
| "kind_name Path = ''path''"
| "kind_name Cookie = ''cookie''"

type_synonym ParameterMap = "(jstr \<times> bool \<times> string) list"

text \<open>A seed: the operation, and which of its two maps.\<close>

type_synonym hash_iter = "jstr \<times> bool \<Rightarrow> ParameterMap \<Rightarrow> ParameterMap"

fun extract_data :: "Parameter ReferenceOr \<Rightarrow> (jstr \<times> bool \<times> string) option" where
  "extract_data (Item p) = Some (pname p, required p, kind_name (kind p))"
| "extract_data Reference = None"

text \<open>Collecting into a map: the last parameter of a name wins, whatever its kind.\<close>

definition parameter_map :: "Parameter ReferenceOr list \<Rightarrow> ParameterMap" where
  "parameter_map ps = fold (\<lambda>(n, v). AList.update n v) (List.map_filter extract_data ps) []"

definition parameter_path :: "jstr \<Rightarrow> string \<Rightarrow> jstr \<Rightarrow> jstr" where
  "parameter_path op_loc k name = dot (dot (dot op_loc (js ''parameters'')) (js k)) name"

definition removed_parameter :: "jstr \<Rightarrow> string \<Rightarrow> jstr \<Rightarrow> Change" where
  "removed_parameter op_loc k name =
     breaking_change (parameter_path op_loc k name)
       (js k @ js '' parameter '' @ quoted name @ js '' was removed.'')
       (js ''OpenAPI Spec 3.1.0, Section 4.8. Removing parameters breaks existing client requests.'')
       (js ''Restore the '' @ js k @ js '' parameter '' @ quoted name @ js '' or mark it deprecated.'')"

definition parameter_made_required :: "jstr \<Rightarrow> string \<Rightarrow> jstr \<Rightarrow> Change" where
  "parameter_made_required op_loc k name =
     breaking_change (parameter_path op_loc k name)
       (js k @ js '' parameter '' @ quoted name
          @ js '' was made required, but it was optional before.'')
       (js ''RFC 7231. Making an optional parameter required breaks existing consumers.'')
       (js ''Make the '' @ js k @ js '' parameter '' @ quoted name
          @ js '' optional or provide a default value.'')"

definition new_required_parameter :: "jstr \<Rightarrow> string \<Rightarrow> jstr \<Rightarrow> Change" where
  "new_required_parameter op_loc k name =
     breaking_change (parameter_path op_loc k name)
       (js ''New required '' @ js k @ js '' parameter '' @ quoted name @ js '' was added.'')
       (js ''Adding a required parameter to an existing endpoint breaks existing consumers.'')
       (js ''Make the new '' @ js k @ js '' parameter '' @ quoted name
          @ js '' optional or provide a default value.'')"

definition check_removed ::
  "TM3LConfig \<Rightarrow> jstr \<Rightarrow> ParameterMap \<Rightarrow> jstr \<times> bool \<times> string \<Rightarrow> tally \<Rightarrow> tally" where
  "check_removed cfg op_loc t_map = (\<lambda>(name, req, k) t.
     if map_of t_map name = None \<and> \<not> ignores cfg ''removed_parameter''
     then report (removed_parameter op_loc k name) t else t)"

definition check_required ::
  "TM3LConfig \<Rightarrow> jstr \<Rightarrow> ParameterMap \<Rightarrow> jstr \<times> bool \<times> string \<Rightarrow> tally \<Rightarrow> tally" where
  "check_required cfg op_loc b_map = (\<lambda>(name, req, k) t.
     if req
     then (case map_of b_map name of
             Some (b_req, _) \<Rightarrow>
               if \<not> b_req \<and> \<not> ignores cfg ''new_required_field''
               then report (parameter_made_required op_loc k name) t else t
           | None \<Rightarrow>
               if \<not> ignores cfg ''new_required_field''
               then report (new_required_parameter op_loc k name) t else t)
     else t)"

definition diff_parameters ::
  "hash_iter \<Rightarrow> TM3LConfig \<Rightarrow> Parameter ReferenceOr list \<Rightarrow> Parameter ReferenceOr list
    \<Rightarrow> jstr \<Rightarrow> tally \<Rightarrow> tally" where
  "diff_parameters iter cfg b_params t_params op_loc t =
     (let b_map = parameter_map b_params; t_map = parameter_map t_params
      in fold (check_required cfg op_loc b_map) (iter (op_loc, False) t_map)
           (fold (check_removed cfg op_loc t_map) (iter (op_loc, True) b_map) t))"

section \<open>Responses\<close>

fun code_str :: "StatusCode \<Rightarrow> jstr" where
  "code_str (Code c) = dec (unat c)"
| "code_str (Range r) = dec (unat r) @ js ''XX''"

definition removed_response :: "jstr \<Rightarrow> StatusCode \<Rightarrow> Change" where
  "removed_response op_loc s =
     breaking_change (dot (dot op_loc (js ''responses'')) (code_str s))
       (js ''Response status code '' @ quoted (code_str s) @ js '' was removed.'')
       (js ''OpenAPI Spec 3.1.0. Removing a documented HTTP response code violates the API contract.'')
       (js ''Restore response status code '' @ quoted (code_str s) @ js ''.'')"

definition response_location :: "jstr \<Rightarrow> StatusCode \<Rightarrow> jstr \<Rightarrow> jstr" where
  "response_location op_loc s media =
     dot (dot (dot (dot op_loc (js ''responses'')) (code_str s)) (js ''content'')) media"

definition diff_response ::
  "TM3LConfig \<Rightarrow> (StatusCode \<times> Content ReferenceOr) list \<Rightarrow> jstr
    \<Rightarrow> StatusCode \<times> Content ReferenceOr \<Rightarrow> tally \<Rightarrow> tally" where
  "diff_response cfg t_responses op_loc b t =
     (case map_of t_responses (fst b) of
        Some r \<Rightarrow>
          (case (snd b, r) of
             (Item bc, Item tc) \<Rightarrow> diff_content cfg bc tc (response_location op_loc (fst b)) t
           | _ \<Rightarrow> t)
      | None \<Rightarrow>
          if \<not> ignores cfg ''removed_response'' then report (removed_response op_loc (fst b)) t else t)"

definition diff_responses ::
  "TM3LConfig \<Rightarrow> (StatusCode \<times> Content ReferenceOr) list \<Rightarrow> (StatusCode \<times> Content ReferenceOr) list
    \<Rightarrow> jstr \<Rightarrow> tally \<Rightarrow> tally" where
  "diff_responses cfg b_responses t_responses op_loc = fold (diff_response cfg t_responses op_loc) b_responses"

section \<open>Operations, paths, documents\<close>

definition to_lowercase :: "jstr \<Rightarrow> jstr" where
  "to_lowercase = map (\<lambda>c. if 65 \<le> c \<and> c \<le> 90 then c + 32 else c)"

definition operation_location :: "jstr \<Rightarrow> string \<Rightarrow> jstr" where
  "operation_location path method = dot (dot (js ''paths'') path) (to_lowercase (js method))"

definition removed_method :: "jstr \<Rightarrow> string \<Rightarrow> Change" where
  "removed_method path method =
     breaking_change (operation_location path method)
       (js ''HTTP Method '' @ quoted (js method) @ js '' was removed from '' @ quoted path @ js ''.'')
       (js ''RFC 7231. Removing an active HTTP method breaks clients relying on it.'')
       (js ''Restore the method and return a sunset HTTP header or 410 Gone over time.'')"

definition request_location :: "jstr \<Rightarrow> jstr \<Rightarrow> jstr" where
  "request_location op_loc media = dot op_loc (js ''requestBody'')"

definition diff_requests :: "TM3LConfig \<Rightarrow> Operation \<Rightarrow> Operation \<Rightarrow> jstr \<Rightarrow> tally \<Rightarrow> tally" where
  "diff_requests cfg b t op_loc =
     (case (op_body b, op_body t) of
        (Some (Item bc), Some (Item tc)) \<Rightarrow> diff_content cfg bc tc (request_location op_loc)
      | _ \<Rightarrow> id)"

definition diff_operation ::
  "hash_iter \<Rightarrow> TM3LConfig \<Rightarrow> jstr \<Rightarrow> string \<times> Operation option \<times> Operation option \<Rightarrow> tally \<Rightarrow> tally" where
  "diff_operation iter cfg path = (\<lambda>(method, b_op, t_op) t.
     case (b_op, t_op) of
       (Some b, None) \<Rightarrow>
         if \<not> ignores cfg ''removed_method'' then report (removed_method path method) t else t
     | (Some b, Some t') \<Rightarrow>
         (let op_loc = operation_location path method
          in diff_requests cfg b t' op_loc
               (diff_responses cfg (responses b) (responses t') op_loc
                  (diff_parameters iter cfg (parameters b) (parameters t') op_loc t)))
     | _ \<Rightarrow> t)"

definition ops :: "PathItem \<Rightarrow> PathItem \<Rightarrow> (string \<times> Operation option \<times> Operation option) list" where
  "ops b t = [(''GET'', op_get b, op_get t), (''POST'', op_post b, op_post t),
     (''PUT'', op_put b, op_put t), (''DELETE'', op_delete b, op_delete t),
     (''PATCH'', op_patch b, op_patch t)]"

definition removed_endpoint :: "TM3LConfig \<Rightarrow> jstr \<Rightarrow> Change" where
  "removed_endpoint cfg path =
     breaking_change (dot (js ''paths'') path)
       (js ''Endpoint '' @ quoted path @ js '' was removed entirely.'')
       (cite cfg ''removed_endpoint''
          ''OpenAPI Spec 3.1.0, Section 4.8. Removing paths breaks existing consumers.'')
       (js ''Restore the endpoint and mark it as deprecated instead of removing it.'')"

text \<open>\<open>unwrap\<close> of a path item that is a reference panics.\<close>

datatype panic = UnwrapNone

definition diff_path ::
  "hash_iter \<Rightarrow> TM3LConfig \<Rightarrow> OpenAPI \<Rightarrow> jstr \<times> PathItem ReferenceOr \<Rightarrow> tally \<Rightarrow> panic + tally" where
  "diff_path iter cfg target = (\<lambda>(path, b_ref) t.
     case map_of target path of
       None \<Rightarrow> Inr (if \<not> ignores cfg ''removed_endpoint'' then report (removed_endpoint cfg path) t else t)
     | Some t_ref \<Rightarrow>
         (case (b_ref, t_ref) of
            (Item b, Item t') \<Rightarrow> Inr (fold (diff_operation iter cfg path) (ops b t') t)
          | _ \<Rightarrow> Inl UnwrapNone))"

fun diff_paths ::
  "hash_iter \<Rightarrow> TM3LConfig \<Rightarrow> OpenAPI \<Rightarrow> OpenAPI \<Rightarrow> tally \<Rightarrow> panic + tally" where
  "diff_paths iter cfg [] target t = Inr t"
| "diff_paths iter cfg (p # ps) target t =
     (case diff_path iter cfg target p t of
        Inl e \<Rightarrow> Inl e
      | Inr t' \<Rightarrow> diff_paths iter cfg ps target t')"

definition empty_tally :: tally where
  "empty_tally = \<lparr>found = [], n_breaking = 0, n_additive = 0\<rparr>"

definition compare_specs ::
  "hash_iter \<Rightarrow> OpenAPI \<Rightarrow> OpenAPI \<Rightarrow> TM3LConfig \<Rightarrow> panic + IPCResponse" where
  "compare_specs iter base target cfg =
     (case diff_paths iter cfg base target empty_tally of
        Inl e \<Rightarrow> Inl e
      | Inr t \<Rightarrow> Inr \<lparr>breaking = n_breaking t, dangerous = 0, additive_of = n_additive t,
                      changes_of = found t\<rparr>)"

end
