(* ===== verification/Text_Checks.thy ===== *)
theory Text_Checks
  imports Rs_Regex Diff_Engine
begin

text \<open>
  The line-by-line checks of the engine: \<open>sql.rs\<close>, \<open>terraform.rs\<close>, \<open>graphql.rs\<close> and
  \<open>protobuf.rs\<close>, with their patterns. The matching is a parameter, \<open>captures\<close>.
\<close>

section \<open>Patterns\<close>

definition spaces :: rx where "spaces = some_of SpaceChar"

definition word_group :: "nat \<Rightarrow> rx" where "word_group n = Group n (some_of WordChar)"

definition one_of_words :: "string list \<Rightarrow> rx" where
  "one_of_words ws = foldr (\<lambda>w r. Alt (letters Is w) r) (butlast ws) (letters Is (last ws))"

definition removed_line :: rx where
  "removed_line = seqs [TextStart, Many SpaceChar, Class (Is 45), Many SpaceChar]"

definition drop_table_re :: rx where
  "drop_table_re = seqs [WordEdge, letters NoCase ''DROP'', spaces, letters NoCase ''TABLE'', spaces, word_group 1]"

definition alter_drop_col_re :: rx where
  "alter_drop_col_re = seqs [WordEdge, letters NoCase ''ALTER'', spaces, letters NoCase ''TABLE'', spaces, word_group 1,
     spaces, letters NoCase ''DROP'', spaces, letters NoCase ''COLUMN'', spaces, word_group 2]"

definition removed_field_re :: rx where
  "removed_field_re = seqs [removed_line, word_group 1, Many SpaceChar, Class (Is 58)]"

definition removed_type_re :: rx where
  "removed_type_re = seqs [removed_line, Group 1 (one_of_words [''type'', ''interface'', ''enum'', ''union'']),
     spaces, word_group 2]"

definition removed_proto_re :: rx where
  "removed_proto_re = seqs [removed_line, Alt (Group 1 (one_of_words [''optional'', ''repeated'', ''required''])) Eps,
     Many SpaceChar, word_group 2, spaces, word_group 3, Many SpaceChar, Class (Is 61), Many SpaceChar,
     Group 4 (some_of DigitChar), Many SpaceChar, Class (Is 59)]"

section \<open>Lines\<close>

type_synonym captures = "rx \<Rightarrow> jstr \<Rightarrow> (nat \<Rightarrow> jstr) option"

text \<open>The loop over the lines, counted from one: every check reports the changes of a line.\<close>

definition check_lines :: "(nat \<Rightarrow> jstr \<Rightarrow> Change list) \<Rightarrow> jstr \<Rightarrow> IPCResponse" where
  "check_lines f code =
     (let t = fold (\<lambda>(n, l). fold report (f n l)) (zip [1..<Suc (length (rs_lines code))] (rs_lines code)) empty_tally
      in \<lparr>breaking = n_breaking t, dangerous = 0, additive_of = 0, changes_of = found t\<rparr>)"

definition matched :: "'a option \<Rightarrow> ('a \<Rightarrow> Change) \<Rightarrow> Change list" where
  "matched m f = (case m of None \<Rightarrow> [] | Some x \<Rightarrow> [f x])"

definition sql_line :: "captures \<Rightarrow> nat \<Rightarrow> jstr \<Rightarrow> Change list" where
  "sql_line p n l =
     matched (p drop_table_re l) (\<lambda>g.
       breaking_change (line_path n) (js ''Destructive operation detected: DROP TABLE '' @ g 1)
         (js ''SQL Destructive Operation'')
         (js ''Review this migration carefully. Consider archiving or renaming the table instead.''))
     @ matched (p alter_drop_col_re l) (\<lambda>g.
       breaking_change (line_path n)
         (js ''Destructive operation detected: ALTER TABLE '' @ g 1 @ js '' DROP COLUMN '' @ g 2)
         (js ''SQL Destructive Operation'')
         (js ''Review this migration carefully. Dropping columns can break existing queries.''))"

definition check_sql_migration :: "captures \<Rightarrow> jstr \<Rightarrow> IPCResponse" where
  "check_sql_migration p = check_lines (sql_line p)"

definition stateful_resources :: "string list" where
  "stateful_resources = [''aws_db_instance'', ''aws_rds_cluster'', ''aws_s3_bucket'', ''aws_dynamodb_table'']"

definition is_destroy_indicator :: "jstr \<Rightarrow> bool" where
  "is_destroy_indicator l \<longleftrightarrow>
     starts_with (rs_trim l) (js ''- '') \<or> js_includes l (js ''will be destroyed'') \<or> js_includes l (js ''- destroy'')"

definition terraform_line :: "nat \<Rightarrow> jstr \<Rightarrow> Change list" where
  "terraform_line n l =
     (if is_destroy_indicator l
      then matched (find (\<lambda>r. js_includes l (js r)) stateful_resources) (\<lambda>r.
             breaking_change (line_path n)
               (js ''Destructive operation detected on stateful resource: '' @ js r)
               (js ''Terraform Stateful Resource Deletion'')
               (js ''Ensure that data is backed up before destroying stateful resources. Consider retaining the resource or migrating data first.''))
      else [])"

definition check_terraform_migration :: "jstr \<Rightarrow> IPCResponse" where
  "check_terraform_migration = check_lines terraform_line"

definition graphql_line :: "captures \<Rightarrow> nat \<Rightarrow> jstr \<Rightarrow> Change list" where
  "graphql_line p n l =
     matched (p removed_field_re l) (\<lambda>g.
       breaking_change (line_path n) (js ''Removed GraphQL field: '' @ g 1) (js ''GraphQL Schema Breaking Change'')
         (js ''Deprecate the field using @deprecated before removing it entirely.''))
     @ matched (p removed_type_re l) (\<lambda>g.
       breaking_change (line_path n) (js ''Removed GraphQL '' @ g 1 @ js '': '' @ g 2)
         (js ''GraphQL Schema Breaking Change'')
         (js ''Ensure clients are no longer relying on this type before removal.''))"

definition check_graphql_migration :: "captures \<Rightarrow> jstr \<Rightarrow> IPCResponse" where
  "check_graphql_migration p = check_lines (graphql_line p)"

definition protobuf_line :: "captures \<Rightarrow> nat \<Rightarrow> jstr \<Rightarrow> Change list" where
  "protobuf_line p n l =
     matched (p removed_proto_re l) (\<lambda>g.
       breaking_change (line_path n) (js ''Removed Protobuf field: '' @ g 3 @ js '' with tag '' @ g 4)
         (js ''Protobuf Schema Breaking Change'')
         (js ''Reserve the tag and name to prevent accidental reuse in the future.''))"

definition check_protobuf_migration :: "captures \<Rightarrow> jstr \<Rightarrow> IPCResponse" where
  "check_protobuf_migration p = check_lines (protobuf_line p)"

end
