(* ===== verification/Code_Migration.thy ===== *)
theory Code_Migration
  imports Text_Checks
begin

text \<open>
  \<open>engine/src/code_diff.rs\<close>: the code audits of the engine, walks over the syntax tree of a
  source that report constructs of old language versions. The parsers, which nodes are named, and
  the matching of regular expressions come from crates and are parameters (\<open>grammars\<close>).
\<close>

record grammars =
  parse_python :: "jstr \<Rightarrow> snode option"
  parse_go :: "jstr \<Rightarrow> snode option"
  parse_typescript :: "jstr \<Rightarrow> snode option"
  parse_javascript :: "jstr \<Rightarrow> snode option"
  is_named :: "snode \<Rightarrow> bool"
  re_captures :: captures

definition report_opt :: "Change option \<Rightarrow> tally \<Rightarrow> tally" where
  "report_opt c t = (case c of None \<Rightarrow> t | Some x \<Rightarrow> report x t)"

section \<open>Python\<close>

definition print_change :: "nat \<Rightarrow> jstr \<Rightarrow> Change" where
  "print_change l arg =
     breaking_change (line_path l)
       (js ''Python 2 print statement without parentheses is invalid in Python 3.'')
       (js ''PEP 3105: Make print a function'') (js ''print('' @ arg @ js '')'')"

definition print_statement_change :: "snode \<Rightarrow> Change" where
  "print_statement_change n =
     (let t = rs_trim (node_text n)
      in print_change (line_of n) (if starts_with t (js ''print'') then rs_trim (drop 5 t) else t))"

definition apply_change :: "nat \<Rightarrow> jstr \<Rightarrow> Change" where
  "apply_change l fixed =
     breaking_change (line_path l) (js ''apply() built-in was removed in Python 3.'')
       (js ''PEP 3100: Miscellaneous Python 3.0 Plans'') fixed"

text \<open>The text between the parentheses of an argument list.\<close>

definition inner_args :: "jstr \<Rightarrow> jstr" where
  "inner_args t =
     (let a = without_prefix (js ''('') t (rs_trim t) in without_suffix (js '')'') a a)"

definition builtin_change :: "jstr \<Rightarrow> snode \<Rightarrow> jstr \<Rightarrow> Change option" where
  "builtin_change code n fn =
     (let l = line_of n; src = get_line code l
      in if fn = js ''xrange'' then
           Some (breaking_change (line_path l) (js ''xrange() was removed in Python 3. Use range() instead.'')
             (js ''PEP 3100: Miscellaneous Python 3.0 Plans'') (rs_replace (js ''xrange('') (js ''range('') src))
         else if fn = js ''raw_input'' then
           Some (breaking_change (line_path l) (js ''raw_input() was renamed to input() in Python 3.'')
             (js ''PEP 3111: Simple input built-in'') (rs_replace (js ''raw_input('') (js ''input('') src))
         else if fn = js ''unicode'' then
           Some (breaking_change (line_path l)
             (js ''unicode() was removed in Python 3. All strings are unicode by default. Use str() instead.'')
             (js ''PEP 3100: Miscellaneous Python 3.0 Plans'') (rs_replace (js ''unicode('') (js ''str('') src))
         else if fn = js ''apply'' then
           (case child_by_field_name n ''arguments'' of
              Some a \<Rightarrow>
                (case split_once 44 (inner_args (node_text a)) of
                   (f, Some args) \<Rightarrow>
                     Some (apply_change l (rs_trim f @ js ''(*'' @ rs_trim args @ js '')''))
                 | (f, None) \<Rightarrow> None)
            | None \<Rightarrow> Some (apply_change l (rs_replace (js ''apply('') (js ''func(*'') src)))
         else None)"

definition view_change :: "nat \<Rightarrow> jstr \<Rightarrow> string \<Rightarrow> string \<Rightarrow> Change" where
  "view_change l src old new =
     breaking_change (line_path l) (js ''.'' @ js old @ js ''() was removed in Python 3.'')
       (js ''PEP 3106: Revamping dict.keys(), .values() and .items()'')
       (rs_replace (js ''.'' @ js old @ js ''()'') (js ''.'' @ js new @ js ''()'') src)"

definition method_change :: "jstr \<Rightarrow> snode \<Rightarrow> jstr \<Rightarrow> Change option" where
  "method_change code n attr =
     (let l = line_of n; src = get_line code l
      in if attr = js ''iteritems'' then Some (view_change l src ''iteritems'' ''items'')
         else if attr = js ''iterkeys'' then Some (view_change l src ''iterkeys'' ''keys'')
         else if attr = js ''itervalues'' then Some (view_change l src ''itervalues'' ''values'')
         else if attr = js ''has_key'' then
           Some (breaking_change (line_path l) (js ''.has_key(k) was removed in Python 3.'')
             (js ''PEP 3100: Miscellaneous Python 3.0 Plans'')
             ((case child_by_field_name n ''arguments'' of
                 Some a \<Rightarrow> rs_trim (inner_args (node_text a)) | None \<Rightarrow> js ''key'') @ js '' in dict''))
         else None)"

definition call_changes :: "jstr \<Rightarrow> snode \<Rightarrow> tally \<Rightarrow> tally" where
  "call_changes code n t =
     (case child_by_field_name n ''function'' of
        None \<Rightarrow> t
      | Some f \<Rightarrow>
          report_opt
            (if is_kind f ''attribute''
             then (case child_by_field_name f ''attribute'' of
                     None \<Rightarrow> None | Some a \<Rightarrow> method_change code n (node_text a))
             else None)
            (report_opt (builtin_change code n (node_text f)) t))"

definition except_fix :: "nat \<Rightarrow> jstr \<Rightarrow> jstr \<Rightarrow> Change" where
  "except_fix l exc var =
     breaking_change (line_path l) (js ''Old 'except Exception, e:' syntax is invalid in Python 3.'')
       (js ''PEP 3110: Catching Exceptions in Python 3000'')
       (js ''except '' @ exc @ js '' as '' @ var @ js '':'')"

definition except_change :: "snode \<Rightarrow> Change option" where
  "except_change n =
     (if 44 \<in> set (node_text n) \<and> \<not> js_includes (node_text n) (js '' as '')
      then (let t = rs_trim (node_text n);
                a = rs_trim (without_prefix (js ''except'') t t);
                b = rs_trim (without_suffix (js '':'') a a)
            in case split_char 44 b of
                 [exc, var] \<Rightarrow> Some (except_fix (line_of n) (rs_trim exc) (rs_trim var))
               | _ \<Rightarrow> None)
      else None)"

definition python3_module :: "jstr \<Rightarrow> string option" where
  "python3_module m =
     map_of [(js ''urllib2'', ''urllib.request / urllib.error''), (js ''httplib'', ''http.client''),
       (js ''urlparse'', ''urllib.parse''), (js ''ConfigParser'', ''configparser''), (js ''Queue'', ''queue''),
       (js ''cPickle'', ''pickle''), (js ''StringIO'', ''io.StringIO'')] m"

definition check_legacy_python_module :: "nat \<Rightarrow> jstr \<Rightarrow> tally \<Rightarrow> tally" where
  "check_legacy_python_module l m =
     report_opt (map_option (\<lambda>p.
       breaking_change (line_path l)
         (js ''Legacy module '' @ quoted m @ js '' was removed/renamed in Python 3.'')
         (js ''PEP 3108: Standard Library Reorganization'')
         (js ''Replace '' @ quoted m @ js '' with '' @ quoted (js p))) (python3_module m))"

definition import_changes :: "nat \<Rightarrow> snode \<Rightarrow> tally \<Rightarrow> tally" where
  "import_changes l c t =
     (if is_kind c ''dotted_name'' then check_legacy_python_module l (node_text c) t
      else if is_kind c ''aliased_import''
      then (case child_by_field_name c ''name'' of
              None \<Rightarrow> t | Some m \<Rightarrow> check_legacy_python_module l (node_text m) t)
      else t)"

definition long_change :: "jstr \<Rightarrow> snode \<Rightarrow> Change option" where
  "long_change code n =
     (if ends_with (node_text n) (js ''L'') \<or> ends_with (node_text n) (js ''l'')
      then Some (breaking_change (line_path (line_of n))
             (js ''Long integer literal syntax (e.g., 123L) is invalid in Python 3. All integers are long by default.'')
             (js ''PEP 0237: Unifying Long Integers and Integers'')
             (rs_replace (node_text n) (butlast (node_text n)) (get_line code (line_of n))))
      else None)"

definition re_except :: rx where
  "re_except = seqs [letters Is ''except'', spaces, word_group 1, Many SpaceChar, Class (Is 44), Many SpaceChar,
     word_group 2, Many SpaceChar, Class (Is 58)]"

definition error_change :: "grammars \<Rightarrow> snode \<Rightarrow> Change option" where
  "error_change g n =
     (let t = rs_trim (node_text n)
      in if starts_with t (js ''print '') \<or> starts_with t (js ''print'' @ [9])
         then Some (print_change (line_of n) (rs_trim (drop 5 t)))
         else if js_includes t (js ''except '') \<and> 44 \<in> set t \<and> \<not> js_includes t (js '' as '')
         then map_option (\<lambda>g. except_fix (line_of n) (g 1) (g 2)) (re_captures g re_except t)
         else None)"

definition visit_python :: "grammars \<Rightarrow> jstr \<Rightarrow> snode \<Rightarrow> tally \<Rightarrow> tally" where
  "visit_python g code n t =
     (if is_kind n ''print_statement'' then report (print_statement_change n) t
      else if is_kind n ''call'' then call_changes code n t
      else if is_kind n ''except_clause'' then report_opt (except_change n) t
      else if is_kind n ''import_statement'' then fold (import_changes (line_of n)) (children n) t
      else if is_kind n ''import_from_statement''
      then (case child_by_field_name n ''module_name'' of
              None \<Rightarrow> t | Some m \<Rightarrow> check_legacy_python_module (line_of n) (node_text m) t)
      else if is_kind n ''integer'' then report_opt (long_change code n) t
      else if is_kind n ''ERROR'' then report_opt (error_change g n) t
      else t)"

definition walk_python_node :: "grammars \<Rightarrow> jstr \<Rightarrow> snode \<Rightarrow> tally \<Rightarrow> tally" where
  "walk_python_node g code = walk (visit_python g code)"

definition no_findings :: IPCResponse where
  "no_findings = \<lparr>breaking = 0, dangerous = 0, additive_of = 0, changes_of = []\<rparr>"

definition check_python_migration :: "grammars \<Rightarrow> jstr \<Rightarrow> IPCResponse" where
  "check_python_migration g code =
     (case parse_python g code of
        None \<Rightarrow> no_findings
      | Some root \<Rightarrow>
          (let t = walk_python_node g code root empty_tally
           in \<lparr>breaking = n_breaking t, dangerous = 0, additive_of = 0, changes_of = found t\<rparr>))"

section \<open>Go and TypeScript\<close>

definition dangerous_change :: "snode \<Rightarrow> jstr \<Rightarrow> jstr \<Rightarrow> jstr \<Rightarrow> Change" where
  "dangerous_change n d c f =
     \<lparr>severity_of = js ''DANGEROUS'', path_of = line_path (line_of n), description_of = d, citation_of = c, fix_of = f\<rparr>"

definition visit_go :: "snode \<Rightarrow> Change list \<Rightarrow> Change list" where
  "visit_go n cs =
     (if is_kind n ''import_spec'' \<and> trim_matches 34 (rs_trim (node_text n)) = js ''io/ioutil''
      then cs @ [dangerous_change n (js ''Package 'io/ioutil' was deprecated in Go 1.16.'')
             (js ''Go 1.16 Release Notes: io/ioutil deprecation'')
             (js ''Use package 'io' or 'os' equivalents instead.'')]
      else cs)"

definition visit_typescript :: "snode \<Rightarrow> Change list \<Rightarrow> Change list" where
  "visit_typescript n cs =
     (if is_kind n ''variable_declaration'' \<and> starts_with (node_text n) (js ''var '')
      then cs @ [dangerous_change n
             (js ''Usage of 'var' keyword. Prefer 'const' or 'let' for block-scoped semantics.'')
             (js ''TypeScript ESLint: no-var'')
             (replace_first (js ''var '') (js ''const '') (node_text n))]
      else cs)"

definition counted :: "Change list \<Rightarrow> IPCResponse" where
  "counted cs = \<lparr>breaking = count_severity ''BREAKING'' cs, dangerous = count_severity ''DANGEROUS'' cs,
     additive_of = count_severity ''ADDITIVE'' cs, changes_of = cs\<rparr>"

definition check_go_migration :: "grammars \<Rightarrow> jstr \<Rightarrow> IPCResponse" where
  "check_go_migration g code =
     (case parse_go g code of None \<Rightarrow> no_findings | Some root \<Rightarrow> counted (walk visit_go root []))"

definition check_typescript_migration :: "grammars \<Rightarrow> jstr \<Rightarrow> IPCResponse" where
  "check_typescript_migration g code =
     (case parse_typescript g code of None \<Rightarrow> no_findings | Some root \<Rightarrow> counted (walk visit_typescript root []))"

text \<open>
  The names of languages are compared in lower case. No letter outside ASCII has one of theirs as
  its lower case, so folding ASCII letters decides the comparison.
\<close>

definition check_code_migration :: "grammars \<Rightarrow> jstr \<Rightarrow> jstr \<Rightarrow> IPCResponse" where
  "check_code_migration g code language =
     (let l = to_lowercase language
      in if l \<in> js ` {''python'', ''py'', ''python_migration''} then check_python_migration g code
         else if l \<in> js ` {''go'', ''golang''} then check_go_migration g code
         else if l \<in> js ` {''typescript'', ''ts'', ''javascript'', ''js''} then check_typescript_migration g code
         else check_python_migration g code)"

end
