(* ===== verification/Code_Analyzer.thy ===== *)
theory Code_Analyzer
  imports Rs_Text Code_Migration
begin

text \<open>
  \<open>engine/src/analyzer.rs\<close>: facts about a source for the prompt compiler, collected on a walk
  over its syntax tree.
\<close>

section \<open>Results\<close>

record RsDependency =
  dep_name :: jstr
  is_c_extension :: "bool option"
  is_native :: "bool option"
  package_hint :: "jstr option"

record RsEntrypoint =
  entry_kind :: jstr
  entry_line :: "jstr option"

record RsCaveat =
  caveat_severity :: jstr
  caveat_message :: jstr

record RsAnalysis =
  lang_name :: jstr
  lang_version :: "jstr option"
  lang_runtime :: "jstr option"
  deps :: "RsDependency list"
  entries :: "RsEntrypoint list"
  caveats :: "RsCaveat list"
  function_count :: nat
  class_count :: nat
  line_count_of :: nat
  system_calls :: "jstr list"

definition empty_analysis :: RsAnalysis where
  "empty_analysis = \<lparr>lang_name = [], lang_version = None, lang_runtime = None, deps = [], entries = [],
     caveats = [], function_count = 0, class_count = 0, line_count_of = 0, system_calls = []\<rparr>"

section \<open>Updates\<close>

definition add_dependency :: "jstr \<Rightarrow> RsAnalysis \<Rightarrow> RsAnalysis" where
  "add_dependency m a =
     (if \<exists>d \<in> set (deps a). dep_name d = m then a
      else a\<lparr>deps := deps a @ [\<lparr>dep_name = m, is_c_extension = None, is_native = None, package_hint = None\<rparr>]\<rparr>)"

definition add_entry :: "string \<Rightarrow> jstr \<Rightarrow> RsAnalysis \<Rightarrow> RsAnalysis" where
  "add_entry k l a = a\<lparr>entries := entries a @ [\<lparr>entry_kind = js k, entry_line = Some l\<rparr>]\<rparr>"

definition add_caveat :: "string \<Rightarrow> string \<Rightarrow> RsAnalysis \<Rightarrow> RsAnalysis" where
  "add_caveat s m a = a\<lparr>caveats := caveats a @ [\<lparr>caveat_severity = js s, caveat_message = js m\<rparr>]\<rparr>"

definition add_function :: "RsAnalysis \<Rightarrow> RsAnalysis" where
  "add_function a = a\<lparr>function_count := function_count a + 1\<rparr>"

definition add_class :: "RsAnalysis \<Rightarrow> RsAnalysis" where
  "add_class a = a\<lparr>class_count := class_count a + 1\<rparr>"

text \<open>The name of the function of a call, when it is one of a list.\<close>

definition add_call :: "string list \<Rightarrow> snode \<Rightarrow> RsAnalysis \<Rightarrow> RsAnalysis" where
  "add_call names n a =
     (case child_by_field_name n ''function'' of
        None \<Rightarrow> a
      | Some f \<Rightarrow>
          if node_text f \<in> js ` set names then a\<lparr>system_calls := system_calls a @ [node_text f]\<rparr> else a)"

definition with_hints :: "string \<Rightarrow> RsDependency list \<Rightarrow> RsDependency list" where
  "with_hints tool = map (\<lambda>d. d\<lparr>package_hint := Some (js tool @ [32] @ dep_name d)\<rparr>)"

section \<open>Python\<close>

definition first_line :: "jstr \<Rightarrow> jstr" where
  "first_line s = (case rs_lines s of [] \<Rightarrow> [] | l # ls \<Rightarrow> l)"

definition traverse_python :: "snode \<Rightarrow> RsAnalysis \<Rightarrow> RsAnalysis" where
  "traverse_python n a =
     (if is_kind n ''function_definition'' then add_function a
      else if is_kind n ''class_definition'' then add_class a
      else if is_kind n ''import_statement'' \<or> is_kind n ''import_from_statement'' then
        fold (\<lambda>c. if is_kind c ''dotted_name'' then add_dependency (takeWhile (\<lambda>x. x \<noteq> 46) (node_text c)) else id)
          (children n) a
      else if is_kind n ''if_statement'' then
        (if js_includes (node_text n) (js ''__name__ == \"__main__\"'')
            \<or> js_includes (node_text n) (js ''__name__ == '' @ quoted (js ''__main__''))
         then add_entry ''python_main'' (first_line (node_text n)) a else a)
      else if is_kind n ''call'' then
        add_call [''subprocess.run'', ''os.system'', ''subprocess.Popen'', ''subprocess.call'', ''subprocess.check_output''] n a
      else a)"

definition is_python_cext :: "jstr \<Rightarrow> bool" where
  "is_python_cext m \<longleftrightarrow> m \<in> js ` {''numpy'', ''pandas'', ''scipy'', ''torch'', ''tensorflow'', ''cv2'', ''PIL'',
     ''Pillow'', ''sklearn'', ''matplotlib'', ''lxml'', ''psycopg2'', ''cryptography'', ''cffi'', ''pydantic''}"

definition mark_cext :: "RsDependency list \<Rightarrow> RsDependency list" where
  "mark_cext = map (\<lambda>d. if is_python_cext (dep_name d) then d\<lparr>is_c_extension := Some True\<rparr> else d)"

definition analyze_python_tree :: "snode \<Rightarrow> RsAnalysis \<Rightarrow> RsAnalysis" where
  "analyze_python_tree root a =
     (let b = walk traverse_python root a;
          c = b\<lparr>deps := with_hints ''pip install'' (mark_cext (deps b))\<rparr>;
          d = (if \<exists>x \<in> set (deps b). is_python_cext (dep_name x)
               then add_caveat ''WARNING'' ''C-extension dependencies detected (e.g. pandas, numpy, torch). When using PyInstaller, you MUST add --hidden-import flags for each C-extension. Nuitka may require --include-package overrides.'' c
               else c)
      in if function_count d = 0 \<and> class_count d = 0
         then add_caveat ''INFO'' ''No functions or classes detected. This may be a script rather than a module. PyInstaller should work without a --spec file.'' d
         else d)"

section \<open>Go\<close>

definition traverse_go :: "snode \<Rightarrow> RsAnalysis \<Rightarrow> RsAnalysis" where
  "traverse_go n a =
     (if is_kind n ''function_declaration'' then
        (case child_by_field_name n ''name'' of
           Some m \<Rightarrow> if node_text m = js ''main'' then add_entry ''go_main'' (js ''func main() {'') (add_function a)
                     else add_function a
         | None \<Rightarrow> add_function a)
      else if is_kind n ''type_declaration'' then
        (if js_includes (node_text n) (js ''struct'') then add_class a else a)
      else if is_kind n ''import_spec'' then
        (case child_by_field_name n ''path'' of
           None \<Rightarrow> a
         | Some p \<Rightarrow> (let m = trim_matches 34 (node_text p) in if m \<noteq> [] then add_dependency m a else a))
      else if is_kind n ''call_expression'' then add_call [''exec.Command'', ''exec.CommandContext''] n a
      else a)"

definition analyze_go_tree :: "snode \<Rightarrow> jstr \<Rightarrow> RsAnalysis \<Rightarrow> RsAnalysis" where
  "analyze_go_tree root src a =
     (let b = walk traverse_go root a; c = b\<lparr>deps := with_hints ''go get'' (deps b)\<rparr>
      in if js_includes src (js ''import \"C\"'') \<or> js_includes src (js ''// #include'')
         then add_caveat ''WARNING'' ''CGO detected (import \"C\"). You CANNOT use CGO_ENABLED=0 for fully static builds. The output binary will depend on system glibc. Consider using CGO_ENABLED=1 with a musl-based Alpine image for portable static compilation.'' c
         else c\<lparr>caveats := caveats c @ [\<lparr>caveat_severity = js ''INFO'', caveat_message =
           js ''No CGO detected. You can build a fully static binary with: CGO_ENABLED=0 GOOS=linux go build -a -ldflags '' @ quoted (js ''-extldflags \"-static\"'') @ js '' -o app ./cmd/...''\<rparr>]\<rparr>)"

section \<open>JavaScript\<close>

text \<open>The name of a package, without its quotes; relative paths are no packages.\<close>

definition add_package :: "jstr \<Rightarrow> RsAnalysis \<Rightarrow> RsAnalysis" where
  "add_package t a =
     (let m = trim_matches 34 (trim_matches 39 t) in if starts_with m [46] then a else add_dependency m a)"

text \<open>\<open>named_child(0)\<close> of the arguments.\<close>

definition required_package :: "grammars \<Rightarrow> snode \<Rightarrow> RsAnalysis \<Rightarrow> RsAnalysis" where
  "required_package g n a =
     (case Option.bind (child_by_field_name n ''arguments'') (\<lambda>args. find (is_named g) (children args)) of
        None \<Rightarrow> a
      | Some arg \<Rightarrow> if is_kind arg ''string'' then add_package (node_text arg) a else a)"

definition traverse_js :: "grammars \<Rightarrow> snode \<Rightarrow> RsAnalysis \<Rightarrow> RsAnalysis" where
  "traverse_js g n a =
     (if is_kind n ''function_declaration'' \<or> is_kind n ''arrow_function'' then add_function a
      else if is_kind n ''class_declaration'' then add_class a
      else if is_kind n ''import_statement'' then
        (case child_by_field_name n ''source'' of None \<Rightarrow> a | Some s \<Rightarrow> add_package (node_text s) a)
      else if is_kind n ''call_expression'' then
        (case child_by_field_name n ''function'' of
           None \<Rightarrow> a
         | Some f \<Rightarrow>
             if node_text f = js ''require'' then required_package g n a
             else add_call [''child_process.exec'', ''child_process.spawn'', ''exec'', ''spawn'',
                    ''child_process.execSync'', ''child_process.spawnSync''] n a)
      else a)"

definition analyze_js_tree :: "grammars \<Rightarrow> snode \<Rightarrow> RsAnalysis \<Rightarrow> RsAnalysis" where
  "analyze_js_tree g root a =
     (let b = walk (traverse_js g) root a
      in add_caveat ''INFO'' ''For Node.js standalone binary packaging, consider using: pkg (Vercel), ncc (Vercel), or esbuild + pkg. Electron is recommended for GUI apps.''
           (b\<lparr>deps := with_hints ''npm install'' (deps b)\<rparr>))"

section \<open>The analysis\<close>

text \<open>A parser that returns no tree panics; \<open>None\<close> is the panic.\<close>

definition analyze_code :: "grammars \<Rightarrow> jstr \<Rightarrow> jstr \<Rightarrow> RsAnalysis option" where
  "analyze_code g src lang =
     (let a = empty_analysis\<lparr>line_count_of := length (rs_lines src)\<rparr>
      in if lang = js ''python'' then
           map_option (\<lambda>root. (analyze_python_tree root a)\<lparr>lang_name := js ''Python'',
             lang_version := Some (js ''3.x''), lang_runtime := Some (js ''CPython'')\<rparr>) (parse_python g src)
         else if lang = js ''go'' then
           map_option (\<lambda>root. (analyze_go_tree root src a)\<lparr>lang_name := js ''Go'',
             lang_version := Some (js ''1.x'')\<rparr>) (parse_go g src)
         else if lang \<in> js ` {''javascript'', ''js'', ''typescript'', ''ts''} then
           map_option (\<lambda>root. (analyze_js_tree g root a)\<lparr>lang_name := js ''JavaScript'',
             lang_runtime := Some (js ''Node.js'')\<rparr>) (parse_javascript g src)
         else Some (a\<lparr>lang_name := js ''Unknown''\<rparr>))"

end
