(* ===== verification/Engine_Service.thy ===== *)
theory Engine_Service
  imports Code_Analyzer Js_Json
begin

text \<open>
  \<open>engine/src/main.rs\<close>: the analysis service, with the JSON of its answers (the \<open>Serialize\<close>
  records of \<open>models.rs\<close> and \<open>analyzer.rs\<close>). What the engine's crates do is a parameter
  (\<open>crates\<close>): reading a contract, the order of hash maps, writing JSON, parsers and the matching of patterns.
\<close>

section \<open>Answers\<close>

definition change_json :: "Change \<Rightarrow> jsval" where
  "change_json c = JObj [(js ''severity'', JStr (severity_of c)), (js ''path'', JStr (path_of c)),
     (js ''description'', JStr (description_of c)), (js ''citation'', JStr (citation_of c)),
     (js ''proposed_fix'', JStr (fix_of c))]"

definition ipc_json :: "IPCResponse \<Rightarrow> jsval" where
  "ipc_json r = JObj [(js ''summary'', JObj [(js ''breaking'', int_json (int (breaking r))),
       (js ''dangerous'', int_json (int (dangerous r))), (js ''additive'', int_json (int (additive_of r)))]),
     (js ''changes'', JArr (map change_json (changes_of r)))]"

definition field_opt :: "string \<Rightarrow> ('a \<Rightarrow> jsval) \<Rightarrow> 'a option \<Rightarrow> (jstr \<times> jsval) list" where
  "field_opt k f x = (case x of None \<Rightarrow> [] | Some v \<Rightarrow> [(js k, f v)])"

definition dependency_json :: "RsDependency \<Rightarrow> jsval" where
  "dependency_json d = JObj ([(js ''name'', JStr (dep_name d))]
     @ field_opt ''is_c_extension'' JBool (is_c_extension d) @ field_opt ''is_native'' JBool (is_native d)
     @ field_opt ''package_hint'' JStr (package_hint d))"

definition entrypoint_json :: "RsEntrypoint \<Rightarrow> jsval" where
  "entrypoint_json p = JObj ([(js ''kind'', JStr (entry_kind p))] @ field_opt ''line'' JStr (entry_line p))"

definition caveat_json :: "RsCaveat \<Rightarrow> jsval" where
  "caveat_json c = JObj [(js ''severity'', JStr (caveat_severity c)), (js ''message'', JStr (caveat_message c))]"

definition analysis_json :: "RsAnalysis \<Rightarrow> jsval" where
  "analysis_json a = JObj
     [(js ''language'', JObj ([(js ''name'', JStr (lang_name a))]
         @ field_opt ''version'' JStr (lang_version a) @ field_opt ''runtime'' JStr (lang_runtime a))),
      (js ''dependencies'', JArr (map dependency_json (deps a))),
      (js ''entrypoints'', JArr (map entrypoint_json (entries a))),
      (js ''caveats'', JArr (map caveat_json (caveats a))),
      (js ''function_count'', int_json (int (function_count a))),
      (js ''class_count'', int_json (int (class_count a))),
      (js ''line_count'', int_json (int (line_count_of a))),
      (js ''system_calls'', JArr (map JStr (system_calls a)))]"

section \<open>The service\<close>

record crates =
  grams :: grammars
  read_spec :: "jsval \<Rightarrow> OpenAPI option"
  hash_order :: hash_iter
  to_string :: "jsval \<Rightarrow> jstr"

text \<open>A payload that cannot be read is an error of the call, and so is a panic.\<close>

definition openapi_mode :: "crates \<Rightarrow> jstr \<Rightarrow> jstr option" where
  "openapi_mode K src =
     (case json_parse src of
        None \<Rightarrow> None
      | Some payload \<Rightarrow>
          (case (read_spec K (opt_get payload (js ''base'')), read_spec K (opt_get payload (js ''target''))) of
             (Some b, Some t) \<Rightarrow>
               (case compare_specs (hash_order K) b t default_config of
                  Inl UnwrapNone \<Rightarrow> None
                | Inr r \<Rightarrow> Some (to_string K (ipc_json r)))
           | _ \<Rightarrow> None))"

text \<open>A request is a mode, a language and a source.\<close>

definition service :: "crates \<Rightarrow> jstr \<times> jstr \<times> jstr \<Rightarrow> jstr option" where
  "service K = (\<lambda>(mode, language, src).
     if mode = js ''python_migration'' \<or> mode = js ''code_migration'' then
       Some (to_string K (ipc_json (check_code_migration (grams K) src language)))
     else if mode = js ''analyze'' then
       map_option (\<lambda>a. to_string K (analysis_json a)) (analyze_code (grams K) src language)
     else if mode = js ''openapi'' then openapi_mode K src
     else if mode = js ''sql'' then Some (to_string K (ipc_json (check_sql_migration (re_captures (grams K)) src)))
     else if mode = js ''terraform'' then Some (to_string K (ipc_json (check_terraform_migration src)))
     else if mode = js ''graphql'' then Some (to_string K (ipc_json (check_graphql_migration (re_captures (grams K)) src)))
     else if mode = js ''protobuf'' then Some (to_string K (ipc_json (check_protobuf_migration (re_captures (grams K)) src)))
     else None)"

end
