(* ===== verification/Diff_Facts.thy ===== *)
theory Diff_Facts
  imports Diff_Engine "HOL-Library.Multiset"
begin

text \<open>
  What the comparison of two documents reports. The changes are first written as a list of
  lists, one per part of the document; the reference is \<open>spec_breaks\<close>, the ways in which a
  document can break the clients of another that the engine looks for, as inductive relations.
\<close>

section \<open>Every operation extends the tally\<close>

definition extend :: "Change list \<Rightarrow> tally \<Rightarrow> tally" where
  "extend cs t = t\<lparr>found := found t @ cs, n_breaking := n_breaking t + length cs\<rparr>"

definition is_breaking :: "Change \<Rightarrow> bool" where
  "is_breaking c \<longleftrightarrow> severity_of c = js ''BREAKING''"

named_theorems as_extension \<open>operations as extensions of the tally\<close>
named_theorems breaks \<open>changes that are breaking\<close>

lemma extend_Nil [simp]: "extend [] = id"
  by (simp add: extend_def fun_eq_iff)

lemma extend_extend [simp]: "extend ds (extend cs t) = extend (cs @ ds) t"
  by (simp add: extend_def)

lemma fold_extend: "(\<And>x. x \<in> set xs \<Longrightarrow> f x = extend (g x)) \<Longrightarrow> fold f xs t = extend (concat (map g xs)) t"
  by (induction xs arbitrary: t) simp_all

lemma report_extend [as_extension]: "report c = extend [c]"
  by (simp add: report_def extend_def fun_eq_iff)

lemma append_local_extend: "\<forall>c \<in> set cs. is_breaking c \<Longrightarrow> append_local cs = extend cs"
  by (auto simp: append_local_def extend_def count_severity_def is_breaking_def fun_eq_iff filter_empty_conv)

lemma breaking_change_breaks [breaks]: "is_breaking (breaking_change p d c f)"
  by (simp add: breaking_change_def is_breaking_def)

lemmas change_defs = enum_removal_def made_required_def removed_parameter_def
  parameter_made_required_def new_required_parameter_def removed_response_def removed_method_def
  removed_endpoint_def

lemma changes_break [breaks]:
  "is_breaking (enum_removal cfg l v)" "is_breaking (made_required cfg l f)"
  "is_breaking (removed_parameter o' k n)" "is_breaking (parameter_made_required o' k n)"
  "is_breaking (new_required_parameter o' k n)" "is_breaking (removed_response o' s)"
  "is_breaking (removed_method p m)" "is_breaking (removed_endpoint cfg p)"
  by (simp_all add: change_defs breaks)

lemma type_change_breaks: "\<forall>c \<in> set (type_change cfg b t l). is_breaking c"
  by (simp add: type_change_def breaks)

lemma enum_changes_break: "\<forall>c \<in> set (enum_changes cfg b t l). is_breaking c"
  by (cases "(cfg, b, t, l)" rule: enum_changes.cases) (auto simp: breaks)

lemma diff_schemas_break:
  "\<forall>c \<in> set (diff_schemas cfg sb st l). is_breaking c"
  "\<forall>c \<in> set (diff_objects cfg ob ot l). is_breaking c"
  "\<forall>c \<in> set (diff_properties cfg ps ts l). is_breaking c"
proof (induction cfg sb st l and cfg ob ot l and cfg ps ts l
    rule: diff_schemas_diff_objects_diff_properties.induct)
  case (1 cfg b t location)
  then show ?case using type_change_breaks enum_changes_break by auto
qed (auto simp: required_changes_def breaks split: option.splits ReferenceOr.splits, metis)

section \<open>The changes, part by part\<close>

definition media_changes :: "TM3LConfig \<Rightarrow> Content \<Rightarrow> (jstr \<Rightarrow> jstr)
    \<Rightarrow> jstr \<times> Schema ReferenceOr option \<Rightarrow> Change list" where
  "media_changes cfg tc l m =
     (case (snd m, map_of tc (fst m)) of
        (Some (Item b), Some (Some (Item t))) \<Rightarrow> diff_schemas cfg b t (l (fst m)) | _ \<Rightarrow> [])"

lemma diff_content_extend [as_extension]:
  "diff_content cfg bc tc l = extend (concat (map (media_changes cfg tc l) bc))"
  unfolding diff_content_def
  by (intro ext fold_extend)
    (auto simp: diff_media_def media_changes_def append_local_extend diff_schemas_break fun_eq_iff
      split: option.splits ReferenceOr.splits)

definition removed_changes :: "TM3LConfig \<Rightarrow> jstr \<Rightarrow> ParameterMap \<Rightarrow> jstr \<times> bool \<times> string \<Rightarrow> Change list" where
  "removed_changes cfg l tm = (\<lambda>(name, req, k).
     if map_of tm name = None \<and> \<not> ignores cfg ''removed_parameter''
     then [removed_parameter l k name] else [])"

definition required_parameter_changes ::
  "TM3LConfig \<Rightarrow> jstr \<Rightarrow> ParameterMap \<Rightarrow> jstr \<times> bool \<times> string \<Rightarrow> Change list" where
  "required_parameter_changes cfg l bm = (\<lambda>(name, req, k).
     if req \<and> \<not> ignores cfg ''new_required_field''
     then (case map_of bm name of
             Some (b_req, _) \<Rightarrow> if b_req then [] else [parameter_made_required l k name]
           | None \<Rightarrow> [new_required_parameter l k name])
     else [])"

definition parameters_changes :: "hash_iter \<Rightarrow> TM3LConfig \<Rightarrow> Parameter ReferenceOr list
    \<Rightarrow> Parameter ReferenceOr list \<Rightarrow> jstr \<Rightarrow> Change list" where
  "parameters_changes iter cfg bs ts l =
     concat (map (removed_changes cfg l (parameter_map ts)) (iter (l, True) (parameter_map bs)))
     @ concat (map (required_parameter_changes cfg l (parameter_map bs)) (iter (l, False) (parameter_map ts)))"

lemma check_removed_extend: "check_removed cfg l tm p = extend (removed_changes cfg l tm p)"
  by (auto simp: check_removed_def removed_changes_def as_extension fun_eq_iff split: prod.splits)

lemma check_required_extend: "check_required cfg l bm p = extend (required_parameter_changes cfg l bm p)"
  by (auto simp: check_required_def required_parameter_changes_def as_extension fun_eq_iff
      split: prod.splits option.splits)

lemma diff_parameters_extend [as_extension]:
  "diff_parameters iter cfg bs ts l = extend (parameters_changes iter cfg bs ts l)"
  by (simp add: fun_eq_iff diff_parameters_def parameters_changes_def Let_def
      fold_extend [where g = "removed_changes cfg l (parameter_map ts)", OF check_removed_extend]
      fold_extend [where g = "required_parameter_changes cfg l (parameter_map bs)", OF check_required_extend])

definition response_changes :: "TM3LConfig \<Rightarrow> (StatusCode \<times> Content ReferenceOr) list \<Rightarrow> jstr
    \<Rightarrow> StatusCode \<times> Content ReferenceOr \<Rightarrow> Change list" where
  "response_changes cfg ts l b =
     (case map_of ts (fst b) of
        Some r \<Rightarrow>
          (case (snd b, r) of
             (Item bc, Item tc) \<Rightarrow> concat (map (media_changes cfg tc (response_location l (fst b))) bc)
           | _ \<Rightarrow> [])
      | None \<Rightarrow> if \<not> ignores cfg ''removed_response'' then [removed_response l (fst b)] else [])"

lemma diff_responses_extend [as_extension]:
  "diff_responses cfg bs ts l = extend (concat (map (response_changes cfg ts l) bs))"
  unfolding diff_responses_def
  by (intro ext fold_extend)
    (auto simp: diff_response_def response_changes_def as_extension fun_eq_iff
      split: option.splits ReferenceOr.splits)

definition request_changes :: "TM3LConfig \<Rightarrow> Operation \<Rightarrow> Operation \<Rightarrow> jstr \<Rightarrow> Change list" where
  "request_changes cfg b t l =
     (case (op_body b, op_body t) of
        (Some (Item bc), Some (Item tc)) \<Rightarrow> concat (map (media_changes cfg tc (request_location l)) bc)
      | _ \<Rightarrow> [])"

lemma diff_requests_extend [as_extension]: "diff_requests cfg b t l = extend (request_changes cfg b t l)"
  by (auto simp: diff_requests_def request_changes_def as_extension split: option.splits ReferenceOr.splits)

definition operation_changes :: "hash_iter \<Rightarrow> TM3LConfig \<Rightarrow> jstr
    \<Rightarrow> string \<times> Operation option \<times> Operation option \<Rightarrow> Change list" where
  "operation_changes iter cfg path = (\<lambda>(m, b_op, t_op).
     case (b_op, t_op) of
       (Some b, None) \<Rightarrow> if \<not> ignores cfg ''removed_method'' then [removed_method path m] else []
     | (Some b, Some t) \<Rightarrow>
         (let l = operation_location path m
          in parameters_changes iter cfg (parameters b) (parameters t) l
             @ concat (map (response_changes cfg (responses t) l) (responses b))
             @ request_changes cfg b t l)
     | _ \<Rightarrow> [])"

lemma diff_operation_extend: "diff_operation iter cfg path m = extend (operation_changes iter cfg path m)"
  by (auto simp: diff_operation_def operation_changes_def as_extension fun_eq_iff Let_def
      split: prod.splits option.splits)

lemma diff_operations_extend:
  "fold (diff_operation iter cfg path) ms t = extend (concat (map (operation_changes iter cfg path) ms)) t"
  by (rule fold_extend) (rule diff_operation_extend)

definition path_changes :: "hash_iter \<Rightarrow> TM3LConfig \<Rightarrow> OpenAPI \<Rightarrow> jstr \<times> PathItem ReferenceOr \<Rightarrow> Change list" where
  "path_changes iter cfg target = (\<lambda>(path, b_ref).
     case map_of target path of
       None \<Rightarrow> if \<not> ignores cfg ''removed_endpoint'' then [removed_endpoint cfg path] else []
     | Some t_ref \<Rightarrow>
         (case (b_ref, t_ref) of
            (Item b, Item t) \<Rightarrow> concat (map (operation_changes iter cfg path) (ops b t)) | _ \<Rightarrow> []))"

definition path_panics :: "OpenAPI \<Rightarrow> jstr \<times> PathItem ReferenceOr \<Rightarrow> bool" where
  "path_panics target p \<longleftrightarrow>
     (\<exists>t. map_of target (fst p) = Some t \<and> (snd p = Reference \<or> t = Reference))"

lemma diff_path_cases:
  "diff_path iter cfg target p t =
     (if path_panics target p then Inl UnwrapNone else Inr (extend (path_changes iter cfg target p) t))"
  by (auto simp: diff_path_def path_panics_def path_changes_def as_extension
      diff_operations_extend split: prod.splits option.splits ReferenceOr.splits)

lemma diff_paths_cases:
  "diff_paths iter cfg ps target t =
     (if \<exists>p \<in> set ps. path_panics target p then Inl UnwrapNone
      else Inr (extend (concat (map (path_changes iter cfg target) ps)) t))"
  by (induction ps arbitrary: t) (auto simp: diff_path_cases)

definition spec_changes :: "hash_iter \<Rightarrow> TM3LConfig \<Rightarrow> OpenAPI \<Rightarrow> OpenAPI \<Rightarrow> Change list" where
  "spec_changes iter cfg base target = concat (map (path_changes iter cfg target) base)"

lemma compare_specs_cases:
  "compare_specs iter base target cfg =
     (if \<exists>p \<in> set base. path_panics target p then Inl UnwrapNone
      else Inr \<lparr>breaking = length (spec_changes iter cfg base target), dangerous = 0, additive_of = 0,
             changes_of = spec_changes iter cfg base target\<rparr>)"
  by (simp add: compare_specs_def diff_paths_cases extend_def empty_tally_def spec_changes_def)

text \<open>All of them are breaking.\<close>

lemma media_changes_break [breaks]: "\<forall>c \<in> set (media_changes cfg tc l m). is_breaking c"
  using diff_schemas_break(1)
  by (auto simp: media_changes_def split: option.splits ReferenceOr.splits)

lemma parameters_changes_break [breaks]: "\<forall>c \<in> set (parameters_changes iter cfg bs ts l). is_breaking c"
  by (auto simp: parameters_changes_def removed_changes_def required_parameter_changes_def breaks
      split: if_splits prod.splits option.splits)

lemma response_changes_break [breaks]: "\<forall>c \<in> set (response_changes cfg ts l b). is_breaking c"
  using media_changes_break
  by (auto simp: response_changes_def breaks split: option.splits ReferenceOr.splits)

lemma request_changes_break [breaks]: "\<forall>c \<in> set (request_changes cfg b t l). is_breaking c"
  using media_changes_break
  by (auto simp: request_changes_def split: option.splits ReferenceOr.splits)

lemma operation_changes_break: "\<forall>c \<in> set (operation_changes iter cfg path m). is_breaking c"
  using parameters_changes_break response_changes_break request_changes_break
  by (auto simp: operation_changes_def Let_def breaks split: prod.splits option.splits)

lemma spec_changes_break: "\<forall>c \<in> set (spec_changes iter cfg base target). is_breaking c"
  using operation_changes_break
  by (auto simp: spec_changes_def path_changes_def breaks split: prod.splits option.splits ReferenceOr.splits)

section \<open>The reference: how a document breaks the clients of another\<close>

inductive schema_breaks :: "TM3LConfig \<Rightarrow> Schema \<Rightarrow> Schema \<Rightarrow> bool" for cfg where
  type_changed:
    "type_name b \<noteq> type_name t \<Longrightarrow> \<not> allow_type_coercion cfg \<Longrightarrow> \<not> ignores cfg ''type_change''
     \<Longrightarrow> schema_breaks cfg (TypeSchema b) (TypeSchema t)"
| value_removed:
    "v \<in> set bs \<Longrightarrow> v \<notin> set ts \<Longrightarrow> \<not> allow_breaking_enums cfg \<Longrightarrow> \<not> ignores cfg ''enum_removal''
     \<Longrightarrow> schema_breaks cfg (TypeSchema (StringType bs)) (TypeSchema (StringType ts))"
| field_required:
    "f \<in> set treq \<Longrightarrow> f \<notin> set breq \<Longrightarrow> \<not> ignores cfg ''new_required_field''
     \<Longrightarrow> schema_breaks cfg (TypeSchema (ObjectType breq bs)) (TypeSchema (ObjectType treq ts))"
| property_breaks:
    "(k, Item b) \<in> set bs \<Longrightarrow> map_of ts k = Some (Item t) \<Longrightarrow> schema_breaks cfg b t
     \<Longrightarrow> schema_breaks cfg (TypeSchema (ObjectType breq bs)) (TypeSchema (ObjectType treq ts))"

inductive_cases schema_breaksE: "schema_breaks cfg b t"

text \<open>The same media type on both sides, with schemas of which one breaks the other.\<close>

inductive content_breaks :: "TM3LConfig \<Rightarrow> Content \<Rightarrow> Content \<Rightarrow> bool" for cfg where
  "(m, Some (Item b)) \<in> set bc \<Longrightarrow> map_of tc m = Some (Some (Item t)) \<Longrightarrow> schema_breaks cfg b t
   \<Longrightarrow> content_breaks cfg bc tc"

text \<open>The parameter a name stands for: the last one of that name.\<close>

fun item :: "'a ReferenceOr \<Rightarrow> 'a option" where
  "item (Item x) = Some x"
| "item Reference = None"

definition named :: "Parameter ReferenceOr list \<Rightarrow> jstr \<Rightarrow> Parameter option" where
  "named ps n = find (\<lambda>p. pname p = n) (rev (List.map_filter item ps))"

inductive operation_breaks :: "TM3LConfig \<Rightarrow> Operation \<Rightarrow> Operation \<Rightarrow> bool" for cfg where
  parameter_removed:
    "named (parameters b) n \<noteq> None \<Longrightarrow> named (parameters t) n = None \<Longrightarrow> \<not> ignores cfg ''removed_parameter''
     \<Longrightarrow> operation_breaks cfg b t"
| parameter_required:
    "named (parameters t) n = Some p \<Longrightarrow> required p
     \<Longrightarrow> \<not> (\<exists>q. named (parameters b) n = Some q \<and> required q)
     \<Longrightarrow> \<not> ignores cfg ''new_required_field'' \<Longrightarrow> operation_breaks cfg b t"
| response_removed:
    "(s, r) \<in> set (responses b) \<Longrightarrow> map_of (responses t) s = None \<Longrightarrow> \<not> ignores cfg ''removed_response''
     \<Longrightarrow> operation_breaks cfg b t"
| response_breaks:
    "(s, Item bc) \<in> set (responses b) \<Longrightarrow> map_of (responses t) s = Some (Item tc)
     \<Longrightarrow> content_breaks cfg bc tc \<Longrightarrow> operation_breaks cfg b t"
| request_breaks:
    "op_body b = Some (Item bc) \<Longrightarrow> op_body t = Some (Item tc)
     \<Longrightarrow> content_breaks cfg bc tc \<Longrightarrow> operation_breaks cfg b t"

inductive spec_breaks :: "TM3LConfig \<Rightarrow> OpenAPI \<Rightarrow> OpenAPI \<Rightarrow> bool" for cfg where
  endpoint_removed:
    "(path, r) \<in> set base \<Longrightarrow> map_of target path = None \<Longrightarrow> \<not> ignores cfg ''removed_endpoint''
     \<Longrightarrow> spec_breaks cfg base target"
| method_removed:
    "(path, Item b) \<in> set base \<Longrightarrow> map_of target path = Some (Item t)
     \<Longrightarrow> (m, Some x, None) \<in> set (ops b t) \<Longrightarrow> \<not> ignores cfg ''removed_method''
     \<Longrightarrow> spec_breaks cfg base target"
| operation_changed:
    "(path, Item b) \<in> set base \<Longrightarrow> map_of target path = Some (Item t)
     \<Longrightarrow> (m, Some x, Some y) \<in> set (ops b t) \<Longrightarrow> operation_breaks cfg x y
     \<Longrightarrow> spec_breaks cfg base target"

lemma type_change_iff: "type_change cfg b t l \<noteq> [] \<longleftrightarrow>
    type_name b \<noteq> type_name t \<and> \<not> allow_type_coercion cfg \<and> \<not> ignores cfg ''type_change''"
  by (simp add: type_change_def)

section \<open>Changes are found exactly when something breaks\<close>

definition object_breaks :: "TM3LConfig \<Rightarrow> SchemaType \<Rightarrow> SchemaType \<Rightarrow> bool" where
  "object_breaks cfg b t \<longleftrightarrow>
     (\<exists>breq bs treq ts. b = ObjectType breq bs \<and> t = ObjectType treq ts
        \<and> ((\<exists>f. f \<in> set treq \<and> f \<notin> set breq \<and> \<not> ignores cfg ''new_required_field'')
          \<or> (\<exists>k x y. (k, Item x) \<in> set bs \<and> map_of ts k = Some (Item y) \<and> schema_breaks cfg x y)))"

definition enum_breaks :: "TM3LConfig \<Rightarrow> SchemaType \<Rightarrow> SchemaType \<Rightarrow> bool" where
  "enum_breaks cfg b t \<longleftrightarrow>
     (\<exists>bs ts. b = StringType bs \<and> t = StringType ts \<and> (\<exists>v. v \<in> set bs \<and> v \<notin> set ts)
        \<and> \<not> allow_breaking_enums cfg \<and> \<not> ignores cfg ''enum_removal'')"

lemma enum_changes_iff: "enum_changes cfg b t l \<noteq> [] \<longleftrightarrow> enum_breaks cfg b t"
  by (cases "(cfg, b, t, l)" rule: enum_changes.cases) (auto simp: enum_breaks_def filter_empty_conv)

lemma schema_breaks_types:
  "schema_breaks cfg (TypeSchema b) (TypeSchema t) \<longleftrightarrow>
     type_change cfg b t l \<noteq> [] \<or> enum_breaks cfg b t \<or> object_breaks cfg b t"
proof
  assume "schema_breaks cfg (TypeSchema b) (TypeSchema t)"
  then show "type_change cfg b t l \<noteq> [] \<or> enum_breaks cfg b t \<or> object_breaks cfg b t"
    by (cases rule: schema_breaks.cases) (auto simp: type_change_iff enum_breaks_def object_breaks_def)
qed (auto simp: type_change_iff enum_breaks_def object_breaks_def intro: schema_breaks.intros)

lemma schema_breaks_other: "\<not> schema_breaks cfg OtherSchema t" "\<not> schema_breaks cfg b OtherSchema"
  by (auto elim: schema_breaksE)

lemma found_iff_breaks:
  "diff_schemas cfg sb st l \<noteq> [] \<longleftrightarrow> schema_breaks cfg sb st"
  "diff_objects cfg ob ot l \<noteq> [] \<longleftrightarrow> object_breaks cfg ob ot"
  "diff_properties cfg ps ts l \<noteq> [] \<longleftrightarrow>
     (\<exists>k x y. (k, Item x) \<in> set ps \<and> map_of ts k = Some (Item y) \<and> schema_breaks cfg x y)"
proof (induction cfg sb st l and cfg ob ot l and cfg ps ts l
    rule: diff_schemas_diff_objects_diff_properties.induct)
  case (1 cfg b t location)
  then show ?case
    using enum_changes_iff [of cfg b t location] by (auto simp: schema_breaks_types [where l = location])
next
  case (3 cfg breq bprops treq tprops location)
  then show ?case by (auto simp: object_breaks_def required_changes_def filter_empty_conv)
next
  case (6 cfg k b bprops tprops location)
  show ?case
  proof (cases "\<exists>t. map_of tprops k = Some (Item t)")
    case True
    with 6 show ?thesis by (auto; blast)
  next
    case False
    with 6(2) show ?thesis by (auto split: option.splits ReferenceOr.splits)
  qed
qed (auto simp: schema_breaks_other object_breaks_def)

lemma concat_map_iff: "concat (map f xs) \<noteq> [] \<longleftrightarrow> (\<exists>x \<in> set xs. f x \<noteq> [])"
  by (induction xs) auto

lemma media_changes_iff:
  "media_changes cfg tc l m \<noteq> [] \<longleftrightarrow>
     (\<exists>b t. snd m = Some (Item b) \<and> map_of tc (fst m) = Some (Some (Item t)) \<and> schema_breaks cfg b t)"
  by (auto simp: media_changes_def found_iff_breaks(1) split: option.splits ReferenceOr.splits)

lemma content_changes_iff:
  "concat (map (media_changes cfg tc l) bc) \<noteq> [] \<longleftrightarrow> content_breaks cfg bc tc"
  by (force simp: concat_map_iff media_changes_iff content_breaks.simps)

lemma content_changes_Nil:
  "concat (map (media_changes cfg tc l) bc) = [] \<longleftrightarrow> \<not> content_breaks cfg bc tc"
  using content_changes_iff by blast

subsection \<open>Parameters\<close>

lemma map_of_fold_update:
  "map_of (fold (\<lambda>(n, v). AList.update n v) xs m) = map_of m ++ map_of (rev xs)"
  by (induction xs arbitrary: m) (auto simp: update_conv' map_add_def fun_eq_iff split: option.splits)

lemma map_of_map_find: "map_of (map (\<lambda>p. (f p, g p)) xs) n = map_option g (find (\<lambda>p. f p = n) xs)"
  by (induction xs) auto

lemma extract_data_items:
  "List.map_filter extract_data ps =
     map (\<lambda>p. (pname p, required p, kind_name (kind p))) (List.map_filter item ps)"
proof (induction ps)
  case (Cons p ps)
  then show ?case by (cases p) (simp_all add: List.map_filter_simps)
qed (simp add: List.map_filter_simps)

lemma parameter_map_named:
  "map_of (parameter_map ps) n = map_option (\<lambda>p. (required p, kind_name (kind p))) (named ps n)"
  by (simp add: parameter_map_def map_of_fold_update extract_data_items named_def rev_map map_of_map_find)

lemma distinct_fold_update:
  "distinct (map fst m) \<Longrightarrow> distinct (map fst (fold (\<lambda>(n, v). AList.update n v) xs m))"
  by (induction xs arbitrary: m) (auto simp: distinct_update)

lemma parameter_map_set:
  "(n, v) \<in> set (parameter_map ps) \<longleftrightarrow> map_of (parameter_map ps) n = Some v"
proof -
  have "distinct (map fst (parameter_map ps))"
    unfolding parameter_map_def by (rule distinct_fold_update) simp
  then show ?thesis by (rule map_of_eq_Some_iff [symmetric])
qed

text \<open>What is documented of a hash map's order: the iteration meets every entry once.\<close>

definition enumerates :: "hash_iter \<Rightarrow> bool" where
  "enumerates iter \<longleftrightarrow> (\<forall>s m. mset (iter s m) = mset m)"

lemma enumerates_mset: "enumerates iter \<Longrightarrow> mset (iter s m) = mset m"
  unfolding enumerates_def by blast

lemma enumerates_set: "enumerates iter \<Longrightarrow> set (iter s m) = set m"
  by (rule mset_eq_setD) (rule enumerates_mset)

lemma removed_changes_iff:
  "removed_changes cfg l tm p \<noteq> [] \<longleftrightarrow> map_of tm (fst p) = None \<and> \<not> ignores cfg ''removed_parameter''"
  by (auto simp: removed_changes_def split: prod.splits)

lemma required_changes_iff:
  "required_parameter_changes cfg l bm p \<noteq> [] \<longleftrightarrow>
     fst (snd p) \<and> \<not> (\<exists>k. map_of bm (fst p) = Some (True, k)) \<and> \<not> ignores cfg ''new_required_field''"
  by (auto simp: required_parameter_changes_def split: prod.splits option.splits)

lemma parameters_changes_iff:
  assumes "enumerates iter"
  shows "parameters_changes iter cfg bs ts l \<noteq> [] \<longleftrightarrow>
     (\<exists>n. named bs n \<noteq> None \<and> named ts n = None \<and> \<not> ignores cfg ''removed_parameter'')
     \<or> (\<exists>n p. named ts n = Some p \<and> required p \<and> \<not> (\<exists>q. named bs n = Some q \<and> required q)
          \<and> \<not> ignores cfg ''new_required_field'')"
    (is "_ \<longleftrightarrow> ?removed \<or> ?required")
proof -
  have "concat (map (removed_changes cfg l (parameter_map ts)) (iter (l, True) (parameter_map bs))) \<noteq> []
      \<longleftrightarrow> ?removed"
    unfolding concat_map_iff enumerates_set [OF assms] removed_changes_iff
    by (auto simp: Bex_def parameter_map_set parameter_map_named)
  moreover have "concat (map (required_parameter_changes cfg l (parameter_map bs))
        (iter (l, False) (parameter_map ts))) \<noteq> [] \<longleftrightarrow> ?required"
    unfolding concat_map_iff enumerates_set [OF assms] required_changes_iff
    by (auto simp: Bex_def parameter_map_set parameter_map_named)
  ultimately show ?thesis by (simp add: parameters_changes_def del: concat_eq_Nil_conv)
qed

subsection \<open>Operations and documents\<close>

lemma response_changes_iff:
  "response_changes cfg ts l b \<noteq> [] \<longleftrightarrow>
     map_of ts (fst b) = None \<and> \<not> ignores cfg ''removed_response''
     \<or> (\<exists>bc tc. snd b = Item bc \<and> map_of ts (fst b) = Some (Item tc) \<and> content_breaks cfg bc tc)"
  by (auto simp: response_changes_def content_changes_Nil simp del: concat_eq_Nil_conv
      split: option.splits ReferenceOr.splits)

lemma request_changes_iff:
  "request_changes cfg b t l \<noteq> [] \<longleftrightarrow>
     (\<exists>bc tc. op_body b = Some (Item bc) \<and> op_body t = Some (Item tc) \<and> content_breaks cfg bc tc)"
  by (auto simp: request_changes_def content_changes_Nil simp del: concat_eq_Nil_conv
      split: option.splits ReferenceOr.splits)

lemma operation_breaks_iff:
  "operation_breaks cfg b t \<longleftrightarrow>
     (\<exists>n. named (parameters b) n \<noteq> None \<and> named (parameters t) n = None \<and> \<not> ignores cfg ''removed_parameter'')
     \<or> (\<exists>n p. named (parameters t) n = Some p \<and> required p
          \<and> \<not> (\<exists>q. named (parameters b) n = Some q \<and> required q) \<and> \<not> ignores cfg ''new_required_field'')
     \<or> (\<exists>r \<in> set (responses b). map_of (responses t) (fst r) = None \<and> \<not> ignores cfg ''removed_response''
          \<or> (\<exists>bc tc. snd r = Item bc \<and> map_of (responses t) (fst r) = Some (Item tc) \<and> content_breaks cfg bc tc))
     \<or> (\<exists>bc tc. op_body b = Some (Item bc) \<and> op_body t = Some (Item tc) \<and> content_breaks cfg bc tc)"
    (is "_ \<longleftrightarrow> ?parts")
proof
  assume "operation_breaks cfg b t"
  then show ?parts
  proof cases
    case (parameter_removed n)
    then show ?thesis by (intro disjI1) blast
  next
    case (parameter_required n p)
    then show ?thesis by (intro disjI2 [OF disjI1]) blast
  next
    case (response_removed s r)
    then have "fst (s, r) = s" "(s, r) \<in> set (responses b)" by simp_all
    with response_removed show ?thesis by metis
  next
    case (response_breaks s bc tc)
    then have "fst (s, Item bc) = s" "snd (s, Item bc) = Item bc" by simp_all
    with response_breaks show ?thesis by metis
  next
    case (request_breaks bc tc)
    then show ?thesis by (intro disjI2) blast
  qed
next
  assume ?parts
  then show "operation_breaks cfg b t"
    by (elim disjE exE conjE bexE) (metis operation_breaks.intros prod.collapse)+
qed

lemma operation_changes_iff:
  assumes "enumerates iter"
  shows "operation_changes iter cfg path (m, b_op, t_op) \<noteq> [] \<longleftrightarrow>
     (\<exists>b. b_op = Some b \<and> t_op = None \<and> \<not> ignores cfg ''removed_method'')
     \<or> (\<exists>b t. b_op = Some b \<and> t_op = Some t \<and> operation_breaks cfg b t)"
proof -
  have "parameters_changes iter cfg (parameters b) (parameters t) l
      @ concat (map (response_changes cfg (responses t) l) (responses b)) @ request_changes cfg b t l = []
    \<longleftrightarrow> \<not> operation_breaks cfg b t" for b t l
    using parameters_changes_iff [OF assms, of cfg "parameters b" "parameters t" l]
      concat_map_iff [of "response_changes cfg (responses t) l" "responses b"]
      request_changes_iff [of cfg b t l]
    unfolding append_is_Nil_conv operation_breaks_iff response_changes_iff by argo
  then show ?thesis
    by (simp add: operation_changes_def Let_def split: option.splits del: append_is_Nil_conv)
qed

lemma operations_changes_iff:
  assumes "enumerates iter"
  shows "concat (map (operation_changes iter cfg path) xs) \<noteq> [] \<longleftrightarrow>
      (\<exists>m x. (m, Some x, None) \<in> set xs \<and> \<not> ignores cfg ''removed_method'')
      \<or> (\<exists>m x y. (m, Some x, Some y) \<in> set xs \<and> operation_breaks cfg x y)"
    (is "_ \<longleftrightarrow> ?parts")
proof
  assume "concat (map (operation_changes iter cfg path) xs) \<noteq> []"
  then obtain m u v where "(m, u, v) \<in> set xs" "operation_changes iter cfg path (m, u, v) \<noteq> []"
    unfolding concat_map_iff by auto
  then show ?parts unfolding operation_changes_iff [OF assms] by blast
next
  assume ?parts
  then show "concat (map (operation_changes iter cfg path) xs) \<noteq> []"
    unfolding concat_map_iff using operation_changes_iff [OF assms, of cfg path] by blast
qed

lemma path_changes_iff:
  assumes "enumerates iter" and "\<not> path_panics target (path, r)"
  shows "path_changes iter cfg target (path, r) \<noteq> [] \<longleftrightarrow>
     map_of target path = None \<and> \<not> ignores cfg ''removed_endpoint''
     \<or> (\<exists>b t m x. r = Item b \<and> map_of target path = Some (Item t)
          \<and> (m, Some x, None) \<in> set (ops b t) \<and> \<not> ignores cfg ''removed_method'')
     \<or> (\<exists>b t m x y. r = Item b \<and> map_of target path = Some (Item t)
          \<and> (m, Some x, Some y) \<in> set (ops b t) \<and> operation_breaks cfg x y)"
proof (cases "map_of target path")
  case (Some u)
  with assms(2) obtain b t where items: "r = Item b" "u = Item t"
    by (cases r; cases u) (simp_all add: path_panics_def)
  show ?thesis
    using operations_changes_iff [OF assms(1), of cfg path "ops b t"] Some items
    by (simp add: path_changes_def del: concat_eq_Nil_conv)
qed (simp add: path_changes_def)

lemma spec_changes_iff:
  assumes "enumerates iter" and "\<forall>p \<in> set base. \<not> path_panics target p"
  shows "spec_changes iter cfg base target \<noteq> [] \<longleftrightarrow> spec_breaks cfg base target"
proof -
  have "spec_changes iter cfg base target \<noteq> [] \<longleftrightarrow> (\<exists>p \<in> set base. path_changes iter cfg target p \<noteq> [])"
    unfolding spec_changes_def concat_map_iff ..
  also have "\<dots> \<longleftrightarrow> spec_breaks cfg base target"
    (is "?found \<longleftrightarrow> _")
  proof
    assume ?found
    then obtain path r where p: "(path, r) \<in> set base" "path_changes iter cfg target (path, r) \<noteq> []" by auto
    with assms(2) have "\<not> path_panics target (path, r)" by blast
    from iffD1 [OF path_changes_iff [OF assms(1) this] p(2)] show "spec_breaks cfg base target"
      using p(1) by (elim disjE exE conjE) (simp_all, (rule spec_breaks.intros; assumption)+)
  next
    assume "spec_breaks cfg base target"
    then obtain path r where p: "(path, r) \<in> set base" and "path_changes iter cfg target (path, r) \<noteq> []"
    proof cases
      case (endpoint_removed path r)
      then show ?thesis using that [of path r] by (simp add: path_changes_def)
    next
      case (method_removed path b t m x)
      then have "path_changes iter cfg target (path, Item b) \<noteq> []"
        using operations_changes_iff [OF assms(1), of cfg path "ops b t"]
        by (simp add: path_changes_def del: concat_eq_Nil_conv) blast
      then show ?thesis using that method_removed by blast
    next
      case (operation_changed path b t m x y)
      then have "path_changes iter cfg target (path, Item b) \<noteq> []"
        using operations_changes_iff [OF assms(1), of cfg path "ops b t"]
        by (simp add: path_changes_def del: concat_eq_Nil_conv) blast
      then show ?thesis using that operation_changed by blast
    qed
    then show ?found by blast
  qed
  finally show ?thesis .
qed

section \<open>The order of iteration\<close>

lemma parameters_changes_mset:
  assumes "enumerates iter" "enumerates iter'"
  shows "mset (parameters_changes iter cfg bs ts l) = mset (parameters_changes iter' cfg bs ts l)"
proof -
  have sums: "mset (concat (map f xs)) = (\<Sum>x\<in>#mset xs. mset (f x))" for f and xs :: ParameterMap
    by (induction xs) simp_all
  have same: "mset (concat (map f (iter s m))) = mset (concat (map f (iter' s m)))" for f s m
    unfolding sums using assms by (simp add: enumerates_mset)
  show ?thesis by (simp add: parameters_changes_def same)
qed

lemma mset_concat_cong:
  "(\<And>x. x \<in> set xs \<Longrightarrow> mset (f x) = mset (g x)) \<Longrightarrow> mset (concat (map f xs)) = mset (concat (map g xs))"
  by (induction xs) simp_all

lemma spec_changes_mset:
  assumes "enumerates iter" "enumerates iter'"
  shows "mset (spec_changes iter cfg base target) = mset (spec_changes iter' cfg base target)"
proof -
  have "mset (operation_changes iter cfg path m) = mset (operation_changes iter' cfg path m)" for path m
    using parameters_changes_mset [OF assms]
    by (simp add: operation_changes_def Let_def split: prod.splits option.splits)
  then have "mset (path_changes iter cfg target p) = mset (path_changes iter' cfg target p)" for p
    by (auto simp: path_changes_def split: prod.splits option.splits ReferenceOr.splits
        intro: mset_concat_cong)
  then show ?thesis unfolding spec_changes_def by (rule mset_concat_cong)
qed

section \<open>Well-formed documents\<close>

text \<open>The keys of an \<open>IndexMap\<close> are distinct, at every depth.\<close>

inductive wf_schema :: "Schema \<Rightarrow> bool" where
  other: "wf_schema OtherSchema"
| plain: "(\<And>r ps. b \<noteq> ObjectType r ps) \<Longrightarrow> wf_schema (TypeSchema b)"
| object: "distinct (map fst ps) \<Longrightarrow> (\<And>k s. (k, Item s) \<in> set ps \<Longrightarrow> wf_schema s)
     \<Longrightarrow> wf_schema (TypeSchema (ObjectType r ps))"

inductive_cases wf_objectE: "wf_schema (TypeSchema (ObjectType r ps))"

lemma wf_schema_same: "wf_schema s \<Longrightarrow> \<not> schema_breaks cfg s s"
proof (induction rule: wf_schema.induct)
  case (plain b)
  then show ?case
    by (auto simp: schema_breaks_types [where l = "[]"] type_change_def enum_breaks_def object_breaks_def)
next
  case (object ps r)
  show ?case
  proof
    assume "schema_breaks cfg (TypeSchema (ObjectType r ps)) (TypeSchema (ObjectType r ps))"
    then show False
      by (rule schema_breaksE) (use object in \<open>auto simp: map_of_eq_Some_iff dest: eq_key_imp_eq_value\<close>)
  qed
qed (simp add: schema_breaks_other)

definition wf_content :: "Content \<Rightarrow> bool" where
  "wf_content c \<longleftrightarrow> distinct (map fst c) \<and> (\<forall>m s. (m, Some (Item s)) \<in> set c \<longrightarrow> wf_schema s)"

definition wf_operation :: "Operation \<Rightarrow> bool" where
  "wf_operation x \<longleftrightarrow>
     distinct (map fst (responses x)) \<and> (\<forall>s c. (s, Item c) \<in> set (responses x) \<longrightarrow> wf_content c)
     \<and> (\<forall>c. op_body x = Some (Item c) \<longrightarrow> wf_content c)"

definition wf_spec :: "OpenAPI \<Rightarrow> bool" where
  "wf_spec d \<longleftrightarrow> distinct (map fst d) \<and> (\<forall>r \<in> snd ` set d. r \<noteq> Reference)
     \<and> (\<forall>p i m x. (p, Item i) \<in> set d \<and> (m, Some x, Some x) \<in> set (ops i i) \<longrightarrow> wf_operation x)"

lemma wf_content_same: "wf_content c \<Longrightarrow> \<not> content_breaks cfg c c"
  by (auto simp: wf_content_def content_breaks.simps dest: wf_schema_same eq_key_imp_eq_value map_of_SomeD)

lemma wf_operation_same: "wf_operation x \<Longrightarrow> \<not> operation_breaks cfg x x"
  by (auto simp: wf_operation_def operation_breaks_iff map_of_eq_None_iff dest!: map_of_SomeD;
      metis ReferenceOr.inject eq_key_imp_eq_value wf_content_same)

lemma ops_same: "(m, u, v) \<in> set (ops i i) \<Longrightarrow> u = v"
  by (auto simp: ops_def)

lemma wf_spec_same:
  assumes "wf_spec d" shows "\<not> spec_breaks cfg d d"
proof
  have same: "b = t" if "(p, Item b) \<in> set d" "map_of d p = Some (Item t)" for p b t
    using assms that by (auto simp: wf_spec_def dest: eq_key_imp_eq_value map_of_SomeD)
  assume "spec_breaks cfg d d"
  then show False
  proof cases
    case (method_removed p b t m x)
    with same ops_same show ?thesis by blast
  next
    case (operation_changed p b t m x y)
    with same ops_same have "b = t" "x = y" by blast+
    with operation_changed assms wf_operation_same show ?thesis by (auto simp: wf_spec_def)
  qed (force simp: map_of_eq_None_iff)
qed

section \<open>What the engine promises\<close>

text \<open>A contract with one operation, whose body gets a required field in its next version.\<close>

definition insertion_order :: hash_iter where
  "insertion_order s m = m"

definition users_contract :: "jstr list \<Rightarrow> jstr list \<Rightarrow> OpenAPI" where
  "users_contract req names =
     [(js ''/users'', Item \<lparr>op_get = None, op_put = None,
        op_post = Some \<lparr>parameters = [],
          op_body = Some (Item [(js ''application/json'',
            Some (Item (TypeSchema (ObjectType req
              (map (\<lambda>f. (f, Item (TypeSchema (StringType [])))) names)))))]),
          responses = []\<rparr>,
        op_delete = None, op_patch = None\<rparr>)]"

lemma insertion_order_enumerates: "enumerates insertion_order" "enumerates (\<lambda>s. rev)"
  by (simp_all add: enumerates_def insertion_order_def)

lemmas users_simps = users_contract_def compare_specs_cases path_panics_def spec_changes_def path_changes_def
  operation_changes_def parameters_changes_def parameter_map_def insertion_order_def ops_def
  request_changes_def media_changes_def type_change_def required_changes_def ignores_def default_config_def
  List.map_filter_simps Let_def

lemma users_required: "\<exists>r. compare_specs insertion_order (users_contract [] []) (users_contract [js ''email''] [])
     default_config = Inr r \<and> breaking r = 1"
  by (simp add: users_simps)

text \<open>
  C27. The engine finds something exactly when the target breaks the clients of the base in one
  of the ways it looks for: whatever the order of iteration of its hash maps, a comparison that
  returns has counted a breaking change if and only if the reference relation holds.
\<close>

theorem engine_blocks_iff_breaks:
  assumes "enumerates iter" and "compare_specs iter base target cfg = Inr r"
  shows "0 < breaking r \<longleftrightarrow> spec_breaks cfg base target"
  using assms(2) spec_changes_iff [OF assms(1), of base target cfg]
  by (auto simp: compare_specs_cases split: if_splits)

lemma engine_blocks_iff_breaks_witness:
  "spec_breaks default_config (users_contract [] []) (users_contract [js ''email''] [])"
  using engine_blocks_iff_breaks [OF insertion_order_enumerates(1)] users_required by fastforce

text \<open>
  C28. The counters agree with the list: every reported change is breaking, \<open>breaking\<close> is
  their number, nothing is counted as dangerous or additive; and another order of iteration
  of the hash maps gives the same counters and the same changes up to their order.
\<close>

theorem engine_counts_agree:
  assumes "enumerates iter" and "enumerates iter'" and "compare_specs iter base target cfg = Inr r"
  shows "breaking r = length (changes_of r) \<and> dangerous r = 0 \<and> additive_of r = 0
    \<and> count_severity ''BREAKING'' (changes_of r) = breaking r
    \<and> (\<exists>r'. compare_specs iter' base target cfg = Inr r' \<and> breaking r' = breaking r
         \<and> mset (changes_of r') = mset (changes_of r))"
proof -
  let ?cs = "spec_changes iter cfg base target" and ?cs' = "spec_changes iter' cfg base target"
  have r: "r = \<lparr>breaking = length ?cs, dangerous = 0, additive_of = 0, changes_of = ?cs\<rparr>"
    and panics: "\<not> (\<exists>p \<in> set base. path_panics target p)"
    using assms(3) by (simp_all add: compare_specs_cases split: if_splits)
  have "filter (\<lambda>c. severity_of c = js ''BREAKING'') ?cs = ?cs"
    using spec_changes_break by (auto simp: is_breaking_def)
  moreover have "mset ?cs' = mset ?cs" using spec_changes_mset [OF assms(2,1)] .
  ultimately show ?thesis
    using panics mset_eq_length [of ?cs' ?cs] by (simp add: r count_severity_def compare_specs_cases)
qed

lemma engine_counts_agree_witness:
  "\<exists>r r'. compare_specs insertion_order (users_contract [] []) (users_contract [js ''email''] [])
       default_config = Inr r \<and> length (changes_of r) = 1
     \<and> compare_specs (\<lambda>s. rev) (users_contract [] []) (users_contract [js ''email''] [])
       default_config = Inr r' \<and> mset (changes_of r') = mset (changes_of r)"
proof -
  obtain r where r: "compare_specs insertion_order (users_contract [] []) (users_contract [js ''email''] [])
       default_config = Inr r" "breaking r = 1" using users_required by blast
  from engine_counts_agree [OF insertion_order_enumerates r(1)] r show ?thesis by auto
qed

text \<open>
  C29. The engine panics on path items that are references: a comparison fails if and only if
  some path of the base is also in the target and one of its two items is a \<open>$ref\<close>.
\<close>

theorem engine_panics_iff:
  "compare_specs iter base target cfg = Inl UnwrapNone \<longleftrightarrow>
     (\<exists>path b t. (path, b) \<in> set base \<and> map_of target path = Some t \<and> (b = Reference \<or> t = Reference))"
proof -
  have "(\<exists>p \<in> set base. path_panics target p) \<longleftrightarrow>
      (\<exists>path b t. (path, b) \<in> set base \<and> map_of target path = Some t \<and> (b = Reference \<or> t = Reference))"
    unfolding path_panics_def Bex_def split_paired_Ex by auto
  then show ?thesis by (simp add: compare_specs_cases)
qed

text \<open>
  A contract compared with itself passes.
\<close>

theorem unchanged_contract_passes:
  assumes "enumerates iter" and "wf_spec d"
  shows "\<exists>r. compare_specs iter d d cfg = Inr r \<and> changes_of r = [] \<and> breaking r = 0"
proof -
  have "\<forall>p \<in> set d. \<not> path_panics d p"
    using assms(2) by (force simp: wf_spec_def path_panics_def dest: map_of_SomeD)
  moreover from this have "spec_changes iter cfg d d = []"
    using spec_changes_iff [OF assms(1), of d d cfg] wf_spec_same [OF assms(2)] by blast
  ultimately show ?thesis by (simp add: compare_specs_cases)
qed

lemma unchanged_contract_passes_witness:
  "\<exists>r. compare_specs insertion_order (users_contract [] []) (users_contract [] []) default_config = Inr r
     \<and> changes_of r = [] \<and> breaking r = 0"
proof (rule unchanged_contract_passes [OF insertion_order_enumerates(1)])
  have "wf_schema (TypeSchema (ObjectType [] []))" by (rule wf_schema.object) simp_all
  then show "wf_spec (users_contract [] [])"
    by (auto simp: wf_spec_def users_contract_def ops_def wf_operation_def wf_content_def)
qed

text \<open>
  Fields that disappear are not reported: when the properties of an object that the target
  still has are unchanged and it requires nothing new, the comparison of the two schemas is
  empty, whatever else was dropped or renamed.
\<close>

theorem renamed_fields_unreported:
  assumes "wf_schema (TypeSchema (ObjectType req ps))" and "set req' \<subseteq> set req"
    and "\<And>k. map_of ps k = None \<or> map_of ps' k = None \<or> map_of ps' k = map_of ps k"
  shows "diff_schemas cfg (TypeSchema (ObjectType req ps)) (TypeSchema (ObjectType req' ps')) l = []"
proof -
  have "\<not> schema_breaks cfg (TypeSchema (ObjectType req ps)) (TypeSchema (ObjectType req' ps'))"
  proof
    assume "schema_breaks cfg (TypeSchema (ObjectType req ps)) (TypeSchema (ObjectType req' ps'))"
    then show False
    proof cases
      case (property_breaks k b t)
      with assms(1) have "map_of ps k = Some (Item b)" by (auto elim: wf_objectE)
      with property_breaks assms(3) [of k] have "b = t" by auto
      with property_breaks assms(1) wf_schema_same show False by (auto elim: wf_objectE)
    qed (use assms(2) in auto)
  qed
  then show ?thesis using found_iff_breaks(1) by blast
qed

lemma renamed_fields_unreported_witness:
  "diff_schemas default_config
     (TypeSchema (ObjectType [js ''id''] [(js ''id'', Item (TypeSchema IntegerType)),
        (js ''email'', Item (TypeSchema (StringType [])))]))
     (TypeSchema (ObjectType [js ''id''] [(js ''id'', Item (TypeSchema IntegerType)),
        (js ''mail'', Item (TypeSchema (StringType [])))])) (js ''x'') = []"
proof (rule renamed_fields_unreported)
  show "wf_schema (TypeSchema (ObjectType [js ''id''] [(js ''id'', Item (TypeSchema IntegerType)),
        (js ''email'', Item (TypeSchema (StringType [])))]))"
    by (rule wf_schema.object) (auto intro: wf_schema.plain)
qed auto

end
