(* ===== verification/Wire_Facts.thy ===== *)
theory Wire_Facts
  imports Server_Facts Engine_Service Diff_Facts Endpoints
begin

text \<open>
  What travels between the three programs: the engine's answers, the server's events and lists,
  and what the viewer reads. Encoders of Go and Rust are parameters; what is used of
  them is that a document they wrote is read back (\<open>encodes\<close>).
\<close>

section \<open>Encoders\<close>

text \<open>An answer of the server as the viewer's \<open>fetch\<close> sees it.\<close>

definition as_response :: "http \<Rightarrow> response" where
  "as_response h = Resp (200 \<le> code h \<and> code h < 300) (body_text h)"

text \<open>
  Go and Rust hold Unicode text, so a document they write has no lone surrogates; the encoders
  are only taken to be right on such documents. \<open>json.Encoder\<close> adds a line feed.
\<close>

fun scalars :: "jstr \<Rightarrow> bool" where
  "scalars [] = True"
| "scalars (c # cs) =
     (if c < 0xD800 \<or> 0xDFFF < c then scalars cs
      else c < 0xDC00 \<and> (case cs of [] \<Rightarrow> False | d # ds \<Rightarrow> 0xDC00 \<le> d \<and> d \<le> 0xDFFF \<and> scalars ds))"

fun unicode :: "jsval \<Rightarrow> bool" where
  "unicode (JStr s) = scalars s"
| "unicode (JArr vs) = list_all unicode vs"
| "unicode (JObj ms) = list_all (\<lambda>(k, v). scalars k \<and> unicode v) ms"
| "unicode v = True"

definition encodes :: "(jsval \<Rightarrow> jstr) \<Rightarrow> bool" where
  "encodes enc \<longleftrightarrow> (\<forall>v. codable v \<longrightarrow> unicode v \<longrightarrow>
     json_parse (enc v) = Some v \<and> json_parse (enc v @ [10]) = Some v)"

lemma encodesD:
  assumes "encodes enc" "codable v" "unicode v"
  shows "json_parse (enc v) = Some v" "json_parse (enc v @ [10]) = Some v"
  using assms by (simp_all add: encodes_def del: parsed.simps exact.simps)

lemma stringify_encodes: "encodes (\<lambda>v. the (json_stringify v))"
proof -
  have "json_parse (p @ [10]) = Some v" if "codable v" "json_stringify v = Some p" for v p
  proof -
    have "written p (toks v)"
      using stringify_written [of v "[]" "[]"] that by (auto simp: json_stringify_def)
    then have "lex (p @ [10]) = Some (toks v)"
      by (auto simp: written_def delim_def lex.simps json_space_def dest: spec [of _ "[10]"])
    moreover have "parse_tokens MValue [] (toks v) = Some v"
      using readsD [OF parsed_reads, of v "[]" "[]"] that(1) by simp
    ultimately show ?thesis by (simp add: json_parse_def)
  qed
  then show ?thesis
    unfolding encodes_def using compact.prints compact.reads_back by (metis option.sel)
qed

lemma scalars_js [simp]: "scalars (js s @ t) = scalars t" "scalars (js s)"
proof -
  have "scalars (js s @ t) = scalars t" for s t
  proof (induction s)
    case (Cons c s)
    have "(of_char c :: nat) < 0xD800" by (rule less_trans [OF nat_of_char_less_256]) simp
    then show ?case using Cons by (simp add: js_Cons)
  qed simp
  from this this [of s "[]"] show "scalars (js s @ t) = scalars t" "scalars (js s)" by simp_all
qed

section \<open>Integers\<close>

lemma small_ratio:
  assumes "0 < n" "n \<le> 2 ^ 31"
  shows "\<exists>m x. ratio_num neg n 1 = Dbl neg m x \<and> 0 < m"
proof -
  have "log 2 (real n) \<le> 31"
    using assms by (subst log_le_iff) (simp_all add: powr_realpow flip: of_nat_le_iff)
  moreover have "0 \<le> log 2 (real n)" using assms(1) by simp
  ultimately obtain l where l: "l = \<lfloor>log 2 (real n)\<rfloor>" and range: "0 \<le> l" "l \<le> 31"
    by (simp add: floor_le_iff)
  have "exp2_of n 1 = max (- 1074) (l - 52)"
    using exp2_of_log [of n 1] assms(1) by (simp add: l)
  with range have e: "- 1074 < exp2_of n 1" "exp2_of n 1 < 0" by simp_all
  have big: "2 ^ 52 * snd (scale2 (exp2_of n 1) n 1) \<le> fst (scale2 (exp2_of n 1) n 1)"
    using scale2_range(2) [of n 1] assms(1) e(1) by simp
  have "2 ^ 52 \<le> round_even (scale2 (exp2_of n 1) n 1)"
    using round_even_ge [OF big scale2_pos [of 1 "exp2_of n 1" n]] by simp
  then have "0 < round_even (scale2 (exp2_of n 1) n 1)" by (rule less_le_trans [rotated]) simp
  then show ?thesis using assms(1) e by (auto simp: ratio_num_def Let_def)
qed

lemma codable_int:
  assumes "int4 i = None" shows "codable (int_json i)"
proof (cases "i = 0")
  case False
  then have "0 < nat \<bar>i\<bar>" "nat \<bar>i\<bar> \<le> 2 ^ 31" using assms by (auto simp: int4_def split: if_splits)
  then obtain m x where "dec_num (i < 0) (nat \<bar>i\<bar>) 0 = Dbl (i < 0) m x" "0 < m"
    using small_ratio [of "nat \<bar>i\<bar>" "i < 0"] by (auto simp: dec_num_def)
  then show ?thesis using dec_num_canonical [of "i < 0" "nat \<bar>i\<bar>" 0] by (auto simp: int_json_def)
qed (simp add: int_json_def dec_num_def ratio_num_def canonical_def)

section \<open>What is written is read back\<close>

definition plain_keys :: "(jstr \<times> jsval) list \<Rightarrow> bool" where
  "plain_keys ms \<longleftrightarrow> distinct (map fst ms) \<and> list_all (\<lambda>m. index_of (fst m) = None) ms"

lemma index_of_letter: "\<not> is_digit (of_char c) \<Longrightarrow> index_of (js (c # cs)) = None"
  by (simp add: index_of_def js_def)

lemma codable_JObj:
  assumes "plain_keys ms" "list_all (\<lambda>(k, v). codable v) ms" shows "codable (JObj ms)"
proof -
  have "filter (\<lambda>m. index_of (fst m) \<noteq> None) ms = []" "filter (\<lambda>m. index_of (fst m) = None) ms = ms"
    using assms(1) by (auto simp: plain_keys_def list_all_iff filter_empty_conv)
  then have "own_order ms = ms" by (simp add: own_order_def)
  moreover have "put_all ms [] = ms" using put_all_new [of "[]" ms] assms(1) by (simp add: plain_keys_def)
  ultimately show ?thesis using assms(2) by (auto simp: mk_obj_def list_all_iff)
qed

lemma codable_JArr: "list_all codable vs \<Longrightarrow> codable (JArr vs)"
  by (auto simp: list_all_iff)

lemma codable_str [simp]: "codable (JStr s)"
  by simp

lemmas plain_simps = plain_keys_def index_of_letter is_digit_def

lemma codable_change: "codable (change_json c)"
  unfolding change_json_def by (rule codable_JObj) (simp_all add: plain_simps)

lemma codable_ipc:
  assumes "int4 (int (breaking r)) = None" "int4 (int (dangerous r)) = None" "int4 (int (additive_of r)) = None"
  shows "codable (ipc_json r)"
proof -
  have "codable (JArr (map change_json (changes_of r)))"
    by (rule codable_JArr) (simp add: list_all_iff codable_change del: parsed.simps exact.simps)
  moreover have "codable (JObj [(js ''breaking'', int_json (int (breaking r))),
      (js ''dangerous'', int_json (int (dangerous r))), (js ''additive'', int_json (int (additive_of r)))])"
    using assms[THEN codable_int] by (intro codable_JObj) (simp_all add: plain_simps del: parsed.simps exact.simps)
  ultimately show ?thesis
    unfolding ipc_json_def by (intro codable_JObj) (simp_all add: plain_simps del: parsed.simps exact.simps)
qed

text \<open>A run whose counters and document can be stored.\<close>

definition writable :: "DiffRun \<Rightarrow> bool" where
  "writable r \<longleftrightarrow> int4 (breaking_count r) = None \<and> int4 (dangerous_count r) = None \<and> codable (raw_diff_payload r)"

lemma codable_run: "writable r \<Longrightarrow> codable (run_json e r)"
  unfolding run_json_def commit_json_def writable_def
  by (rule codable_JObj)
    (auto simp: plain_simps codable_int split: option.split simp del: parsed.simps exact.simps)

lemma codable_events:
  "writable r \<Longrightarrow> codable (completed_event e r)" "codable (created_event e p)"
  "codable (overridden_event e i user n t)"
proof -
  show "codable (completed_event e r)" if "writable r"
    using codable_run [OF that] unfolding completed_event_def
    by (intro codable_JObj) (simp_all add: plain_simps del: parsed.simps exact.simps)
  have "codable (project_json e p)" unfolding project_json_def by (rule codable_JObj) (simp_all add: plain_simps)
  then show "codable (created_event e p)"
    unfolding created_event_def by (intro codable_JObj) (simp_all add: plain_simps del: parsed.simps exact.simps)
  show "codable (overridden_event e i user n t)"
    unfolding overridden_event_def by (rule codable_JObj) (simp_all add: plain_simps)
qed

section \<open>The values are what the viewer declares\<close>

lemma opt_get_JObj: "opt_get (JObj ms) k = (case map_of ms k of Some v \<Rightarrow> v | None \<Rightarrow> JUndef)"
  by (simp add: opt_get_def field_def)

lemma change_json_typed: "is_breaking c \<Longrightarrow> BreakingChange (change_json c)"
  by (simp add: BreakingChange_def change_json_def opt_get_JObj type_defs is_breaking_def)

lemma run_json_typed:
  assumes "row_status r \<in> js ` {''PASSED'', ''FAILED'', ''OVERRIDDEN''}"
  shows "DiffRunRecord (run_json e r)"
  using assms by (auto simp: DiffRunRecord_def run_json_def commit_json_def opt_get_JObj type_defs int_json_def
      split: option.split)

lemma run_json_fields:
  "opt_get (run_json e r) (js ''id'') = JStr (run_id r)" "opt_get (run_json e r) (js ''status'') = JStr (row_status r)"
  "opt_get (run_json e r) (js ''raw_diff_payload'') = raw_diff_payload r"
  by (simp_all add: run_json_def commit_json_def opt_get_JObj split: option.split)

lemma event_fields:
  "opt_get (completed_event e r) (js ''type'') = JStr (js ''diff_completed'')"
  "opt_get (completed_event e r) (js ''data'') = run_json e r"
  "opt_get (created_event e p) (js ''type'') = JStr (js ''project_created'')"
  "opt_get (overridden_event e i user n t) (js ''type'') = JStr (js ''diff_overridden'')"
  by (simp_all add: completed_event_def created_event_def overridden_event_def opt_get_JObj)

lemma ipc_changes: "opt_get (ipc_json r) (js ''changes'') = JArr (map change_json (changes_of r))"
  by (simp add: ipc_json_def opt_get_JObj)

end
