(* ===== verification/Server_Example.thy ===== *)
theory Server_Example
  imports Wire_Facts
begin

text \<open>
  A concrete server to try things on: the viewer's own \<open>JSON.stringify\<close> as encoder, a database
  whose identifiers have 36 characters, one project, and one contract job whose target makes a
  field required.
\<close>

definition compared_run :: "DiffJob \<Rightarrow> jstr \<Rightarrow> IPCResponse \<Rightarrow> DiffRun" where
  "compared_run j raw r = job_run j raw (int (breaking r), int (dangerous r))"

definition example_pg :: postgres where
  "example_pg = \<lparr>uuid_in = (\<lambda>s. if length s = 36 then Some s else None), text_in = (\<lambda>s. 0 \<notin> set s),
     jsonb_in = Some, scan = id\<rparr>"

definition example_decode :: "string list \<Rightarrow> jstr \<Rightarrow> jstr + jstr list" where
  "example_decode keys body =
     (case json_parse body of
        None \<Rightarrow> Inl (js ''invalid character'')
      | Some v \<Rightarrow> Inr (map (\<lambda>k. case opt_get v (js k) of JStr s \<Rightarrow> s | _ \<Rightarrow> []) keys))"

definition example_jwt_parse :: "jstr \<Rightarrow> nat \<Rightarrow> jstr \<Rightarrow> jsval option" where
  "example_jwt_parse key t tok =
     (case json_parse tok of
        Some claims \<Rightarrow> Some claims
      | None \<Rightarrow> if tok = js ''signed'' then Some (JObj [(js ''sub'', JStr (js ''admin''))]) else None)"

definition example_jwt_sign :: "jstr \<Rightarrow> jsval \<Rightarrow> jstr option" where
  "example_jwt_sign key claims = (if codable claims then json_stringify claims else None)"

definition example_env :: server_env where
  "example_env =
     \<lparr>pg = example_pg, encode = (\<lambda>v. the (json_stringify v)), decode_body = example_decode,
      read_ipc = (\<lambda>raw. Some (1, 0)), rfc3339 = (\<lambda>t. js ''2024-01-01T00:00:00Z''),
      db_message = (\<lambda>err. js ''pq: error''),
      jwt_parse = example_jwt_parse, jwt_sign = example_jwt_sign, hmac_sha256 = (\<lambda>key t. js ''0a''),
      getenv = (\<lambda>k. if k = ''GITHUB_TOKEN'' then js ''ghp'' else []), grpc_client = True, decode_analysis = (\<lambda>out. None),
      decode_prompt = (\<lambda>body. Inr (body, \<lambda>t. t = js ''docker'')),
      decode_pull = (\<lambda>body. Some \<lparr>pr_action = js ''opened'', pr_repo = js ''a/b'', pr_sha = js ''c0'', pr_comments = body\<rparr>),
      encode_indent = (\<lambda>v. the (json_stringify2 v)), valid_url = (\<lambda>u. True)\<rparr>"

definition example_id :: "nat \<Rightarrow> jstr" where
  "example_id n = replicate 36 n"

definition example_call :: "nat \<Rightarrow> call" where
  "example_call n = \<lparr>fresh = example_id n, now = n, reached = True\<rparr>"

definition example_calls :: "nat \<Rightarrow> calls" where
  "example_calls n = \<lparr>db_call = example_call n, db_call2 = example_call n, redis_up = False, temp_ok = True,
     analyzer = (\<lambda>q. None), git_get = (\<lambda>url token. None), git_post = (\<lambda>url token body. True)\<rparr>"

lemma scalars_replicate: "c < 0xD800 \<Longrightarrow> scalars (replicate n c)"
  by (induction n) simp_all

lemma example_id_simps [simp]: "example_id m = example_id n \<longleftrightarrow> m = n" "length (example_id n) = 36"
  "example_id n \<noteq> []"
  by (simp_all add: example_id_def replicate_eq_replicate)

lemma example_id_scalars [simp]: "n < 0xD800 \<Longrightarrow> scalars (example_id n)"
  by (simp add: example_id_def scalars_replicate)

definition example_project :: Project where
  "example_project = \<lparr>proj_id = example_id 97, proj_name = js ''shop'', proj_created = 1\<rparr>"

definition example_job :: DiffJob where
  "example_job = \<lparr>job_project = example_id 97, job_commit = js ''abc'', base_text = js ''[]'',
     target_text = js ''{}'', job_mode = [], job_language = []\<rparr>"

definition example_server :: server where
  "example_server = server_init\<lparr>store := no_tables\<lparr>projects := [example_project]\<rparr>, queue := [example_job]\<rparr>"

definition example_spec :: "jsval \<Rightarrow> OpenAPI option" where
  "example_spec v = Some (users_contract (if v = JArr [] then [] else [js ''email'']) [])"

text \<open>Parsers that find one leaf, and patterns that match nothing.\<close>

definition example_crates :: crates where
  "example_crates =
     \<lparr>grams = \<lparr>parse_python = (\<lambda>src. Some (Node (js ''module'') src 0 None [])),
         parse_go = (\<lambda>src. Some (Node (js ''source_file'') src 0 None [])),
         parse_typescript = (\<lambda>src. Some (Node (js ''program'') src 0 None [])),
         parse_javascript = (\<lambda>src. Some (Node (js ''program'') src 0 None [])),
         is_named = (\<lambda>n. True), re_captures = (\<lambda>r t. None)\<rparr>,
      read_spec = example_spec, hash_order = insertion_order, to_string = (\<lambda>v. the (json_stringify v))\<rparr>"

lemma example_crates_simps [simp]: "read_spec example_crates = example_spec"
  "hash_order example_crates = insertion_order" "to_string example_crates = (\<lambda>v. the (json_stringify v))"
  by (simp_all add: example_crates_def)

definition example_answer :: IPCResponse where
  "example_answer = \<lparr>breaking = 1, dangerous = 0, additive_of = 0, changes_of =
     [made_required default_config (request_location (operation_location (js ''/users'') ''POST'')
        (js ''application/json'')) (js ''email'')]\<rparr>"

lemma example_compared:
  "compare_specs insertion_order (users_contract [] []) (users_contract [js ''email''] []) default_config = Inr example_answer"
  by (simp add: users_simps example_answer_def)

lemma example_docs: "json_parse (js ''[]'') = Some (JArr [])" "json_parse (js ''{}'') = Some (JObj [])"
  by (simp_all add: js_eval)

lemma example_answer_unicode: "unicode (ipc_json example_answer)"
  by (simp add: ipc_json_def example_answer_def change_json_def int_json_def made_required_def breaking_change_def
      dot_def quoted_def request_location_def operation_location_def to_lowercase_def cite_def default_config_def js_Cons)

lemma example_answer_codable: "codable (ipc_json example_answer)"
  by (rule codable_ipc) (simp_all add: example_answer_def int4_def)

lemma example_answer_parse: "json_parse (the (json_stringify (ipc_json example_answer))) = Some (ipc_json example_answer)"
  using encodesD(1) [OF stringify_encodes example_answer_codable example_answer_unicode] .

definition example_run :: DiffRun where
  "example_run = \<lparr>run_id = example_id 98, run_project = example_id 97, run_commit = Some (js ''abc''),
     row_status = js ''FAILED'', breaking_count = 1, dangerous_count = 0,
     raw_diff_payload = ipc_json example_answer, run_created = 98\<rparr>"

definition example_db :: tables where
  "example_db = (store example_server)\<lparr>diff_runs := [example_run]\<rparr>"

lemma example_inserted:
  "InsertDiffRun example_pg (example_call 98)
     (compared_run example_job (the (json_stringify (ipc_json example_answer))) example_answer)
     (store example_server) = Inr (example_run, example_db)"
proof -
  have "compared_run example_job (the (json_stringify (ipc_json example_answer))) example_answer =
      example_run\<lparr>run_id := [], run_created := 0\<rparr>"
    unfolding compared_run_def job_run_def example_answer_parse
    by (simp add: example_run_def example_job_def example_answer_def)
  then show ?thesis
    by (simp add: InsertDiffRun_def example_run_def example_pg_def example_call_def example_server_def
        example_project_def example_db_def no_tables_def varchar_def int4_def Let_def js_def)
qed

lemma example_event_unicode: "unicode (completed_event example_env example_run)"
  using example_answer_unicode
  by (simp add: completed_event_def run_json_def commit_json_def int_json_def example_run_def example_env_def)

section \<open>A history of the server\<close>

text \<open>A project is created, a comparison is uploaded and finds a break, and the run is overridden.\<close>

definition history :: "server_act list" where
  "history = [Serve (example_calls 97) (Projects (js ''{\"name\":\"shop\"}'')),
     Serve (example_calls 98) (RunDiff (js ''Bearer secret-ci-token'')
       (Some [(js ''project_id'', example_id 97), (js ''base_spec'', js ''[]''), (js ''target_spec'', js ''{}'')])),
     Work 0 (example_call 98) (Some (js ''{}'')),
     Serve (example_calls 99) (OverrideDiff (Some (js ''signed'')) (example_id 98) (js ''{\"note\":\"accepted\"}''))]"

lemma example_bodies:
  "decode_body example_env [''name''] (js ''{\"name\":\"shop\"}'') = Inr [js ''shop'']"
  "decode_body example_env [''note''] (js ''{\"note\":\"accepted\"}'') = Inr [js ''accepted'']"
  "decode_body example_env [''note''] (js ''{\"note\":\"\"}'') = Inr [[]]"
  "decode_body example_env [''source_code'', ''mode'', ''language''] (js ''{\"source_code\":\"x\"}'') = Inr [js ''x'', [], []]"
  by (simp_all add: example_env_def example_decode_def opt_get_def field_def js_eval)

lemma example_env_simps [simp]:
  "pg example_env = example_pg" "ci_token example_env = js ''secret-ci-token''"
  "jwt_sub example_env t (js ''signed'') = Some (JStr (js ''admin''))" "read_ipc example_env raw = Some (1, 0)"
proof -
  have "json_parse (js ''signed'') = None" by (simp add: js_eval)
  then show "jwt_sub example_env t (js ''signed'') = Some (JStr (js ''admin''))"
    by (simp add: example_env_def jwt_sub_def example_jwt_parse_def opt_get_JObj)
qed (simp_all add: example_env_def ci_token_def getenv_or_def)

lemma example_call_simps [simp]:
  "fresh (example_call n) = example_id n" "now (example_call n) = n" "reached (example_call n)"
  "db_call (example_calls n) = example_call n" "db_call2 (example_calls n) = example_call n"
  by (simp_all add: example_call_def example_calls_def)

lemma example_pg_simps [simp]:
  "uuid_in example_pg (example_id n) = Some (example_id n)" "uuid_in example_pg (js ''code-diff'') = None"
  "jsonb_in example_pg v = Some v" "text_in example_pg (js ''shop'')" "text_in example_pg []"
  "text_in example_pg (js ''FAILED'')" "text_in example_pg (js ''admin'')" "text_in example_pg (js ''accepted'')"
  by (simp_all add: example_pg_def js_def)

lemma length_js [simp]: "length (js s) = length s"
  by (simp add: js_def)

lemma example_bearer:
  "starts_with (js ''Bearer secret-ci-token'') (js ''Bearer '')"
  "drop 7 (js ''Bearer secret-ci-token'') = js ''secret-ci-token''"
  by (simp_all add: js_def)

lemmas example_simps = history_def handler_defs example_bodies CreateProject_def OverrideDiffRun_def
  InsertDiffRun_def GetDiffRun_def varchar_def int4_def server_init_def no_tables_def Let_def room_def
  NewBroker_def notifier_capacity_def job_capacity_def workers_def settle_def notify_def form_value_def processJob_def
  job_run_def example_docs example_bearer

lemma history_reached: "server_reach example_env (\<lambda>_ _. True) (fold (server_do example_env) history server_init)"
  by (rule server_run_reach [OF server_reach.start]) (simp add: example_simps)

end
