(* ===== verification/Broker_Delivery.thy ===== *)
theory Broker_Delivery
  imports Go_Broker
begin

text \<open>
  That the broker delivers: left to itself, with every client writing what it has before the next
  event is offered, it empties its channel and every client in its loop gets all that is
  meant for it. A client that is still writing when the next event is offered does not get it.
\<close>

section \<open>Steps of the broker's own\<close>

text \<open>What \<open>listen\<close> and the clients do by themselves: nobody connects, leaves or publishes.\<close>

fun own_act :: "broker_act \<Rightarrow> bool" where
  "own_act Receive = True"
| "own_act Lock = True"
| "own_act (Offer c) = True"
| "own_act Unlock = True"
| "own_act (Flush c) = True"
| "own_act _ = False"

definition leads :: "broker \<Rightarrow> broker \<Rightarrow> bool" where
  "leads b b' \<longleftrightarrow> (\<exists>xs. list_all own_act xs \<and> broker_run xs b = Some b')"

lemma broker_run_append: "broker_run (xs @ ys) b = Option.bind (broker_run xs b) (broker_run ys)"
  by (induction xs arbitrary: b) auto

lemma leads_refl [simp]: "leads b b"
  unfolding leads_def by (rule exI [of _ "[]"]) simp

lemma leads_trans: "leads b b' \<Longrightarrow> leads b' b'' \<Longrightarrow> leads b b''"
  unfolding leads_def by (metis broker_run_append list_all_append bind.bind_lunit)

lemma leads_step: "own_act x \<Longrightarrow> broker_can b x \<Longrightarrow> leads (broker_do x b) b' \<Longrightarrow> leads b b'"
proof -
  assume x: "own_act x" "broker_can b x" and "leads (broker_do x b) b'"
  then obtain xs where "list_all own_act xs" "broker_run xs (broker_do x b) = Some b'"
    by (auto simp: leads_def)
  with x show "leads b b'" unfolding leads_def by (intro exI [of _ "x # xs"]) simp
qed

section \<open>Writing what is there\<close>

definition flushed :: "client set \<Rightarrow> broker \<Rightarrow> broker" where
  "flushed C b = b\<lparr>responded := (\<lambda>c. if c \<in> C then got b c else responded b c),
     handlers := (\<lambda>c. case handlers b c of
        Some (Writing m) \<Rightarrow> if c \<in> C then Some Selecting else Some (Writing m) | h \<Rightarrow> h)\<rparr>"

lemma flush_all: "finite C \<Longrightarrow> leads b (flushed C b)"
proof (induction C arbitrary: b rule: finite_induct)
  case empty
  have "flushed {} b = b" by (rule broker.equality) (auto simp: flushed_def fun_eq_iff split: option.split handler.split)
  then show ?case by simp
next
  case (insert c C)
  show ?case
  proof (cases "\<exists>m. handlers b c = Some (Writing m)")
    case True
    then obtain m where m: "handlers b c = Some (Writing m)" by blast
    have "flushed (insert c C) b = flushed C (broker_do (Flush c) b)"
      using insert.hyps(2) m
      by (intro broker.equality) (auto simp: flushed_def flush_def got_def fun_eq_iff split: option.split handler.split)
    moreover have "broker_can b (Flush c)" using m by simp
    ultimately show ?thesis using insert.IH [of "broker_do (Flush c) b"] leads_step [of "Flush c" b] by simp
  next
    case False
    then have "flushed (insert c C) b = flushed C b"
      by (intro broker.equality) (auto simp: flushed_def got_def fun_eq_iff split: option.split handler.split)
    then show ?thesis using insert.IH [of b] by simp
  qed
qed

section \<open>One event\<close>

definition offered :: "client set \<Rightarrow> broker_event \<Rightarrow> broker \<Rightarrow> broker" where
  "offered C ev b = b\<lparr>sending := None, handlers := (\<lambda>c. if c \<in> C \<and> handlers b c = Some Selecting
     then Some (Writing (Payload ev)) else handlers b c)\<rparr>"

lemma offer_all: "finite C \<Longrightarrow> sending b = Some (ev, C) \<Longrightarrow> leads b (offered C ev b)"
proof (induction C arbitrary: b rule: finite_induct)
  case empty
  then have "broker_do Unlock b = offered {} ev b"
    by (auto simp: offered_def unlock_def fun_eq_iff intro!: broker.equality)
  moreover have "broker_can b Unlock" using empty by simp
  ultimately show ?case using leads_step [of Unlock b "offered {} ev b"] by simp
next
  case (insert c C)
  have "offered (insert c C) ev b = offered C ev (broker_do (Offer c) b)"
    using insert.hyps(2) insert.prems
    by (intro broker.equality) (auto simp: offered_def offer_def fun_eq_iff)
  moreover have "sending (broker_do (Offer c) b) = Some (ev, C)"
    using insert.hyps(2) insert.prems by (auto simp: offer_def)
  moreover have "broker_can b (Offer c)" using insert.prems by simp
  ultimately show ?case
    using insert.IH [of "broker_do (Offer c) b"] leads_step [of "Offer c" b] by (simp only: own_act.simps)
qed

text \<open>An event has been delivered to everybody in its loop.\<close>

definition delivered_to_all :: "broker_event \<Rightarrow> broker \<Rightarrow> broker" where
  "delivered_to_all ev b = b\<lparr>held := None, taken := taken b @ [ev],
     responded := (\<lambda>c. if handlers b c = Some Selecting \<and> asked_for b c = ProjectID ev
        then responded b c @ [Payload ev] else responded b c)\<rparr>"

definition none_writing :: "broker \<Rightarrow> bool" where
  "none_writing b \<longleftrightarrow> (\<forall>c m. handlers b c \<noteq> Some (Writing m))"

lemma deliver_held:
  assumes "map_ok b" and "finite (dom (handlers b))" and "none_writing b" and "sending b = None" and "held b = Some ev"
  shows "leads b (delivered_to_all ev b)"
proof -
  let ?C = "clients_of b (ProjectID ev)"
  let ?b1 = "broker_do Lock b"
  have C: "c \<in> ?C \<longleftrightarrow> asked_for b c = ProjectID ev \<and> subscribed_handler (handlers b c)" for c
    using assms(1) by (auto simp: map_ok_def)
  have "?C \<subseteq> dom (handlers b)" by (auto simp: C subscribed_handler_def split: option.splits)
  then have fin: "finite ?C" using assms(2) finite_subset by blast
  have b1: "sending ?b1 = Some (ev, ?C)" using assms(5) by (simp add: begin_delivery_def)
  have "delivered_to_all ev b = flushed ?C (offered ?C ev ?b1)"
    using assms(3-5)
    by (intro broker.equality)
      (auto simp: delivered_to_all_def flushed_def offered_def begin_delivery_def got_def none_writing_def C fun_eq_iff
        split: option.splits handler.splits)
  then have "leads ?b1 (delivered_to_all ev b)"
    using leads_trans [OF offer_all [OF fin b1] flush_all [OF fin]] by simp
  moreover have "broker_can b Lock" using assms(4,5) by simp
  ultimately show ?thesis using leads_step [of Lock b] by (simp only: own_act.simps)
qed

section \<open>The whole queue\<close>

text \<open>What a client in its loop gets of a list of events.\<close>

definition meant_for :: "broker \<Rightarrow> client \<Rightarrow> broker_event list \<Rightarrow> jstr list" where
  "meant_for b c evs = map Payload (filter (\<lambda>ev. ProjectID ev = asked_for b c) evs)"

definition all_delivered :: "broker_event list \<Rightarrow> broker \<Rightarrow> broker" where
  "all_delivered evs b = b\<lparr>notifier := [], held := None, taken := taken b @ evs,
     responded := (\<lambda>c. if handlers b c = Some Selecting then responded b c @ meant_for b c evs else responded b c)\<rparr>"

definition quiet :: "broker \<Rightarrow> bool" where
  "quiet b \<longleftrightarrow> map_ok b \<and> finite (dom (handlers b)) \<and> none_writing b \<and> sending b = None"

lemma quiet_delivered: "quiet b \<Longrightarrow> quiet (delivered_to_all ev b)"
  by (simp add: quiet_def delivered_to_all_def map_ok_def none_writing_def)

lemma drain_queue: "quiet b \<Longrightarrow> held b = None \<Longrightarrow> notifier b = evs \<Longrightarrow> leads b (all_delivered evs b)"
proof (induction evs arbitrary: b)
  case Nil
  then have "all_delivered [] b = b" by (intro broker.equality) (auto simp: all_delivered_def meant_for_def)
  then show ?case by simp
next
  case (Cons ev evs)
  let ?b1 = "broker_do Receive b" and ?b2 = "delivered_to_all ev (broker_do Receive b)"
  have b1: "?b1 = b\<lparr>notifier := evs, held := Some ev\<rparr>" using Cons.prems by (simp add: receive_event_def)
  have q1: "quiet ?b1" using Cons.prems(1) unfolding b1 by (simp add: quiet_def map_ok_def none_writing_def)
  have "leads ?b1 ?b2"
    using q1 b1 by (intro deliver_held) (simp_all add: quiet_def)
  moreover have "leads ?b2 (all_delivered evs ?b2)"
  proof (rule Cons.IH [OF quiet_delivered [OF q1]])
    show "held ?b2 = None" "notifier ?b2 = evs" unfolding b1 by (simp_all add: delivered_to_all_def)
  qed
  moreover have "all_delivered evs ?b2 = all_delivered (ev # evs) b"
    unfolding b1
    by (intro broker.equality) (auto simp: all_delivered_def delivered_to_all_def meant_for_def fun_eq_iff)
  ultimately have "leads ?b1 (all_delivered (ev # evs) b)" using leads_trans by metis
  moreover have "broker_can b Receive" using Cons.prems by (simp add: quiet_def)
  ultimately show ?case using leads_step [of Receive b] by (simp only: own_act.simps)
qed

lemma drain_all:
  assumes "quiet b"
  shows "leads b (all_delivered ((case held b of None \<Rightarrow> [] | Some ev \<Rightarrow> [ev]) @ notifier b) b)"
proof (cases "held b")
  case None
  with drain_queue [OF assms None refl] show ?thesis by simp
next
  case (Some ev)
  let ?b1 = "delivered_to_all ev b"
  have "leads b ?b1" using assms Some by (intro deliver_held) (simp_all add: quiet_def)
  moreover have "leads ?b1 (all_delivered (notifier b) ?b1)"
    using quiet_delivered [OF assms] by (intro drain_queue) (simp_all add: delivered_to_all_def)
  moreover have "all_delivered (notifier b) ?b1 = all_delivered (ev # notifier b) b"
    by (intro broker.equality) (auto simp: all_delivered_def delivered_to_all_def meant_for_def fun_eq_iff)
  ultimately show ?thesis using Some leads_trans by fastforce
qed

text \<open>First the clients write what they have, then the delivery under way ends.\<close>

definition settled :: "broker \<Rightarrow> broker" where
  "settled b = flushed (dom (handlers b)) b"

lemma settled_quiet:
  assumes "map_ok b" "finite (dom (handlers b))"
  shows "map_ok (settled b)" "finite (dom (handlers (settled b)))" "none_writing (settled b)"
proof -
  have h: "handlers (settled b) c = (case handlers b c of Some (Writing m) \<Rightarrow> Some Selecting | h \<Rightarrow> h)" for c
    by (auto simp: settled_def flushed_def split: option.split handler.split)
  have sub: "subscribed_handler (handlers (settled b) c) = subscribed_handler (handlers b c)" for c
    by (simp add: h split: option.split handler.split)
  have same: "clients (settled b) = clients b" "asked_for (settled b) = asked_for b"
    by (simp_all add: settled_def flushed_def)
  show "map_ok (settled b)"
    using assms(1) unfolding map_ok_def sub same clients_of_def by simp
  have "dom (handlers (settled b)) = dom (handlers b)"
    by (auto simp: dom_def h split: option.splits handler.splits)
  with assms(2) show "finite (dom (handlers (settled b)))" by simp
  show "none_writing (settled b)" by (simp add: none_writing_def h split: option.split handler.split)
qed

lemma finish_delivery:
  assumes "map_ok b" "finite (dom (handlers b))" "none_writing b" "delivery_ok b"
  shows "\<exists>b'. leads b b' \<and> quiet b' \<and> held b' = held b \<and> notifier b' = notifier b \<and> asked_for b' = asked_for b
    \<and> handlers b' = handlers b
    \<and> (\<forall>c. responded b' c = (if handlers b c = Some Selecting \<and> awaits b c
         then responded b c @ [Payload (last (taken b))] else responded b c))"
proof (cases "sending b")
  case None
  with assms show ?thesis by (intro exI [of _ b]) (simp add: quiet_def awaits_def)
next
  case (Some evC)
  then obtain ev C where s: "sending b = Some (ev, C)" by (cases evC) simp
  then have ev: "last (taken b) = ev" "C \<subseteq> clients_of b (ProjectID ev)"
    using assms(4) by (simp_all add: delivery_ok_def)
  have "handlers b c \<noteq> None" if "c \<in> clients_of b p" for c p
    using that assms(1) unfolding map_ok_def by (metis subscribed_simps(1))
  with ev(2) have "C \<subseteq> dom (handlers b)" by auto
  then have fin: "finite C" using assms(2) finite_subset by blast
  let ?b' = "flushed C (offered C ev b)"
  have h: "handlers ?b' = handlers b"
    using assms(3) by (auto simp: flushed_def offered_def none_writing_def fun_eq_iff split: option.splits handler.splits)
  have "quiet ?b'"
    using assms(1-3) h by (simp add: quiet_def map_ok_def none_writing_def clients_of_def)
      (simp add: flushed_def offered_def)
  moreover have "responded ?b' c = (if handlers b c = Some Selecting \<and> awaits b c
      then responded b c @ [Payload (last (taken b))] else responded b c)" for c
    using assms(3) s ev
    by (auto simp: flushed_def offered_def got_def awaits_def none_writing_def split: option.splits handler.splits)
  moreover have "leads b ?b'" using leads_trans [OF offer_all [OF fin s] flush_all [OF fin]] .
  ultimately show ?thesis using h by (intro exI [of _ ?b']) (simp add: flushed_def offered_def)
qed

section \<open>Every reachable state\<close>

lemma finite_handlers: "broker_reachable b \<Longrightarrow> finite (dom (handlers b))"
proof (induction rule: broker_reachable.induct)
  case (stepped b x b')
  then have b': "b' = broker_do x b" by (auto elim: broker_stepE)
  have "\<exists>c. dom (handlers (broker_do x b)) \<subseteq> insert c (dom (handlers b))"
    by (cases x) (auto simp: broker_ops Let_def dom_def split: list.split option.split handler.split)
  with stepped.IH show ?case unfolding b' by (meson finite_insert finite_subset)
qed (simp add: NewBroker_def)

lemma drop_butlast_last: "xs \<noteq> [] \<Longrightarrow> drop (length (butlast xs)) (xs @ ys) = last xs # ys"
  by (cases xs rule: rev_cases) simp_all

text \<open>A client in its loop, and what has been published and not yet been offered to it.\<close>

definition in_loop :: "broker \<Rightarrow> client \<Rightarrow> bool" where
  "in_loop b c \<longleftrightarrow> handlers b c = Some Selecting \<or> (\<exists>m. handlers b c = Some (Writing m))"

definition pending_events :: "broker \<Rightarrow> client \<Rightarrow> broker_event list" where
  "pending_events b c = drop (length (begun b c)) (published b)"

text \<open>Left to itself the broker writes all that is pending.\<close>

lemma deliver_pending:
  assumes "broker_reachable b"
  shows "\<exists>b'. leads b b' \<and> notifier b' = [] \<and> held b' = None \<and> sending b' = None
    \<and> (\<forall>c. in_loop b c \<longrightarrow> handlers b' c = Some Selecting
        \<and> responded b' c = got b c @ meant_for b c (pending_events b c))"
proof -
  note ok = broker_ok [OF assms]
  then have b: "map_ok b" "delivery_ok b" "queue_ok b" and fin: "finite (dom (handlers b))"
    using finite_handlers [OF assms] by simp_all
  let ?b1 = "settled b"
  note s = settled_quiet [OF b(1) fin]
  have one: "leads b ?b1" unfolding settled_def by (rule flush_all [OF fin])
  have h1: "handlers ?b1 c = (if in_loop b c then Some Selecting else handlers b c)" for c
    by (auto simp: settled_def flushed_def in_loop_def split: option.split handler.split)
  have r1: "responded ?b1 c = got b c" if "in_loop b c" for c
    using that by (auto simp: settled_def flushed_def in_loop_def)
  have same: "sending ?b1 = sending b" "held ?b1 = held b" "notifier ?b1 = notifier b" "taken ?b1 = taken b"
    "asked_for ?b1 = asked_for b" "clients ?b1 = clients b" "awaits ?b1 = awaits b"
    by (simp_all add: settled_def flushed_def awaits_def fun_eq_iff)
  have "delivery_ok ?b1" using b(2) by (auto simp: delivery_ok_def same clients_of_def split: option.splits)
  from finish_delivery [OF s this] obtain b2 where b2: "leads ?b1 b2" "quiet b2" "held b2 = held b"
    "notifier b2 = notifier b" "asked_for b2 = asked_for b" "handlers b2 = handlers ?b1"
    and r2: "\<And>c. responded b2 c = (if handlers ?b1 c = Some Selecting \<and> awaits b c
         then responded ?b1 c @ [Payload (last (taken b))] else responded ?b1 c)"
    unfolding same by blast
  define evs where "evs = (case held b of None \<Rightarrow> [] | Some ev \<Rightarrow> [ev]) @ notifier b"
  define b' where "b' = all_delivered evs b2"
  have "leads b b'"
    using leads_trans [OF leads_trans [OF one b2(1)]] drain_all [OF b2(2)] b2(3,4) by (simp add: b'_def evs_def)
  moreover have "notifier b' = [] \<and> held b' = None \<and> sending b' = None"
    using b2(2) by (simp add: b'_def all_delivered_def quiet_def)
  moreover have "handlers b' c = Some Selecting
      \<and> responded b' c = got b c @ meant_for b c (pending_events b c)" if c: "in_loop b c" for c
  proof -
    have "meant_for b c (pending_events b c) =
        (if awaits b c then [Payload (last (taken b))] else []) @ meant_for b c evs"
    proof (cases "awaits b c")
      case True
      then obtain ev C where "sending b = Some (ev, C)" "c \<in> C" by (auto simp: awaits_def split: option.splits)
      then have "taken b \<noteq> []" "ProjectID (last (taken b)) = asked_for b c"
        using b(1,2) by (auto simp: delivery_ok_def map_ok_def)
      moreover have "pending_events b c = last (taken b) # evs"
        using drop_butlast_last [OF calculation(1), of evs] True b(3)
        by (simp only: pending_events_def begun_def queue_ok_def evs_def if_True)
      ultimately show ?thesis using True by (simp add: meant_for_def)
    next
      case False
      with b(3) show ?thesis by (simp add: pending_events_def begun_def queue_ok_def evs_def)
    qed
    then show ?thesis
      using c h1 r1 r2 b2(5,6) by (simp add: b'_def all_delivered_def meant_for_def)
  qed
  ultimately show ?thesis by blast
qed

text \<open>A client that is writing when its turn comes is passed over, and the event is gone for it.\<close>

lemma writing_client_loses:
  assumes "broker_reachable b" and "broker_can b (Offer c)" and "handlers b c = Some (Writing m)"
  shows "got (offer c b) c = got b c \<and> pending_events (offer c b) c = tl (pending_events b c)"
proof -
  note ok = broker_ok [OF assms(1)]
  obtain ev C where s: "sending b = Some (ev, C)" "c \<in> C" using assms(2) by (auto split: option.splits)
  then have ne: "taken b \<noteq> []" and "awaits b c" using ok by (simp_all add: delivery_ok_def awaits_def)
  moreover have "published b = taken b @ (case held b of None \<Rightarrow> [] | Some ev \<Rightarrow> [ev]) @ notifier b"
    using ok by (simp add: queue_ok_def)
  moreover have "drop (length xs) (xs @ ys) = ys" for xs ys :: "broker_event list" by simp
  ultimately have "pending_events b c = last (taken b) # drop (length (taken b)) (published b)"
    using drop_butlast_last [OF ne]
    by (simp only: pending_events_def begun_def if_True)
  moreover have "\<not> awaits (offer c b) c" "taken (offer c b) = taken b" "published (offer c b) = published b"
    using s by (simp_all add: offer_def awaits_def)
  then have "pending_events (offer c b) c = drop (length (taken b)) (published b)"
    by (simp add: pending_events_def begun_def)
  ultimately show ?thesis using assms(3) s by (simp add: offer_def got_def)
qed

text \<open>
  C39. The broker can deliver: from every state it can reach, the goroutines can go on by themselves,
  nobody connecting, leaving or publishing, until the channel is empty and the mutex free, and then
  every client that was in its loop has been written all it had got and all that is pending of
  its project, in order. But it need not: the next of these is lost to a client that is still
  writing when it is offered.
\<close>

theorem broker_can_deliver:
  assumes "broker_reachable b"
  shows "\<exists>xs b'. list_all own_act xs \<and> broker_run xs b = Some b'
    \<and> notifier b' = [] \<and> held b' = None \<and> sending b' = None
    \<and> (\<forall>c. in_loop b c \<longrightarrow> handlers b' c = Some Selecting
        \<and> responded b' c = got b c @ meant_for b c (pending_events b c))
    \<and> (\<forall>c m. broker_can b (Offer c) \<and> handlers b c = Some (Writing m) \<longrightarrow>
        got (offer c b) c = got b c \<and> pending_events (offer c b) c = tl (pending_events b c))"
  using deliver_pending [OF assms] writing_client_loses [OF assms] unfolding leads_def by blast

text \<open>Two events wait for client 0: one schedule brings both, the one of \<open>busy_client_run\<close> only the first.\<close>

lemma broker_can_deliver_witness:
  "\<exists>b xs b'. broker_run (take 4 busy_client_run) NewBroker = Some b \<and> list_all own_act xs
     \<and> broker_run xs b = Some b' \<and> responded b' 0 = [js ''one'', js ''two'']"
proof -
  have "map_option (\<lambda>b. (handlers b 0, meant_for b 0 (pending_events b 0), got b 0))
      (broker_run (take 4 busy_client_run) NewBroker) = Some (Some Selecting, [js ''one'', js ''two''], [])"
    by (simp add: busy_client_run_def broker_ops NewBroker_def clients_of_def query_project_def
        notifier_capacity_def Let_def meant_for_def pending_events_def begun_def awaits_def got_def)
  then obtain b where b: "broker_run (take 4 busy_client_run) NewBroker = Some b" "handlers b 0 = Some Selecting"
    "meant_for b 0 (pending_events b 0) = [js ''one'', js ''two'']" "got b 0 = []"
    by (simp only: map_option_eq_Some prod.inject) (elim exE conjE)
  show ?thesis
    using broker_can_deliver [OF broker_example_reachable [OF b(1)]] b by (fastforce simp: in_loop_def)
qed

end
