(* ===== verification/Server_Delivery.thy ===== *)
theory Server_Delivery
  imports Server_Example Broker_Delivery
begin

text \<open>
  That the server gets its work done: whatever the jobs under way and queued meet, the workers and
  the broker can finish them all without a further request, and every client hears of the runs of
  its project.
\<close>

section \<open>Steps of the server's own\<close>

fun own_server_act :: "server_act \<Rightarrow> bool" where
  "own_server_act (Work k c res) = True"
| "own_server_act (Deliver b) = own_act b"
| "own_server_act (Serve x rt) = False"

definition server_leads :: "server_env \<Rightarrow> server \<Rightarrow> server \<Rightarrow> bool" where
  "server_leads e s s' \<longleftrightarrow>
     (\<exists>acts. list_all own_server_act acts \<and> server_can_all e acts s \<and> s' = fold (server_do e) acts s)"

lemma can_all_append: "server_can_all e (xs @ ys) s \<longleftrightarrow>
    server_can_all e xs s \<and> server_can_all e ys (fold (server_do e) xs s)"
  by (induction xs arbitrary: s) (simp_all del: server_do.simps)

lemma server_leads_trans: "server_leads e s s' \<Longrightarrow> server_leads e s' s'' \<Longrightarrow> server_leads e s s''"
proof -
  assume "server_leads e s s'" "server_leads e s' s''"
  then obtain xs ys where "list_all own_server_act xs" "server_can_all e xs s" "s' = fold (server_do e) xs s"
    "list_all own_server_act ys" "server_can_all e ys s'" "s'' = fold (server_do e) ys s'"
    by (auto simp: server_leads_def)
  then show ?thesis unfolding server_leads_def by (intro exI [of _ "xs @ ys"]) (simp add: can_all_append)
qed

lemma own_not_publish: "own_act x \<Longrightarrow> x \<noteq> Publish ev"
  by (cases x) simp_all

text \<open>What the broker does by itself, the server can do.\<close>

lemma deliver_acts:
  "list_all own_act xs \<Longrightarrow> broker_run xs (hub s) = Some b \<Longrightarrow> server_leads e s (s\<lparr>hub := b\<rparr>)"
proof (induction xs arbitrary: s)
  case Nil
  then show ?case unfolding server_leads_def by (intro exI [of _ "[]"]) simp
next
  case (Cons x xs)
  then have x: "own_act x" "broker_can (hub s) x" "broker_run xs (broker_do x (hub s)) = Some b"
    by (auto split: if_splits)
  let ?s = "s\<lparr>hub := broker_do x (hub s)\<rparr>"
  have "server_leads e s ?s"
    unfolding server_leads_def using x(1,2) own_not_publish by (intro exI [of _ "[Deliver x]"]) auto
  moreover have "server_leads e ?s (?s\<lparr>hub := b\<rparr>)" using Cons.IH [of ?s] Cons.prems(1) x(3) by simp
  ultimately show ?case using server_leads_trans by fastforce
qed

lemma work_act:
  assumes "queue s = j # qs" and "notifier (hub s) = []" and "processJob e c res j (store s) = (t, evs)"
  shows "server_leads e s (s\<lparr>store := t, hub := fold notify evs (hub s), queue := qs\<rparr>)"
proof -
  have "length evs \<le> 1"
    using assms(3) by (auto simp: processJob_def split: option.splits sum.splits prod.splits)
  then have "server_can e s (Work 0 c res)"
    using assms by (simp add: workers_def room_def notifier_capacity_def)
  then show ?thesis
    unfolding server_leads_def using assms by (intro exI [of _ "[Work 0 c res]"]) (simp add: workers_def)
qed

section \<open>Broker states between jobs\<close>

lemma own_keeps: "own_act x \<Longrightarrow> asked_for (broker_do x b) = asked_for b \<and> published (broker_do x b) = published b"
  by (cases x) (auto simp: broker_ops split: list.split option.split handler.split)

lemma own_run_keeps:
  "list_all own_act xs \<Longrightarrow> broker_run xs b = Some b' \<Longrightarrow> asked_for b' = asked_for b \<and> published b' = published b"
proof (induction xs arbitrary: b)
  case (Cons x xs)
  then show ?case using own_keeps [of x b] by (auto split: if_splits)
qed simp

lemma notify_all: "fold notify evs b = b\<lparr>notifier := notifier b @ evs, published := published b @ evs\<rparr>"
  by (induction evs arbitrary: b) (simp_all add: notify_def)

definition at_rest :: "broker \<Rightarrow> bool" where
  "at_rest b \<longleftrightarrow> notifier b = [] \<and> held b = None \<and> sending b = None"

text \<open>The broker delivers what it has and comes to rest.\<close>

lemma come_to_rest:
  assumes "broker_reachable (hub s)"
  shows "\<exists>b. server_leads e s (s\<lparr>hub := b\<rparr>) \<and> broker_reachable b \<and> at_rest b \<and> asked_for b = asked_for (hub s)
    \<and> (\<forall>c. in_loop (hub s) c \<longrightarrow> handlers b c = Some Selecting
        \<and> responded b c = got (hub s) c @ meant_for (hub s) c (pending_events (hub s) c))"
proof -
  obtain xs b where b: "list_all own_act xs" "broker_run xs (hub s) = Some b" "at_rest b"
    "\<forall>c. in_loop (hub s) c \<longrightarrow> handlers b c = Some Selecting
      \<and> responded b c = got (hub s) c @ meant_for (hub s) c (pending_events (hub s) c)"
    using deliver_pending [OF assms] unfolding at_rest_def leads_def by blast
  then show ?thesis
    using deliver_acts [OF b(1,2)] broker_run_reachable [OF b(2) assms] own_run_keeps [OF b(1,2)] by blast
qed

lemma rested_news:
  assumes "broker_reachable b" and "at_rest b" and "handlers b c = Some Selecting"
  shows "in_loop (fold notify evs b) c" "got (fold notify evs b) c = responded b c"
    "pending_events (fold notify evs b) c = evs" "meant_for (fold notify evs b) c = meant_for b c"
proof -
  have "published b = taken b" using broker_ok [OF assms(1)] assms(2) by (simp add: queue_ok_def at_rest_def)
  then show "pending_events (fold notify evs b) c = evs"
    using assms(2) by (simp add: pending_events_def begun_def awaits_def at_rest_def notify_all)
qed (use assms(3) in \<open>simp_all add: in_loop_def got_def meant_for_def notify_all fun_eq_iff\<close>)

section \<open>All jobs\<close>

text \<open>What the queue comes to, each job meeting what is listed for it.\<close>

fun work_off :: "server_env \<Rightarrow> (call \<times> jstr option) list \<Rightarrow> DiffJob list \<Rightarrow> tables \<Rightarrow> tables \<times> broker_event list" where
  "work_off e ((c, res) # ms) (j # qs) t =
     (case processJob e c res j t of (t1, evs) \<Rightarrow>
        case work_off e ms qs t1 of (t2, evs') \<Rightarrow> (t2, evs @ evs'))"
| "work_off e _ _ t = (t, [])"

lemma jobs_done:
  assumes "broker_reachable (hub s)" and "length ms = length (queue s)"
  shows "\<exists>s'. server_leads e s s' \<and> queue s' = [] \<and> cache s' = cache s \<and> at_rest (hub s')
    \<and> store s' = fst (work_off e ms (queue s) (store s))
    \<and> (\<forall>c. in_loop (hub s) c \<longrightarrow> handlers (hub s') c = Some Selecting
        \<and> responded (hub s') c = got (hub s) c @
            meant_for (hub s) c (pending_events (hub s) c @ snd (work_off e ms (queue s) (store s))))"
  using assms
proof (induction "queue s" arbitrary: s ms)
  case Nil
  from come_to_rest [OF Nil.prems(1), of e] obtain b where "server_leads e s (s\<lparr>hub := b\<rparr>)" "at_rest b"
    "\<forall>c. in_loop (hub s) c \<longrightarrow> handlers b c = Some Selecting
        \<and> responded b c = got (hub s) c @ meant_for (hub s) c (pending_events (hub s) c)" by blast
  with Nil.hyps Nil.prems(2) show ?case by (intro exI [of _ "s\<lparr>hub := b\<rparr>"]) simp
next
  case (Cons j qs)
  from come_to_rest [OF Cons.prems(1), of e] obtain b where b: "server_leads e s (s\<lparr>hub := b\<rparr>)"
    "broker_reachable b" "at_rest b" "asked_for b = asked_for (hub s)"
    and got_b: "\<And>c. in_loop (hub s) c \<Longrightarrow> handlers b c = Some Selecting
        \<and> responded b c = got (hub s) c @ meant_for (hub s) c (pending_events (hub s) c)" by blast
  obtain c0 res ms' where ms: "ms = (c0, res) # ms'"
    using Cons.hyps(2) Cons.prems(2) by (cases ms) auto
  obtain t evs where job: "processJob e c0 res j (store s) = (t, evs)" by fastforce
  let ?s2 = "s\<lparr>store := t, hub := fold notify evs b, queue := qs\<rparr>"
  have "server_leads e (s\<lparr>hub := b\<rparr>) ?s2"
    using work_act [of "s\<lparr>hub := b\<rparr>" j qs e c0 res t evs] Cons.hyps(2) b(3) job by (simp add: at_rest_def)
  with b(1) have to2: "server_leads e s ?s2" by (rule server_leads_trans)
  have "length evs \<le> 1"
    using job by (auto simp: processJob_def split: option.splits sum.splits prod.splits)
  then have "broker_reachable (hub ?s2)"
    using publish_all [of evs b] b(2,3) by (simp add: room_def at_rest_def notifier_capacity_def)
  moreover have "length ms' = length (queue ?s2)"
    using Cons.hyps(2) [symmetric] Cons.prems(2) ms by simp
  ultimately obtain s' where s': "server_leads e ?s2 s'" "queue s' = []" "cache s' = cache s" "at_rest (hub s')"
    "store s' = fst (work_off e ms' qs t)"
    and got2: "\<And>c. in_loop (hub ?s2) c \<Longrightarrow> handlers (hub s') c = Some Selecting
        \<and> responded (hub s') c = got (hub ?s2) c @
            meant_for (hub ?s2) c (pending_events (hub ?s2) c @ snd (work_off e ms' qs t))"
    using Cons.hyps(1) [of ?s2 ms'] by auto
  have "handlers (hub s') c = Some Selecting
      \<and> responded (hub s') c = got (hub s) c @
          meant_for (hub s) c (pending_events (hub s) c @ evs @ snd (work_off e ms' qs t))"
    if "in_loop (hub s) c" for c
    using got2 [of c] got_b [OF that] rested_news [OF b(2,3), of c evs] b(4)
    by (simp add: meant_for_def)
  moreover have "work_off e ms (queue s) (store s) = (fst (work_off e ms' qs t), evs @ snd (work_off e ms' qs t))"
    using job by (simp add: ms Cons.hyps(2) [symmetric] split: prod.split)
  ultimately show ?case
    using server_leads_trans [OF to2 s'(1)] s' by (intro exI [of _ s']) simp
qed

text \<open>
  C35. Queued work gets done: from every state the server can reach, and whatever answers the analyzer
  and the database give to the queued jobs, the workers and the broker can go on without a further
  request until the queue is empty and the broker at rest. The tables are then those the jobs leave
  one after the other, the cache is as it was, and every client that was in its loop has been written what
  it had got, then what was pending of its project, then the events of the jobs of its project.
\<close>

theorem queued_jobs_get_done:
  assumes "server_reach e ok s" and "length ms = length (queue s)"
  shows "\<exists>acts s'. list_all own_server_act acts \<and> server_can_all e acts s \<and> s' = fold (server_do e) acts s
    \<and> queue s' = [] \<and> cache s' = cache s
    \<and> notifier (hub s') = [] \<and> held (hub s') = None \<and> sending (hub s') = None
    \<and> store s' = fst (work_off e ms (queue s) (store s))
    \<and> (\<forall>c. in_loop (hub s) c \<longrightarrow> responded (hub s') c = got (hub s) c @
        meant_for (hub s) c (pending_events (hub s) c @ snd (work_off e ms (queue s) (store s))))"
proof -
  obtain s' where s': "server_leads e s s'" "queue s' = []" "cache s' = cache s" "at_rest (hub s')"
    "store s' = fst (work_off e ms (queue s) (store s))"
    "\<forall>c. in_loop (hub s) c \<longrightarrow> responded (hub s') c = got (hub s) c @
        meant_for (hub s) c (pending_events (hub s) c @ snd (work_off e ms (queue s) (store s)))"
    using jobs_done [OF server_hub_reachable [OF assms(1)] assms(2)] by blast
  then obtain acts where "list_all own_server_act acts" "server_can_all e acts s" "s' = fold (server_do e) acts s"
    unfolding server_leads_def by blast
  with s' show ?thesis unfolding at_rest_def by blast
qed

text \<open>A client listens to the project of an uploaded comparison, which finds a break: it is sent the
  creation of the project, still in the channel, and the run.\<close>

definition waiting_acts :: "server_act list" where
  "waiting_acts = take 2 history @ [Deliver (Connect (example_id 97) 0)]"

lemma queued_jobs_get_done_witness:
  "\<exists>acts s'. server_can_all example_env acts (fold (server_do example_env) waiting_acts server_init)
     \<and> s' = fold (server_do example_env) (waiting_acts @ acts) server_init
     \<and> queue s' = [] \<and> map row_status (diff_runs (store s')) = [js ''FAILED''] \<and> length (responded (hub s') 0) = 2"
proof -
  let ?s = "fold (server_do example_env) waiting_acts server_init"
  let ?ms = "[(example_call 98, Some (js ''{}''))]"
  have "server_reach example_env (\<lambda>_ _. True) ?s"
    by (rule server_run_reach [OF server_reach.start])
      (simp add: example_simps waiting_acts_def)
  moreover have "length (queue ?s) = 1" "in_loop (hub ?s) 0"
    "map row_status (diff_runs (fst (work_off example_env ?ms (queue ?s) (store ?s)))) = [js ''FAILED'']"
    "length (got (hub ?s) 0 @ meant_for (hub ?s) 0 (pending_events (hub ?s) 0
       @ snd (work_off example_env ?ms (queue ?s) (store ?s)))) = 2"
    by (simp_all add: example_simps waiting_acts_def broker_ops in_loop_def got_def meant_for_def pending_events_def
        begun_def awaits_def query_project_def)
  ultimately show ?thesis
    using queued_jobs_get_done [of example_env _ ?s ?ms] by (fastforce simp del: server_do.simps)
qed

end
