(* ===== verification/Audit_Facts.thy ===== *)
theory Audit_Facts
  imports Engine_Service Diff_Facts
begin

text \<open>
  What the engine's analyzers promise: the code audits report what is to be said of each node of
  the tree, in order; their counters agree with their lists; the analysis for the prompt compiler
  counts nodes and lists every dependency once.
\<close>

section \<open>Code audits\<close>

text \<open>What is to be said of one node of a Python tree.\<close>

definition call_findings :: "jstr \<Rightarrow> snode \<Rightarrow> Change list" where
  "call_findings code n =
     (case child_by_field_name n ''function'' of
        None \<Rightarrow> []
      | Some f \<Rightarrow>
          matched (builtin_change code n (node_text f)) id
          @ (if is_kind f ''attribute''
             then (case child_by_field_name f ''attribute'' of
                     None \<Rightarrow> [] | Some a \<Rightarrow> matched (method_change code n (node_text a)) id)
             else []))"

definition legacy_finding :: "nat \<Rightarrow> jstr \<Rightarrow> Change list" where
  "legacy_finding l m = found (check_legacy_python_module l m empty_tally)"

definition import_findings :: "nat \<Rightarrow> snode \<Rightarrow> Change list" where
  "import_findings l c =
     (if is_kind c ''dotted_name'' then legacy_finding l (node_text c)
      else if is_kind c ''aliased_import''
      then (case child_by_field_name c ''name'' of None \<Rightarrow> [] | Some m \<Rightarrow> legacy_finding l (node_text m))
      else [])"

definition python_findings :: "grammars \<Rightarrow> jstr \<Rightarrow> snode \<Rightarrow> Change list" where
  "python_findings g code n =
     (if is_kind n ''print_statement'' then [print_statement_change n]
      else if is_kind n ''call'' then call_findings code n
      else if is_kind n ''except_clause'' then matched (except_change n) id
      else if is_kind n ''import_statement'' then concat (map (import_findings (line_of n)) (children n))
      else if is_kind n ''import_from_statement''
      then (case child_by_field_name n ''module_name'' of
              None \<Rightarrow> [] | Some m \<Rightarrow> legacy_finding (line_of n) (node_text m))
      else if is_kind n ''integer'' then matched (long_change code n) id
      else if is_kind n ''ERROR'' then matched (error_change g n) id
      else [])"

lemma matched_simps [simp]: "matched None f = []" "matched (Some x) f = [f x]"
  by (simp_all add: matched_def)

lemma report_opt_extend [as_extension]: "report_opt c = extend (matched c id)"
  by (cases c) (simp_all add: report_opt_def fun_eq_iff as_extension)

lemma legacy_extend [as_extension]: "check_legacy_python_module l m = extend (legacy_finding l m)"
  by (simp add: check_legacy_python_module_def legacy_finding_def as_extension)
    (simp add: extend_def empty_tally_def)

lemma import_extend [as_extension]: "import_changes l c = extend (import_findings l c)"
  by (auto simp: import_changes_def import_findings_def as_extension fun_eq_iff split: option.split)

lemma visit_python_extend [as_extension]: "visit_python g code n = extend (python_findings g code n)"
proof -
  have "fold (import_changes l) cs t = extend (concat (map (import_findings l) cs)) t" for l cs t
    by (rule fold_extend) (simp add: as_extension)
  moreover have "call_changes code n t = extend (call_findings code n) t" for t
    by (auto simp: call_changes_def call_findings_def as_extension split: option.split)
  ultimately show ?thesis
    by (auto simp: visit_python_def python_findings_def as_extension fun_eq_iff split: option.split)
qed










section \<open>Go and TypeScript\<close>

definition go_findings :: "snode \<Rightarrow> Change list" where
  "go_findings n = visit_go n []"

definition typescript_findings :: "snode \<Rightarrow> Change list" where
  "typescript_findings n = visit_typescript n []"

lemma fold_append: "(\<And>x s. f x s = s @ g x) \<Longrightarrow> fold f xs s = s @ concat (map g xs)"
  by (induction xs arbitrary: s) simp_all

lemma walk_go: "walk visit_go root [] = concat (map go_findings (preorder root))"
  unfolding walk_preorder
  by (subst fold_append [where g = go_findings]) (simp_all add: go_findings_def visit_go_def)

lemma walk_typescript: "walk visit_typescript root [] = concat (map typescript_findings (preorder root))"
  unfolding walk_preorder
  by (subst fold_append [where g = typescript_findings]) (simp_all add: typescript_findings_def visit_typescript_def)

lemma findings_are_dangerous:
  "c \<in> set (go_findings n) \<Longrightarrow> severity_of c = js ''DANGEROUS''"
  "c \<in> set (typescript_findings n) \<Longrightarrow> severity_of c = js ''DANGEROUS''"
  by (auto simp: go_findings_def typescript_findings_def visit_go_def visit_typescript_def dangerous_change_def
      split: if_splits)

lemma counted_dangerous:
  assumes "\<And>c. c \<in> set cs \<Longrightarrow> severity_of c = js ''DANGEROUS''"
  shows "counted cs = \<lparr>breaking = 0, dangerous = length cs, additive_of = 0, changes_of = cs\<rparr>"
proof -
  have "filter (\<lambda>c. severity_of c = js ''DANGEROUS'') cs = cs" "filter (\<lambda>c. severity_of c = js s) cs = []"
    if "js s \<noteq> js ''DANGEROUS''" for s
    using assms that by (simp_all add: filter_empty_conv)
  from this [of "''BREAKING''"] this [of "''ADDITIVE''"] show ?thesis
    by (simp add: counted_def count_severity_def)
qed

lemma go_audit:
  assumes "parse_go g code = Some root"
  shows "check_go_migration g code =
    \<lparr>breaking = 0, dangerous = length (concat (map go_findings (preorder root))), additive_of = 0,
     changes_of = concat (map go_findings (preorder root))\<rparr>"
  using assms by (auto simp: check_go_migration_def walk_go intro!: counted_dangerous intro: findings_are_dangerous)

lemma typescript_audit:
  assumes "parse_typescript g code = Some root"
  shows "check_typescript_migration g code =
    \<lparr>breaking = 0, dangerous = length (concat (map typescript_findings (preorder root))), additive_of = 0,
     changes_of = concat (map typescript_findings (preorder root))\<rparr>"
  using assms
  by (auto simp: check_typescript_migration_def walk_typescript intro!: counted_dangerous intro: findings_are_dangerous)

section \<open>The audit of a language\<close>

text \<open>The grammar an audit parses with, and what it says of one node.\<close>

datatype audit = PythonAudit | GoAudit | TypeScriptAudit

definition audit_of :: "jstr \<Rightarrow> audit" where
  "audit_of language =
     (let l = to_lowercase language
      in if l \<in> js ` {''go'', ''golang''} then GoAudit
         else if l \<in> js ` {''typescript'', ''ts'', ''javascript'', ''js''} then TypeScriptAudit
         else PythonAudit)"

fun parsed_by :: "grammars \<Rightarrow> audit \<Rightarrow> jstr \<Rightarrow> snode option" where
  "parsed_by g PythonAudit = parse_python g"
| "parsed_by g GoAudit = parse_go g"
| "parsed_by g TypeScriptAudit = parse_typescript g"



lemma check_by_audit:
  "check_code_migration g code language =
     (case audit_of language of
        PythonAudit \<Rightarrow> check_python_migration g code
      | GoAudit \<Rightarrow> check_go_migration g code
      | TypeScriptAudit \<Rightarrow> check_typescript_migration g code)"
  by (simp add: check_code_migration_def audit_of_def Let_def)

lemma no_tree_no_findings:
  "parsed_by g (audit_of language) code = None \<Longrightarrow> check_code_migration g code language = no_findings"
  by (cases "audit_of language")
    (simp_all add: check_by_audit check_python_migration_def check_go_migration_def check_typescript_migration_def)

text \<open>Sources without a Python audit have nothing breaking.\<close>

lemma only_python_breaks:
  assumes "audit_of language \<noteq> PythonAudit"
  shows "breaking (check_code_migration g code language) = 0"
    "additive_of (check_code_migration g code language) = 0"
    "dangerous (check_code_migration g code language) = length (changes_of (check_code_migration g code language))"
proof -
  have "breaking r = 0 \<and> additive_of r = 0 \<and> dangerous r = length (changes_of r)"
    if "r = check_code_migration g code language" for r
  proof (cases "parsed_by g (audit_of language) code")
    case None
    then show ?thesis using that no_tree_no_findings by (simp add: no_findings_def)
  next
    case (Some root)
    then show ?thesis
      using that assms by (cases "audit_of language") (simp_all add: check_by_audit go_audit typescript_audit)
  qed
  then show "breaking (check_code_migration g code language) = 0"
    "additive_of (check_code_migration g code language) = 0"
    "dangerous (check_code_migration g code language) = length (changes_of (check_code_migration g code language))"
    by simp_all
qed







section \<open>The analysis\<close>

text \<open>Names are appended unless they are there.\<close>

definition add_name :: "'a \<Rightarrow> 'a list \<Rightarrow> 'a list" where
  "add_name m xs = (if m \<in> set xs then xs else xs @ [m])"


definition dep_names :: "RsAnalysis \<Rightarrow> jstr list" where
  "dep_names a = map dep_name (deps a)"

text \<open>What a node adds to the counts and to the names of dependencies.\<close>

record tallied =
  fun_tally :: nat
  class_tally :: nat
  name_tally :: "jstr list"
  line_tally :: nat

definition tallied_of :: "RsAnalysis \<Rightarrow> tallied" where
  "tallied_of a = \<lparr>fun_tally = function_count a, class_tally = class_count a, name_tally = dep_names a, line_tally = line_count_of a\<rparr>"

definition tally_node :: "bool \<Rightarrow> bool \<Rightarrow> jstr list \<Rightarrow> tallied \<Rightarrow> tallied" where
  "tally_node f c ms t = \<lparr>fun_tally = fun_tally t + of_bool f, class_tally = class_tally t + of_bool c,
     name_tally = fold add_name ms (name_tally t), line_tally = line_tally t\<rparr>"






lemma tally_node_nothing [simp]: "tally_node False False [] t = t"
  by (simp add: tally_node_def)








text \<open>After the walk only hints, marks and caveats are added.\<close>

lemma marked_names [simp]: "map dep_name (with_hints tool ds) = map dep_name ds" "map dep_name (mark_cext ds) = map dep_name ds"
  by (simp_all add: with_hints_def mark_cext_def)

definition hinted :: "string \<Rightarrow> RsDependency \<Rightarrow> bool" where
  "hinted tool d \<longleftrightarrow> package_hint d = Some (js tool @ [32] @ dep_name d)"

lemma hints_hinted [simp]: "list_all (hinted tool) (with_hints tool ds)"
  by (simp add: with_hints_def hinted_def list_all_iff)

lemma caveat_fields [simp]: "deps (add_caveat s m a) = deps a" "line_count_of (add_caveat s m a) = line_count_of a"
  "function_count (add_caveat s m a) = function_count a" "class_count (add_caveat s m a) = class_count a"
  by (simp_all add: add_caveat_def)








lemma tallied_language [simp]:
  "tallied_of (a\<lparr>lang_name := m\<rparr>) = tallied_of a" "tallied_of (a\<lparr>lang_version := v\<rparr>) = tallied_of a"
  "tallied_of (a\<lparr>lang_runtime := r\<rparr>) = tallied_of a"
  by (simp_all add: tallied_of_def dep_names_def)




end
