(* ===== verification/Server_Rules.thy ===== *)
theory Server_Rules
  imports Server_Example
begin

text \<open>
  What the server promises about runs and overrides: the status of every run agrees with its
  counter and the audit trail, nothing is taken back, and only a signed-in user overrides.
\<close>

section \<open>Runs and the audit trail\<close>

text \<open>
  C5. In every state the server can reach, the status of a run is OVERRIDDEN exactly when there
  is an audit record for it, and otherwise FAILED or PASSED as its counter of breaking changes
  says; every record belongs to a run and every run to a project, and identifiers are unique.
\<close>

theorem overridden_iff_audited:
  assumes "server_reach e ok s"
  shows "(\<forall>r \<in> set (diff_runs (store s)).
      (row_status r = js ''OVERRIDDEN'' \<longleftrightarrow> (\<exists>a \<in> set (audit_overrides (store s)). over_run a = run_id r))
      \<and> (row_status r = js ''FAILED'' \<longrightarrow> 0 < breaking_count r)
      \<and> (row_status r = js ''PASSED'' \<longrightarrow> breaking_count r \<le> 0)
      \<and> row_status r \<in> js ` {''PASSED'', ''FAILED'', ''OVERRIDDEN''}
      \<and> run_project r \<in> proj_id ` set (projects (store s)))
    \<and> over_run ` set (audit_overrides (store s)) \<subseteq> run_id ` set (diff_runs (store s))
    \<and> distinct (map run_id (diff_runs (store s))) \<and> distinct (map over_id (audit_overrides (store s)))"
proof -
  have t: "tables_ok (store s)" using assms by (rule server_tables_ok)
  have "(row_status r = js ''OVERRIDDEN'' \<longleftrightarrow> (\<exists>a \<in> set (audit_overrides (store s)). over_run a = run_id r))
      \<and> (row_status r = js ''FAILED'' \<longrightarrow> 0 < breaking_count r)
      \<and> (row_status r = js ''PASSED'' \<longrightarrow> breaking_count r \<le> 0)
      \<and> row_status r \<in> js ` {''PASSED'', ''FAILED'', ''OVERRIDDEN''}
      \<and> run_project r \<in> proj_id ` set (projects (store s))" if "r \<in> set (diff_runs (store s))" for r
  proof -
    have "if run_id r \<in> over_run ` set (audit_overrides (store s)) then row_status r = js ''OVERRIDDEN''
        else row_status r = (if 0 < breaking_count r then js ''FAILED'' else js ''PASSED'')"
      and "run_project r \<in> proj_id ` set (projects (store s))"
      using t that unfolding tables_ok_def by blast+
    moreover have "run_id r \<in> over_run ` set (audit_overrides (store s)) \<longleftrightarrow>
        (\<exists>a \<in> set (audit_overrides (store s)). over_run a = run_id r)" by force
    ultimately show ?thesis by (simp split: if_splits)
  qed
  with t show ?thesis unfolding tables_ok_def by blast
qed

lemma overridden_iff_audited_witness:
  "\<exists>a \<in> set (audit_overrides (store (fold (server_do example_env) history server_init))). over_run a = example_id 98"
  using overridden_iff_audited [OF history_reached] by (auto simp: example_simps)

section \<open>The ledger only grows\<close>

text \<open>
  C6. Whatever the server does from then on, an overridden run stays overridden, any other run
  keeps its status or becomes overridden, and the audit trail is only extended at its end.
\<close>

theorem audit_trail_is_kept:
  "prefix (audit_overrides (store s)) (audit_overrides (store (fold (server_do e) acts s)))
   \<and> (\<forall>i st. statuses (store s) i = Some st \<longrightarrow>
        statuses (store (fold (server_do e) acts s)) i \<in> {Some st, Some (js ''OVERRIDDEN'')})"
  using server_ledger.trail_kept server_ledger.run_kept by simp

lemma audit_trail_is_kept_witness:
  "statuses (store (fold (server_do example_env) (rev history) (fold (server_do example_env) history server_init)))
     (example_id 98) = Some (js ''OVERRIDDEN'')"
proof -
  let ?s = "fold (server_do example_env) history server_init"
  have "statuses (store ?s) (example_id 98) = Some (js ''OVERRIDDEN'')"
    by (simp add: example_simps statuses_def)
  then show ?thesis
    using audit_trail_is_kept [of ?s example_env "rev history"] by blast
qed

section \<open>Who overrides\<close>

lemma audit_step:
  assumes "audit_overrides (store (server_do e a s)) \<noteq> audit_overrides (store s)"
  obtains c o' where "step_op e s a = Some (OverrideOp c o')"
proof (cases "step_op e s a")
  case (Some u)
  show ?thesis
  proof (cases u)
    case (CreateOp c n)
    with Some assms show ?thesis by (auto simp: server_do_store CreateProject_Inr split: sum.splits)
  next
    case (InsertOp c r)
    with Some assms show ?thesis
      by (auto simp: server_do_store InsertDiffRun_def Let_def split: sum.splits option.splits)
  qed (use Some that in blast)
qed (use assms in \<open>simp add: server_do_store\<close>)

lemma override_op:
  assumes "step_op e s a = Some (OverrideOp c o')"
  obtains x tok i body sub entered where "a = Serve x (OverrideDiff (Some tok) i body)" "jwt_sub e (now (db_call x)) tok = Some sub"
    "decode_body e [''note''] body = Inr [entered]" "c = db_call x"
    "o' = \<lparr>over_id = [], over_run = i, over_by = (case sub of JStr u \<Rightarrow> u | _ \<Rightarrow> js ''anonymous''),
           over_note = entered, over_created = 0\<rparr>"
proof (cases a)
  case (Serve x rt)
  show ?thesis
  proof (cases rt)
    case (OverrideDiff cookie i body)
    with Serve assms obtain sub where sub: "Option.bind cookie (jwt_sub e (now (db_call x))) = Some sub"
      by (cases "Option.bind cookie (jwt_sub e (now (db_call x)))") simp_all
    then obtain tok where tok: "cookie = Some tok" "jwt_sub e (now (db_call x)) tok = Some sub"
      by (cases cookie) simp_all
    obtain entered where read: "decode_body e [''note''] body = Inr [entered]" "c = db_call x"
      "o' = \<lparr>over_id = [], over_run = i, over_by = (case sub of JStr u \<Rightarrow> u | _ \<Rightarrow> js ''anonymous''),
           over_note = entered, over_created = 0\<rparr>"
      using Serve OverrideDiff assms sub by (simp split: sum.split_asm list.split_asm)
    have "a = Serve x (OverrideDiff (Some tok) i body)" using Serve OverrideDiff tok(1) by simp
    then show ?thesis using tok(2) read by (rule that)
  qed (use Serve assms in \<open>auto split: sum.splits list.splits option.splits\<close>)
qed (use assms in \<open>auto simp: job_op_def split: option.splits if_splits\<close>)

text \<open>
  C7. The audit trail changes only by a request to override that carries a valid token, and then
  by one record: it names the token's subject, the run and the note of the request.
\<close>

theorem overrides_are_authenticated:
  assumes "server_step e s a s'" and "audit_overrides (store s') \<noteq> audit_overrides (store s)"
  shows "\<exists>x tok i body sub entered rid. a = Serve x (OverrideDiff (Some tok) i body)
    \<and> jwt_sub e (now (db_call x)) tok = Some sub \<and> decode_body e [''note''] body = Inr [entered]
    \<and> uuid_in (pg e) i = Some rid \<and> rid \<in> run_id ` set (diff_runs (store s))
    \<and> audit_overrides (store s') = audit_overrides (store s) @
        [\<lparr>over_id = fresh (db_call x), over_run = rid,
          over_by = (case sub of JStr u \<Rightarrow> u | _ \<Rightarrow> js ''anonymous''), over_note = entered,
          over_created = now (db_call x)\<rparr>]"
proof -
  have s': "s' = server_do e a s" using assms(1) by (auto elim: server_stepE)
  obtain c o' where u: "step_op e s a = Some (OverrideOp c o')"
    using audit_step assms(2) s' by blast
  then obtain x tok i body sub entered where a: "a = Serve x (OverrideDiff (Some tok) i body)"
    "jwt_sub e (now (db_call x)) tok = Some sub" "decode_body e [''note''] body = Inr [entered]" and c: "c = db_call x"
    and o': "o' = \<lparr>over_id = [], over_run = i, over_by = (case sub of JStr u \<Rightarrow> u | _ \<Rightarrow> js ''anonymous''),
           over_note = entered, over_created = 0\<rparr>"
    by (rule override_op)
  have st: "store s' = perform (pg e) (OverrideOp c o') (store s)" using u s' by (simp add: server_do_store)
  with assms(2) obtain a' t' where put: "OverrideDiffRun (pg e) c o' (store s) = Inr (a', t')"
    by (cases "OverrideDiffRun (pg e) c o' (store s)") auto
  with st have st': "store s' = t'" by simp
  from put show ?thesis
  proof (rule override_Inr)
    fix rid
    assume "uuid_in (pg e) (over_run o') = Some rid" "rid \<in> run_id ` set (diff_runs (store s))"
      and "a' = o'\<lparr>over_id := fresh c, over_created := now c\<rparr>"
      and "t' = (store s)\<lparr>audit_overrides := audit_overrides (store s) @ [a'\<lparr>over_run := rid\<rparr>],
            diff_runs := map (mark_overridden rid) (diff_runs (store s))\<rparr>"
    then show ?thesis using a st' by (simp add: c o')
  qed
qed

lemma overrides_are_authenticated_witness:
  "\<exists>sub. jwt_sub example_env 99 (js ''signed'') = Some sub"
proof -
  let ?s = "fold (server_do example_env) (take 3 history) server_init"
  have "server_step example_env ?s (history ! 3) (server_do example_env (history ! 3) ?s)"
    by (rule server_step.acts) (simp add: example_simps)
  from overrides_are_authenticated [OF this] show ?thesis by (auto simp: example_simps)
qed

text \<open>
  A request to override with a valid token, for a run that is stored, is answered 200 and
  recorded, whatever the note: the run becomes OVERRIDDEN, no other run changes, and one event
  is published for the project of the run. The server does not ask for a note.
\<close>

theorem override_is_recorded:
  assumes "jwt_sub e (now (db_call x)) tok = Some (JStr u)" and "decode_body e [''note''] body = Inr [entered]"
    and "uuid_in (pg e) i = Some rid" and "find (\<lambda>r. run_id r = rid) (diff_runs (store s)) = Some r"
    and "text_in (pg e) u" and "length u \<le> 255" and "text_in (pg e) entered"
    and "reached (db_call x)" and "reached (db_call2 x)"
    and "fresh (db_call x) \<notin> over_id ` set (audit_overrides (store s))"
  shows "code (answer (routes e x (OverrideDiff (Some tok) i body) s)) = 200
    \<and> (let s' = server_do e (Serve x (OverrideDiff (Some tok) i body)) s
       in statuses (store s') = (statuses (store s))(rid \<mapsto> js ''OVERRIDDEN'')
        \<and> (\<exists>a. audit_overrides (store s') = audit_overrides (store s) @ [a]
             \<and> over_run a = rid \<and> over_by a = u \<and> over_note a = entered)
        \<and> published (hub s') = published (hub s) @ [\<lparr>ProjectID = run_project r,
            Payload = encode e (overridden_event e i u entered (now (db_call2 x)))\<rparr>]
        \<and> queue s' = queue s)
    \<and> outgoing (routes e x (OverrideDiff (Some tok) i body) s) =
        dispatchWebhook e (encode e (overridden_event e i u entered (now (db_call2 x))))"
proof -
  let ?a = "\<lparr>over_id = fresh (db_call x), over_run = i, over_by = u, over_note = entered, over_created = now (db_call x)\<rparr>"
  let ?t = "(store s)\<lparr>audit_overrides := audit_overrides (store s) @ [?a\<lparr>over_run := rid\<rparr>],
      diff_runs := map (mark_overridden rid) (diff_runs (store s))\<rparr>"
  have r: "r \<in> set (diff_runs (store s))" "run_id r = rid"
    using assms(4) by (auto simp: find_Some_iff)
  have put: "OverrideDiffRun (pg e) (db_call x)
      \<lparr>over_id = [], over_run = i, over_by = u, over_note = entered, over_created = 0\<rparr> (store s) = Inr (?a, ?t)"
    using assms r by (auto simp: OverrideDiffRun_def varchar_def Let_def)
  have "find (\<lambda>r. run_id r = rid) (map (mark_overridden rid) rs) =
      map_option (mark_overridden rid) (find (\<lambda>r. run_id r = rid) rs)" for rs
    by (induction rs) simp_all
  then have got: "GetDiffRun (pg e) (db_call2 x) i ?t = Inr (mark_overridden rid r)"
    using assms(3,4,9) by (simp add: GetDiffRun_def)
  have out: "routes e x (OverrideDiff (Some tok) i body) s =
      \<lparr>answer = http_json e 200 (JObj [(js ''overridden_by'', JStr u), (js ''override_id'', JStr (over_id ?a)),
         (js ''status'', JStr (js ''success''))]), stored = ?t, cached = cache s,
       emitted = [\<lparr>ProjectID = run_project r,
         Payload = encode e (overridden_event e i u entered (now (db_call2 x)))\<rparr>], enqueued = [],
       outgoing = dispatchWebhook e (encode e (overridden_event e i u entered (now (db_call2 x))))\<rparr>"
    using assms(1,2) put got by (simp add: RequireJWT_def handleOverrideDiff_def)
  have "statuses ?t = (statuses (store s))(rid \<mapsto> js ''OVERRIDDEN'')"
  proof
    fix k
    have "statuses (store s) rid \<noteq> None"
      using r by (auto simp: statuses_def map_of_eq_None_iff image_image)
    then show "statuses ?t k = ((statuses (store s))(rid \<mapsto> js ''OVERRIDDEN'')) k"
      using statuses_marked [of rid "diff_runs (store s)" k]
      by (auto simp: statuses_def simp del: map_map split: option.splits)
  qed
  then show ?thesis by (simp add: out settle_def http_json_def notify_def del: routes.simps)
qed

lemma override_is_recorded_witness:
  "\<exists>a. audit_overrides (store (server_do example_env (Serve (example_calls 99)
      (OverrideDiff (Some (js ''signed'')) (example_id 98) (js ''{\"note\":\"\"}'')))
      (fold (server_do example_env) (take 3 history) server_init))) = [a] \<and> over_note a = []"
proof -
  let ?s = "fold (server_do example_env) (take 3 history) server_init"
  obtain r where "find (\<lambda>r. run_id r = example_id 98) (diff_runs (store ?s)) = Some r"
    "audit_overrides (store ?s) = []"
    by (simp add: example_simps)
  then show ?thesis
    using override_is_recorded [of example_env "example_calls 99" "js ''signed''" "js ''admin''" "js ''{\"note\":\"\"}''" "[]"
        "example_id 98" "example_id 98" ?s r]
    by (simp add: example_bodies Let_def del: server_do.simps routes.simps) blast
qed

section \<open>The list of runs\<close>






section \<open>Code audits\<close>

text \<open>
  C31. The result of a code audit is never stored and never announced: its job is queued for the
  project ''code-diff'', which is no UUID, so the insertion fails whatever the engine found.
\<close>

theorem code_diff_results_are_lost:
  assumes "server_reach e ok s" and "uuid_in (pg e) (js ''code-diff'') = None"
    and "k < length (queue s)" and "job_mode (queue s ! k) \<noteq> []"
  shows "store (server_do e (Work k c res) s) = store s \<and> hub (server_do e (Work k c res) s) = hub s
    \<and> cache (server_do e (Work k c res) s) = cache s"
proof -
  have "job_project (queue s ! k) = js ''code-diff''"
    using server_jobs_ok [OF assms(1)] assms(3,4) nth_mem by (auto simp: job_ok_def)
  then have "processJob e c res (queue s ! k) (store s) = (store s, [])"
    using assms(2) by (auto simp: processJob_def job_run_def InsertDiffRun_def split: option.split)
  then show ?thesis by simp
qed

lemma code_diff_results_are_lost_witness:
  "diff_runs (store (server_do example_env (Work 0 (example_call 98) (Some (js ''{}'')))
     (server_do example_env (Serve (example_calls 97) (CodeDiff (js ''{\"source_code\":\"x\"}''))) server_init))) = []"
proof -
  let ?s = "fold (server_do example_env) [Serve (example_calls 97) (CodeDiff (js ''{\"source_code\":\"x\"}''))] server_init"
  have "server_reach example_env (\<lambda>_ _. True) ?s"
    by (rule server_run_reach [OF server_reach.start]) (simp add: example_simps example_calls_def or_default_def)
  moreover obtain j where "queue ?s = [j]" "job_mode j \<noteq> []" "diff_runs (store ?s) = []"
    by (simp add: example_simps example_calls_def or_default_def)
  ultimately show ?thesis
    using code_diff_results_are_lost [of example_env _ ?s 0 "example_call 98" "Some (js ''{}'')"]
    by (simp del: server_do.simps)
qed

end
