(* ===== verification/Pipeline.thy ===== *)
theory Pipeline
  imports Server_Example App_Scenarios
begin

text \<open>
  The three programs together: a contract comparison from the worker's queue through the engine
  and the store to the viewer's verdict; who can override a run, and what stays of it; and what
  the viewer's own requests meet at the server.
\<close>

section \<open>From the worker to the verdict\<close>

lemma contract_job_answer:
  assumes "encodes (encode e)" and "job_mode j = []"
    and "json_parse (base_text j) = Some bd" and "json_parse (target_text j) = Some td"
    and "codable bd" and "codable td" and "unicode bd" and "unicode td"
    and "read_spec K bd = Some b" and "read_spec K td = Some t"
    and "compare_specs (hash_order K) b t default_config = Inr r"
  shows "runAnalysisJob e (service K) cli j = Some (to_string K (ipc_json r))"
proof -
  let ?v = "JObj [(js ''base'', bd), (js ''target'', td)]"
  have "codable ?v"
    by (rule codable_JObj) (use assms(5,6) in \<open>simp_all add: plain_simps del: parsed.simps exact.simps\<close>)
  moreover have "unicode ?v" using assms(7,8) by simp
  ultimately have "json_parse (encode e ?v) = Some ?v" by (rule encodesD(1) [OF assms(1)])
  moreover have "\<not> is_code_job j" using assms(2) by (simp add: is_code_job_def)
  ultimately show ?thesis
    using assms(3,4,9-11)
    by (simp add: runAnalysisJob_def analyze_request_def service_def openapi_mode_def opt_get_JObj)
qed

lemma insert_Inr:
  assumes "InsertDiffRun d c r t = Inr (r', t')"
  obtains pid doc where "uuid_in d (run_project r) = Some pid" "r' = r\<lparr>run_id := fresh c, run_created := now c\<rparr>"
    "int4 (breaking_count r) = None" "int4 (dangerous_count r) = None" "fresh c \<notin> run_id ` set (diff_runs t)"
    "t' = t\<lparr>diff_runs := diff_runs t @ [r'\<lparr>run_project := pid, raw_diff_payload := doc\<rparr>]\<rparr>"
  using assms by (auto simp: InsertDiffRun_def Let_def split: option.splits)

lemma statuses_append:
  "i \<notin> run_id ` set (diff_runs t) \<Longrightarrow> run_id r = i \<Longrightarrow>
     statuses (t\<lparr>diff_runs := diff_runs t @ [r]\<rparr>) i = Some (row_status r)"
  by (auto simp: statuses_def map_add_def split: option.split dest!: map_of_SomeD)

text \<open>What the viewer makes of the event of a finished run.\<close>

lemma completed_message:
  assumes "json_parse m = Some (completed_event e dr)" and "run_id dr \<noteq> []"
    and "row_status dr = (if n then js ''FAILED'' else js ''PASSED'')"
    and "raw_diff_payload dr = ipc_json r"
  shows "diffId (on_message m a) = JStr (run_id dr)" "diffStatus (on_message m a) = JStr (row_status dr)"
    "status (on_message m a) = (if n then BREAKING else SAFE)"
    "breakingChanges (on_message m a) = JArr (map change_json (changes_of r))"
proof -
  have "get (completed_event e dr) (js ''type'') = Inr (JStr (js ''diff_completed''))"
    using event_fields(1) [of e dr] by (simp add: completed_event_def field_def)
  then show "diffId (on_message m a) = JStr (run_id dr)" "diffStatus (on_message m a) = JStr (row_status dr)"
    "status (on_message m a) = (if n then BREAKING else SAFE)"
    "breakingChanges (on_message m a) = JArr (map change_json (changes_of r))"
    using assms
    by (simp_all add: on_message_def on_payload_def on_diff_completed_def push_event_def Let_def event_fields
        run_json_fields ipc_changes js_or_def)
qed

lemma completed_conforms:
  assumes "json_parse m = Some (completed_event e dr)" and "raw_diff_payload dr = ipc_json r"
    and "list_all is_breaking (changes_of r)"
  shows "message_conforms m"
  using assms change_json_typed
  by (auto simp: message_conforms_def sent_changes_def event_fields run_json_fields ipc_changes
      is_array_of_def list_all_iff)

text \<open>The engine's list has breaking changes only, and nothing dangerous or additive.\<close>

lemma compared:
  assumes "enumerates iter" and "compare_specs iter b t cfg = Inr r"
  shows "0 < breaking r \<longleftrightarrow> spec_breaks cfg b t" "dangerous r = 0" "additive_of r = 0" "list_all is_breaking (changes_of r)"
  using assms(2) spec_changes_iff [OF assms(1), of b t cfg] spec_changes_break
  by (auto simp: compare_specs_cases list_all_iff split: if_splits)

text \<open>
  C3. From the queue to the screen: the worker takes a contract comparison, the engine compares,
  the run is stored, and the event that is published for the job's project is one the viewer's
  contract allows; on receiving it the viewer shows the stored run, its status and the engine's
  changes, and BREAKING exactly when the reference relation says the target breaks the clients
  of the base.
\<close>

theorem run_verdict_reaches_viewer:
  assumes "encodes (encode e)" and "encodes (to_string K)" and "enumerates (hash_order K)"
    and "k < workers" and "k < length (queue s)" and "queue s ! k = j" and "job_mode j = []"
    and "json_parse (base_text j) = Some bd" and "json_parse (target_text j) = Some td"
    and "codable bd" and "codable td" and "unicode bd" and "unicode td"
    and "read_spec K bd = Some b" and "read_spec K td = Some t"
    and "compare_specs (hash_order K) b t default_config = Inr r" and "unicode (ipc_json r)"
    and "read_ipc e (to_string K (ipc_json r)) = Some (int (breaking r), int (dangerous r))"
    and "InsertDiffRun (pg e) c (compared_run j (to_string K (ipc_json r)) r) (store s) = Inr (dr, db)"
    and "unicode (completed_event e dr)" and "fresh c \<noteq> []" and "breaking r < 2 ^ 31"
  shows "let res = runAnalysisJob e (service K) cli j;
             s' = server_do e (Work k c res) s; m = encode e (completed_event e dr)
         in queue s' = take k (queue s) @ drop (Suc k) (queue s)
          \<and> statuses (store s') (fresh c) = Some (if spec_breaks default_config b t then js ''FAILED'' else js ''PASSED'')
          \<and> published (hub s') = published (hub s) @ [\<lparr>ProjectID = job_project j, Payload = m\<rparr>]
          \<and> message_conforms m
          \<and> (\<forall>a. diffId (on_message m a) = JStr (fresh c)
               \<and> status (on_message m a) = (if spec_breaks default_config b t then BREAKING else SAFE)
               \<and> diffStatus (on_message m a) =
                   JStr (if spec_breaks default_config b t then js ''FAILED'' else js ''PASSED'')
               \<and> breakingChanges (on_message m a) = JArr (map change_json (changes_of r)))"
proof -
  let ?raw = "to_string K (ipc_json r)" and ?m = "encode e (completed_event e dr)"
  let ?st = "if spec_breaks default_config b t then js ''FAILED'' else js ''PASSED''"
  note res = contract_job_answer [OF assms(1,7-16), of cli]
  note r = compared [OF assms(3,16)]
  have "codable (ipc_json r)"
    using r(2,3) assms(22) by (intro codable_ipc) (simp_all add: int4_def flip: of_nat_less_iff)
  then have raw: "json_parse ?raw = Some (ipc_json r)" using encodesD(1) [OF assms(2) _ assms(17)] by blast
  from assms(19) obtain pid doc where dr: "dr = (compared_run j ?raw r)\<lparr>run_id := fresh c, run_created := now c\<rparr>"
    and new: "fresh c \<notin> run_id ` set (diff_runs (store s))"
    and db: "db = (store s)\<lparr>diff_runs := diff_runs (store s) @ [dr\<lparr>run_project := pid, raw_diff_payload := doc\<rparr>]\<rparr>"
    and counts: "int4 (breaking_count dr) = None" "int4 (dangerous_count dr) = None"
    by (rule insert_Inr) auto
  have fields: "raw_diff_payload dr = ipc_json r" "run_id dr = fresh c" "row_status dr = ?st"
    "run_project dr = job_project j"
    using raw r(1) by (simp_all add: dr compared_run_def job_run_def)
  have "writable dr"
    using counts \<open>codable (ipc_json r)\<close> by (simp add: writable_def fields del: parsed.simps exact.simps)
  then have m: "json_parse ?m = Some (completed_event e dr)"
    using assms(1,20) codable_events(1) encodesD(1) by blast
  have worked: "processJob e c (Some ?raw) j (store s) = (db, [\<lparr>ProjectID = job_project j, Payload = ?m\<rparr>])"
    using assms(18,19) fields(4) by (simp add: processJob_def compared_run_def)
  have "statuses db (fresh c) = Some ?st"
    unfolding db using statuses_append [OF new] fields by simp
  moreover have "message_conforms ?m" using m fields(1) r(4) by (rule completed_conforms)
  ultimately show ?thesis
    using assms(4-6,21) worked completed_message [OF m _ _ fields(1), of "spec_breaks default_config b t"] fields
    by (simp add: res Let_def notify_def)
qed

lemma run_verdict_reaches_viewer_witness:
  "published (hub (server_do example_env (Work 0 (example_call 98)
       (runAnalysisJob example_env (service example_crates) (\<lambda>_. None) example_job))
       example_server)) =
     [\<lparr>ProjectID = example_id 97, Payload = encode example_env (completed_event example_env example_run)\<rparr>]
   \<and> status (on_message (encode example_env (completed_event example_env example_run)) app_init) = BREAKING"
proof -
  have env: "encode example_env = (\<lambda>v. the (json_stringify v))" "pg example_env = example_pg"
    "\<And>raw. read_ipc example_env raw = Some (1, 0)"
    by (simp_all add: example_env_def)
  have job: "queue example_server = [example_job]" "job_mode example_job = []"
    "base_text example_job = js ''[]''" "target_text example_job = js ''{}''"
    "job_project example_job = example_id 97" "published (hub example_server) = []"
    by (simp_all add: example_server_def example_job_def server_init_def NewBroker_def)
  have specs: "example_spec (JArr []) = Some (users_contract [] [])"
    "example_spec (JObj []) = Some (users_contract [js ''email''] [])"
    "spec_breaks default_config (users_contract [] []) (users_contract [js ''email''] [])"
    using compared(1) [OF insertion_order_enumerates(1) example_compared]
    by (simp_all add: example_spec_def example_answer_def)
  have id: "fresh (example_call 98) = example_id 98" by (simp add: example_call_def)
  show ?thesis
    using run_verdict_reaches_viewer [of example_env example_crates 0 example_server example_job "JArr []" "JObj []"
        "users_contract [] []" "users_contract [js ''email''] []" example_answer "example_call 98" example_run
        example_db "\<lambda>_. None"]
      example_inserted example_event_unicode example_answer_unicode
    by (simp add: env job specs id example_crates_simps stringify_encodes insertion_order_enumerates example_docs
        example_compared workers_def example_answer_def [THEN arg_cong [where f = breaking]]
        example_answer_def [THEN arg_cong [where f = dangerous]] Let_def mk_obj_def own_order_def del: server_do.simps)
qed

section \<open>The viewer's requests at the server\<close>

text \<open>
  The route of a request: its method and address select the handler (\<open>setupRoutes\<close>), the body
  and the cookie go with it. The parameter of an override is the part of the address between
  the two fixed parts, when it needs no escaping.
\<close>

definition plain_char :: "nat \<Rightarrow> bool" where
  "plain_char c \<longleftrightarrow> 97 \<le> c \<and> c \<le> 122 \<or> 65 \<le> c \<and> c \<le> 90 \<or> 48 \<le> c \<and> c \<le> 57 \<or> c = 45 \<or> c = 95"

definition override_param :: "jstr \<Rightarrow> jstr option" where
  "override_param url =
     (let rest = drop 11 url; i = take (length rest - 9) rest
      in if starts_with url (js ''/api/diffs/'') \<and> drop (length rest - 9) rest = js ''/override''
            \<and> i \<noteq> [] \<and> list_all plain_char i
         then Some i else None)"

definition upload_auth :: jstr where
  "upload_auth = js ''Bearer secret-ci-token''"

definition body_of :: "request \<Rightarrow> jstr" where
  "body_of q = (case request_body q of Some b \<Rightarrow> b | None \<Rightarrow> [])"

fun routed :: "jstr option \<Rightarrow> request \<Rightarrow> route option" where
  "routed cookie (PostOverride url t) =
     map_option (\<lambda>i. OverrideDiff cookie i (body_of (PostOverride url t))) (override_param url)"
| "routed cookie (PostCodeDiff lang src) = Some (CodeDiff (body_of (PostCodeDiff lang src)))"
| "routed cookie (PostProject n) = Some (Projects (body_of (PostProject n)))"
| "routed cookie (PostDiff pid b t) = Some (RunDiff upload_auth (Some (request_form (PostDiff pid b t))))"
| "routed cookie GetDiffs = Some (ListDiffs [])"
| "routed cookie (PostPrompt body) = Some (Prompt (body_of (PostPrompt body)))"

lemma override_param_url: "i \<noteq> [] \<Longrightarrow> list_all plain_char i \<Longrightarrow> override_param (override_url i) = Some i"
proof -
  have "drop 11 (override_url i) = i @ js ''/override''" "starts_with (override_url i) (js ''/api/diffs/'')"
    by (simp_all add: override_url_def js_def)
  then show "i \<noteq> [] \<Longrightarrow> list_all plain_char i \<Longrightarrow> override_param (override_url i) = Some i"
    by (simp add: override_param_def Let_def)
qed

section \<open>Nobody is signed in\<close>

lemma made_not_login: "made q \<Longrightarrow> request_url q \<noteq> js ''/api/login''"
  by (cases q) (auto simp: made_def override_url_def, simp_all add: js_def)

lemma only_login_signs: "set_cookie (answer (routes e x rt s)) \<noteq> None \<Longrightarrow> \<exists>body. rt = Login body"
  by (cases rt)
    (auto simp: handler_defs http_error_def http_json_def Let_def split: sum.splits list.splits prod.splits
      option.splits if_splits)

text \<open>
  C15. The server sets the session cookie only in answer to a login, and the viewer never logs
  in; without a cookie its overrides are answered 401, change nothing at the server, and at the
  viewer only end the submission: the form stays, and the verdict as it was.
\<close>

theorem override_without_login_is_refused:
  assumes "reachable v" and "PostOverride url t \<in> set (sent v)"
    and "routed None (PostOverride url t) = Some rt"
  shows "(\<forall>q \<in> set (sent v). request_url q \<noteq> js ''/api/login'')
    \<and> (\<forall>e x rt' s. set_cookie (answer (routes e x rt' s)) \<noteq> None \<longrightarrow> (\<exists>body. rt' = Login body))
    \<and> code (answer (routes e x rt s)) = 401 \<and> server_do e (Serve x rt) s = s
    \<and> override_done (as_response (answer (routes e x rt s))) a = a\<lparr>isSubmitting := False\<rparr>"
proof -
  obtain i body where rt: "rt = OverrideDiff None i body" using assms(3) by auto
  have "routes e x rt s = nothing_but (http_error (js ''missing jwt cookie'') 401) s"
    by (simp add: rt RequireJWT_def)
  moreover have "\<forall>q \<in> set (sent v). request_url q \<noteq> js ''/api/login''"
    using made_inv.holds [OF assms(1)] made_not_login by blast
  ultimately show ?thesis
    using only_login_signs
    by (auto simp: settle_def http_error_def as_response_def override_done_def nothing_but_def)
qed

lemma override_without_login_is_refused_witness:
  "code (answer (routes example_env (example_calls 98) (OverrideDiff None (js ''d1'')
     (body_of (PostOverride (override_url (js ''d1'')) (js ''accepted'')))) server_init)) = 401"
proof -
  have "override_param (override_url (js ''d1'')) = Some (js ''d1'')"
    by (rule override_param_url) (simp_all add: plain_char_def js_def)
  then show ?thesis
    using override_without_login_is_refused [OF reachable_run [OF blocked_reachable fields_of_override(1)],
        of "override_url (js ''d1'')" "js ''accepted''"] fields_of_override(2)
    by (simp del: routes.simps)
qed

section \<open>The interactive sandbox\<close>

lemma project_stays:
  assumes "n \<in> proj_name ` set (projects (store s))"
  shows "n \<in> proj_name ` set (projects (store (fold (server_do e) acts s)))"
  using assms
proof (induction acts arbitrary: s)
  case (Cons a acts)
  have "n \<in> proj_name ` set (projects (store (server_do e a s)))"
  proof (cases "step_op e s a")
    case (Some u)
    with Cons.prems show ?thesis
      by (cases u) (auto simp: server_do_store CreateProject_Inr InsertDiffRun_def OverrideDiffRun_def Let_def
          split: sum.split option.splits)
  qed (use Cons.prems in \<open>simp add: server_do_store\<close>)
  then show ?case using Cons.IH by simp
qed simp

lemma taken_name: "n \<in> proj_name ` set (projects t) \<Longrightarrow> \<exists>err. CreateProject d c n t = Inl err"
  by (cases "CreateProject d c n t") (auto simp: CreateProject_Inr)

text \<open>
  C16. The sandbox works once. It creates a project of a fixed name, and names are unique: once
  there is one, whatever happens in between, its request is answered 500 with a text that is no
  JSON, nothing is stored, and the run ends at the viewer without an upload or a message.
\<close>

theorem sandbox_works_once:
  assumes "js ''Interactive Sandbox Session'' \<in> proj_name ` set (projects (store s))"
    and "sandboxMode a = OPENAPI" and "routed cookie (snd (sandbox_start a)) = Some (Projects body)"
    and "decode_body e [''name''] body = Inr [js ''Interactive Sandbox Session'']"
    and "\<forall>err. json_parse (db_message e err @ [10]) = None"
  shows "let s' = fold (server_do e) acts s; h = answer (routes e x (Projects body) s')
    in code h = 500 \<and> server_do e (Serve x (Projects body)) s' = s'
     \<and> task_step (ProjectFetch b t) (as_response h) v = (upd (\<lambda>a. a\<lparr>isSubmitting := False\<rparr>) v, False)"
proof -
  let ?s = "fold (server_do e) acts s"
  obtain err where "CreateProject (pg e) (db_call x) (js ''Interactive Sandbox Session'') (store ?s) = Inl err"
    using taken_name [OF project_stays [OF assms(1)]] by blast
  then have "routes e x (Projects body) ?s = nothing_but (http_error (db_message e err) 500) ?s"
    using assms(4) by (simp add: handleCreateProject_def)
  then show ?thesis
    using assms(5)
    by (simp add: Let_def settle_def http_error_def as_response_def project_done_def json_parse_res_def
        upd_def nothing_but_def)
qed

lemma sandbox_body:
  "json_parse (body_of (PostProject n)) = Some (JObj [(js ''name'', JStr (js n))])"
proof -
  have "codable (JObj [(js ''name'', JStr (js n))])" by (rule codable_project)
  then obtain b where "json_stringify (JObj [(js ''name'', JStr (js n))]) = Some b"
    "json_parse b = Some (JObj [(js ''name'', JStr (js n))])"
    using compact.prints compact.reads_back by blast
  then show ?thesis by (simp add: body_of_def request_body_def)
qed

lemma sandbox_name_decoded: "decode_body example_env [''name''] (body_of (PostProject n)) = Inr [js n]"
  by (simp add: example_env_def example_decode_def sandbox_body opt_get_JObj)

lemma sandbox_works_once_witness:
  "code (answer (routes example_env (example_calls 98)
     (Projects (body_of (PostProject ''Interactive Sandbox Session'')))
     (server_do example_env (Serve (example_calls 97)
        (Projects (body_of (PostProject ''Interactive Sandbox Session'')))) server_init))) = 500"
proof -
  let ?b = "body_of (PostProject ''Interactive Sandbox Session'')"
  let ?s = "server_do example_env (Serve (example_calls 97) (Projects ?b)) server_init"
  have "js ''Interactive Sandbox Session'' \<in> proj_name ` set (projects (store ?s))"
    by (simp add: example_simps sandbox_name_decoded example_pg_def) (simp add: js_def)
  moreover have "sandboxMode app_init = OPENAPI" by (simp add: app_init_def)
  moreover have "json_parse (db_message example_env err @ [10]) = None" for err
    by (simp add: example_env_def js_eval)
  ultimately show ?thesis
    using sandbox_works_once [of ?s app_init None ?b example_env "[]" "example_calls 98"]
    by (simp add: sandbox_start_def sandbox_name_decoded Let_def del: server_do.simps)
qed

text \<open>
  C17. The first run of the sandbox is queued: the project the server creates becomes the
  viewer's project, the viewer uploads both contracts for it, and the server queues their comparison
  for that project, as uploaded; that is so as long as the server's token is the one that is written in
  the viewer, and any other token refuses the upload with 401.
\<close>

theorem sandbox_upload_is_queued:
  assumes "encodes (encode e)" and "decode_body e [''name''] body = Inr [n]"
    and "CreateProject (pg e) (db_call x) n (store s) = Inr (p, db)"
    and "proj_id p \<noteq> []" and "unicode (project_json e p)"
  shows "let h = answer (routes e x (Projects body) s); s' = server_do e (Serve x (Projects body)) s;
      v' = fst (task_step (ProjectFetch b t) (as_response h) v); q = PostDiff (proj_id p) b t
    in currentProjectId (app v') = JStr (proj_id p) \<and> sent v' = sent v @ [q] \<and> tasks v' = tasks v @ [DiffFetch]
     \<and> events_url (currentProjectId (app v')) = Inr (js ''/api/events?project_id='' @ proj_id p)
     \<and> (\<exists>rt. routed cookie q = Some rt
          \<and> (if ci_token e = js ''secret-ci-token''
             then queue (server_do e (Serve y rt) s') = queue s @
               [\<lparr>job_project = proj_id p, job_commit = js ''manual-sandbox-run'', base_text = b, target_text = t,
                 job_mode = [], job_language = []\<rparr>]
             else code (answer (routes e y rt s')) = 401 \<and> server_do e (Serve y rt) s' = s'))"
proof -
  have "codable (project_json e p)" unfolding project_json_def by (rule codable_JObj) (simp_all add: plain_simps)
  then have read: "json_parse (encode e (project_json e p) @ [10]) = Some (project_json e p)"
    using encodesD(2) [OF assms(1) _ assms(5)] by blast
  have out: "routes e x (Projects body) s =
      \<lparr>answer = http_json e 201 (project_json e p), stored = db, cached = cache s,
       emitted = [\<lparr>ProjectID = proj_id p, Payload = encode e (created_event e p)\<rparr>], enqueued = [], outgoing = []\<rparr>"
    using assms(2,3) by (simp add: handleCreateProject_def)
  have "get (project_json e p) (js ''id'') = Inr (JStr (proj_id p))"
    by (simp add: project_json_def field_def)
  then have viewer: "task_step (ProjectFetch b t) (as_response (http_json e 201 (project_json e p))) v =
      (add_task DiffFetch (send (PostDiff (proj_id p) b t) (upd (\<lambda>a. a\<lparr>currentProjectId := JStr (proj_id p)\<rparr>) v)),
       \<not> same_value (currentProjectId (app v)) (JStr (proj_id p)))"
    using read by (simp add: http_json_def as_response_def project_done_def json_parse_res_def upd_def)
  have "starts_with upload_auth (js ''Bearer '')" "drop 7 upload_auth = js ''secret-ci-token''"
    by (simp_all add: upload_auth_def js_def)
  then show ?thesis
    using assms(4)
    by (auto simp: out viewer Let_def settle_def RequireAPIKey_def handleRunDiff_def form_value_def add_task_def
        send_def upd_def events_url_def nothing_but_def http_error_def simp del: task_step.simps routes.simps(3))
qed

lemma sent_init: "sent sys_init = []"
  by (simp add: sys_init_def)

lemma sandbox_upload_is_queued_witness:
  "sent (fst (task_step (ProjectFetch init_base init_target) (as_response (answer (routes example_env (example_calls 97)
      (Projects (body_of (PostProject ''Interactive Sandbox Session''))) server_init))) sys_init)) =
   [PostDiff (example_id 97) init_base init_target]"
proof -
  let ?b = "body_of (PostProject ''Interactive Sandbox Session'')"
  let ?p = "\<lparr>proj_id = example_id 97, proj_name = js ''Interactive Sandbox Session'', proj_created = 97\<rparr>"
  have "CreateProject (pg example_env) (db_call (example_calls 97)) (js ''Interactive Sandbox Session'')
      (store server_init) = Inr (?p, no_tables\<lparr>projects := [?p]\<rparr>)"
    by (simp add: example_simps example_pg_def) (simp add: js_def)
  moreover have "unicode (project_json example_env ?p)"
    by (simp add: project_json_def example_env_def)
  moreover have "encodes (encode example_env)" using stringify_encodes by (simp add: example_env_def)
  ultimately show ?thesis
    using sandbox_upload_is_queued [of example_env ?b "js ''Interactive Sandbox Session''" "example_calls 97"
        server_init ?p "no_tables\<lparr>projects := [?p]\<rparr>" init_base init_target sys_init]
    by (simp add: sandbox_name_decoded Let_def sent_init del: task_step.simps server_do.simps routes.simps)
qed

end
