(* ===== verification/Prompt_Pipeline.thy ===== *)
theory Prompt_Pipeline
  imports Pipeline Audit_Facts
begin

text \<open>
  The prompt compiler across the three programs: what the engine's analysis becomes in the
  server's prompt and on the viewer's panel. Code audits across the three programs: what the
  engine finds, what is stored, and what the viewer shows.
\<close>

section \<open>The analysis the server gets\<close>

text \<open>What \<open>json.Unmarshal\<close> makes of the engine's JSON: an absent member leaves the zero value.\<close>

definition text_of :: "jstr option \<Rightarrow> jstr" where
  "text_of x = (case x of None \<Rightarrow> [] | Some s \<Rightarrow> s)"

definition as_go_dependency :: "RsDependency \<Rightarrow> GoDependency" where
  "as_go_dependency d = \<lparr>Name = dep_name d, IsCExt = (is_c_extension d = Some True),
     IsNative = (is_native d = Some True), PackageHint = text_of (package_hint d)\<rparr>"

definition as_go :: "RsAnalysis \<Rightarrow> GoAnalysis" where
  "as_go a = \<lparr>LanguageName = lang_name a, LanguageVersion = text_of (lang_version a),
     LanguageRuntime = text_of (lang_runtime a),
     Dependencies = Some (map as_go_dependency (deps a)),
     Entrypoints = Some (map (\<lambda>p. \<lparr>Kind = entry_kind p, Line = text_of (entry_line p)\<rparr>) (entries a)),
     Caveats = Some (map (\<lambda>c. \<lparr>Severity = caveat_severity c, Message = caveat_message c\<rparr>) (caveats a)),
     FunctionCount = int (function_count a), ClassCount = int (class_count a), LineCount = int (line_count_of a),
     SystemCalls = Some (system_calls a)\<rparr>"

definition reads_analysis :: "server_env \<Rightarrow> crates \<Rightarrow> RsAnalysis \<Rightarrow> bool" where
  "reads_analysis e K a \<longleftrightarrow> decode_analysis e (to_string K (analysis_json a)) = Some (as_go a)"

definition unknown_result :: "jstr \<Rightarrow> RsAnalysis" where
  "unknown_result src = empty_analysis\<lparr>line_count_of := length (rs_lines src), lang_name := js ''Unknown''\<rparr>"

definition unknown_analysis :: "nat \<Rightarrow> GoAnalysis" where
  "unknown_analysis n = \<lparr>LanguageName = js ''Unknown'', LanguageVersion = [], LanguageRuntime = [],
     Dependencies = Some [], Entrypoints = Some [], Caveats = Some [], FunctionCount = 0, ClassCount = 0,
     LineCount = int n, SystemCalls = Some []\<rparr>"

lemma as_go_unknown: "as_go (unknown_result src) = unknown_analysis (length (rs_lines src))"
  by (simp add: as_go_def unknown_result_def unknown_analysis_def empty_analysis_def text_of_def)

lemma unknown_service:
  "service K (js ''analyze'', [], src) = Some (to_string K (analysis_json (unknown_result src)))"
  by (simp add: service_def analyze_code_def unknown_result_def Let_def)

lemma analysis_of_service:
  assumes "\<not> mock_analyzer e" "grpc_client e" "analyzer x = service K" "reads_analysis e K (unknown_result src)"
  shows "analysis_of e x src = unknown_analysis (length (rs_lines src))"
  using assms by (simp add: analysis_of_def AnalyzeCode_def unknown_service reads_analysis_def as_go_unknown)

lemma analysis_of_nobody:
  assumes "\<not> mock_analyzer e" "grpc_client e" "analyzer x = (\<lambda>q. None)"
  shows "analysis_of e x src = mockAnalyzeCode src"
  using assms by (simp add: analysis_of_def AnalyzeCode_def)

text \<open>The three sources the fallback knows.\<close>

definition known_source :: "jstr \<Rightarrow> bool" where
  "known_source src \<longleftrightarrow> js_includes src (js ''def fetch_data():'') \<or> js_includes src (js ''package main'')
     \<or> js_includes src (js ''export function start()'')"

text \<open>Analyses without nil slices, whose caveats are of the two declared severities.\<close>

definition viewable :: "GoAnalysis \<Rightarrow> bool" where
  "viewable a \<longleftrightarrow> Dependencies a \<noteq> None \<and> Entrypoints a \<noteq> None \<and> Caveats a \<noteq> None
     \<and> (\<forall>c \<in> set (items (Caveats a)). Severity c \<in> {js ''WARNING'', js ''INFO''})"

definition small_counts :: "GoAnalysis \<Rightarrow> bool" where
  "small_counts a \<longleftrightarrow> int4 (FunctionCount a) = None \<and> int4 (ClassCount a) = None \<and> int4 (LineCount a) = None"

lemma mock_cases:
  "mockAnalyzeCode src = (if known_source src then mockAnalyzeCode src else zero_analysis)"
  "known_source src \<Longrightarrow> viewable (mockAnalyzeCode src)" "small_counts (mockAnalyzeCode src)"
  by (auto simp: mockAnalyzeCode_def known_source_def viewable_def small_counts_def int4_def items_def
      zero_analysis_def)

lemma unknown_cases: "viewable (unknown_analysis n)" "int4 (int n) = None \<Longrightarrow> small_counts (unknown_analysis n)"
  by (simp_all add: unknown_analysis_def viewable_def small_counts_def items_def int4_def)

section \<open>Its JSON\<close>

definition prompt_answer :: "GoAnalysis \<Rightarrow> jstr \<Rightarrow> jsval" where
  "prompt_answer a md = JObj [(js ''analysis'', go_analysis_json a), (js ''markdown'', JStr md)]"

lemma prompt_answer_fields: "\<not> nullish (prompt_answer a md)"
  "opt_get (prompt_answer a md) (js ''analysis'') = go_analysis_json a"
  "opt_get (prompt_answer a md) (js ''markdown'') = JStr md"
  by (simp_all add: prompt_answer_def opt_get_JObj)

lemma is_num_int [simp]: "is_num (int_json i)"
  by (simp add: int_json_def is_num_def)

lemma slice_array: "is_array_of P (slice_json f xs) \<longleftrightarrow> xs \<noteq> None \<and> list_all (\<lambda>x. P (f x)) (items xs)"
  by (cases xs) (simp_all add: slice_json_def items_def is_array_of_def list_all_iff)

lemma member_types:
  "Dependency (go_dependency_json d)" "Entrypoint (go_entrypoint_json p)"
  "Severity c \<in> {js ''WARNING'', js ''INFO''} \<Longrightarrow> PackagingCaveat (go_caveat_json c)"
  by (auto simp: Dependency_def Entrypoint_def PackagingCaveat_def go_dependency_json_def go_entrypoint_json_def
      go_caveat_json_def filled_def opt_get_JObj type_defs)

lemma viewable_json: "viewable a \<Longrightarrow> CodeAnalysis (go_analysis_json a)"
  by (auto simp: CodeAnalysis_def DetectedLanguage_def viewable_def go_analysis_json_def filled_def opt_get_JObj
      slice_array member_types list_all_iff is_obj_def is_str_def optional_def)

lemma zero_json: "truthy (go_analysis_json zero_analysis)"
  "nullish (opt_get (go_analysis_json zero_analysis) (js ''dependencies''))"
  by (simp_all add: go_analysis_json_def zero_analysis_def filled_def opt_get_JObj slice_json_def)

lemma codable_slice: "(\<And>x. codable (f x)) \<Longrightarrow> codable (slice_json f xs)"
proof (cases xs)
  case (Some ys)
  assume "\<And>x. codable (f x)"
  then have "codable (JArr (map f ys))"
    by (intro codable_JArr) (simp add: list_all_iff del: parsed.simps exact.simps)
  with Some show ?thesis by (simp add: slice_json_def del: parsed.simps exact.simps)
qed (simp add: slice_json_def)

lemma codable_members: "codable (go_dependency_json d)" "codable (go_entrypoint_json p)" "codable (go_caveat_json c)"
  unfolding go_dependency_json_def go_entrypoint_json_def go_caveat_json_def filled_def
  by (rule codable_JObj; auto simp: plain_simps)+

lemma codable_language:
  "codable (JObj ([(js ''name'', JStr n)] @ filled ''version'' v @ filled ''runtime'' r))"
  unfolding filled_def by (rule codable_JObj) (auto simp: plain_simps)

lemma codable_analysis: "small_counts a \<Longrightarrow> codable (go_analysis_json a)"
  unfolding go_analysis_json_def small_counts_def
  by (intro codable_JObj)
    (simp_all only: list.pred_inject prod.case codable_language codable_slice codable_members codable_int codable_str simp_thms,
      simp add: plain_simps)

lemma codable_answer: "small_counts a \<Longrightarrow> codable (prompt_answer a md)"
  unfolding prompt_answer_def
  by (rule codable_JObj) (auto simp: plain_simps codable_analysis simp del: parsed.simps exact.simps)

text \<open>The response of the server to a request it can read.\<close>

lemma prompt_response:
  assumes "decode_prompt e body = Inr (src, ts)" "src \<noteq> []"
  shows "as_response (answer (routes e x (Prompt body) s)) =
    Resp True (encode e (prompt_answer (analysis_of e x src) (SynthesizePrompt (analysis_of e x src) ts src)) @ [10])"
  using assms by (simp add: handleGeneratePrompt_def as_response_def http_json_def prompt_answer_def)

section \<open>On the viewer\<close>

lemma body_read:
  assumes "encodes (encode e)" "small_counts a" "unicode (prompt_answer a md)"
  shows "json_parse (encode e (prompt_answer a md) @ [10]) = Some (prompt_answer a md)"
  using encodesD(2) [OF assms(1) codable_answer [OF assms(2)] assms(3)] .

text \<open>
  C23. Whether the answer of the server to the compiler's request unmounts the viewer: it does not
  when the analysis service is up, and when it is down it does unless the source is one of the
  three the server's fallback knows; for every other source the fallback is the zero value,
  whose lists are null.
\<close>

theorem prompt_answer_survives_iff:
  assumes "\<not> mock_analyzer e" and "grpc_client e" and "reads_analysis e K (unknown_result src)"
    and "analyzer x = (if up then service K else (\<lambda>q. None))"
    and "decode_prompt e body = Inr (src, ts)" and "src \<noteq> []" and "int4 (int (length (rs_lines src))) = None"
    and "encodes (encode e)"
    and "unicode (prompt_answer (analysis_of e x src) (SynthesizePrompt (analysis_of e x src) ts src))"
    and "sound v" and "i < length (tasks v)" and "tasks v ! i = PromptFetch p"
    and "viewMode (app v) = PROMPT"
  shows "alive (step v (Complete i (as_response (answer (routes e x (Prompt body) s))))) \<longleftrightarrow> up \<or> known_source src"
proof -
  let ?a = "analysis_of e x src" let ?md = "SynthesizePrompt ?a ts src"
  let ?body = "encode e (prompt_answer ?a ?md) @ [10]"
  have a: "?a = (if up then unknown_analysis (length (rs_lines src)) else mockAnalyzeCode src)"
    using assms(4) analysis_of_service [OF assms(1,2) _ assms(3)] analysis_of_nobody [OF assms(1,2)] by (cases up) simp_all
  then have "small_counts ?a" using assms(7) by (simp add: mock_cases(3) unknown_cases(2))
  then have read: "json_parse ?body = Some (prompt_answer ?a ?md)" using body_read assms(8,9) by blast
  have response: "as_response (answer (routes e x (Prompt body) s)) = Resp True ?body"
    using prompt_response [OF assms(5,6)] .
  show ?thesis
  proof (cases "up \<or> known_source src")
    case True
    then have "CodeAnalysis (go_analysis_json ?a)"
      unfolding a using viewable_json mock_cases(2) unknown_cases(1) by auto
    then have "conforms v (Complete i (Resp True ?body))"
      by (simp add: assms(12) body_sat_def read prompt_answer_fields is_str_def)
    moreover have "enabled v (Complete i (Resp True ?body))" using assms(11) by simp
    ultimately have "sound (step v (Complete i (Resp True ?body)))" using assms(10) sound_step by blast
    then show ?thesis using True response by (simp add: sound_def)
  next
    case False
    then have "?a = zero_analysis" unfolding a using mock_cases(1) [of src] by simp
    then show ?thesis
      using prompt_answer_crashes [OF assms(11-13) read prompt_answer_fields(1)] False zero_json
      unfolding response prompt_answer_fields by simp
  qed
qed

text \<open>The viewer after its compiler was opened and asked, with the sample source it starts with.\<close>

definition asking :: sys where
  "asking = step (step sys_init (User (GoTo PROMPT))) (User (InPrompt ExecutePrompt))"

lemma asking_facts: "sound asking" "tasks asking = [PromptFetch prompt_init]" "viewMode (app asking) = PROMPT"
proof -
  let ?s = "step sys_init (User (GoTo PROMPT))"
  have s: "sound ?s" using sound_step [OF sound_init] sound_enabled_goto [OF sound_init] by (simp del: step.simps)
  have f: "viewMode (app ?s) = PROMPT" "prompt (app ?s) = prompt_init" "tasks ?s = []"
    by (simp_all add: commit_tasks ledger_starts_def ledger_mounts_def sys_init_def app_init_def)
  have "\<not> blank (promptCode prompt_init)" by (simp add: prompt_init_def js_lines_def blank_def js_eval)
  then have "ExecutePrompt \<in> prompt_offers prompt_init" by (simp add: prompt_offers_def prompt_init_def)
  then have e: "enabled ?s (User (InPrompt ExecutePrompt))" using sound_enabled_prompt [OF s] f by (simp del: step.simps)
  then show "sound asking" unfolding asking_def using s sound_step by (simp del: step.simps)
  show "tasks asking = [PromptFetch prompt_init]" "viewMode (app asking) = PROMPT"
    unfolding asking_def using f
    by (simp_all add: commit_tasks ledger_starts_def ledger_mounts_def start_prompt_def prompt_start_def on_prompt_def)
qed

lemma scalars_append: "scalars s \<Longrightarrow> scalars (s @ t) = scalars t"
  by (induction s rule: scalars.induct) (simp, auto split: if_split_asm list.split_asm)

lemma scalars_js_lines [simp]: "scalars (js_lines ss)"
  unfolding js_lines_def by (induction ss rule: induct_list012) (simp_all add: scalars_append)

lemma example_prompt_unicode:
  "unicode (prompt_answer zero_analysis (SynthesizePrompt zero_analysis (\<lambda>t. t = js ''docker'') (js ''x'')))"
  by (simp add: prompt_answer_def go_analysis_json_def zero_analysis_def slice_json_def filled_def int_json_def
    SynthesizePrompt_def report_section_def target_sections_def section_of_def items_def go_int_def
    dockerPromptForLang_def scalars_append dec.simps)

text \<open>The example's server with its analysis service down.\<close>

definition down_calls :: calls where
  "down_calls = (example_calls 98)\<lparr>analyzer := (\<lambda>q. None)\<rparr>"

definition reading_env :: server_env where
  "reading_env = example_env\<lparr>decode_analysis := (\<lambda>out. Some (unknown_analysis 1))\<rparr>"

lemma reading_facts: "\<not> mock_analyzer reading_env" "grpc_client reading_env" "encodes (encode reading_env)"
  "decode_prompt reading_env b = Inr (b, \<lambda>t. t = js ''docker'')" "analyzer down_calls = (\<lambda>q. None)"
  "analyzer (down_calls\<lparr>analyzer := f\<rparr>) = f" "reads_analysis reading_env K (unknown_result (js ''x''))"
  "length (rs_lines (js ''x'')) = 1" "\<not> known_source (js ''x'')"
proof -
  show "length (rs_lines (js ''x'')) = 1" by (simp add: rs_lines_def Let_def js_def chomp_def)
  then show "reads_analysis reading_env K (unknown_result (js ''x''))"
    by (simp add: reads_analysis_def reading_env_def as_go_unknown)
  show "\<not> known_source (js ''x'')" by code_simp
  show "\<not> mock_analyzer reading_env" by (simp add: reading_env_def example_env_def mock_analyzer_def js_def)
qed (use stringify_encodes in \<open>simp_all add: reading_env_def example_env_def down_calls_def\<close>)

lemma prompt_answer_survives_iff_witness:
  "\<not> alive (step asking (Complete 0 (as_response
     (answer (routes reading_env down_calls (Prompt (js ''x'')) server_init)))))"
proof -
  have "analysis_of reading_env down_calls (js ''x'') = zero_analysis"
    using analysis_of_nobody [OF reading_facts(1,2,5)] mock_cases(1) [of "js ''x''"] reading_facts(9) by simp
  then show ?thesis
    using prompt_answer_survives_iff [where e = reading_env and K = example_crates and x = down_calls and up = False
        and body = "js ''x''" and src = "js ''x''" and ts = "\<lambda>t. t = js ''docker''" and v = asking and i = 0
        and p = prompt_init and s = server_init]
      reading_facts asking_facts example_prompt_unicode
    by (simp add: int4_def del: step.simps routes.simps)
qed



section \<open>Code audits\<close>

lemma code_service:
  "service K (js ''code_migration'', lang, src) = Some (to_string K (ipc_json (check_code_migration (grams K) src lang)))"
  by (simp add: service_def)

lemma audits_of_languages: "audit_of (js ''go'') = GoAudit" "audit_of (js ''typescript'') = TypeScriptAudit"
  "audit_of (js ''python'') = PythonAudit"
  by code_simp+

definition audit_job :: "SandboxMode \<Rightarrow> jstr \<Rightarrow> DiffJob" where
  "audit_job m src = \<lparr>job_project = js ''code-diff'', job_commit = js ''manual-code-diff'', base_text = src,
     target_text = src, job_mode = js ''code_migration'', job_language = js (audit_language m)\<rparr>"

lemma audit_job_answer:
  assumes "m \<noteq> OPENAPI"
  shows "runAnalysisJob e (service K) cli (audit_job m src) =
    Some (to_string K (ipc_json (check_code_migration (grams K) src (js (audit_language m)))))"
  using assms
  by (cases m) (simp_all add: runAnalysisJob_def analyze_request_def is_code_job_def audit_job_def or_default_def code_service)

text \<open>
  C25. The viewer and the engine disagree on Go and TypeScript sources: the audit the viewer asks
  for is queued with its language, the engine finds nothing that breaks in it, so its run would
  be PASSED, and the viewer shows a failed run and BREAKING.
\<close>

theorem viewer_and_engine_disagree:
  assumes "m \<in> {GO, TYPESCRIPT}" and "sandboxMode a = m" and "sourceCode a \<noteq> []"
    and "routed cookie (snd (sandbox_start a)) = Some (CodeDiff body)"
    and "decode_body e [''source_code'', ''mode'', ''language''] body =
      Inr [sourceCode a, js ''code_migration'', js (audit_language m)]"
    and "temp_ok x"
  shows "\<exists>j r. queue (server_do e (Serve x (CodeDiff body)) s) = queue s @ [j]
    \<and> runAnalysisJob e (service K) cli j = Some (to_string K (ipc_json r))
    \<and> breaking r = 0 \<and> dangerous r = length (changes_of r)
    \<and> row_status (job_run j raw (int (breaking r), int (dangerous r))) = js ''PASSED''
    \<and> status (audit_timeout m (sourceCode a) a) = BREAKING
    \<and> diffStatus (audit_timeout m (sourceCode a) a) = JStr (js ''FAILED'')"
proof -
  let ?l = "js (audit_language m)" let ?r = "check_code_migration (grams K) (sourceCode a) ?l"
  have "audit_of ?l \<noteq> PythonAudit" "?l \<noteq> []" "m \<noteq> OPENAPI" using assms(1) audits_of_languages by auto
  then have "breaking ?r = 0" "dangerous ?r = length (changes_of ?r)"
    "runAnalysisJob e (service K) cli (audit_job m (sourceCode a)) = Some (to_string K (ipc_json ?r))"
    using only_python_breaks audit_job_answer by simp_all
  moreover have "queue (server_do e (Serve x (CodeDiff body)) s) = queue s @ [audit_job m (sourceCode a)]"
    using assms(3,5,6) \<open>?l \<noteq> []\<close> by (simp add: handleCodeDiff_def settle_def nothing_but_def or_default_def audit_job_def)
  ultimately show ?thesis
    by (intro exI [of _ "audit_job m (sourceCode a)"] exI [of _ ?r])
      (simp add: job_run_def audit_timeout_def del: server_do.simps)
qed

text \<open>The sandbox with a Go source of one letter.\<close>

definition go_app :: app where
  "go_app = app_init\<lparr>sandboxMode := GO, sourceCode := js ''x''\<rparr>"

lemma go_body:
  "decode_body example_env [''source_code'', ''mode'', ''language''] (body_of (PostCodeDiff ''go'' (js ''x''))) =
     Inr [js ''x'', js ''code_migration'', js ''go'']"
proof -
  let ?v = "JObj [(js ''source_code'', JStr (js ''x'')), (js ''mode'', JStr (js ''code_migration'')), (js ''language'', JStr (js ''go''))]"
  have "codable ?v" by (rule codable_JObj) (simp_all add: plain_simps)
  then obtain b where "json_stringify ?v = Some b" "json_parse b = Some ?v"
    using compact.prints compact.reads_back by blast
  then show ?thesis
    by (simp add: body_of_def request_body_def example_env_def example_decode_def opt_get_JObj)
qed

lemma viewer_and_engine_disagree_witness:
  "\<exists>j r. runAnalysisJob example_env (service example_crates) (\<lambda>_. None) j = Some (to_string example_crates (ipc_json r))
     \<and> breaking r = 0 \<and> status (audit_timeout GO (js ''x'') go_app) = BREAKING"
proof -
  have a: "sandboxMode go_app = GO" "sourceCode go_app = js ''x''" by (simp_all add: go_app_def)
  then have q: "snd (sandbox_start go_app) = PostCodeDiff ''go'' (js ''x'')" by (simp add: sandbox_start_def)
  have "temp_ok (example_calls 98)" by (simp add: example_calls_def)
  then show ?thesis
    using viewer_and_engine_disagree [of GO go_app None "body_of (PostCodeDiff ''go'' (js ''x''))" example_env
        "example_calls 98" server_init example_crates "\<lambda>_. None" "[]"] go_body a
    by (auto simp: q)
qed

section \<open>Webhooks\<close>

text \<open>
  C26. A pull request webhook needs no credentials, and what it says decides where the server's
  token goes: the token is sent with the comment to any address the payload has,
  and the file is always asked for at GitHub, with the Forgejo token when there is one.
\<close>

theorem webhook_sends_the_token:
  assumes "decode_pull e body = Some p" and "pr_action p \<in> {js ''opened'', js ''synchronize''}"
    and "git_token e provider \<noteq> []" and "pr_comments p \<noteq> []"
    and "valid_url e (contents_url p)" and "valid_url e (pr_comments p)"
  shows "\<exists>comment. outgoing (routes e x (Webhook provider body) s) =
      [GitGet (contents_url p) (git_token e provider), GitPost (pr_comments p) (git_token e provider) comment]
    \<and> starts_with (contents_url p) (js ''https://api.github.com/'')
    \<and> (provider = ''Forgejo'' \<and> getenv e ''FORGEJO_TOKEN'' \<noteq> [] \<longrightarrow>
        git_token e provider = getenv e ''FORGEJO_TOKEN'')
    \<and> server_do e (Serve x (Webhook provider body)) s = s"
proof -
  have out: "\<exists>comment. outgoing (routes e x (Webhook provider body) s) =
      [GitGet (contents_url p) (git_token e provider), GitPost (pr_comments p) (git_token e provider) comment]"
    using assms by (auto simp: processPullRequestWebhook_def fetchPRFile_def postPRComment_def Let_def nothing_but_def)
  moreover have "server_do e (Serve x (Webhook provider body)) s = s"
    using assms
    by (auto simp: processPullRequestWebhook_def fetchPRFile_def postPRComment_def settle_def nothing_but_def Let_def)
  moreover have "starts_with (contents_url p) (js ''https://api.github.com/'')"
    by (simp add: contents_url_def js_def)
  moreover have "provider = ''Forgejo'' \<and> getenv e ''FORGEJO_TOKEN'' \<noteq> [] \<longrightarrow>
        git_token e provider = getenv e ''FORGEJO_TOKEN''"
    by (simp add: git_token_def)
  ultimately show ?thesis by blast
qed

lemma webhook_sends_the_token_witness:
  "\<exists>comment. outgoing (routes example_env (example_calls 98) (Webhook ''GitHub'' (js ''https://example.org/'')) server_init) =
     [GitGet (js ''https://api.github.com/repos/a/b/contents/main.go?ref=c0'') (js ''ghp''),
      GitPost (js ''https://example.org/'') (js ''ghp'') comment]"
proof -
  let ?p = "\<lparr>pr_action = js ''opened'', pr_repo = js ''a/b'', pr_sha = js ''c0'', pr_comments = js ''https://example.org/''\<rparr>"
  have "valid_url example_env url" for url by (simp add: example_env_def)
  moreover have "decode_pull example_env (js ''https://example.org/'') = Some ?p" "git_token example_env ''GitHub'' = js ''ghp''"
    "contents_url ?p = js ''https://api.github.com/repos/a/b/contents/main.go?ref=c0''"
    by (simp_all add: example_env_def git_token_def contents_url_def, simp add: js_def)
  ultimately show ?thesis
    using webhook_sends_the_token [of example_env "js ''https://example.org/''" ?p "''GitHub''" "example_calls 98" server_init]
    by (auto simp del: routes.simps server_do.simps)
qed

end
