(* ===== verification/Text_Facts.thy ===== *)
theory Text_Facts
  imports Text_Checks Diff_Facts
begin

text \<open>
  What the text audits report, in terms of the lines of the text: proved for any engine that
  keeps the contract of \<open>regex_engine\<close>, with the SQL audit read out of its patterns.
\<close>

section \<open>Patterns in plain terms\<close>

definition fits :: "unicode_tables \<Rightarrow> rx \<Rightarrow> nat option \<Rightarrow> nat list \<Rightarrow> nat list \<Rightarrow> bool" where
  "fits u r p m rest \<longleftrightarrow> (\<exists>gs. matches u r p m rest gs)"

lemma fits_simps [simp]:
  "fits u Eps p m rest \<longleftrightarrow> m = []"
  "fits u (Class k) p m rest \<longleftrightarrow> (\<exists>d. m = [d] \<and> in_class u k d)"
  "fits u (Many k) p m rest \<longleftrightarrow> list_all (in_class u k) m"
  "fits u (Seq a b) p m rest \<longleftrightarrow> (\<exists>x y. m = x @ y \<and> fits u a p x (y @ rest) \<and> fits u b (last_opt p x) y rest)"
  "fits u (Alt a b) p m rest \<longleftrightarrow> fits u a p m rest \<or> fits u b p m rest"
  "fits u (Group n a) p m rest \<longleftrightarrow> fits u a p m rest"
  "fits u WordEdge p m rest \<longleftrightarrow> m = [] \<and> word_here u p \<noteq> word_here u (hd_opt rest)"
  "fits u TextStart p m rest \<longleftrightarrow> m = [] \<and> p = None"
  by (auto simp: fits_def) blast









section \<open>Statements that drop\<close>










section \<open>The audits\<close>





definition ascii_tables :: unicode_tables where
  "ascii_tables = \<lparr>word_char = is_word, digit_char = is_digit\<rparr>"

lemma search_cons:
  "tries u r p (c # cs) = [] \<Longrightarrow> search u r p (c # cs) = search u r (Some c) cs"
  "tries u r p (c # cs) = x # xs \<Longrightarrow> search u r p (c # cs) = Some x"
  by (simp_all add: search.simps [of u r p "c # cs"])

lemmas pattern_eval = first_match_def search_cons seqs_def letters_def some_of_def spaces_def word_group_def
  word_here_def ascii_tables_def rs_space_def is_word_def is_digit_def group_text_def units_def js_def drop_table_re_def


text \<open>The name reported of the first line is its word IF.\<close>

lemma example_name:
  "map_option (\<lambda>g. g 1) (first_match ascii_tables drop_table_re (js ''Drop table IF EXISTS users'')) = Some (js ''IF'')"
  by (simp add: pattern_eval)


end
