(* ===== verification/Event_Stream.thy ===== *)
theory Event_Stream
  imports Go_Broker Json_Codec
begin

text \<open>
  The event stream on the wire: the frame \<open>ServeHTTP\<close> writes for a message, and how the browser's
  \<open>EventSource\<close> reads a stream, as the HTML standard has it: lines ended by a line feed, a carriage
  return or both, fields, and an event at every blank line. Messages without line breaks come out
  as they went in.
\<close>

section \<open>Writing\<close>

definition sse_frame :: "jstr \<Rightarrow> jstr" where
  "sse_frame m = js ''data: '' @ m @ [10, 10]"

text \<open>All a client has been sent.\<close>

definition stream_to :: "broker \<Rightarrow> client \<Rightarrow> jstr" where
  "stream_to b c = concat (map sse_frame (responded b c))"

section \<open>Reading\<close>

definition skip_lf :: "jstr \<Rightarrow> jstr" where
  "skip_lf s = (case s of c # cs \<Rightarrow> if c = 10 then cs else s | [] \<Rightarrow> [])"

lemma skip_lf_length [termination_simp]: "length (skip_lf s) \<le> length s"
  by (simp add: skip_lf_def split: list.split)

text \<open>The complete lines; what is not ended yet waits.\<close>

function stream_lines :: "jstr \<Rightarrow> jstr \<Rightarrow> jstr list" where
  "stream_lines line [] = []"
| "stream_lines line (c # s) =
     (if c = 10 then line # stream_lines [] s
      else if c = 13 then line # stream_lines [] (skip_lf s)
      else stream_lines (line @ [c]) s)"
  by pat_completeness auto
termination
  by (relation "measure (\<lambda>(line, s). length s)") (simp_all add: skip_lf_length less_Suc_eq_le)

record event_source =
  data_buffer :: jstr
  event_type :: jstr
  delivered :: "jstr list"

definition fresh_source :: event_source where
  "fresh_source = \<lparr>data_buffer = [], event_type = [], delivered = []\<rparr>"

text \<open>A field is what stands before the first colon; one space after the colon is dropped.\<close>

definition field_name :: "jstr \<Rightarrow> jstr" where
  "field_name l = takeWhile (\<lambda>c. c \<noteq> 58) l"

definition field_value :: "jstr \<Rightarrow> jstr" where
  "field_value l = (case dropWhile (\<lambda>c. c \<noteq> 58) l of c # d # v \<Rightarrow> if d = 32 then v else d # v | _ \<Rightarrow> [])"

text \<open>\<open>onmessage\<close> gets the events without a type, and those of the type message.\<close>

definition read_line :: "jstr \<Rightarrow> event_source \<Rightarrow> event_source" where
  "read_line l es =
     (if l = [] then
        (if data_buffer es = [] then es\<lparr>event_type := []\<rparr>
         else \<lparr>data_buffer = [], event_type = [],
                delivered = delivered es @
                  (if event_type es \<in> {[], js ''message''} then [butlast (data_buffer es)] else [])\<rparr>)
      else if field_name l = js ''data'' then es\<lparr>data_buffer := data_buffer es @ field_value l @ [10]\<rparr>
      else if field_name l = js ''event'' then es\<lparr>event_type := field_value l\<rparr>
      else es)"

definition messages_of :: "jstr \<Rightarrow> jstr list" where
  "messages_of s = delivered (fold read_line (stream_lines [] s) fresh_source)"

section \<open>The round trip\<close>

definition one_line :: "jstr \<Rightarrow> bool" where
  "one_line m \<longleftrightarrow> 10 \<notin> set m \<and> 13 \<notin> set m"

lemma stream_lines_line: "one_line m \<Longrightarrow> stream_lines l (m @ 10 # s) = (l @ m) # stream_lines [] s"
  by (induction m arbitrary: l) (auto simp: one_line_def)

lemma read_frame:
  assumes "one_line m"
  shows "stream_lines [] (sse_frame m @ s) = (js ''data: '' @ m) # [] # stream_lines [] s"
proof -
  have "one_line (js ''data: '' @ m)" using assms by (auto simp: one_line_def js_def)
  from stream_lines_line [OF this, of "[]" "10 # s"] show ?thesis by (simp add: sse_frame_def)
qed

lemma read_data: "read_line [] (read_line (js ''data: '' @ m) \<lparr>data_buffer = [], event_type = [], delivered = ms\<rparr>) =
    \<lparr>data_buffer = [], event_type = [], delivered = ms @ [m]\<rparr>"
  by (simp add: read_line_def field_name_def field_value_def js_def)

lemma messages_of_frames:
  assumes "\<And>m. m \<in> set ms \<Longrightarrow> one_line m"
  shows "messages_of (concat (map sse_frame ms)) = ms"
proof -
  have "fold read_line (stream_lines [] (concat (map sse_frame ms))) \<lparr>data_buffer = [], event_type = [], delivered = ds\<rparr> =
      \<lparr>data_buffer = [], event_type = [], delivered = ds @ ms\<rparr>" for ds
    using assms by (induction ms arbitrary: ds) (simp_all add: read_frame read_data)
  then show ?thesis by (simp add: messages_of_def fresh_source_def)
qed

section \<open>JSON on one line\<close>

text \<open>Compact JSON has no line breaks, whatever the strings in it contain.\<close>

lemma one_line_simps [simp]: "one_line []" "one_line (c # s) \<longleftrightarrow> c \<noteq> 10 \<and> c \<noteq> 13 \<and> one_line s"
  "one_line (s @ t) \<longleftrightarrow> one_line s \<and> one_line t"
  by (auto simp: one_line_def)

lemma one_line_quote: "one_line (quote s)"
proof -
  have "one_line (quote_char c)" for c
    by (auto simp: quote_char_def unicode_escape_def hex_digit_def)
  then have "one_line (quote_body s)"
    by (induction s rule: quote_body.induct) (auto simp: lead_surrogate_def trail_surrogate_def)
  then show ?thesis by (simp add: quote_def)
qed

lemma one_line_digits: "list_all is_digit s \<Longrightarrow> one_line s"
  by (auto simp: list_all_iff one_line_def is_digit_def)

lemma one_line_take_drop: "one_line s \<Longrightarrow> one_line (take n s)" "one_line s \<Longrightarrow> one_line (drop n s)"
  by (auto simp: one_line_def dest: in_set_takeD in_set_dropD)

lemma one_line_dec: "one_line (dec n)"
  by (rule one_line_digits [OF dec_digits])

lemma one_line_layout: "one_line ds \<Longrightarrow> one_line (layout ds n)"
  using one_line_dec by (auto simp: layout_def Let_def one_line_take_drop) (auto simp: one_line_def)

lemma one_line_num: "one_line (num_str n)"
proof (cases n)
  case (Dbl neg m e)
  obtain c x where "shortest 17 (Dbl False m e) (fst (num_ratio m e)) (snd (num_ratio m e))
      (dec_exp (fst (num_ratio m e)) (snd (num_ratio m e))) 1 = (c, x)" by fastforce
  moreover have "one_line (strip_zeros (dec c))" for c
    using one_line_dec [of c] by (auto simp: strip_zeros_def one_line_def dest: set_dropWhileD)
  ultimately show ?thesis
    using Dbl one_line_layout by (auto simp: num_ratio_def Let_def split: prod.split)
qed (simp add: js_def)

lemma one_line_join: "(\<And>p. p \<in> set ps \<Longrightarrow> one_line p) \<Longrightarrow> one_line (join [44] ps)"
  by (induction "[44 :: nat]" ps rule: join.induct) simp_all

lemma one_line_wrap:
  "(\<And>p. p \<in> set ps \<Longrightarrow> one_line p) \<Longrightarrow> opn \<notin> {10, 13} \<Longrightarrow> cls \<notin> {10, 13} \<Longrightarrow> one_line (wrap [] ind opn cls ps)"
  using one_line_join by (simp add: wrap_def)

lemma stringify_one_line:
  "stringify [] ind v = Some t \<Longrightarrow> one_line t"
  "p \<in> set (stringify_elems [] ind vs) \<Longrightarrow> one_line p"
  "p \<in> set (stringify_members [] ind ms) \<Longrightarrow> one_line p"
proof (induction "[] :: jstr" ind v and "[] :: jstr" ind vs and "[] :: jstr" ind ms arbitrary: t and p and p
    rule: stringify_stringify_elems_stringify_members.induct)
qed (auto simp: one_line_quote one_line_num one_line_wrap js_def split: if_splits jnum.splits option.splits simp del: num_str.simps)

end
