(* ===== verification/Event_Pipeline.thy ===== *)
theory Event_Pipeline
  imports Event_Stream Pipeline
begin

text \<open>
  From the broker to the feed: what the server publishes, how it travels on the event stream, and
  what a viewer makes of it. A viewer hears its project only, and before its first sandbox run
  its project is one that has no runs.
\<close>

section \<open>What the server publishes\<close>

inductive server_event :: "server_env \<Rightarrow> broker_event \<Rightarrow> bool" for e where
  created: "uuid_in (pg e) (proj_id p) \<noteq> None \<Longrightarrow>
    server_event e \<lparr>ProjectID = proj_id p, Payload = encode e (created_event e p)\<rparr>"
| completed: "uuid_in (pg e) (run_project r) \<noteq> None \<Longrightarrow>
    server_event e \<lparr>ProjectID = run_project r, Payload = encode e (completed_event e r)\<rparr>"
| overridden: "uuid_in (pg e) i \<noteq> None \<Longrightarrow> text_in (pg e) u \<Longrightarrow> text_in (pg e) n \<Longrightarrow>
    server_event e \<lparr>ProjectID = p, Payload = encode e (overridden_event e i u n t)\<rparr>"

inductive_cases server_eventE: "server_event e ev"

text \<open>\<open>gen_random_uuid\<close> makes UUIDs.\<close>

definition makes_uuids :: "server_env \<Rightarrow> server \<Rightarrow> server_act \<Rightarrow> bool" where
  "makes_uuids e s a \<longleftrightarrow> (\<forall>x rt. a = Serve x rt \<longrightarrow> uuid_in (pg e) (fresh (db_call x)) \<noteq> None)"

fun step_events_of :: "server_env \<Rightarrow> server \<Rightarrow> server_act \<Rightarrow> broker_event list" where
  "step_events_of e s (Serve x rt) = emitted (routes e x rt s)"
| "step_events_of e s (Work k c res) = snd (processJob e c res (queue s ! k) (store s))"
| "step_events_of e s (Deliver b) = []"

lemma published_notify: "published (fold notify evs b) = published b @ evs"
  by (induction evs arbitrary: b) (simp_all add: notify_def)

lemma published_do: "(\<forall>ev. x \<noteq> Publish ev) \<Longrightarrow> published (broker_do x b) = published b"
  by (cases x) (auto simp: broker_ops Let_def split: list.split option.split handler.split)

lemma published_step:
  "server_can e s a \<Longrightarrow> published (hub (server_do e a s)) = published (hub s) @ step_events_of e s a"
  by (cases a) (auto simp: settle_def published_notify published_do simp del: routes.simps split: prod.split)

lemma routes_events:
  assumes "uuid_in (pg e) (fresh (db_call x)) \<noteq> None" and "ev \<in> set (emitted (routes e x rt s))"
  shows "server_event e ev"
proof (cases rt)
  case (Projects body)
  with assms(2) obtain p n db where "CreateProject (pg e) (db_call x) n (store s) = Inr (p, db)"
    and ev: "ev = \<lparr>ProjectID = proj_id p, Payload = encode e (created_event e p)\<rparr>"
    by (auto simp: handler_defs split: sum.splits list.splits prod.splits)
  then have "proj_id p = fresh (db_call x)" by (auto simp: CreateProject_Inr)
  with assms(1) show ?thesis unfolding ev using server_event.created [of e p] by simp
next
  case (OverrideDiff cookie i body)
  with assms(2) obtain u entered p where "uuid_in (pg e) i \<noteq> None" "text_in (pg e) u" "text_in (pg e) entered"
    "ev = \<lparr>ProjectID = p, Payload = encode e (overridden_event e i u entered (now (db_call2 x)))\<rparr>"
    by (auto simp: handler_defs OverrideDiffRun_def varchar_def Let_def split: sum.splits list.splits prod.splits option.splits if_splits)
  then show ?thesis by (simp add: server_event.overridden)
qed (use assms(2) in \<open>auto simp: handler_defs Let_def split: sum.splits list.splits prod.splits option.splits if_splits\<close>)

lemma job_events:
  assumes "ev \<in> set (snd (processJob e c res j t))" shows "server_event e ev"
proof -
  from assms obtain r dr db where put: "InsertDiffRun (pg e) c r t = Inr (dr, db)"
    and ev: "ev = \<lparr>ProjectID = run_project dr, Payload = encode e (completed_event e dr)\<rparr>"
    by (auto simp: processJob_def split: option.splits sum.splits prod.splits)
  from put have "uuid_in (pg e) (run_project dr) \<noteq> None" by (rule insert_Inr) auto
  then show ?thesis unfolding ev by (rule server_event.completed)
qed

lemma server_publishes: "server_reach e (makes_uuids e) s \<Longrightarrow> ev \<in> set (published (hub s)) \<Longrightarrow> server_event e ev"
proof (induction arbitrary: ev rule: server_reach.induct)
  case (stepped s a s')
  then have "server_can e s a" "s' = server_do e a s" by (auto elim: server_stepE)
  with stepped.prems consider "ev \<in> set (published (hub s))" | "ev \<in> set (step_events_of e s a)"
    using published_step by fastforce
  then show ?case
  proof cases
    case 2
    with stepped.hyps(2) show ?thesis
      by (cases a) (auto simp: makes_uuids_def simp del: routes.simps intro: routes_events job_events)
  qed (rule stepped.IH)
qed (simp add: server_init_def NewBroker_def)

section \<open>A project and its viewer\<close>

text \<open>The \<open>project_id\<close> of an events address, when it needs no escaping.\<close>

definition events_prefix :: jstr where
  "events_prefix = js ''/api/events?project_id=''"

definition events_query :: "jstr \<Rightarrow> jstr option" where
  "events_query url =
     (if starts_with url events_prefix \<and> list_all plain_char (drop (length events_prefix) url)
      then Some (drop (length events_prefix) url) else None)"

lemma events_query_Some: "events_query (events_prefix @ p) = Some q \<longleftrightarrow> list_all plain_char p \<and> q = p"
proof -
  have "starts_with (t @ p) t" for t by (induction t) simp_all
  then show ?thesis by (auto simp: events_query_def)
qed

lemma payload_one_line:
  assumes "server_event e ev" "\<forall>v. one_line (encode e v)" shows "one_line (Payload ev)"
  using assms by (auto elim: server_eventE)

lemma set_mono_subseq: "subseq xs ys \<Longrightarrow> set xs \<subseteq> set ys"
  by (auto simp: subseq_singleton_left [symmetric] intro: subseq_order.trans)

text \<open>What a client reads are the messages it was written, and they were published for its project.\<close>

lemma client_reads:
  assumes "server_reach e (makes_uuids e) s" and "\<forall>v. one_line (encode e v)"
  shows "messages_of (stream_to (hub s) c) = responded (hub s) c"
    and "m \<in> set (responded (hub s) c) \<Longrightarrow>
      \<exists>ev. server_event e ev \<and> ProjectID ev = asked_for (hub s) c \<and> Payload ev = m"
proof -
  note sub = broker_isolates_projects [OF server_hub_reachable [OF assms(1)], of c]
  show origin: "\<exists>ev. server_event e ev \<and> ProjectID ev = asked_for (hub s) c \<and> Payload ev = m"
    if "m \<in> set (responded (hub s) c)" for m
    using set_mono_subseq [OF sub] that server_publishes [OF assms(1)] by auto
  show "messages_of (stream_to (hub s) c) = responded (hub s) c"
    unfolding stream_to_def by (rule messages_of_frames) (use origin payload_one_line assms(2) in blast)
qed

lemma feed_bounded: "reachable v \<Longrightarrow> length (events (app v)) \<le> 50"
proof (induction rule: reach_with.induct)
  case (turned s ev t)
  then have "t = step s ev" by (auto elim: sys_stepE)
  with turned.IH show ?case by (simp add: step_events del: step.simps)
qed simp

lemma messages_of_messages: "concat (map message_of (map SourceMessage ms)) = ms"
  by (induction ms) simp_all

text \<open>
  C18. A viewer hears its project: when the event source of a page is connected to the server, what
  it reads off the stream are the messages the broker wrote, a part of those published for the
  project of its address, in order; that address has the page's current project; and the feed
  shows the newest fifty of them, the newest first.
\<close>

theorem viewer_hears_its_project:
  assumes "server_reach e (makes_uuids e) s" and "\<forall>v. one_line (encode e v)"
    and "reachable w" and "alive w" and "source w = Some url" and "events_query url = Some p"
    and "asked_for (hub s) c = query_project p"
  shows "let ms = messages_of (stream_to (hub s) c)
    in ms = responded (hub s) c
     \<and> subseq ms (map Payload (filter (\<lambda>ev. ProjectID ev = query_project p) (published (hub s))))
     \<and> to_str (currentProjectId (app w)) = Inr p
     \<and> events (app (run w (map SourceMessage ms))) = take 50 (map received (rev ms) @ events (app w))"
proof -
  have "to_str (currentProjectId (app w)) = Inr p"
    using subscription.holds [OF assms(3)] assms(4-6)
    by (auto simp: subscribed_def events_url_def ebind_Inr_iff events_query_Some
        simp flip: events_prefix_def split: if_splits)
  then show ?thesis
    using broker_isolates_projects [OF server_hub_reachable [OF assms(1)], of c]
      client_reads(1) [OF assms(1,2)] assms(7) run_events [OF feed_bounded [OF assms(3)]]
    by (simp add: Let_def messages_of_messages del: map_map)
qed

section \<open>The default project\<close>

text \<open>The tasks that move the verdict or the project, and a page on which nothing ever was.\<close>

fun rules :: "task \<Rightarrow> bool" where
  "rules OverrideTask = True"
| "rules (AuditFetch m src) = True"
| "rules (AuditTimer m src) = True"
| "rules (ProjectFetch b t) = True"
| "rules _ = False"

definition unruled :: "sys \<Rightarrow> bool" where
  "unruled s \<longleftrightarrow> (\<forall>t \<in> set (tasks s). \<not> rules t) \<and> diffId (app s) = JNull \<and> status (app s) \<noteq> BREAKING
     \<and> currentProjectId (app s) = JStr (js ''default'')"

definition hears_overrides :: "sys \<Rightarrow> event \<Rightarrow> bool" where
  "hears_overrides s ev \<longleftrightarrow> ev \<noteq> User (InSandbox ExecuteSandboxDiff)
     \<and> (\<forall>m \<in> set (message_of ev). message_ruling m = Overridden)"

lemma unruled_commit: "unruled s \<Longrightarrow> unruled (commit np old s)"
  by (auto simp: unruled_def commit_tasks)

lemma unruled_user:
  assumes "unruled s" "act \<noteq> InSandbox ExecuteSandboxDiff" shows "unruled (user_step act s)"
proof -
  have "\<forall>t \<in> set (tasks (user_step act s)). t \<in> set (tasks s) \<or> \<not> rules t"
  proof (cases act)
    case (InModal a)
    with assms(1) show ?thesis by (cases a) (auto simp: start_override_def override_start_def unruled_def)
  next
    case (InMonitor a)
    then show ?thesis by (cases a) simp_all
  next
    case (InSandbox a)
    with assms(2) show ?thesis by (cases a) (auto simp: add_task_def put_out_def split: option.split sum.split)
  next
    case (InPrompt a)
    then show ?thesis
      by (cases a) (auto simp: start_prompt_def add_task_def put_out_def split: sum.split prod.split)
  next
    case (InLedger a)
    then show ?thesis by (cases a) (auto simp: ledger_fetch_def)
  next
    case (InWebhook a)
    then show ?thesis by (cases a) auto
  qed simp
  with assms(1) show ?thesis by (auto simp: unruled_def)
qed

lemma idle_ruling: "\<not> rules t \<Longrightarrow> task_ruling t r = Unrelated"
  by (cases t) simp_all

lemma idle_task:
  "\<not> rules t \<Longrightarrow> task_step t r s = (s', np) \<Longrightarrow>
     tasks s' = tasks s \<and> currentProjectId (app s') = currentProjectId (app s)"
  by (cases t) (auto simp: diff_sent_def on_prompt_def split: if_splits response.splits bool.splits)

interpretation unruled_inv: turn_invariant hears_overrides unruled
proof
  show "unruled sys_init" by (simp add: unruled_def)
next
  fix s and data
  assume "unruled s" "hears_overrides s (SourceMessage data)"
  moreover have "verdict_of (upd (on_message data) s) = govern Overridden (verdict_of s)"
    using \<open>hears_overrides s (SourceMessage data)\<close> by (simp add: hears_overrides_def verdict_message)
  ultimately show "unruled (upd (on_message data) s)"
    by (simp add: unruled_def verdict_of_def upd_def)
next
  fix s s' :: sys and i r np
  assume s: "unruled s" "i < length (tasks s)"
    and t: "task_step (tasks s ! i) r (s\<lparr>tasks := remove_nth i (tasks s)\<rparr>) = (s', np)"
  have idle: "\<not> rules (tasks s ! i)" using s by (simp add: unruled_def)
  have "verdict_of s' = verdict_of s"
    using verdict_task [OF t] idle_ruling [OF idle] by (simp add: verdict_of_def)
  with s idle_task [OF idle t] show "unruled s'"
    by (auto simp: unruled_def verdict_of_def dest: set_remove_nth)
next
  fix s act
  assume "unruled s" "hears_overrides s (User act)"
  then have "act \<noteq> InSandbox ExecuteSandboxDiff" by (auto simp: hears_overrides_def)
  with \<open>unruled s\<close> show "unruled (user_step act s)" by (rule unruled_user)
qed (simp_all add: unruled_commit, simp add: unruled_def upd_def)

lemma run_with: "reach_with ok s \<Longrightarrow> enabled_run s evs \<Longrightarrow> (\<And>s ev. ev \<in> set evs \<Longrightarrow> ok s ev) \<Longrightarrow>
    reach_with ok (run s evs)"
proof (induction s evs rule: run.induct)
  case (2 s ev evs)
  then have "sys_step s ev (step s ev)" "ok s ev" by (simp_all add: sys_step.turn del: step.simps)
  with 2 have "reach_with ok (step s ev)" by (blast intro: reach_with.turned)
  with 2 show ?case by (simp del: step.simps)
qed simp

text \<open>An event published for the default project is an override whose run could not be looked up.\<close>

lemma default_events:
  assumes "server_event e ev" and "uuid_in (pg e) (ProjectID ev) = None" and "encodes (encode e)"
    and "\<forall>t. text_in (pg e) t \<or> uuid_in (pg e) t \<noteq> None \<longrightarrow> scalars t" and "\<forall>n. scalars (rfc3339 e n)"
  shows "message_ruling (Payload ev) = Overridden"
  using assms(1)
proof (cases rule: server_event.cases)
  case (overridden i u n p t)
  then have "unicode (overridden_event e i u n t)" using assms(4,5) by (simp add: overridden_event_def)
  then have "json_parse (Payload ev) = Some (overridden_event e i u n t)"
    using encodesD(1) [OF assms(3) codable_events(3)] by (simp add: overridden(1))
  then show ?thesis by (simp add: message_ruling_def event_fields)
qed (use assms(2) in simp_all)

text \<open>
  C19. A viewer on the default project never shows a block: the page starts there, and only its own
  sandbox run takes it to another project. No run belongs to the default project, so whatever the
  server has found for the projects there are, what this page reads are at most overrides whose
  project could not be looked up; it stays on that address, with no run, and never BREAKING.
\<close>

theorem default_viewer_misses_runs:
  assumes "server_reach e (makes_uuids e) s" and "uuid_in (pg e) (js ''default'') = None"
    and "encodes (encode e)" and "\<forall>v. one_line (encode e v)"
    and "\<forall>t. text_in (pg e) t \<or> uuid_in (pg e) t \<noteq> None \<longrightarrow> scalars t" and "\<forall>n. scalars (rfc3339 e n)"
    and "asked_for (hub s) c = query_project (js ''default'')"
    and "enabled_run sys_init evs" and "User (InSandbox ExecuteSandboxDiff) \<notin> set evs"
    and "set (concat (map message_of evs)) \<subseteq> set (messages_of (stream_to (hub s) c))"
  shows "status (app (run sys_init evs)) \<noteq> BREAKING \<and> diffId (app (run sys_init evs)) = JNull
    \<and> (alive (run sys_init evs) \<longrightarrow> source (run sys_init evs) = Some (js ''/api/events?project_id=default''))"
proof -
  have "message_ruling m = Overridden" if m: "m \<in> set (messages_of (stream_to (hub s) c))" for m
  proof -
    obtain ev where "server_event e ev" "ProjectID ev = asked_for (hub s) c" "Payload ev = m"
      using client_reads [OF assms(1,4)] m by metis
    then show ?thesis using default_events [OF _ _ assms(3,5,6)] assms(2,7) by (auto simp: query_project_def js_def)
  qed
  then have "reach_with hears_overrides (run sys_init evs)"
    using assms(8-10) by (intro run_with reach_with.start) (auto simp: hears_overrides_def subset_iff)
  then have "unruled (run sys_init evs)" by (rule unruled_inv.holds)
  moreover have "subscribed (run sys_init evs)"
    using subscription.holds reachable_run [OF reach_with.start assms(8)] by blast
  moreover have "truthy (JStr (js ''default''))" "events_url (JStr (js ''default'')) = Inr (js ''/api/events?project_id=default'')"
    by (simp_all add: events_url_def js_def)
  ultimately show ?thesis by (auto simp: unruled_def subscribed_def)
qed

section \<open>An example\<close>

text \<open>The server of the examples, with a database that takes Unicode text only.\<close>

definition line_pg :: postgres where
  "line_pg = example_pg\<lparr>uuid_in := (\<lambda>s. if length s = 36 \<and> scalars s then Some s else None),
     text_in := (\<lambda>s. 0 \<notin> set s \<and> scalars s)\<rparr>"

lemma line_pg_simps [simp]:
  "n < 0xD800 \<Longrightarrow> uuid_in line_pg (example_id n) = Some (example_id n)" "uuid_in line_pg (js ''default'') = None"
  "jsonb_in line_pg v = Some v" "text_in line_pg (js ''shop'')" "text_in line_pg (js ''FAILED'')"
  "text_in line_pg (js ''admin'')" "text_in line_pg (js ''accepted'')" "text_in line_pg []"
  by (simp_all add: line_pg_def example_pg_def) (simp_all add: js_def)

definition line_env :: server_env where
  "line_env = example_env\<lparr>pg := line_pg, encode := (\<lambda>v. case json_stringify v of Some t \<Rightarrow> t | None \<Rightarrow> js ''null'')\<rparr>"

lemma line_env_encodes: "encodes (encode line_env)" "one_line (encode line_env v)"
proof -
  show "encodes (encode line_env)"
    using stringify_encodes compact.prints unfolding encodes_def line_env_def by fastforce
  have "one_line t" if "json_stringify v = Some t" for t
    using that stringify_one_line(1) by (simp add: json_stringify_def)
  then show "one_line (encode line_env v)"
    by (auto simp: line_env_def js_def split: option.split)
qed

text \<open>A project, a failed run and an override whose run cannot be looked up; a page waits on the default project.\<close>

definition default_acts :: "server_act list" where
  "default_acts = Deliver (Connect (js ''default'') 0) # take 3 history
     @ [Serve ((example_calls 99)\<lparr>db_call2 := (example_call 99)\<lparr>reached := False\<rparr>\<rparr>)
          (OverrideDiff (Some (js ''signed'')) (example_id 98) (js ''{\"note\":\"accepted\"}''))]
     @ map Deliver [Receive, Lock, Unlock, Receive, Lock, Unlock, Receive, Lock, Offer 0, Unlock, Flush 0]"

definition default_server :: server where
  "default_server = fold (server_do line_env) default_acts server_init"

definition default_message :: jstr where
  "default_message = encode line_env (overridden_event line_env (example_id 98) (js ''admin'') (js ''accepted'') 99)"

lemma server_run_with:
  "server_reach e ok s \<Longrightarrow> server_can_all e acts s \<Longrightarrow> (\<And>s a. a \<in> set acts \<Longrightarrow> ok s a) \<Longrightarrow>
     server_reach e ok (fold (server_do e) acts s)"
proof (induction acts arbitrary: s)
  case (Cons a acts)
  then have "server_reach e ok (server_do e a s)"
    by (auto intro: server_reach.stepped server_step.acts simp del: server_do.simps)
  with Cons show ?case by (simp del: server_do.simps)
qed simp

lemma line_env_simps [simp]:
  "pg line_env = line_pg" "ci_token line_env = js ''secret-ci-token''"
  "jwt_sub line_env t (js ''signed'') = Some (JStr (js ''admin''))" "read_ipc line_env raw = Some (1, 0)"
  "decode_body line_env = decode_body example_env"
proof -
  have "ci_token line_env = ci_token example_env" "jwt_sub line_env = jwt_sub example_env"
    by (simp_all add: fun_eq_iff line_env_def ci_token_def getenv_or_def jwt_sub_def JWTSecret_def)
  then show "ci_token line_env = js ''secret-ci-token''" "jwt_sub line_env t (js ''signed'') = Some (JStr (js ''admin''))"
    by simp_all
qed (simp_all add: line_env_def)

lemma no_default_id: "example_id n \<noteq> js ''default''"
proof
  assume "example_id n = js ''default''"
  then have "length (example_id n) = length (js ''default'')" by simp
  then show False by simp
qed

lemma default_page:
  "server_can_all line_env default_acts server_init"
  "asked_for (hub default_server) 0 = js ''default''" "responded (hub default_server) 0 = [default_message]"
  "statuses (store default_server) (example_id 98) = Some (js ''OVERRIDDEN'')"
  by (simp_all add: default_server_def default_acts_def example_simps broker_ops clients_of_def query_project_def
      default_message_def statuses_def no_default_id)

lemma default_reached: "server_reach line_env (makes_uuids line_env) default_server"
  unfolding default_server_def
  by (rule server_run_with [OF server_reach.start default_page(1)])
    (auto simp: makes_uuids_def default_acts_def history_def)

lemma default_reads: "messages_of (stream_to (hub default_server) 0) = [default_message]"
  using client_reads(1) [OF default_reached] by (simp add: line_env_encodes default_page)

lemma query_default: "query_project (js ''default'') = js ''default''"
  by (simp add: query_project_def js_def)

lemma viewer_hears_its_project_witness:
  "messages_of (stream_to (hub default_server) 0) = [default_message]
   \<and> events (app (run sys_init [SourceMessage default_message])) = [received default_message]"
proof -
  have "events_query (js ''/api/events?project_id=default'') = Some (js ''default'')"
    by (simp add: events_query_def events_prefix_def plain_char_def js_def)
  then show ?thesis
    using viewer_hears_its_project [OF default_reached _ reach_with.start, of "js ''/api/events?project_id=default''" "js ''default''" 0]
    by (simp add: line_env_encodes default_page default_reads query_default Let_def del: step.simps)
qed

lemma default_viewer_misses_runs_witness:
  "status (app (run sys_init [SourceMessage default_message])) \<noteq> BREAKING"
proof -
  have "scalars t" if "text_in line_pg t \<or> uuid_in line_pg t \<noteq> None" for t
    using that by (auto simp: line_pg_def split: if_splits)
  moreover have "scalars (rfc3339 line_env n)" for n by (simp add: line_env_def example_env_def)
  ultimately show ?thesis
    using default_viewer_misses_runs [OF default_reached _ line_env_encodes(1), of 0 "[SourceMessage default_message]"]
    by (simp add: line_env_encodes default_page default_reads query_default del: step.simps)
qed

end
