(* ===== verification/Ledger_Pipeline.thy ===== *)
theory Ledger_Pipeline
  imports Pipeline Server_Rules
begin

text \<open>
  Overrides and the ledger through the programs: an override of a signed-in user from the form to
  the audit trail and back to the screens, and the list of runs from the tables to the ledger.
\<close>

section \<open>Overrides\<close>

text \<open>Reading a request body that has just the fields asked for, all Unicode strings.\<close>

definition reads_fields :: "(string list \<Rightarrow> jstr \<Rightarrow> jstr + jstr list) \<Rightarrow> bool" where
  "reads_fields d \<longleftrightarrow>
     (\<forall>keys vs body. distinct keys \<longrightarrow> length vs = length keys \<longrightarrow> list_all scalars vs
        \<longrightarrow> json_parse body = Some (JObj (zip (map js keys) (map JStr vs))) \<longrightarrow> d keys body = Inr vs)"

lemma note_body: "json_parse (body_of (PostOverride url t)) = Some (JObj [(js ''note'', JStr t)])"
proof -
  obtain b where "json_stringify (JObj [(js ''note'', JStr t)]) = Some b"
    "json_parse b = Some (JObj [(js ''note'', JStr t)])"
    using compact.prints compact.reads_back codable_override by blast
  then show ?thesis by (simp add: body_of_def request_body_def)
qed

lemma note_read:
  assumes "reads_fields d" "scalars t" shows "d [''note''] (body_of (PostOverride url t)) = Inr [t]"
  using assms(2) note_body [of url t]
    assms(1) [unfolded reads_fields_def, rule_format, of "[''note'']" "[t]" "body_of (PostOverride url t)"]
  by simp

lemma overridden_message:
  assumes "encodes (encode e)" and "scalars i" "scalars u" "scalars n" "scalars (rfc3339 e t)"
  shows "json_parse (encode e (overridden_event e i u n t)) = Some (overridden_event e i u n t)"
proof -
  have "unicode (overridden_event e i u n t)" using assms(2-5) by (simp add: overridden_event_def)
  with assms(1) codable_events(3) show ?thesis by (rule encodesD(1))
qed

lemma on_overridden:
  assumes "json_parse m = Some (overridden_event e i u n t)"
  shows "on_message m a = a\<lparr>events := take 50 (received m # events a), status := WARNING,
    diffStatus := JStr (js ''OVERRIDDEN'')\<rparr>"
proof -
  have "get (overridden_event e i u n t) (js ''type'') = Inr (JStr (js ''diff_overridden''))"
    using event_fields(4) [of e i u n t] by (simp add: overridden_event_def field_def)
  then show ?thesis using assms by (simp add: on_message_def on_payload_def push_event_def)
qed

text \<open>The JWT library: signed claims are read back until the second they expire.\<close>

definition sessions :: "server_env \<Rightarrow> bool" where
  "sessions e \<longleftrightarrow>
     (\<forall>key n sub t tok. jwt_sign e key (JObj [(js ''exp'', int_json n), (js ''sub'', JStr sub)]) = Some tok
        \<longrightarrow> int t < n * 1000000
        \<longrightarrow> jwt_parse e key t tok = Some (JObj [(js ''exp'', int_json n), (js ''sub'', JStr sub)]))"

lemma login_cookie:
  assumes "set_cookie (answer (routes e z (Login pw) s)) = Some tok"
  shows "decode_body e [''password''] pw = Inr [admin_password e]"
    "jwt_sign e (JWTSecret e) (login_claims (now (db_call z))) = Some tok"
proof -
  have "set_cookie (answer (handleLogin e z pw s)) = Some tok" using assms by simp
  then have "decode_body e [''password''] pw = Inr [admin_password e]
    \<and> jwt_sign e (JWTSecret e) (login_claims (now (db_call z))) = Some tok"
    unfolding handleLogin_def
    by (simp add: http_error_def http_json_def split: sum.split_asm list.split_asm if_split_asm option.split_asm)
  then show "decode_body e [''password''] pw = Inr [admin_password e]"
    "jwt_sign e (JWTSecret e) (login_claims (now (db_call z))) = Some tok" by blast+
qed

text \<open>The cookie of a login signs in as admin for a day, less the second the expiry is rounded down by.\<close>

lemma login_signs_in:
  assumes "set_cookie (answer (routes e z (Login pw) s)) = Some tok" and "sessions e"
    and "t + 1000000 \<le> now (db_call z) + 24 * 3600 * 1000000"
  shows "jwt_sub e t tok = Some (JStr (js ''admin''))"
proof -
  let ?n = "(now (db_call z) + 24 * 3600 * 1000000) div 1000000"
  have "t < ?n * 1000000"
    using assms(3) dividend_less_div_times [of 1000000 "now (db_call z) + 24 * 3600 * 1000000"] by linarith
  then have "int t < int ?n * 1000000" by linarith
  then have "jwt_parse e (JWTSecret e) t tok = Some (login_claims (now (db_call z)))"
    using assms(2) login_cookie(2) [OF assms(1)] unfolding sessions_def login_claims_def by blast
  then show ?thesis by (simp add: jwt_sub_def login_claims_def opt_get_JObj)
qed

text \<open>
  C8. An override goes through: somebody logs in with the password and has the cookie; within a day
  the request of a reachable page, sent with it, for a stored run, is answered 200; the run becomes
  OVERRIDDEN and no other changes, the trail gets one record by admin with the note that was typed,
  which is not blank; one event is published for the run's project, makes every page that
  gets it show the override, and goes to the webhook, signed; and at the page that asked, the form
  closes with the override shown.
\<close>

theorem override_goes_through:
  assumes "reachable v" and "PostOverride url t \<in> set (sent v)" and "override_param url = Some i"
    and "set_cookie (answer (routes e z (Login pw) s0)) = Some tok" and "sessions e"
    and "now (db_call x) + 1000000 \<le> now (db_call z) + 24 * 3600 * 1000000"
    and "reads_fields (decode_body e)" and "encodes (encode e)"
    and "uuid_in (pg e) i = Some rid" and "find (\<lambda>r. run_id r = rid) (diff_runs (store s)) = Some r"
    and "text_in (pg e) (js ''admin'')" and "text_in (pg e) t"
    and "scalars i" and "scalars t" and "\<forall>n. scalars (rfc3339 e n)"
    and "reached (db_call x)" and "reached (db_call2 x)"
    and "fresh (db_call x) \<notin> over_id ` set (audit_overrides (store s))"
  shows "\<exists>rt m o'. routed (Some tok) (PostOverride url t) = Some rt
    \<and> code (answer (routes e x rt s)) = 200
    \<and> statuses (store (server_do e (Serve x rt) s)) = (statuses (store s))(rid \<mapsto> js ''OVERRIDDEN'')
    \<and> audit_overrides (store (server_do e (Serve x rt) s)) = audit_overrides (store s) @ [o']
    \<and> over_run o' = rid \<and> over_by o' = js ''admin'' \<and> over_note o' = t \<and> \<not> blank t
    \<and> published (hub (server_do e (Serve x rt) s)) = published (hub s) @ [\<lparr>ProjectID = run_project r, Payload = m\<rparr>]
    \<and> outgoing (routes e x rt s) = dispatchWebhook e m
    \<and> (\<forall>a. on_message m a = a\<lparr>events := take 50 (received m # events a), status := WARNING,
          diffStatus := JStr (js ''OVERRIDDEN'')\<rparr>)
    \<and> (\<forall>a. override_done (as_response (answer (routes e x rt s))) a =
          a\<lparr>showModal := False, overrideNote := [], status := WARNING, diffStatus := JStr (js ''OVERRIDDEN''),
            isSubmitting := False\<rparr>)"
proof -
  let ?rt = "OverrideDiff (Some tok) i (body_of (PostOverride url t))"
  let ?m = "encode e (overridden_event e i (js ''admin'') t (now (db_call2 x)))"
  have "routed (Some tok) (PostOverride url t) = Some ?rt" using assms(3) by simp
  moreover have "\<not> blank t" using note_inv.holds [OF assms(1)] assms(2) by (auto simp: noted_def)
  moreover have "on_message ?m a = a\<lparr>events := take 50 (received ?m # events a), status := WARNING,
      diffStatus := JStr (js ''OVERRIDDEN'')\<rparr>" for a
    by (rule on_overridden [OF overridden_message]) (use assms in simp_all)
  moreover have "override_done (as_response h) a = a\<lparr>showModal := False, overrideNote := [], status := WARNING,
      diffStatus := JStr (js ''OVERRIDDEN''), isSubmitting := False\<rparr>" if "code h = 200" for h a
    using that by (simp add: as_response_def override_done_def)
  ultimately show ?thesis
    using override_is_recorded [OF login_signs_in [OF assms(4-6)] note_read [OF assms(7,14)] assms(9-11) _
        assms(12,16-18), of url]
    by (intro exI [of _ ?rt] exI [of _ ?m]) (auto simp: Let_def simp del: server_do.simps routes.simps)
qed

text \<open>A page that is told of the example's run and asks to override it.\<close>

lemma example_env_encodes: "encodes (encode example_env)"
  using stringify_encodes by (simp add: example_env_def)

lemma js_eq [simp]: "js s = js t \<longleftrightarrow> s = t"
  by (simp add: js_def inj_map_eq_map [OF inj_of_char])

lemma example_decode_reads: "reads_fields (decode_body example_env)"
  unfolding reads_fields_def
proof (intro allI impI)
  fix keys vs body
  assume k: "distinct keys" "length vs = length keys"
    and body: "json_parse body = Some (JObj (zip (map js keys) (map JStr vs)))"
  have "map_of (zip (map js keys) (map JStr vs)) (js (keys ! n)) = Some (JStr (vs ! n))" if "n < length keys" for n
    using k that map_of_zip_nth [of "map js keys" "map JStr vs" n] by (simp add: distinct_map inj_on_def)
  then have "map (\<lambda>k. case opt_get (JObj (zip (map js keys) (map JStr vs))) (js k) of JStr s \<Rightarrow> s | _ \<Rightarrow> []) keys = vs"
    using k(2) by (intro nth_equalityI) (simp_all add: opt_get_JObj)
  then show "decode_body example_env keys body = Inr vs"
    using body by (simp add: example_env_def example_decode_def)
qed

definition told :: sys where
  "told = step sys_init (SourceMessage (encode example_env (completed_event example_env example_run)))"

lemma told_message:
  "json_parse (encode example_env (completed_event example_env example_run)) = Some (completed_event example_env example_run)"
proof -
  have "writable example_run"
    using example_answer_codable
    by (simp add: writable_def example_run_def int4_def del: parsed.simps exact.simps)
  then show ?thesis
    using encodesD(1) [OF example_env_encodes codable_events(1) example_event_unicode] by blast
qed

lemma example_run_fields: "run_id example_run = example_id 98" "row_status example_run = js ''FAILED''"
  "raw_diff_payload example_run = ipc_json example_answer"
  by (simp_all add: example_run_def)

lemma message_view: "viewMode a \<noteq> SANDBOX \<Longrightarrow> viewMode (on_message d a) = viewMode a"
  by (simp add: js_defs Let_def split: option.split sum.split)

lemma told_fields:
  "diffId (app told) = JStr (example_id 98)" "diffStatus (app told) = JStr (js ''FAILED'')"
  "viewMode (app told) = MONITOR" "\<not> showModal (app told)" "\<not> isSubmitting (app told)"
  using completed_message [OF told_message, of True example_answer app_init] example_run_fields
  by (simp_all add: told_def message_keeps message_view)

lemma told_reachable: "sound told" "reachable told"
proof -
  have "message_conforms (encode example_env (completed_event example_env example_run))"
    by (rule completed_conforms [OF told_message example_run_fields(3)])
      (simp add: example_answer_def made_required_def breaking_change_def is_breaking_def)
  then show "sound told" unfolding told_def by (intro sound_step [OF sound_init]) simp_all
  show "reachable told" unfolding told_def by (intro reachable_step [OF reach_with.start]) simp
qed

lemma told_asks:
  "reachable (run told (override_protocol (js ''accepted'')))"
  "PostOverride (override_url (example_id 98)) (js ''accepted'') \<in> set (sent (run told (override_protocol (js ''accepted''))))"
  using override_protocol_runs [OF told_reachable(1) told_fields(3,2,4,5,1) _ accepted_not_blank]
    reachable_run [OF told_reachable(2)]
  by auto

text \<open>The example's login, on the second day of its clock.\<close>

definition example_token :: jstr where
  "example_token = the (json_stringify (login_claims 97))"

lemma example_sessions: "sessions example_env"
proof -
  have "json_parse tok = Some v" if "example_jwt_sign key v = Some tok" for key v tok
  proof (rule compact.reads_back)
    show "codable v" "json_stringify v = Some tok"
      using that by (simp_all add: example_jwt_sign_def del: parsed.simps exact.simps split: if_splits)
  qed
  then show ?thesis by (simp add: sessions_def example_env_def example_jwt_parse_def)
qed

lemma example_login: "set_cookie (answer (routes example_env (example_calls 97) (Login (js ''{\"password\":\"admin\"}'')) s)) =
    Some example_token"
proof -
  have "codable (login_claims 97)"
    unfolding login_claims_def
    by (rule codable_JObj) (simp_all add: plain_simps codable_int int4_def del: parsed.simps exact.simps)
  then have "jwt_sign example_env key (login_claims 97) = Some example_token" for key
    using compact.prints by (fastforce simp: example_env_def example_jwt_sign_def example_token_def)
  moreover have "decode_body example_env [''password''] (js ''{\"password\":\"admin\"}'') = Inr [js ''admin'']"
    by (simp add: example_env_def example_decode_def opt_get_def field_def js_eval)
  moreover have "admin_password example_env = js ''admin''"
    by (simp add: admin_password_def getenv_or_def example_env_def)
  ultimately show ?thesis by (simp add: handleLogin_def)
qed

lemma override_goes_through_witness:
  "\<exists>rt o'. routed (Some example_token) (PostOverride (override_url (example_id 98)) (js ''accepted'')) = Some rt
    \<and> audit_overrides (store (server_do example_env (Serve (example_calls 99) rt)
        (fold (server_do example_env) (take 3 history) server_init))) = [o'] \<and> over_note o' = js ''accepted''"
proof -
  let ?s = "fold (server_do example_env) (take 3 history) server_init"
  obtain r where r: "find (\<lambda>r. run_id r = example_id 98) (diff_runs (store ?s)) = Some r"
    "audit_overrides (store ?s) = []"
    by (simp add: example_simps)
  have "override_param (override_url (example_id 98)) = Some (example_id 98)"
    by (rule override_param_url) (simp_all add: plain_char_def example_id_def list_all_iff)
  moreover have "\<forall>n. scalars (rfc3339 example_env n)" by (simp add: example_env_def)
  ultimately show ?thesis
    using override_goes_through [OF told_asks _ example_login example_sessions, of "example_id 98" "example_calls 99"
        "example_id 98" ?s r] r
    by (simp add: example_decode_reads example_env_encodes del: server_do.simps routes.simps routed.simps) blast
qed

section \<open>The ledger\<close>

text \<open>A query reads every row once, in an order of its own.\<close>

definition scans :: "postgres \<Rightarrow> bool" where
  "scans d \<longleftrightarrow> (\<forall>rs. mset (scan d rs) = mset rs)"

lemma scansD: "scans d \<Longrightarrow> set (scan d rs) = set rs" "scans d \<Longrightarrow> length (scan d rs) = length rs"
  by (auto simp: scans_def dest: mset_eq_setD mset_eq_length)

lemma listed_runs:
  assumes "scans d" and "ListDiffRuns d c [] 50 t = Inr rs"
  shows "set rs \<subseteq> set (diff_runs t)" "length rs = min 50 (length (diff_runs t))"
  using assms by (auto simp: ListDiffRuns_def newest_def effective_limit_def scansD dest!: in_set_takeD split: if_splits)

lemma status_of_row:
  assumes "tables_ok t" "r \<in> set (diff_runs t)"
  shows "row_status r \<in> js ` {''PASSED'', ''FAILED'', ''OVERRIDDEN''}"
    "row_status r = js ''OVERRIDDEN'' \<longleftrightarrow> run_id r \<in> over_run ` set (audit_overrides t)"
  using assms by (auto simp: tables_ok_def split: if_splits)

lemma runs_read:
  assumes "encodes (encode e)" and "\<forall>r \<in> set rs. writable r \<and> unicode (run_json e r)"
  shows "json_parse (encode e (JArr (map (run_json e) rs))) = Some (JArr (map (run_json e) rs))"
proof (rule encodesD(1) [OF assms(1)])
  show "codable (JArr (map (run_json e) rs))"
    by (rule codable_JArr) (use assms(2) codable_run in \<open>simp add: list_all_iff del: parsed.simps exact.simps\<close>)
  show "unicode (JArr (map (run_json e) rs))" using assms(2) by (simp add: list_all_iff)
qed

text \<open>
  C9. The ledger shows the server's runs: when the list is read from the tables, the answer is of
  the type the ledger declares, also when there is no run; the ledger then holds the runs read,
  fifty or all there are, and renders; and with a filter set it lists those with that
  status, which for OVERRIDDEN are exactly the ones with a record in the audit trail.
\<close>

theorem ledger_shows_server_runs:
  assumes "server_reach e ok s" and "encodes (encode e)" and "scans (pg e)"
    and "cache_hit x (cache_key []) s = None" and "ListDiffRuns (pg e) (db_call x) [] 50 (store s) = Inr rs"
    and "\<forall>r \<in> set rs. writable r \<and> unicode (run_json e r)"
    and "ledger_ok l" and "routed cookie GetDiffs = Some rt"
  shows "response_conforms (LedgerFetch n) (as_response (answer (routes e x rt s)))
    \<and> length rs = min 50 (length (diff_runs (store s)))
    \<and> (let l' = fetch_done (as_response (answer (routes e x rt s))) l
       in runs l' = JArr (map (run_json e) rs) \<and> \<not> loading l'
        \<and> (\<exists>node. render_ledger l' = Inr node
            \<and> {v. SelectRun v \<in> fires node} = run_json e ` {r \<in> set rs. statusFilter l = AllRuns
                \<or> row_status r = js (filter_str (statusFilter l))}
            \<and> (statusFilter l = OVERRIDDEN \<longrightarrow> {v. SelectRun v \<in> fires node} =
                run_json e ` {r \<in> set rs. run_id r \<in> over_run ` set (audit_overrides (store s))})))"
proof -
  let ?v = "JArr (map (run_json e) rs)" and ?h = "answer (routes e x rt s)"
  define l' where "l' = fetch_done (as_response ?h) l"
  have rows: "r \<in> set rs \<Longrightarrow> r \<in> set (diff_runs (store s))" for r
    using listed_runs(1) [OF assms(3,5)] by blast
  have typed: "is_array_of DiffRunRecord ?v"
    using rows status_of_row(1) [OF server_tables_ok [OF assms(1)]] run_json_typed
    by (auto simp: is_array_of_def list_all_iff)
  have h: "as_response ?h = Resp True (encode e ?v)"
    using assms(4,5,8) by (auto simp: handleListDiffs_def as_response_def Let_def)
  then have conforms: "response_conforms (LedgerFetch n) (as_response ?h)"
    using runs_read [OF assms(2,6)] typed by (simp add: body_sat_def)
  have l': "runs l' = ?v" "\<not> loading l'" "statusFilter l' = statusFilter l"
    using h runs_read [OF assms(2,6)] by (simp_all add: l'_def fetch_done_def)
  have ok: "ledger_ok l'" unfolding l'_def using fetch_done_ok [OF assms(7)] conforms by simp
  obtain node where node: "render_ledger l' = Inr node" and shown: "{v. SelectRun v \<in> fires node} =
      {v \<in> set (map (run_json e) rs). statusFilter l = AllRuns
        \<or> opt_get v (js ''status'') = JStr (js (filter_str (statusFilter l)))}"
    using ledger_lists_filtered_runs [OF ok l'(1)] by (auto simp: l'(3))
  have offered: "{v. SelectRun v \<in> fires node} = run_json e ` {r \<in> set rs. statusFilter l = AllRuns
      \<or> row_status r = js (filter_str (statusFilter l))}"
    unfolding shown by (auto simp: run_json_fields)
  have "statusFilter l = OVERRIDDEN \<Longrightarrow> {v. SelectRun v \<in> fires node} =
      run_json e ` {r \<in> set rs. run_id r \<in> over_run ` set (audit_overrides (store s))}"
    unfolding offered using rows status_of_row(2) [OF server_tables_ok [OF assms(1)]] by auto
  with conforms listed_runs(2) [OF assms(3,5)] l' node offered show ?thesis
    unfolding Let_def l'_def by blast
qed

text \<open>The example after its override.\<close>

lemma ledger_shows_server_runs_witness:
  "\<exists>node r. render_ledger (fetch_done (as_response (answer (routes example_env (example_calls 100) (ListDiffs [])
      (fold (server_do example_env) history server_init)))) (ledger_init\<lparr>statusFilter := OVERRIDDEN\<rparr>)) = Inr node
    \<and> run_id r = example_id 98 \<and> SelectRun (run_json example_env r) \<in> fires node"
proof -
  let ?s = "fold (server_do example_env) history server_init"
  have "scalars (rfc3339 example_env t)" for t by (simp add: example_env_def)
  then obtain r where r: "diff_runs (store ?s) = [r]" "run_id r = example_id 98" "writable r"
    "unicode (run_json example_env r)" "example_id 98 \<in> over_run ` set (audit_overrides (store ?s))"
    by (simp add: example_simps mark_overridden_def writable_def run_json_def commit_json_def int_json_def
        mk_obj_def own_order_def)
  have "scans example_pg" by (simp add: scans_def example_pg_def)
  moreover have "ListDiffRuns example_pg (example_call 100) [] 50 (store ?s) = Inr [r]"
    by (simp add: ListDiffRuns_def newest_def effective_limit_def example_pg_def r(1))
  moreover have "cache_hit (example_calls 100) (cache_key []) ?s = None"
    by (simp add: cache_hit_def example_calls_def)
  moreover have "ledger_ok (ledger_init\<lparr>statusFilter := OVERRIDDEN\<rparr>)"
    by (simp add: ledger_ok_def is_array_of_def ledger_init_def)
  ultimately have "\<exists>node. render_ledger (fetch_done (as_response (answer (routes example_env (example_calls 100)
      (ListDiffs []) ?s))) (ledger_init\<lparr>statusFilter := OVERRIDDEN\<rparr>)) = Inr node
    \<and> {v. SelectRun v \<in> fires node} = run_json example_env `
        {r' \<in> set [r]. run_id r' \<in> over_run ` set (audit_overrides (store ?s))}"
    using ledger_shows_server_runs [OF history_reached example_env_encodes, of "example_calls 100" "[r]"
        "ledger_init\<lparr>statusFilter := OVERRIDDEN\<rparr>" None "ListDiffs []" 0] r(2-4)
    by (auto simp: Let_def simp del: routes.simps)
  moreover have "run_json example_env r \<in> run_json example_env `
      {r' \<in> set [r]. run_id r' \<in> over_run ` set (audit_overrides (store ?s))}"
    using r(2,5) by simp
  ultimately show ?thesis using r(2) by blast
qed

end
