(* ===== verification/Spec2Isabelle.thy ===== *)
theory Spec2Isabelle
  imports Endpoints Format_Facts Tree_Facts Migration_Facts Sample_Facts Server_Delivery Diff_Facts Audit_Facts Server_Rules Prompt_Pipeline Text_Facts Event_Pipeline Ledger_Pipeline
begin

text \<open>
  A verification library for \<open>tm3l-break-detector\<close>: the viewer, the governance dashboard
  under \<open>src/viewer\<close> (TypeScript), the server under \<open>src/internal\<close> (Go) and the engine under
  \<open>src/engine\<close> (Rust). It models the programs as they are
  written and proves what makes them correct, one by one and together; where a program does
  something it does not mean to, the theorem that shows it says so.

  \<^bold>\<open>The program.\<close> \<open>App.tsx\<close> holds the state of the dashboard and its handlers. It
  subscribes to the server's event source for the current project, shows the verdict on the
  newest run (a status, the run and its outcome), and mounts one of five panels:
  \<open>CIMonitor\<close> with the collapsible JSON trees, \<open>InteractiveSandbox\<close>,
  \<open>PromptCompiler\<close>, \<open>AuditLedger\<close>, \<open>WebhookAnalytics\<close>; above them the form
  \<open>OverrideModal\<close>. Panels get values and callbacks and keep little state of their own.
  A breaking run blocks the pipeline until someone overrides it: that needs a note and two
  acknowledgements, and is a request to the server. Contracts are uploaded for comparison,
  sources are audited locally by regular expressions, and prompts are compiled by the server.
  The server's handlers (\<open>handlers.go\<close>) keep projects, runs and the audit trail in a
  database (\<open>db.go\<close>) and queue comparisons; its workers (\<open>worker.go\<close>) ask the engine
  (\<open>main.rs\<close>: \<open>diff.rs\<close> for contracts, \<open>code_diff.rs\<close> and others for sources), store the run
  and publish an event, which the broker (\<open>broker.go\<close>) writes to the viewers of the project.
  For a prompt the server asks the engine for an analysis (\<open>analyzer.rs\<close>) and writes the text
  itself (\<open>ast.go\<close>); a pull request webhook (\<open>webhooks.go\<close>) gets such an analysis as a comment.

  \<^bold>\<open>The layers\<close>, each importing the ones before it:

  \<^item> The language. \<open>Js_Prelude\<close> has results with exceptions and the collections
    \<open>js_eval\<close> and \<open>js_defs\<close>; \<open>Js_Strings\<close> strings as lists of code units, trimming,
    splitting, replacing; \<open>Js_Regex\<close> the regular expressions of the sources with a
    backtracking matcher; \<open>Js_Number\<close> IEEE doubles, reading and printing them;
    \<open>Js_Value\<close> run-time values, property access, conversions; \<open>Js_Json\<close> and
    \<open>Js_Stringify\<close> \<open>JSON.parse\<close> and \<open>JSON.stringify\<close>; \<open>React_Dom\<close> rendered
    trees and the events they can fire.
  \<^item> The components. \<open>Types_Model\<close> (\<open>types.ts\<close>), \<open>Override_Modal\<close>,
    \<open>Sandbox\<close> and \<open>Sandbox_View\<close>, \<open>Migration\<close> (the local audits of \<open>App.tsx\<close>),
    \<open>Prompt\<close> (the panel and \<open>executePrompt\<close>), \<open>Monitor\<close>, \<open>Ledger\<close>,
    \<open>Webhook\<close>: the state of each as a record, its actions as a datatype, each operation
    and each rendered part as a function with the source's name.
  \<^item> The application. \<open>App_State\<close> has one field per \<open>useState\<close>, \<open>App_Handlers\<close> the
    handlers of \<open>App.tsx\<close>, \<open>App_System\<close> the running page: state, mounted panels, open
    event source, waiting continuations, requests sent. A step is one turn of the event loop
    (\<open>sys_step\<close>): an action the rendered tree offers, an event of the source, or the
    completion of a waiting task, then React's commit. \<open>Endpoints\<close> gives the requests
    their addresses and bodies, and the proxy of \<open>vite.config.ts\<close>.
  \<^item> The other end of the event source. \<open>Go_Broker\<close> is \<open>internal/api/broker.go\<close>: the
    goroutine \<open>listen\<close> and one \<open>ServeHTTP\<close> per client, interleaved where they lock, send and
    receive (\<open>broker_step\<close>), with its invariants and what it promises its clients. Channels
    of clients are numbers; a connection that cannot stream is refused before it has any effect
    on the broker, and is left out. \<open>Event_Stream\<close> has the frame a message is written in and how
    the browser's \<open>EventSource\<close> reads a stream back; \<open>Broker_Delivery\<close> that nothing need be lost.
  \<^item> The server. \<open>Go_Store\<close> has the records of \<open>models.go\<close>, the tables of the migration and
    the operations of \<open>db.go\<close>, each one statement or transaction; \<open>Go_Server\<close> the handlers,
    the middleware, the routes and the workers, over the tables, the broker, the job queue and
    the Redis cache, with a step per request or finished job (\<open>server_step\<close>). PostgreSQL, the
    encoders, the JWT library, HMAC and the times are parameters (\<open>postgres\<close>, \<open>server_env\<close>),
    and so are the variables of the environment, with the defaults of the source (\<open>getenv_or\<close>).
    \<open>Go_Prompt\<close> is \<open>internal/analyzer/ast.go\<close>: the analysis with its nil slices, the client with
    its fallbacks, the prompt. The webhooks are handlers of \<open>Go_Server\<close>; the requests the
    server sends, theirs and the signed notification of an override, are listed in \<open>outgoing\<close>.
    \<open>Server_Facts\<close> has its invariants, \<open>Server_Example\<close> a concrete server with a history,
    \<open>Server_Rules\<close> what it promises about runs and overrides, \<open>Server_Delivery\<close> that
    queued jobs get done.
  \<^item> The engine. \<open>Diff_Engine\<close> is \<open>diff.rs\<close>: the comparison of two contracts, with its
    counters, its panics and the order of its hash maps (\<open>hash_iter\<close>). \<open>Diff_Facts\<close> has a
    declarative relation, \<open>spec_breaks\<close>, and that the comparison agrees with it. \<open>Rs_Text\<close> has
    Rust's string methods and syntax trees with their walk, \<open>Rs_Regex\<close> regular expressions with
    groups (\<open>matches\<close> says which span a pattern matches where); \<open>Code_Migration\<close> is \<open>code_diff.rs\<close>,
    \<open>Code_Analyzer\<close> \<open>analyzer.rs\<close>, \<open>Text_Checks\<close> the audits of SQL, Terraform, GraphQL and
    Protobuf, \<open>Engine_Service\<close> the service of \<open>main.rs\<close> over all of them, and the JSON of its
    answers. Parsers are parameters (\<open>grammars\<close>), and so is what the crate \<open>regex\<close> captures
    for a pattern (\<open>captures\<close>); the patterns are the source's. \<open>Audit_Facts\<close> says what the walks
    collect, node by node, \<open>Text_Facts\<close> what the audit of SQL finds, against a reading of the
    line that knows no patterns.
  \<^item> Together. \<open>Wire_Facts\<close> has what travels between the programs: the engine's answer, events
    and lists, and that what is written is read back and has the types the viewer declares;
    \<open>Pipeline\<close> a comparison from the queue to the screen, and what the viewer's requests meet;
    \<open>Prompt_Pipeline\<close> a prompt and a code audit through the three programs, and the webhooks;
    \<open>Event_Pipeline\<close> what the server publishes, from the broker over the stream to the feed, and
    the default project; \<open>Ledger_Pipeline\<close> an override from the form and the login to the audit
    trail and back to the screens, and the list of runs from the tables to the ledger.
  \<^item> The facts. \<open>Number_Facts\<close> and \<open>Json_Codec\<close>: rounding, shortest printing, and that
    what is printed is read back. \<open>Panel_Facts\<close>, \<open>Sandbox_Facts\<close>, \<open>Prompt_Facts\<close>,
    \<open>Monitor_Facts\<close>, \<open>Ledger_Facts\<close>, \<open>Tree_Facts\<close>, \<open>Migration_Facts\<close>,
    \<open>Sample_Facts\<close>, \<open>Format_Facts\<close>: what each component does. \<open>App_Facts\<close> the frame
    of a turn and what an enabled action says; \<open>App_Flight\<close> single flight;
    \<open>App_Invariants\<close> and \<open>App_Safety\<close> the invariants; \<open>App_Scenarios\<close> and
    \<open>App_Races\<close> sequences of turns; \<open>App_Refinement\<close> the smaller machines the
    application follows; \<open>App_Termination\<close> that everything ends.

  \<^bold>\<open>Interfaces.\<close> \<open>panel\<close> is what a panel promises the application (it renders on the
  values it declares, and which actions it offers); each panel is an instance.
  \<open>sys_invariant\<close> and \<open>turn_invariant\<close> are what an invariant has to show, over the halves
  of a turn. \<open>flight\<close> is the contract of a busy flag: it counts the tasks of one operation;
  submissions, the prompt compiler and the ledger are its instances. \<open>simulation\<close> is a
  smaller machine that follows the application turn by turn; the governance verdict and the
  override form are its instances. \<open>codec\<close> is a printer whose output is read back; the
  indented and the compact form of \<open>JSON.stringify\<close> are its instances. \<open>ledger_store\<close> is
  what the rest relies on in a store (runs stay, overrides are final, the trail grows at its
  end); the database and the whole server are its instances. \<open>regex_engine\<close> is what a matcher
  promises: it captures exactly when a pattern matches somewhere, and captures spans of a match; the
  first match of a backtracking search is its instance. The states of the verdict are ordered
  (\<open>linorder\<close>): SAFE, WARNING, BREAKING.

  \<^bold>\<open>What is shown.\<close> Overrides are sent only by the submitted form, with both boxes ticked since
  it was opened, to the run the application holds. The verdict follows the rulings it has seen
  and nothing else, and only the server lifts a block. As long as the server keeps the types it
  declares (\<open>message_conforms\<close>, \<open>response_conforms\<close>), no panel throws and every value has
  its declared type; where it does not, which answers unmount the page. Each busy flag is set
  exactly while its one operation is under way; every operation ends, whatever the order and
  the content of the responses; and work and requests are bounded by what the user does.
  An override of somebody who logged in goes through all the programs, and the ledger lists as
  overridden what the audit trail records. The server changes the audit trail only for a signed-in
  user, a run is overridden exactly when the trail says so, and nothing is taken back; the engine reports something exactly when the
  target breaks the clients of the base, and what it finds is what the viewer shows; its walks
  report every node once and count what they report. The broker
  writes to a client only what was published for its project, in order, and never sends on a
  channel that is closed; it can always deliver everything, but passes over a client that is
  writing. With it the workers can always finish what is queued.
  The panels show what they say they show. JSON documents survive the formatter and request
  bodies the wire, up to the numbers that no double holds. The findings of the manifest are the
  places where the code differs from its intent: the override goes to whatever run is newest,
  a late response marks another run, audits ignore the server and contradict the engine, prompts
  say nothing of the source, a server whose analysis service is down unmounts the viewer, a page hears of
  no run before its first sandbox run, its uploads only work with the server's default token, and
  others.

  \<^bold>\<open>Decisions of the model.\<close>
  \<^item> Strings are lists of UTF-16 code units, so surrogates and escapes are as in the source.
    Values from the network are dynamic (\<open>jsval\<close>): TypeScript's types are erased, and a
    property of \<open>undefined\<close> is an exception. Rendering is a partial function; an exception in
    it, or in an effect, unmounts the page (\<open>alive\<close> is false), as React does without an error
    boundary.
  \<^item> An asynchronous handler is cut at its awaits. A waiting task holds what its closure
    captured; responses arrive in any order, or not at all. \<open>NetError\<close> is a rejected fetch or
    a file that cannot be read. Timers complete like responses, at any time.
  \<^item> Effects run in the commit of the turn that changed their dependencies; the double
    effects of \<open>StrictMode\<close> in development are left out. A disabled control does not fire.
    A menu can fire each of its options, a text box any text.
  \<^item> The local state of a tree node is kept by change and path and pruned when the node is
    unmounted; the ledger and the webhook panel have an instance number, so that responses to
    an unmounted panel are dropped.
  \<^item> Numbers: \<open>num_str\<close> searches for the shortest digits that read back with 17 steps of fuel
    and has the exact expansion as its last resort, which \<open>num_reads_back\<close> shows to be right
    as well, so the fuel bounds the work and not the result. \<open>drain\<close> takes its fuel from
    \<open>work\<close>, and \<open>tasks_drain\<close> shows it to be enough.
  \<^item> Dates, icons, class names without a condition, the spinner and the Monaco editor are
    abstract elements. The clipboard is taken to be available.

  \<^item> In the server a request is one step: its calls to the database, its events and its jobs
    happen together, between those of other requests. Five workers take jobs in order and finish
    in any order. Statements fail for any of the reasons the schema gives, or because the
    database cannot be reached, and then change nothing. Publishing waits for room in the channel
    of the broker, queueing for room in the queue. Temporary files hold their text in the job;
    failing to create them is modelled where the code checks for it. Encoders are taken to be
    right on Unicode documents only (\<open>encodes\<close>).
  \<^item> Documents of the engine are values of the crate \<open>openapiv3\<close>, reduced to what the
    comparison reads; how the crate reads a document is a parameter. A syntax tree is what the
    walks see of one: kinds, texts, rows, fields, children. Reading \<open>json.Unmarshal\<close>'s result of
    an analysis is a hypothesis where it is used (\<open>reads_analysis\<close>).
  \<^item> What is used of the libraries is stated as hypotheses of the theorems that use it: documents
    are read back (\<open>encodes\<close>), on one line (\<open>one_line\<close>), fields of requests are decoded
    (\<open>reads_fields\<close>), tokens last until they expire (\<open>sessions\<close>), queries read every row once
    (\<open>scans\<close>), generated identifiers are UUIDs (\<open>makes_uuids\<close>), hash maps are iterated in some order
    (\<open>enumerates\<close>). The examples satisfy them.

  \<^bold>\<open>Not modelled.\<close> \<open>main.tsx\<close> (it mounts \<open>App\<close>), the Playwright configuration and tests,
  styles. Of the server the start of the process (\<open>cmd/server\<close>, \<open>redis.go\<close>), of the
  engine the start of its service: they read the environment and connect. The viewer's theorems take responses as arbitrary input, restricted
  by a contract where one needs it; those of the theories named \<open>_Pipeline\<close> take the server's.
\<close>

section \<open>Overrides\<close>

text \<open>
  C1. A turn sends an override only when the user submits the form: the form is shown, both
  acknowledgements are ticked, the note is not blank, nothing else is being submitted, and
  the request carries that note to the run the application holds.
\<close>

theorem override_is_governed:
  assumes "enabled s ev" and "sent (step s ev) = sent s @ rs" and "PostOverride url text \<in> set rs"
  shows "ev = User (InModal HandleOverride) \<and> showModal (app s)
    \<and> ackRisk (modal s) \<and> ackPolicy (modal s) \<and> \<not> blank text \<and> \<not> isSubmitting (app s)
    \<and> text = overrideNote (app s)
    \<and> (\<exists>i. truthy (diffId (app s)) \<and> to_str (diffId (app s)) = Inr i \<and> url = override_url i)"
proof -
  have ev: "ev = User (InModal HandleOverride)" and carried: "text = overrideNote (app s)"
    and run: "\<exists>i. truthy (diffId (app s)) \<and> to_str (diffId (app s)) = Inr i \<and> url = override_url i"
    using override_sent_cases [OF assms] by auto
  have offered: "showModal (app s)"
    "canSubmit (overrideNote (app s)) (isSubmitting (app s)) (modal s)"
    using enabled_modal [of s HandleOverride] assms(1) unfolding ev
    by (simp_all add: handle_override_offered)
  then show ?thesis
    using ev carried run canSubmit_blank [OF offered(2)] by (simp add: canSubmit_def)
qed

lemma override_is_governed_witness:
  "showModal (app ready) \<and> ackRisk (modal ready) \<and> ackPolicy (modal ready)
    \<and> \<not> blank (js ''accepted'')"
  using override_is_governed [of ready "User (InModal HandleOverride)"
      "[PostOverride (override_url (js ''d1'')) (js ''accepted'')]"
      "override_url (js ''d1'')" "js ''accepted''"]
    ready_turn ready_fields(5) accepted_not_blank
  by (simp del: step.simps)

text \<open>
  In every state a session can reach, each override request sent so far carried a note
  that is not blank.
\<close>

theorem sent_overrides_have_notes:
  assumes "reachable s" and "PostOverride url text \<in> set (sent s)"
  shows "\<not> blank text"
  using note_inv.holds [OF assms(1)] assms(2) by (auto simp: noted_def)

lemma sent_overrides_have_notes_witness: "\<not> blank (js ''accepted'')"
  using sent_overrides_have_notes
      [OF reachable_run [OF blocked_reachable fields_of_override(1)],
        of "override_url (js ''d1'')" "js ''accepted''"]
    fields_of_override(2)
  by simp

section \<open>The application stays up\<close>

text \<open>
  C4. As long as the server keeps the contract on messages and responses, the application
  is never unmounted by an exception: every state reached renders, and every value it holds
  has its declared type.
\<close>

theorem conforming_sessions_never_crash:
  assumes "reach_with conforms s"
  shows "alive s \<and> well_typed s \<and> (\<exists>tree. render_app s = Inr tree)"
  using typing.holds [OF assms] render_app_total by blast

lemma conforming_sessions_never_crash_witness: "\<exists>tree. render_app blocked = Inr tree"
proof -
  have "reach_with conforms blocked"
    unfolding blocked_def
    by (rule reach_with.turned [OF reach_with.start])
      (auto simp: failed_conforms simp del: step.simps intro: sys_step.turn)
  then show ?thesis using conforming_sessions_never_crash by blast
qed

section \<open>Submissions\<close>

text \<open>
  C11. The number of submissions under way (overrides, code audits, contract diffs, in any of
  their phases) is one when the busy flag is set and zero when it is not.
\<close>

theorem single_submission:
  assumes "reachable s"
  shows "length (filter submitting (tasks s)) = (if isSubmitting (app s) then 1 else 0)"
  using submit.tracked [OF assms] by (simp add: pending_def)

lemma single_submission_witness:
  "length (filter submitting (tasks (run blocked (override_protocol (js ''accepted''))))) = 1"
  using single_submission [OF reachable_run [OF blocked_reachable fields_of_override(1)]]
    fields_of_override(3)
  by simp

text \<open>
  A submission always ends: in a reachable busy state some task of it is waiting, and
  whatever its response and the one after it, the flag is cleared by the first completion or
  by the next one.
\<close>

theorem submission_drains:
  assumes "reachable s" and "isSubmitting (app s)"
  shows "\<exists>i < length (tasks s). submitting (tasks s ! i) \<and>
    (\<forall>r. \<not> isSubmitting (app (step s (Complete i r))) \<or>
      (\<exists>j < length (tasks (step s (Complete i r))). \<forall>q.
         \<not> isSubmitting (app (step (step s (Complete i r)) (Complete j q)))))"
proof -
  obtain i where "i < length (tasks s)" "submitting (tasks s ! i)"
    using submit.busy_iff [OF assms(1)] assms(2) by (auto simp: in_set_conv_nth)
  then show ?thesis using submitting_completes final_completes by blast
qed

lemma submission_drains_witness:
  "\<exists>i < length (tasks (run blocked (override_protocol (js ''accepted'')))).
     submitting (tasks (run blocked (override_protocol (js ''accepted''))) ! i)"
  using submission_drains [OF reachable_run [OF blocked_reachable fields_of_override(1)]
      fields_of_override(3)]
  by blast

text \<open>
  C13. A blocked run can be overridden: from any sound state that shows one, with nothing
  under way, opening the form, entering a note that is not blank, ticking both boxes and
  submitting are possible in turn and send the override of that run with that note.
\<close>

theorem override_protocol_completes:
  assumes "sound s" and "viewMode (app s) = MONITOR" and "diffStatus (app s) = JStr (js ''FAILED'')"
    and "\<not> showModal (app s)" and "\<not> isSubmitting (app s)"
    and "diffId (app s) = JStr i" and "i \<noteq> []" and "\<not> blank text"
  shows "enabled_run s (override_protocol text)
    \<and> sent (run s (override_protocol text)) = sent s @ [PostOverride (override_url i) text]
    \<and> isSubmitting (app (run s (override_protocol text)))"
  using override_protocol_runs [OF assms] by simp

lemma override_protocol_completes_witness:
  "sent (run blocked (override_protocol (js ''accepted''))) =
     [PostOverride (override_url (js ''d1'')) (js ''accepted'')]"
  using override_protocol_completes [OF blocked_sound blocked_fields(1,2,4,5,3) _ accepted_not_blank]
  by (simp add: blocked_fields)

section \<open>Messages\<close>

text \<open>
  After any sequence of turns the event feed shows the messages received so far, newest
  first, cut after fifty.
\<close>

theorem feed_shows_newest_fifty:
  "events (app (run sys_init evs)) = take 50 (map received (rev (concat (map message_of evs))))"
  using run_events [of sys_init evs] by simp

text \<open>
  C32. The status shown never contradicts the run it is about: WARNING is shown only for an
  overridden run, BREAKING only for a failed one.
\<close>

theorem status_agrees_with_run:
  assumes "reachable s"
  shows "(status (app s) = WARNING \<longrightarrow> diffStatus (app s) = JStr (js ''OVERRIDDEN''))
    \<and> (status (app s) = BREAKING \<longrightarrow> diffStatus (app s) = JStr (js ''FAILED''))"
  using status_inv.holds [OF assms] by (simp add: coherent_def)

lemma status_agrees_with_run_witness: "diffStatus (app blocked) = JStr (js ''FAILED'')"
  using status_agrees_with_run [OF blocked_reachable] blocked_fields(6) by simp

text \<open>
  While the application is up, the open event source is the one of the current project,
  and there is none exactly when the project is empty.
\<close>

theorem source_follows_project:
  assumes "reachable s" and "alive s"
  shows "if truthy (currentProjectId (app s))
    then \<exists>url. events_url (currentProjectId (app s)) = Inr url \<and> source s = Some url
    else source s = None"
  using subscription.holds [OF assms(1)] assms(2) by (simp add: subscribed_def)

lemma source_follows_project_witness: "source blocked = Some (js ''/api/events?project_id=default'')"
  using source_follows_project [OF blocked_reachable] blocked_sound
  by (simp add: sound_def blocked_fields events_url_def js_def)

text \<open>
  C37. The form does not hold on to the run it was opened for: when another run is announced
  before the form is submitted, the same note, with the same two acknowledgements, is
  submitted for the new run.
\<close>

theorem override_follows_newest_run:
  assumes "sound s" and "enabled s (SourceMessage data)" and "message_conforms data"
    and "announces data payload" and "completed_id payload = JStr j" and "j \<noteq> []"
    and "HandleOverride \<in> modal_offers s"
  shows "enabled (step s (SourceMessage data)) (User (InModal HandleOverride))
    \<and> sent (step (step s (SourceMessage data)) (User (InModal HandleOverride))) =
        sent (step s (SourceMessage data)) @ [PostOverride (override_url j) (overrideNote (app s))]"
proof -
  let ?t = "step s (SourceMessage data)"
  have "sound ?t" by (rule sound_step) (use assms(1-3) in simp_all)
  moreover have "showModal (app s)" using assms(7) by (simp add: handle_override_offered)
  ultimately show ?thesis
    using message_keeps_offer [OF assms(7)] message_keeps_modal(3) modal_turn(2)
      override_turn(1) [of ?t j] message_completed_fields(1) [OF assms(4)] assms(5,6)
    by (simp del: step.simps)
qed

lemma override_follows_newest_run_witness:
  "sent (step (step ready (SourceMessage later_message)) (User (InModal HandleOverride))) =
     sent (step ready (SourceMessage later_message)) @ [PostOverride (override_url (js ''d2'')) (js ''accepted'')]"
proof -
  have "enabled ready (SourceMessage later_message)"
    using ready_source by simp
  then show ?thesis
    using override_follows_newest_run [OF ready_sound _ later_conforms later_announces
        later_payload_fields(1) _ ready_submit]
    by (simp add: ready_fields del: step.simps enabled.simps)
qed

text \<open>
  The response to an override is applied to whatever run the application holds when it
  arrives: a run that was announced in between is marked as overridden, whatever its status.
\<close>

theorem late_override_marks_newest_run:
  assumes "i < length (tasks s)" and "tasks s ! i = OverrideTask" and "announces data payload"
  shows "let t = step (step s (SourceMessage data)) (Complete i (Resp True body))
    in diffId (app t) = completed_id payload \<and> diffStatus (app t) = JStr (js ''OVERRIDDEN'')
       \<and> status (app t) = WARNING"
proof -
  let ?m = "step s (SourceMessage data)"
  obtain ts where "tasks ?m = tasks s @ ts" using message_tasks by blast
  then have "i < length (tasks ?m)" "tasks ?m ! i = OverrideTask"
    using assms(1,2) by (simp_all add: nth_append)
  then show ?thesis
    using message_completed_fields(1) [OF assms(3)]
    by (simp add: Let_def complete_override override_done_ok del: step.simps)
qed

lemma late_override_marks_newest_run_witness:
  "status (app (step (step (ready\<lparr>tasks := [OverrideTask]\<rparr>) (SourceMessage later_message))
     (Complete 0 (Resp True [])))) = WARNING"
  using late_override_marks_newest_run
      [of 0 "ready\<lparr>tasks := [OverrideTask]\<rparr>" later_message later_payload "[]"] later_announces
  by (simp add: Let_def del: step.simps)

section \<open>Code audits\<close>

text \<open>
  C38. A code audit has one outcome whatever the server answers, and whether it answers: the
  run is shown as failed and breaking with the finding the viewer made up itself, and the run
  an override would go to is still the old one.
\<close>

theorem audit_outcome_is_fixed:
  assumes "i < length (tasks s)" and "tasks s ! i = AuditFetch m src"
  shows "let t = step (step s (Complete i r)) (Complete (length (tasks s) - 1) q)
    in diffStatus (app t) = JStr (js ''FAILED'') \<and> status (app t) = BREAKING
       \<and> breakingChanges (app t) = audit_changes m src \<and> diffId (app t) = diffId (app s)
       \<and> \<not> isSubmitting (app t)"
proof -
  let ?t = "step s (Complete i r)" and ?k = "length (tasks s) - 1"
  have "?k < length (tasks ?t)" "tasks ?t ! ?k = AuditTimer m src"
    using audit_fetch_tasks(1) [OF assms] assms(1)
    by (simp_all add: length_remove_nth nth_append del: step.simps)
  then show ?thesis
    using audit_timer_fields same_app_fields(7) [OF audit_fetch_tasks(2) [OF assms]]
    by (simp add: Let_def del: step.simps)
qed

lemma audit_outcome_is_fixed_witness:
  "status (app (step (step (sys_init\<lparr>tasks := [AuditFetch GO []]\<rparr>) (Complete 0 NetError))
     (Complete 0 NetError))) = BREAKING"
  using audit_outcome_is_fixed [of 0 "sys_init\<lparr>tasks := [AuditFetch GO []]\<rparr>" GO "[]" NetError NetError]
  by (simp add: Let_def del: step.simps)

section \<open>Answers the panels cannot show\<close>

text \<open>
  An answer of the prompt endpoint whose analysis has no dependency list (the server
  writes a nil slice as null) unmounts the whole application when it arrives in the prompt
  compiler's view.
\<close>

theorem null_dependencies_unmount:
  assumes "i < length (tasks s)" and "tasks s ! i = PromptFetch p" and "viewMode (app s) = PROMPT"
    and "json_parse body = Some v" and "\<not> nullish v" and "truthy (opt_get v (js ''analysis''))"
    and "nullish (opt_get (opt_get v (js ''analysis'')) (js ''dependencies''))"
  shows "\<not> alive (step s (Complete i (Resp True body)))
    \<and> (\<forall>ev. enabled (step s (Complete i (Resp True body))) ev \<longrightarrow> (\<exists>k r. ev = Complete k r))"
  using prompt_answer_crashes [OF assms] dead_offers_nothing by blast

lemma null_dependencies_unmount_witness:
  "\<not> alive (step (sys_init\<lparr>app := app_init\<lparr>viewMode := PROMPT\<rparr>, tasks := [PromptFetch prompt_init]\<rparr>)
     (Complete 0 (Resp True null_answer)))"
  using null_dependencies_unmount
      [of 0 "sys_init\<lparr>app := app_init\<lparr>viewMode := PROMPT\<rparr>, tasks := [PromptFetch prompt_init]\<rparr>"
        prompt_init null_answer null_value]
    null_answer_parse null_value_fields
  by (simp del: step.simps)

text \<open>
  The announcement of a new project shows the system as safe while a failed run still
  blocks the pipeline: the panel of that run, with its way to the override form, stays.
\<close>

theorem created_project_hides_block:
  assumes "sound s" and "enabled s (SourceMessage data)" and "viewMode (app s) = MONITOR"
    and "diffStatus (app s) = JStr (js ''FAILED'')" and "json_parse data = Some payload"
    and "get payload (js ''type'') = Inr (JStr (js ''project_created''))"
  shows "status (app (step s (SourceMessage data))) = SAFE
    \<and> enabled (step s (SourceMessage data)) (User (InMonitor OpenModal))"
proof -
  have "sound (step s (SourceMessage data))"
    by (rule sound_step) (use assms(1,2) created_conforms [OF assms(5,6)] in simp_all)
  then show ?thesis
    using sound_enabled_open on_message_created [OF assms(5,6)] assms(3,4)
    by (simp add: push_event_def)
qed

lemma created_project_hides_block_witness:
  "status (app (step ready (SourceMessage created_message))) = SAFE"
  using created_project_hides_block [OF ready_sound _ ready_fields(7,8) created_parse]
    ready_source
  by (simp add: field_def del: step.simps)

section \<open>Other requests\<close>

text \<open>
  The prompt compiler has one request under way when it says so and none otherwise.
\<close>

theorem single_prompt:
  assumes "reachable s"
  shows "length (filter prompting (tasks s)) = (if isPrompting (prompt (app s)) then 1 else 0)"
  using compiling.tracked [OF assms] by (simp add: pending_def)

lemma single_prompt_witness:
  "length (filter prompting (tasks blocked)) = (if isPrompting (prompt (app blocked)) then 1 else 0)"
  using single_prompt [OF blocked_reachable] by simp

text \<open>
  The ledger says it is loading exactly when a request of the ledger now mounted is
  under way, and there is at most one; requests of ledgers mounted earlier do not count.
\<close>

theorem single_ledger_fetch:
  assumes "reachable s"
  shows "length (filter (\<lambda>t. t = LedgerFetch (instance_no s)) (tasks s)) = (if loading (ledger s) then 1 else 0)"
  using loading.tracked [OF assms] by (simp add: pending_def fetching_def fetch_of_def [abs_def])

lemma single_ledger_fetch_witness:
  "length (filter (\<lambda>t. t = LedgerFetch (instance_no audit_open)) (tasks audit_open)) = 1"
  using single_ledger_fetch [OF audit_open_reachable] by (simp add: audit_open_loading)

section \<open>The verdict on the pipeline\<close>

text \<open>
  C2. The application refines the verdict machine: after any turns, the status, the run and its
  outcome are what the rulings seen so far (announcements, accepted overrides, audits, new
  projects) make of the ones before; nothing else the user, the server or a timer does moves
  them.
\<close>

theorem verdict_refines_rulings:
  "verdict_of (run s evs) = fold govern (trace rules_on s evs) (verdict_of s)"
  by (rule governance.follows_run)

text \<open>
  C33. The verdict eases by the server only: while no message announces a run, an override or a
  project and no override is accepted, the status never gets better, the run stays, and a block
  stays with its failed run.
\<close>

theorem block_lifts_only_by_ruling:
  assumes "set (trace rules_on s evs) \<subseteq> {Audited, Unrelated}"
  shows "status (app s) \<le> status (app (run s evs)) \<and> diffId (app (run s evs)) = diffId (app s)
    \<and> (diffStatus (app s) = JStr (js ''FAILED'') \<longrightarrow> diffStatus (app (run s evs)) = JStr (js ''FAILED''))
    \<and> (status (app s) = BREAKING \<longrightarrow> status (app (run s evs)) = BREAKING)"
proof -
  let ?P = "\<lambda>v. status (app s) \<le> shown_status v \<and> shown_run v = diffId (app s)
    \<and> (diffStatus (app s) = JStr (js ''FAILED'') \<longrightarrow> shown_outcome v = JStr (js ''FAILED''))"
  have "?P (verdict_of (run s evs))"
  proof (rule governance.lasts)
    show "?P (verdict_of s)" by (simp add: verdict_of_def)
    show "?P (govern x v)" if "x \<in> set (trace rules_on s evs)" "?P v" for x v
      using that assms by auto
  qed
  then show ?thesis by (auto simp: verdict_of_def)
qed

lemma block_lifts_only_by_ruling_witness:
  "status (app (run blocked [SourceOpen, User (GoTo AUDIT), SourceError])) = BREAKING"
  using block_lifts_only_by_ruling [of blocked "[SourceOpen, User (GoTo AUDIT), SourceError]"]
    blocked_fields(2,6)
  by (simp del: step.simps)

text \<open>
  C10. An override needs fresh consent: from any state in which the form is not shown, when the
  form can be submitted it has been opened since, and both boxes have been ticked since.
\<close>

theorem override_needs_fresh_consent:
  assumes "\<not> showModal (app s)" and "enabled (run s evs) (User (InModal HandleOverride))"
  shows "User (InModal (SetAckRisk True)) \<in> set evs \<and> User (InModal (SetAckPolicy True)) \<in> set evs
    \<and> (User (InMonitor OpenModal) \<in> set evs \<or> User (InModal (SetShowModal True)) \<in> set evs)"
proof -
  have "alive (run s evs)" "showModal (app (run s evs))"
    "canSubmit (overrideNote (app (run s evs))) (isSubmitting (app (run s evs))) (modal (run s evs))"
    using enabled_modal [OF assms(2)] by (simp_all add: handle_override_offered)
  then have "form_of (run s evs) = Some (True, True)" by (simp add: form_of_def canSubmit_def)
  then show ?thesis using form_ticked [OF assms(1)] by blast
qed

lemma override_needs_fresh_consent_witness:
  "User (InModal (SetAckPolicy True)) \<in> set (butlast (override_protocol (js ''accepted'')))"
proof -
  have "enabled_run blocked (butlast (override_protocol (js ''accepted'')) @ [User (InModal HandleOverride)])"
    using fields_of_override(1) by (simp add: override_protocol_def del: step.simps)
  then have "enabled (run blocked (butlast (override_protocol (js ''accepted'')))) (User (InModal HandleOverride))"
    by (simp add: override_protocol_def del: step.simps)
  then show ?thesis using override_needs_fresh_consent [OF blocked_fields(4)] by blast
qed

text \<open>
  Messages may be delivered again: receiving the same message a second time adds it to the
  feed and changes nothing else of the application.
\<close>

theorem redelivery_only_feeds:
  "app (step (step s (SourceMessage data)) (SourceMessage data))
    = push_event data (app (step s (SourceMessage data)))"
  by (rule message_again)

section \<open>Everything ends\<close>

text \<open>
  C12. Asynchronous work terminates: from a reachable state, completing waiting tasks in any
  order and with any responses leaves nothing waiting after at most as many completions as the
  state has work, and then no busy flag is set.
\<close>

theorem tasks_drain:
  assumes "reachable s" and "work s \<le> n"
  shows "tasks (drain pick n s) = [] \<and> \<not> isSubmitting (app (drain pick n s))
    \<and> \<not> isPrompting (prompt (app (drain pick n s))) \<and> \<not> loading (ledger (drain pick n s))"
  using drain_empty [OF assms(2)] drained_idle [OF drain_reachable [OF assms(1)]] by blast

lemma tasks_drain_witness:
  "\<not> isSubmitting (app (drain (\<lambda>_. (0, NetError))
      (work (run blocked (override_protocol (js ''accepted''))))
      (run blocked (override_protocol (js ''accepted'')))))"
  using tasks_drain [OF reachable_run [OF blocked_reachable fields_of_override(1)] le_refl] by blast

text \<open>
  C14. Work is bounded by what the user does: in a session the completions that happened and
  those still to come are at most two for each action of the user, and so are the requests
  sent. Messages of the server cause neither.
\<close>

theorem work_bounded_by_user:
  assumes "enabled_run sys_init evs"
  shows "length (filter completes evs) + work (run sys_init evs) \<le> 2 * length (filter by_user evs)
    \<and> length (sent (run sys_init evs)) \<le> 2 * length (filter by_user evs)"
proof -
  have "work sys_init = 0" "requests sys_init = 0" by (simp_all add: work_def requests_def)
  then show ?thesis
    using run_work [OF assms] run_requests [OF assms] by (simp add: requests_def)
qed

lemma work_bounded_by_user_witness:
  "length (sent (run sys_init (SourceMessage failed_message # override_protocol (js ''accepted'')))) \<le> 10"
proof -
  have "enabled_run sys_init (SourceMessage failed_message # override_protocol (js ''accepted''))"
    using blocked_step fields_of_override(1) by (simp add: blocked_def del: step.simps)
  then show ?thesis using work_bounded_by_user by (fastforce simp: override_protocol_def simp del: step.simps run.simps)
qed

section \<open>Requests on the wire\<close>

text \<open>
  The body of every request sent is read back as the value it was made from, whatever the
  note, the source or the names contain.
\<close>

theorem bodies_read_as_meant:
  assumes "reachable s" and "r \<in> set (sent s)" and "request_json r = Some v"
  shows "\<exists>t. request_body r = Some t \<and> json_parse t = Some v"
proof -
  have "codable v" using made_inv.holds [OF assms(1)] assms(2,3) made_codable by blast
  then show ?thesis
    using compact.prints [of v] compact.reads_back [of v] assms(3) by (auto simp: request_body_def)
qed

lemma bodies_read_as_meant_witness:
  "\<exists>t. request_body (PostOverride (override_url (js ''d1'')) (js ''accepted'')) = Some t
    \<and> json_parse t = Some (JObj [(js ''note'', JStr (js ''accepted''))])"
  using bodies_read_as_meant [OF reachable_run [OF blocked_reachable fields_of_override(1)]]
    fields_of_override(2)
  by simp

text \<open>
  Every address the application asks for, by a request or by its event source, is one that the
  development server sends on to the server.
\<close>

theorem addresses_are_forwarded:
  assumes "reachable s"
  shows "(\<forall>r \<in> set (sent s). forwarded (request_url r) = Some (js ''http://server:8080'' @ request_url r))
    \<and> (\<forall>url. alive s \<and> source s = Some url \<longrightarrow> forwarded url = Some (js ''http://server:8080'' @ url))"
  unfolding forwarded_proxied using made_inv.holds [OF assms] made_proxied source_proxied [OF assms] by auto

lemma addresses_are_forwarded_witness:
  "forwarded (override_url (js ''d1'')) = Some (js ''http://server:8080'' @ override_url (js ''d1''))"
  using addresses_are_forwarded [OF reachable_run [OF blocked_reachable fields_of_override(1)]]
    fields_of_override(2)
  by simp

section \<open>Audit findings\<close>

text \<open>
  The findings of a code audit have their declared type whatever the source, so both panels
  that show them render.
\<close>

theorem audit_findings_are_typed:
  "is_array_of BreakingChange (audit_changes mode src)
    \<and> (\<exists>n. render_sandbox (a :: app) busy (audit_changes mode src) = Inr n)
    \<and> (\<exists>n. render_monitor st con (JStr project) feed outcome (audit_changes mode src) m = Inr n)"
  using audit_changes_ok [of mode src] render_sandbox_total render_monitor_total
  by (auto simp: is_str_iff)

end
